(* ===== verification/Prelude.thy ===== *)
theory Prelude
  imports Main "HOL-Library.Word"
begin

text \<open>
  Shared vocabulary of the development: machine words, the exceptions the code throws, outcomes
  of operations that may throw after having changed their state, decimal formatting as
  \<open>fmt::format\<close> and \<open>absl::StrCat\<close> print integers, and big-endian integers.

  Exceptions. \<open>EnvoyException\<close> and its subclass \<open>DownstreamConnectionCloseException\<close>
  (src/src/meta_protocol_proxy/app_exception.h) are what the code catches. \<open>BadAnyCast\<close> and
  \<open>BadOptionalAccess\<close> are thrown by the standard library and are not subclasses of
  \<open>EnvoyException\<close>. \<open>Panic\<close> stands for the places where the process aborts:
  \<open>NOT_REACHED_GCOVR_EXCL_LINE\<close>, \<open>NOT_IMPLEMENTED_GCOVR_EXCL_LINE\<close>, a failed
  \<open>ASSERT\<close> or \<open>assert\<close> (as in a debug build), or the null dereference an assertion guards.
\<close>

unbundle bit_operations_syntax

type_synonym u8 = "8 word"
type_synonym u16 = "16 word"
type_synonym u32 = "32 word"
type_synonym u64 = "64 word"

subsection \<open>Exceptions and outcomes\<close>

datatype exn =
    EnvoyException string
  | DownstreamConnectionCloseException string
  | BadAnyCast
  | BadOptionalAccess
  | Panic string

text \<open>What a handler \<open>catch (const EnvoyException& ex)\<close> catches, and \<open>ex.what()\<close>.\<close>

fun is_envoy_exception :: "exn \<Rightarrow> bool" where
  "is_envoy_exception (EnvoyException _) = True"
| "is_envoy_exception (DownstreamConnectionCloseException _) = True"
| "is_envoy_exception _ = False"

fun is_panic :: "exn \<Rightarrow> bool" where
  "is_panic (Panic _) = True"
| "is_panic _ = False"

fun exn_what :: "exn \<Rightarrow> string" where
  "exn_what (EnvoyException s) = s"
| "exn_what (DownstreamConnectionCloseException s) = s"
| "exn_what BadAnyCast = ''bad any_cast''"
| "exn_what BadOptionalAccess = ''bad optional access''"
| "exn_what (Panic s) = s"

text \<open>
  An operation that may throw returns what it returned or threw, and the state it left: C++
  objects keep the writes made before a throw.
\<close>

type_synonym ('a, 's) outcome = "(exn + 'a) \<times> 's"

definition and_then ::
  "('a, 's) outcome \<Rightarrow> ('a \<Rightarrow> 's \<Rightarrow> ('b, 's) outcome) \<Rightarrow> ('b, 's) outcome" where
  "and_then r f = (case r of (Inl e, s) \<Rightarrow> (Inl e, s) | (Inr x, s) \<Rightarrow> f x s)"

lemma and_then_Inl [simp]: "and_then (Inl e, s) f = (Inl e, s)"
  by (simp add: and_then_def)

lemma and_then_Inr [simp]: "and_then (Inr x, s) f = f x s"
  by (simp add: and_then_def)

lemma and_then_split:
  "P (and_then r f) \<longleftrightarrow>
     (\<forall>e s. r = (Inl e, s) \<longrightarrow> P (Inl e, s)) \<and> (\<forall>x s. r = (Inr x, s) \<longrightarrow> P (f x s))"
  by (cases r; cases "fst r") auto

subsection \<open>Named collections\<close>

text \<open>
  \<open>getput\<close>: what a getter returns after a setter. \<open>buffer_simps\<close>: the content of a buffer
  after an operation. \<open>inv_intro\<close>: introduction rules of invariants.
\<close>

named_theorems getput
named_theorems buffer_simps
named_theorems inv_intro

subsection \<open>Decimal formatting\<close>

fun dec_nat :: "nat \<Rightarrow> string" where
  "dec_nat n =
     (if n < 10 then [char_of (48 + n)] else dec_nat (n div 10) @ [char_of (48 + n mod 10)])"

declare dec_nat.simps [simp del]

definition dec_int :: "int \<Rightarrow> string" where
  "dec_int i = (if i < 0 then ''-'' @ dec_nat (nat (- i)) else dec_nat (nat i))"

subsection \<open>Characters and bytes\<close>

definition byte_of_char :: "char \<Rightarrow> u8" where
  "byte_of_char c = of_nat (of_char c)"

definition char_of_byte :: "u8 \<Rightarrow> char" where
  "char_of_byte b = char_of (unat b)"

lemma char_of_byte_of_char [simp]: "char_of_byte (byte_of_char c) = c"
proof -
  have "(of_char c :: nat) < 256" by simp
  then show ?thesis
    by (simp add: char_of_byte_def byte_of_char_def unat_of_nat take_bit_eq_mod)
qed

subsection \<open>Big-endian integers\<close>

fun be_of_nat :: "nat \<Rightarrow> nat \<Rightarrow> u8 list" where
  "be_of_nat 0 n = []"
| "be_of_nat (Suc k) n = be_of_nat k (n div 256) @ [of_nat (n mod 256)]"

definition be_nat :: "u8 list \<Rightarrow> nat" where
  "be_nat bs = foldl (\<lambda>acc b. acc * 256 + unat b) 0 bs"

definition be_bytes :: "nat \<Rightarrow> 'a::len word \<Rightarrow> u8 list" where
  "be_bytes k w = be_of_nat k (unat w)"

definition be_word :: "u8 list \<Rightarrow> 'a::len word" where
  "be_word bs = of_nat (be_nat bs)"

lemma length_be_of_nat [simp]: "length (be_of_nat k n) = k"
  by (induction k arbitrary: n) auto

lemma length_be_bytes [simp]: "length (be_bytes k w) = k"
  by (simp add: be_bytes_def)

lemma be_nat_snoc: "be_nat (bs @ [b]) = be_nat bs * 256 + unat b"
  by (simp add: be_nat_def)

lemma unat_byte_of_nat: "unat (of_nat (n mod 256) :: u8) = n mod 256"
  by (simp add: unat_of_nat)

lemma be_nat_be_of_nat: "be_nat (be_of_nat k n) = n mod 256 ^ k"
proof (induction k arbitrary: n)
  case 0
  then show ?case by (simp add: be_nat_def)
next
  case (Suc k)
  have "be_nat (be_of_nat (Suc k) n) = (n div 256) mod 256 ^ k * 256 + n mod 256"
    by (simp only: be_of_nat.simps be_nat_snoc unat_byte_of_nat Suc.IH)
  also have "\<dots> = n mod 256 ^ Suc k"
    by (simp add: mod_mult2_eq algebra_simps)
  finally show ?case .
qed

lemma be_word_be_bytes:
  assumes "LENGTH('a::len) = 8 * k"
  shows "be_word (be_bytes k (w :: 'a word)) = w"
proof -
  have "unat w < 256 ^ k"
    using unsigned_less [of w] assms by (simp add: power_mult)
  then show ?thesis
    by (simp add: be_word_def be_bytes_def be_nat_be_of_nat)
qed

lemma be_word_be_bytes_16 [simp]: "be_word (be_bytes 2 (w :: u16)) = w"
  by (rule be_word_be_bytes) simp

lemma be_word_be_bytes_32 [simp]: "be_word (be_bytes 4 (w :: u32)) = w"
  by (rule be_word_be_bytes) simp

lemma be_word_be_bytes_64 [simp]: "be_word (be_bytes 8 (w :: u64)) = w"
  by (rule be_word_be_bytes) simp

lemma be_of_nat_be_nat: "be_of_nat (length bs) (be_nat bs) = bs"
proof (induction bs rule: rev_induct)
  case Nil
  then show ?case by simp
next
  case (snoc b bs)
  have "unat b < 256" using unsigned_less [of b] by simp
  then show ?case by (simp add: be_nat_snoc snoc.IH)
qed

lemma be_nat_less: "be_nat bs < 256 ^ length bs"
proof (induction bs rule: rev_induct)
  case Nil
  then show ?case by (simp add: be_nat_def)
next
  case (snoc b bs)
  have "unat b < 256" using unsigned_less [of b] by simp
  with snoc.IH show ?case by (simp add: be_nat_snoc)
qed

lemma be_bytes_be_word:
  assumes "length bs = k" and "LENGTH('a::len) = 8 * k"
  shows "be_bytes k (be_word bs :: 'a word) = bs"
proof -
  have "be_nat bs < 2 ^ LENGTH('a)"
    using be_nat_less [of bs] assms by (simp add: power_mult)
  then have "unat (be_word bs :: 'a word) = be_nat bs"
    by (simp add: be_word_def unat_of_nat)
  then show ?thesis
    using assms(1) be_of_nat_be_nat [of bs] by (simp add: be_bytes_def)
qed

subsection \<open>Lists\<close>

lemma take_eq_take_le:
  assumes "take n xs = take n ys" and "m \<le> n"
  shows "take m xs = take m ys"
proof -
  have "take m (take n xs) = take m (take n ys)"
    using assms(1) by simp
  with assms(2) show ?thesis by (simp add: min_absorb1)
qed

lemma take_append_le: "n \<le> length xs \<Longrightarrow> take n (xs @ ys) = take n xs"
  by simp

lemma drop_append_le: "n \<le> length xs \<Longrightarrow> drop n (xs @ ys) = drop n xs @ ys"
  by simp

end
