(* ===== verification/Envoy_Buffer.thy ===== *)
theory Envoy_Buffer
  imports Prelude
begin

text \<open>
  Envoy's \<open>Buffer::Instance\<close> and \<open>Http::HeaderMap\<close> are not in the repository. They are
  parameters of the model: a record of the operations the code calls, over an abstract type of
  buffers (\<open>'b\<close>) or of header maps (\<open>'h\<close>). What the code relies on is stated as a locale
  over an abstraction: \<open>content\<close>, the bytes of a buffer from its read end, and \<open>hget\<close>, the
  values a header map holds for a name. The interpretations at the end show the laws hold of a
  buffer kept as a list of bytes, of a buffer kept as a list of slices (Envoy's own
  \<open>OwnedImpl\<close> is a deque of slices), and of a header map kept as an association list.
\<close>

subsection \<open>Buffers\<close>

record 'b buffer_ops =
  buf_new :: 'b
  buf_length :: "'b \<Rightarrow> nat"
  buf_peek8 :: "'b \<Rightarrow> nat \<Rightarrow> exn + u8"
  buf_peekBE16 :: "'b \<Rightarrow> nat \<Rightarrow> exn + u16"
  buf_peekBE32 :: "'b \<Rightarrow> nat \<Rightarrow> exn + u32"
  buf_peekBE64 :: "'b \<Rightarrow> nat \<Rightarrow> exn + u64"
  buf_write8 :: "'b \<Rightarrow> u8 \<Rightarrow> 'b"
  buf_writeBE16 :: "'b \<Rightarrow> u16 \<Rightarrow> 'b"
  buf_writeBE32 :: "'b \<Rightarrow> u32 \<Rightarrow> 'b"
  buf_writeBE64 :: "'b \<Rightarrow> u64 \<Rightarrow> 'b"
  buf_move :: "'b \<Rightarrow> 'b \<Rightarrow> nat \<Rightarrow> 'b \<times> 'b"
  buf_move_all :: "'b \<Rightarrow> 'b \<Rightarrow> 'b \<times> 'b"
  buf_drain :: "'b \<Rightarrow> nat \<Rightarrow> 'b"

text \<open>
  \<open>buf_move dst src n\<close> is \<open>dst.move(src, n)\<close> and \<open>buf_move_all dst src\<close> is
  \<open>dst.move(src)\<close>; both return the new \<open>dst\<close> and the new \<open>src\<close>.
\<close>

locale envoy_buffer =
  fixes B :: "'b buffer_ops" and content :: "'b \<Rightarrow> u8 list"
  assumes new_content: "content (buf_new B) = []"
    and length_content: "buf_length B b = length (content b)"
    and peek8_content: "i < length (content b) \<Longrightarrow> buf_peek8 B b i = Inr (content b ! i)"
    and peekBE16_content: "i + 2 \<le> length (content b) \<Longrightarrow>
      buf_peekBE16 B b i = Inr (be_word (take 2 (drop i (content b))))"
    and peekBE32_content: "i + 4 \<le> length (content b) \<Longrightarrow>
      buf_peekBE32 B b i = Inr (be_word (take 4 (drop i (content b))))"
    and peekBE64_content: "i + 8 \<le> length (content b) \<Longrightarrow>
      buf_peekBE64 B b i = Inr (be_word (take 8 (drop i (content b))))"
    and write8_content: "content (buf_write8 B b x) = content b @ [x]"
    and writeBE16_content: "content (buf_writeBE16 B b x16) = content b @ be_bytes 2 x16"
    and writeBE32_content: "content (buf_writeBE32 B b x32) = content b @ be_bytes 4 x32"
    and writeBE64_content: "content (buf_writeBE64 B b x64) = content b @ be_bytes 8 x64"
    and move_dst_content: "n \<le> length (content s) \<Longrightarrow>
      content (fst (buf_move B d s n)) = content d @ take n (content s)"
    and move_src_content: "n \<le> length (content s) \<Longrightarrow>
      content (snd (buf_move B d s n)) = drop n (content s)"
    and move_all_dst_content: "content (fst (buf_move_all B d s)) = content d @ content s"
    and move_all_src_content: "content (snd (buf_move_all B d s)) = []"
    and drain_content: "n \<le> length (content b) \<Longrightarrow> content (buf_drain B b n) = drop n (content b)"
begin

lemmas content_simps =
  new_content length_content write8_content writeBE16_content writeBE32_content
  writeBE64_content move_dst_content move_src_content move_all_dst_content move_all_src_content
  drain_content

lemma moveE:
  assumes "n \<le> length (content s)"
  obtains d' s' where "buf_move B d s n = (d', s')"
    and "content d' = content d @ take n (content s)" and "content s' = drop n (content s)"
proof
  show "buf_move B d s n = (fst (buf_move B d s n), snd (buf_move B d s n))" by simp
qed (simp_all add: assms content_simps)

lemma move_conserves:
  assumes "n \<le> length (content s)" and "buf_move B d s n = (d', s')"
  shows "content d' @ content s' = content d @ content s"
proof -
  have "content d' = content d @ take n (content s)" and "content s' = drop n (content s)"
    using move_dst_content [OF assms(1), of d] move_src_content [OF assms(1), of d] assms(2)
    by simp_all
  then show ?thesis by simp
qed

end

subsection \<open>Header maps\<close>

record 'h header_ops =
  hdr_create :: 'h
  hdr_remove :: "'h \<Rightarrow> string \<Rightarrow> 'h"
  hdr_addCopy :: "'h \<Rightarrow> string \<Rightarrow> string \<Rightarrow> 'h"
  hdr_lower :: "string \<Rightarrow> string"

text \<open>\<open>hdr_lower\<close> is \<open>Http::LowerCaseString\<close>, the key type of a header map.\<close>

locale header_map =
  fixes H :: "'h header_ops" and hget :: "'h \<Rightarrow> string \<Rightarrow> string list"
  assumes create_hget: "hget (hdr_create H) k = []"
    and remove_hget: "hget (hdr_remove H h k) k' = (if k' = k then [] else hget h k')"
    and addCopy_hget:
      "hget (hdr_addCopy H h k v) k' = (if k' = k then hget h k @ [v] else hget h k')"
begin

lemma replace_hget:
  "hget (hdr_addCopy H (hdr_remove H h k) k v) k' = (if k' = k then [v] else hget h k')"
  by (simp add: addCopy_hget remove_hget)

end

subsection \<open>Reference instances\<close>

definition peek_list :: "nat \<Rightarrow> u8 list \<Rightarrow> nat \<Rightarrow> exn + 'a::len word" where
  "peek_list k bs i =
     (if i + k \<le> length bs then Inr (be_word (take k (drop i bs)))
      else Inl (EnvoyException ''buffer underflow''))"

definition list_buffer :: "u8 list buffer_ops" where
  "list_buffer = \<lparr>
     buf_new = [],
     buf_length = length,
     buf_peek8 = (\<lambda>bs i. if i < length bs then Inr (bs ! i)
                          else Inl (EnvoyException ''buffer underflow'')),
     buf_peekBE16 = peek_list 2,
     buf_peekBE32 = peek_list 4,
     buf_peekBE64 = peek_list 8,
     buf_write8 = (\<lambda>bs x. bs @ [x]),
     buf_writeBE16 = (\<lambda>bs x. bs @ be_bytes 2 x),
     buf_writeBE32 = (\<lambda>bs x. bs @ be_bytes 4 x),
     buf_writeBE64 = (\<lambda>bs x. bs @ be_bytes 8 x),
     buf_move = (\<lambda>d s n. (d @ take n s, drop n s)),
     buf_move_all = (\<lambda>d s. (d @ s, [])),
     buf_drain = (\<lambda>bs n. drop n bs)\<rparr>"

interpretation lb: envoy_buffer list_buffer "\<lambda>bs. bs"
  by unfold_locales (simp_all add: list_buffer_def peek_list_def)

text \<open>
  A buffer of slices: bytes are read across slice borders, a move takes whole slices and splits
  the last one.
\<close>

fun split_slices :: "nat \<Rightarrow> u8 list list \<Rightarrow> u8 list list \<times> u8 list list" where
  "split_slices n [] = ([], [])"
| "split_slices n (s # ss) =
     (if n = 0 then ([], s # ss)
      else if length s \<le> n then
        (let (l, r) = split_slices (n - length s) ss in (s # l, r))
      else ([take n s], drop n s # ss))"

lemma concat_split_slices:
  "concat (fst (split_slices n ss)) = take n (concat ss) \<and>
   concat (snd (split_slices n ss)) = drop n (concat ss)"
  by (induction n ss rule: split_slices.induct) (auto simp: case_prod_beta Let_def)

definition slice_buffer :: "u8 list list buffer_ops" where
  "slice_buffer = \<lparr>
     buf_new = [],
     buf_length = (\<lambda>ss. sum_list (map length ss)),
     buf_peek8 = (\<lambda>ss i. if i < length (concat ss) then Inr (concat ss ! i)
                          else Inl (EnvoyException ''buffer underflow'')),
     buf_peekBE16 = (\<lambda>ss. peek_list 2 (concat ss)),
     buf_peekBE32 = (\<lambda>ss. peek_list 4 (concat ss)),
     buf_peekBE64 = (\<lambda>ss. peek_list 8 (concat ss)),
     buf_write8 = (\<lambda>ss x. ss @ [[x]]),
     buf_writeBE16 = (\<lambda>ss x. ss @ [be_bytes 2 x]),
     buf_writeBE32 = (\<lambda>ss x. ss @ [be_bytes 4 x]),
     buf_writeBE64 = (\<lambda>ss x. ss @ [be_bytes 8 x]),
     buf_move = (\<lambda>d s n. (d @ fst (split_slices n s), snd (split_slices n s))),
     buf_move_all = (\<lambda>d s. (d @ s, [])),
     buf_drain = (\<lambda>ss n. snd (split_slices n ss))\<rparr>"

interpretation sb: envoy_buffer slice_buffer concat
  by unfold_locales
    (simp_all add: slice_buffer_def peek_list_def length_concat concat_split_slices)

text \<open>Header maps as association lists, names folded to lower case byte by byte.\<close>

definition lower_char :: "char \<Rightarrow> char" where
  "lower_char c =
     (let n = of_char c :: nat in if 65 \<le> n \<and> n \<le> 90 then char_of (n + 32) else c)"

definition alist_headers :: "(string \<times> string) list header_ops" where
  "alist_headers = \<lparr>
     hdr_create = [],
     hdr_remove = (\<lambda>h k. filter (\<lambda>p. fst p \<noteq> k) h),
     hdr_addCopy = (\<lambda>h k v. h @ [(k, v)]),
     hdr_lower = map lower_char\<rparr>"

definition alist_get :: "(string \<times> string) list \<Rightarrow> string \<Rightarrow> string list" where
  "alist_get h k = map snd (filter (\<lambda>p. fst p = k) h)"

interpretation ah: header_map alist_headers alist_get
proof
  fix h :: "(string \<times> string) list" and k k' v
  show "alist_get (hdr_create alist_headers) k = []"
    by (simp add: alist_headers_def alist_get_def)
  show "alist_get (hdr_remove alist_headers h k) k' = (if k' = k then [] else alist_get h k')"
    by (induction h) (auto simp: alist_headers_def alist_get_def)
  show "alist_get (hdr_addCopy alist_headers h k v) k' =
      (if k' = k then alist_get h k @ [v] else alist_get h k')"
    by (auto simp: alist_headers_def alist_get_def)
qed

end
