(* ===== verification/Meta_Codec.thy ===== *)
theory Meta_Codec
  imports Envoy_Buffer
begin

text \<open>
  The codec interface of the proxy (src/src/meta_protocol_proxy/codec/codec.h) and the metadata a
  codec fills in (src/src/meta_protocol_proxy/codec_impl.h and codec_impl.cc).

  \<open>std::any\<close> is a tagged value: a string, a bool, or a value of a type only the codec that put
  it knows (\<open>'x\<close>, chosen by each codec). \<open>std::map::insert\<close> keeps the value a key already
  has, so the first \<open>put\<close> of a key wins; the header map kept for routing is overwritten.
\<close>

subsection \<open>Enumerations and errors\<close>

datatype MessageType = Request | Response | Oneway | Heartbeat | MsgError

datatype ResponseStatus = StatusOk | StatusError

datatype DecodeStatus = DecodeWaitForData | DecodeDone

datatype ErrorType = RouteNotFound | ClusterNotFound | NoHealthyUpstream | BadResponse | Unspecified

record error =
  err_type :: ErrorType
  err_message :: string

definition mk_error :: "ErrorType \<Rightarrow> string \<Rightarrow> error" where
  "mk_error t m = \<lparr>err_type = t, err_message = m\<rparr>"

subsection \<open>Properties\<close>

datatype 'x std_any = AnyString string | AnyBool bool | AnyOther 'x

type_synonym 'x properties = "string \<rightharpoonup> 'x std_any"

definition PropertiesImpl :: "'x properties" where
  "PropertiesImpl = Map.empty"

definition Properties_put :: "'x properties \<Rightarrow> string \<Rightarrow> 'x std_any \<Rightarrow> 'x properties" where
  "Properties_put m key value = (case m key of None \<Rightarrow> m(key \<mapsto> value) | Some _ \<Rightarrow> m)"

definition Properties_get :: "'x properties \<Rightarrow> string \<Rightarrow> 'x std_any option" where
  "Properties_get m key = m key"

definition Properties_putString :: "'x properties \<Rightarrow> string \<Rightarrow> string \<Rightarrow> 'x properties" where
  "Properties_putString m key value = Properties_put m key (AnyString value)"

fun any_cast_string :: "'x std_any \<Rightarrow> exn + string" where
  "any_cast_string (AnyString s) = Inr s"
| "any_cast_string _ = Inl BadAnyCast"

fun any_cast_bool :: "'x std_any \<Rightarrow> exn + bool" where
  "any_cast_bool (AnyBool b) = Inr b"
| "any_cast_bool _ = Inl BadAnyCast"

definition Properties_getString :: "'x properties \<Rightarrow> string \<Rightarrow> exn + string" where
  "Properties_getString m key =
     (case Properties_get m key of Some v \<Rightarrow> any_cast_string v | None \<Rightarrow> Inr [])"

definition Properties_getBool :: "'x properties \<Rightarrow> string \<Rightarrow> exn + bool" where
  "Properties_getBool m key =
     (case Properties_get m key of Some v \<Rightarrow> any_cast_bool v | None \<Rightarrow> Inr False)"

lemma Properties_get_put [getput]:
  "Properties_get (Properties_put m k v) k' =
     (if k' = k \<and> Properties_get m k = None then Some v else Properties_get m k')"
  by (auto simp: Properties_get_def Properties_put_def split: option.splits)

lemma Properties_get_empty [getput]: "Properties_get PropertiesImpl k = None"
  by (simp add: Properties_get_def PropertiesImpl_def)

subsection \<open>Metadata\<close>

record ('x, 'b, 'h) metadata =
  md_properties :: "'x properties"
  md_origin_message :: 'b
  md_message_type :: MessageType
  md_response_status :: ResponseStatus
  md_request_id :: u64
  md_header_size :: u64
  md_body_size :: u64
  md_headers :: 'h

definition MetadataImpl :: "'b buffer_ops \<Rightarrow> 'h header_ops \<Rightarrow> ('x, 'b, 'h) metadata" where
  "MetadataImpl B H =
     \<lparr>md_properties = PropertiesImpl, md_origin_message = buf_new B, md_message_type = Request,
      md_response_status = StatusOk, md_request_id = 0, md_header_size = 0, md_body_size = 0,
      md_headers = hdr_create H\<rparr>"

definition Metadata_put ::
  "('x, 'b, 'h) metadata \<Rightarrow> string \<Rightarrow> 'x std_any \<Rightarrow> ('x, 'b, 'h) metadata" where
  "Metadata_put m key value = m\<lparr>md_properties := Properties_put (md_properties m) key value\<rparr>"

definition Metadata_get :: "('x, 'b, 'h) metadata \<Rightarrow> string \<Rightarrow> 'x std_any option" where
  "Metadata_get m key = Properties_get (md_properties m) key"

definition Metadata_putString ::
  "'h header_ops \<Rightarrow> ('x, 'b, 'h) metadata \<Rightarrow> string \<Rightarrow> string \<Rightarrow> ('x, 'b, 'h) metadata" where
  "Metadata_putString H m key value =
     (let m1 = Metadata_put m key (AnyString value);
          lowcase_key = hdr_lower H key;
          h1 = hdr_remove H (md_headers m1) lowcase_key
      in m1\<lparr>md_headers := hdr_addCopy H h1 lowcase_key value\<rparr>)"

definition Metadata_getString :: "('x, 'b, 'h) metadata \<Rightarrow> string \<Rightarrow> exn + string" where
  "Metadata_getString m key = Properties_getString (md_properties m) key"

definition Metadata_getBool :: "('x, 'b, 'h) metadata \<Rightarrow> string \<Rightarrow> exn + bool" where
  "Metadata_getBool m key = Properties_getBool (md_properties m) key"

definition getMessageSize :: "('x, 'b, 'h) metadata \<Rightarrow> u64" where
  "getMessageSize m = md_header_size m + md_body_size m"

text \<open>
  The remaining setters and getters of \<open>MetadataImpl\<close> are the record's updates and selectors:
  \<open>setOriginMessage\<close> copies the buffer, which is an update with a value.
\<close>

lemma Metadata_get_put [getput]:
  "Metadata_get (Metadata_put m k v) k' =
     (if k' = k \<and> Metadata_get m k = None then Some v else Metadata_get m k')"
  by (simp add: Metadata_get_def Metadata_put_def getput)

lemma Metadata_get_putString [getput]:
  "Metadata_get (Metadata_putString H m k v) k' =
     (if k' = k \<and> Metadata_get m k = None then Some (AnyString v) else Metadata_get m k')"
  by (simp add: Metadata_get_def Metadata_put_def Metadata_putString_def Let_def getput)

lemma Metadata_get_new [getput]: "Metadata_get (MetadataImpl B H) k = None"
  by (simp add: Metadata_get_def MetadataImpl_def getput)

lemma Metadata_getString_eq [getput]:
  "Metadata_getString m k =
     (case Metadata_get m k of Some v \<Rightarrow> any_cast_string v | None \<Rightarrow> Inr [])"
  by (simp add: Metadata_getString_def Properties_getString_def Metadata_get_def)

lemma Metadata_getBool_eq [getput]:
  "Metadata_getBool m k =
     (case Metadata_get m k of Some v \<Rightarrow> any_cast_bool v | None \<Rightarrow> Inr False)"
  by (simp add: Metadata_getBool_def Properties_getBool_def Metadata_get_def)

lemma Metadata_get_update [getput]:
  "Metadata_get (m\<lparr>md_origin_message := b\<rparr>) k = Metadata_get m k"
  "Metadata_get (m\<lparr>md_message_type := t\<rparr>) k = Metadata_get m k"
  "Metadata_get (m\<lparr>md_response_status := r\<rparr>) k = Metadata_get m k"
  "Metadata_get (m\<lparr>md_request_id := i\<rparr>) k = Metadata_get m k"
  "Metadata_get (m\<lparr>md_header_size := s\<rparr>) k = Metadata_get m k"
  "Metadata_get (m\<lparr>md_body_size := s\<rparr>) k = Metadata_get m k"
  by (simp_all add: Metadata_get_def)

lemma put_fields [getput]:
  "md_origin_message (Metadata_put m k v) = md_origin_message m"
  "md_message_type (Metadata_put m k v) = md_message_type m"
  "md_response_status (Metadata_put m k v) = md_response_status m"
  "md_request_id (Metadata_put m k v) = md_request_id m"
  "md_header_size (Metadata_put m k v) = md_header_size m"
  "md_body_size (Metadata_put m k v) = md_body_size m"
  "md_headers (Metadata_put m k v) = md_headers m"
  by (simp_all add: Metadata_put_def)

lemma putString_fields [getput]:
  "md_origin_message (Metadata_putString H m k s) = md_origin_message m"
  "md_message_type (Metadata_putString H m k s) = md_message_type m"
  "md_response_status (Metadata_putString H m k s) = md_response_status m"
  "md_request_id (Metadata_putString H m k s) = md_request_id m"
  "md_header_size (Metadata_putString H m k s) = md_header_size m"
  "md_body_size (Metadata_putString H m k s) = md_body_size m"
  by (simp_all add: Metadata_putString_def Metadata_put_def Let_def)

lemma MetadataImpl_fields [getput]:
  "md_origin_message (MetadataImpl B H) = buf_new B"
  "md_message_type (MetadataImpl B H) = Request"
  "md_response_status (MetadataImpl B H) = StatusOk"
  "md_request_id (MetadataImpl B H) = 0"
  "md_header_size (MetadataImpl B H) = 0"
  "md_body_size (MetadataImpl B H) = 0"
  "md_headers (MetadataImpl B H) = hdr_create H"
  by (simp_all add: MetadataImpl_def)

context header_map
begin

text \<open>What the router matches on and what \<open>getString\<close> returns after a \<open>putString\<close>.\<close>

lemma putString_routes:
  "hget (md_headers (Metadata_putString H m k v)) k' =
     (if k' = hdr_lower H k then [v] else hget (md_headers m) k')"
  by (simp add: Metadata_putString_def Metadata_put_def Let_def replace_hget)

end

subsection \<open>Mutation\<close>

record 'x mutation =
  mut_properties :: "'x properties"

definition MutationImpl :: "'x mutation" where
  "MutationImpl = \<lparr>mut_properties = PropertiesImpl\<rparr>"

definition Mutation_put :: "'x mutation \<Rightarrow> string \<Rightarrow> 'x std_any \<Rightarrow> 'x mutation" where
  "Mutation_put m key value =
     m\<lparr>mut_properties := Properties_put (mut_properties m) key value\<rparr>"

definition Mutation_get :: "'x mutation \<Rightarrow> string \<Rightarrow> 'x std_any option" where
  "Mutation_get m key = Properties_get (mut_properties m) key"

definition Mutation_putString :: "'x mutation \<Rightarrow> string \<Rightarrow> string \<Rightarrow> 'x mutation" where
  "Mutation_putString m key value = Mutation_put m key (AnyString value)"

definition Mutation_getString :: "'x mutation \<Rightarrow> string \<Rightarrow> exn + string" where
  "Mutation_getString m key = Properties_getString (mut_properties m) key"

definition Mutation_getBool :: "'x mutation \<Rightarrow> string \<Rightarrow> exn + bool" where
  "Mutation_getBool m key = Properties_getBool (mut_properties m) key"

subsection \<open>The codec interface\<close>

text \<open>
  A codec object of state \<open>'c\<close>: \<open>decode\<close> changes the codec, drains the buffer and fills the
  metadata; \<open>encode\<close> and \<open>onError\<close> append to the buffer.
\<close>

record ('c, 'x, 'b, 'h) codec =
  codec_decode ::
    "'c \<Rightarrow> 'b \<Rightarrow> ('x, 'b, 'h) metadata \<Rightarrow> (DecodeStatus, 'c \<times> 'b \<times> ('x, 'b, 'h) metadata) outcome"
  codec_encode ::
    "'c \<Rightarrow> ('x, 'b, 'h) metadata \<Rightarrow> 'x mutation \<Rightarrow> 'b \<Rightarrow> (unit, 'c \<times> 'b) outcome"
  codec_onError ::
    "'c \<Rightarrow> ('x, 'b, 'h) metadata \<Rightarrow> error \<Rightarrow> 'b \<Rightarrow> (unit, 'c \<times> 'b) outcome"

text \<open>Metadata up to the identity of the buffer that holds the message.\<close>

definition metadata_view ::
  "('b \<Rightarrow> u8 list) \<Rightarrow> ('x, 'b, 'h) metadata \<Rightarrow> ('x, u8 list, 'h) metadata" where
  "metadata_view content m =
     \<lparr>md_properties = md_properties m, md_origin_message = content (md_origin_message m),
      md_message_type = md_message_type m, md_response_status = md_response_status m,
      md_request_id = md_request_id m, md_header_size = md_header_size m,
      md_body_size = md_body_size m, md_headers = md_headers m\<rparr>"

text \<open>
  What the decoder and the connection manager rely on: between two calls of \<open>decode\<close> the codec
  satisfies an invariant; a complete message takes at least one byte off the buffer, so a loop
  over the buffer ends; what is thrown is an \<open>EnvoyException\<close>.
\<close>

locale codec_contract = envoy_buffer B content
  for B :: "'b buffer_ops" and content :: "'b \<Rightarrow> u8 list" +
  fixes K :: "('c, 'x, 'b, 'h) codec" and codec_inv :: "'c \<Rightarrow> bool"
  assumes decode_inv: "codec_inv c \<Longrightarrow> codec_decode K c b m = (Inr st, (c', b', m')) \<Longrightarrow> codec_inv c'"
    and decode_progress: "codec_inv c \<Longrightarrow> codec_decode K c b m = (Inr DecodeDone, (c', b', m')) \<Longrightarrow>
      length (content b') < length (content b)"
    and decode_throws: "codec_inv c \<Longrightarrow> codec_decode K c b m = (Inl e, (c', b', m')) \<Longrightarrow>
      is_envoy_exception e"

text \<open>
  A codec that forwards what it received: the bytes it holds back (\<open>pending\<close>) and the buffer
  are the stream, and a complete message is a prefix of it.
\<close>

locale transparent_codec = codec_contract B content K codec_inv
  for B :: "'b buffer_ops" and content :: "'b \<Rightarrow> u8 list"
    and K :: "('c, 'x, 'b, 'h) codec" and codec_inv :: "'c \<Rightarrow> bool" +
  fixes pending :: "'c \<Rightarrow> u8 list"
  assumes wait_keeps: "codec_inv c \<Longrightarrow> codec_decode K c b m = (Inr DecodeWaitForData, (c', b', m')) \<Longrightarrow>
      pending c' @ content b' = pending c @ content b \<and> m' = m"
    and done_forwards: "codec_inv c \<Longrightarrow> codec_decode K c b m = (Inr DecodeDone, (c', b', m')) \<Longrightarrow>
      content (md_origin_message m') @ content b' = pending c @ content b \<and> pending c' = []"

end
