(* ===== verification/Dubbo_Types.thy ===== *)
theory Dubbo_Types
  imports Meta_Codec
begin

text \<open>
  The Dubbo data model: src/src/application_protocols/dubbo/message.h (enumerations, context,
  invocation and result), metadata.h (\<open>MessageMetadata\<close>), message_impl.h (\<open>ContextImpl\<close> and
  the plain fields of \<open>RpcInvocationImpl\<close>) and protocol_constants.h (names of protocols and
  serializers).

  The enumerations have \<open>uint8_t\<close> as underlying type, so \<open>static_cast\<close> makes a value of the
  enumeration out of any byte. \<open>X_of_u8\<close> is the enumerator with that code, \<open>None\<close> where the
  byte is not the code of an enumerator; \<open>u8_of_X\<close> is the code.
\<close>

subsection \<open>Enumerations\<close>

datatype DubboProtocolType = ProtocolDubbo

fun u8_of_protocol_type :: "DubboProtocolType \<Rightarrow> u8" where
  "u8_of_protocol_type ProtocolDubbo = 1"

datatype SerializationType = Hessian2

fun u8_of_serialization_type :: "SerializationType \<Rightarrow> u8" where
  "u8_of_serialization_type Hessian2 = 2"

definition serialization_type_of_u8 :: "u8 \<Rightarrow> SerializationType option" where
  "serialization_type_of_u8 b = (if b = 2 then Some Hessian2 else None)"

datatype DubboMessageType =
  DResponse | DRequest | DOneway | DException | DHeartbeatRequest | DHeartbeatResponse

datatype DubboResponseStatus =
    DOk | ClientTimeout | ServerTimeout | DBadRequest | DBadResponse | ServiceNotFound
  | ServiceError | ServerError | ClientError | ServerThreadpoolExhaustedError

fun u8_of_response_status :: "DubboResponseStatus \<Rightarrow> u8" where
  "u8_of_response_status DOk = 20"
| "u8_of_response_status ClientTimeout = 30"
| "u8_of_response_status ServerTimeout = 31"
| "u8_of_response_status DBadRequest = 40"
| "u8_of_response_status DBadResponse = 50"
| "u8_of_response_status ServiceNotFound = 60"
| "u8_of_response_status ServiceError = 70"
| "u8_of_response_status ServerError = 80"
| "u8_of_response_status ClientError = 90"
| "u8_of_response_status ServerThreadpoolExhaustedError = 100"

definition response_statuses :: "DubboResponseStatus list" where
  "response_statuses =
     [DOk, ClientTimeout, ServerTimeout, DBadRequest, DBadResponse, ServiceNotFound,
      ServiceError, ServerError, ClientError, ServerThreadpoolExhaustedError]"

definition response_status_of_u8 :: "u8 \<Rightarrow> DubboResponseStatus option" where
  "response_status_of_u8 b = find (\<lambda>s. u8_of_response_status s = b) response_statuses"

lemma response_status_of_u8_code [simp]:
  "response_status_of_u8 (u8_of_response_status s) = Some s"
  by (cases s) (simp_all add: response_status_of_u8_def response_statuses_def)

lemma u8_of_response_status_inject [simp]:
  "u8_of_response_status s = u8_of_response_status t \<longleftrightarrow> s = t"
  by (metis option.inject response_status_of_u8_code)

lemma response_status_of_u8_Some:
  "response_status_of_u8 b = Some s \<Longrightarrow> b = u8_of_response_status s"
  by (auto simp: response_status_of_u8_def find_Some_iff)

datatype RpcResponseType =
    ResponseWithException | ResponseWithValue | ResponseWithNullValue
  | ResponseWithExceptionWithAttachments | ResponseValueWithAttachments
  | ResponseNullValueWithAttachments

fun u8_of_rpc_type :: "RpcResponseType \<Rightarrow> u8" where
  "u8_of_rpc_type ResponseWithException = 0"
| "u8_of_rpc_type ResponseWithValue = 1"
| "u8_of_rpc_type ResponseWithNullValue = 2"
| "u8_of_rpc_type ResponseWithExceptionWithAttachments = 3"
| "u8_of_rpc_type ResponseValueWithAttachments = 4"
| "u8_of_rpc_type ResponseNullValueWithAttachments = 5"

definition rpc_type_of_u8 :: "u8 \<Rightarrow> RpcResponseType option" where
  "rpc_type_of_u8 b = find (\<lambda>t. u8_of_rpc_type t = b)
     [ResponseWithException, ResponseWithValue, ResponseWithNullValue,
      ResponseWithExceptionWithAttachments, ResponseValueWithAttachments,
      ResponseNullValueWithAttachments]"

lemma rpc_type_of_u8_code [simp]: "rpc_type_of_u8 (u8_of_rpc_type t) = Some t"
  by (cases t) (simp_all add: rpc_type_of_u8_def)

subsection \<open>Names and factory keys\<close>

fun ProtocolNames_fromType :: "DubboProtocolType \<Rightarrow> string" where
  "ProtocolNames_fromType ProtocolDubbo = ''dubbo''"

fun SerializerNames_fromType :: "SerializationType \<Rightarrow> string" where
  "SerializerNames_fromType Hessian2 = ''hessian2''"

definition generateKey :: "DubboProtocolType \<Rightarrow> SerializationType \<Rightarrow> u8" where
  "generateKey p s = u8_of_serialization_type s XOR u8_of_protocol_type p"

definition generateValue :: "DubboProtocolType \<Rightarrow> SerializationType \<Rightarrow> string" where
  "generateValue p s = ProtocolNames_fromType p @ ''.'' @ SerializerNames_fromType s"

definition protocolSerializerTypeNameMap :: "u8 \<rightharpoonup> string" where
  "protocolSerializerTypeNameMap =
     [generateKey ProtocolDubbo Hessian2 \<mapsto> generateValue ProtocolDubbo Hessian2]"

definition ProtocolSerializerNames_fromType ::
  "DubboProtocolType \<Rightarrow> SerializationType \<Rightarrow> exn + string" where
  "ProtocolSerializerNames_fromType p s =
     (case protocolSerializerTypeNameMap (generateKey p s) of
        Some name \<Rightarrow> Inr name
      | None \<Rightarrow> Inl (Panic ''ASSERT(itor != protocolSerializerTypeNameMap.end())''))"

subsection \<open>Context, invocation, result\<close>

record 'b dubbo_context =
  ctx_origin_message :: 'b
  ctx_header_size :: u64
  ctx_body_size :: u64
  ctx_is_heartbeat :: bool

definition ContextImpl :: "'b buffer_ops \<Rightarrow> 'b dubbo_context" where
  "ContextImpl B =
     \<lparr>ctx_origin_message = buf_new B, ctx_header_size = 0, ctx_body_size = 0,
      ctx_is_heartbeat = False\<rparr>"

definition messageSize :: "'b dubbo_context \<Rightarrow> u64" where
  "messageSize c = ctx_header_size c + ctx_body_size c"

text \<open>
  Parameters and attachment of an invocation are decoded on demand, from the offset
  \<open>inv_parsed_size\<close> of the message the context holds at that time.
\<close>

record rpc_invocation =
  inv_service_name :: string
  inv_method_name :: string
  inv_service_version :: "string option"
  inv_group :: "string option"
  inv_parsed_size :: u64

record rpc_result =
  res_has_exception :: bool

subsection \<open>Message metadata\<close>

record dubbo_metadata =
  dm_is_two_way :: bool
  dm_message_type :: DubboMessageType
  dm_proto_type :: DubboProtocolType
  dm_response_status :: "u8 option"
  dm_timeout :: "u32 option"
  dm_invocation_info :: "rpc_invocation option"
  dm_serialization_type :: u8
  dm_protocol_version :: u8
  dm_request_id :: u64

definition MessageMetadata :: dubbo_metadata where
  "MessageMetadata =
     \<lparr>dm_is_two_way = False, dm_message_type = DRequest, dm_proto_type = ProtocolDubbo,
      dm_response_status = None, dm_timeout = None, dm_invocation_info = None,
      dm_serialization_type = u8_of_serialization_type Hessian2, dm_protocol_version = 1,
      dm_request_id = 0\<rparr>"

text \<open>
  The setters of the two enumerations kept as bytes store the code of the value they are given,
  which a \<open>static_cast\<close> may have made out of any byte.
\<close>

definition setSerializationType :: "u8 \<Rightarrow> dubbo_metadata \<Rightarrow> dubbo_metadata" where
  "setSerializationType t m = m\<lparr>dm_serialization_type := t\<rparr>"

definition setResponseStatus :: "u8 \<Rightarrow> dubbo_metadata \<Rightarrow> dubbo_metadata" where
  "setResponseStatus s m = m\<lparr>dm_response_status := Some s\<rparr>"

definition hasResponseStatus :: "dubbo_metadata \<Rightarrow> bool" where
  "hasResponseStatus m = (dm_response_status m \<noteq> None)"

text \<open>\<open>responseStatus()\<close> reads the optional: absent, it throws \<open>bad_optional_access\<close>.\<close>

definition responseStatus :: "dubbo_metadata \<Rightarrow> exn + u8" where
  "responseStatus m = (case dm_response_status m of Some s \<Rightarrow> Inr s | None \<Rightarrow> Inl BadOptionalAccess)"

end
