(* ===== verification/Dubbo_Serializer.thy ===== *)
theory Dubbo_Serializer
  imports Dubbo_Types
begin

text \<open>
  The Hessian2 body of Dubbo messages: src/src/application_protocols/dubbo/serializer.h (the
  serializer interface), dubbo_hessian2_serializer_impl.cc and hessian_utils.cc.

  The \<open>Hessian2::Decoder\<close> and \<open>Hessian2::Encoder\<close> of the hessian2 package are parameters:
  \<open>hes_decode_string Hs b i\<close> decodes at offset \<open>i\<close> of what the buffer holds and returns the
  value, \<open>None\<close> for a null pointer, and the new offset. The locale \<open>hessian2\<close> states what the
  serializer relies on, the locale \<open>rpc_serializer\<close> what the protocol relies on; the first gives
  the second for the serializer of this theory.
\<close>

subsection \<open>Counting parameters in a type descriptor\<close>

text \<open>The loop of \<open>getParametersNumber\<close>: \<open>next\<close> is True inside an object's name.\<close>

fun getParametersNumber_loop :: "string \<Rightarrow> bool \<Rightarrow> u32 \<Rightarrow> u32" where
  "getParametersNumber_loop [] nxt cnt = cnt"
| "getParametersNumber_loop (ch # s) nxt cnt =
     (if ch = CHR ''['' then getParametersNumber_loop s nxt cnt
      else if nxt \<and> ch \<noteq> CHR '';'' then getParametersNumber_loop s nxt cnt
      else if ch \<in> {CHR ''V'', CHR ''Z'', CHR ''B'', CHR ''C'', CHR ''D'', CHR ''F'',
                    CHR ''I'', CHR ''J'', CHR ''S''}
        then getParametersNumber_loop s nxt (cnt + 1)
      else if ch = CHR ''L'' then getParametersNumber_loop s True (cnt + 1)
      else if ch = CHR '';'' then getParametersNumber_loop s False cnt
      else getParametersNumber_loop s nxt cnt)"

definition getParametersNumber :: "string \<Rightarrow> u32" where
  "getParametersNumber parameters_type =
     (if parameters_type = [] then 0 else getParametersNumber_loop parameters_type False 0)"

text \<open>The descriptors of the Java language specification the comment of the code refers to.\<close>

datatype jtype = JVoid | JBoolean | JByte | JChar | JDouble | JFloat | JInt | JLong | JShort
  | JObject string | JArray jtype

fun descriptor :: "jtype \<Rightarrow> string" where
  "descriptor JVoid = ''V''"
| "descriptor JBoolean = ''Z''"
| "descriptor JByte = ''B''"
| "descriptor JChar = ''C''"
| "descriptor JDouble = ''D''"
| "descriptor JFloat = ''F''"
| "descriptor JInt = ''I''"
| "descriptor JLong = ''J''"
| "descriptor JShort = ''S''"
| "descriptor (JObject name) = ''L'' @ name @ '';''"
| "descriptor (JArray t) = ''['' @ descriptor t"

fun valid_jtype :: "jtype \<Rightarrow> bool" where
  "valid_jtype (JObject name) = (CHR '';'' \<notin> set name)"
| "valid_jtype (JArray t) = valid_jtype t"
| "valid_jtype _ = True"

lemma loop_object_name:
  "CHR '';'' \<notin> set name \<Longrightarrow>
   getParametersNumber_loop (name @ CHR '';'' # s) True n = getParametersNumber_loop s False n"
  by (induction name) auto

lemma loop_descriptor:
  "valid_jtype t \<Longrightarrow>
   getParametersNumber_loop (descriptor t @ s) False n = getParametersNumber_loop s False (n + 1)"
  by (induction t arbitrary: n) (simp_all add: loop_object_name)

lemma loop_descriptors:
  "list_all valid_jtype ts \<Longrightarrow>
   getParametersNumber_loop (concat (map descriptor ts)) False n = n + of_nat (length ts)"
  by (induction ts arbitrary: n) (simp_all add: loop_descriptor algebra_simps)

lemma getParametersNumber_loop_eq:
  "getParametersNumber s = getParametersNumber_loop s False 0"
  by (simp add: getParametersNumber_def)

subsection \<open>The hessian2 package\<close>

record 'b hessian_ops =
  hes_decode_string :: "'b \<Rightarrow> nat \<Rightarrow> string option \<times> nat"
  hes_decode_int32 :: "'b \<Rightarrow> nat \<Rightarrow> u32 option \<times> nat"
  hes_encode_u8 :: "'b \<Rightarrow> u8 \<Rightarrow> bool \<times> 'b"
  hes_encode_string :: "'b \<Rightarrow> string \<Rightarrow> bool \<times> 'b"

text \<open>
  Laws. A value that was decoded was read from the bytes between the offsets, so a buffer with
  the same bytes up to the new offset gives the same value. The encoder appends the code of a
  value, and the code of an integer decodes to it.
\<close>

locale hessian2 = envoy_buffer B content
  for B :: "'b buffer_ops" and content :: "'b \<Rightarrow> u8 list" +
  fixes Hs :: "'b hessian_ops"
    and int_code :: "u8 \<Rightarrow> u8 list" and string_code :: "string \<Rightarrow> u8 list"
  assumes string_read: "hes_decode_string Hs b i = (Some s, j) \<Longrightarrow>
      i \<le> j \<and> j \<le> length (content b)"
    and string_local: "hes_decode_string Hs b i = (Some s, j) \<Longrightarrow>
      take j (content b') = take j (content b) \<Longrightarrow> hes_decode_string Hs b' i = (Some s, j)"
    and int32_read: "hes_decode_int32 Hs b i = (Some v, j) \<Longrightarrow>
      i \<le> j \<and> j \<le> length (content b)"
    and int32_local: "hes_decode_int32 Hs b i = (Some v, j) \<Longrightarrow>
      take j (content b') = take j (content b) \<Longrightarrow> hes_decode_int32 Hs b' i = (Some v, j)"
    and int32_of_code: "drop i (content b) = int_code x @ rest \<Longrightarrow>
      hes_decode_int32 Hs b i = (Some (ucast x), i + length (int_code x))"
    and encode_u8_code: "fst (hes_encode_u8 Hs b x) \<and>
      content (snd (hes_encode_u8 Hs b x)) = content b @ int_code x"
    and encode_string_code:
      "content (snd (hes_encode_string Hs b s)) = content b @ string_code s"

subsection \<open>The serializer interface and its contract\<close>

record 'b serializer =
  ser_deserializeRpcInvocation :: "'b \<Rightarrow> 'b dubbo_context \<Rightarrow> exn + (rpc_invocation \<times> bool)"
  ser_deserializeRpcResult :: "'b \<Rightarrow> 'b dubbo_context \<Rightarrow> exn + (rpc_result \<times> bool)"
  ser_serializeRpcResult :: "'b \<Rightarrow> string \<Rightarrow> RpcResponseType \<Rightarrow> (u64, 'b) outcome"

text \<open>Two runs agree: both return the same, or both throw an \<open>EnvoyException\<close>.\<close>

fun agree :: "exn + 'a \<Rightarrow> exn + 'a \<Rightarrow> bool" where
  "agree (Inr x) (Inr y) = (x = y)"
| "agree (Inl e) (Inl e') = (is_envoy_exception e \<and> is_envoy_exception e')"
| "agree _ _ = False"

fun has_exception_type :: "RpcResponseType \<Rightarrow> bool" where
  "has_exception_type ResponseWithException = True"
| "has_exception_type ResponseWithExceptionWithAttachments = True"
| "has_exception_type _ = False"

fun is_null_type :: "RpcResponseType \<Rightarrow> bool" where
  "is_null_type ResponseWithNullValue = True"
| "is_null_type ResponseNullValueWithAttachments = True"
| "is_null_type _ = False"

locale rpc_serializer = envoy_buffer B content
  for B :: "'b buffer_ops" and content :: "'b \<Rightarrow> u8 list" +
  fixes S :: "'b serializer" and result_code :: "RpcResponseType \<Rightarrow> string \<Rightarrow> u8 list"
  assumes invocation_local:
      "unat (ctx_body_size c) \<le> length (content b) \<Longrightarrow> unat (ctx_body_size c) \<le> length (content b') \<Longrightarrow>
       take (unat (ctx_body_size c)) (content b) = take (unat (ctx_body_size c)) (content b') \<Longrightarrow>
       agree (ser_deserializeRpcInvocation S b c) (ser_deserializeRpcInvocation S b' c)"
    and result_local:
      "unat (ctx_body_size c) \<le> length (content b) \<Longrightarrow> unat (ctx_body_size c) \<le> length (content b') \<Longrightarrow>
       take (unat (ctx_body_size c)) (content b) = take (unat (ctx_body_size c)) (content b') \<Longrightarrow>
       agree (ser_deserializeRpcResult S b c) (ser_deserializeRpcResult S b' c)"
    and invocation_complete: "ser_deserializeRpcInvocation S b c = Inr (i, ok) \<Longrightarrow> ok"
    and invocation_context: "ctx_header_size c = ctx_header_size c' \<Longrightarrow>
       ctx_body_size c = ctx_body_size c' \<Longrightarrow>
       ser_deserializeRpcInvocation S b c = ser_deserializeRpcInvocation S b c'"
    and result_complete: "ser_deserializeRpcResult S b c = Inr (r, ok) \<Longrightarrow> ok"
    and result_context: "ctx_body_size c = ctx_body_size c' \<Longrightarrow>
       ser_deserializeRpcResult S b c = ser_deserializeRpcResult S b c'"
    and serialize_result:
      "\<exists>b'. ser_serializeRpcResult S b s t = (Inr (of_nat (length (result_code t s))), b') \<and>
         content b' = content b @ result_code t s"
    and deserialize_serialized:
      "content b = result_code t s @ rest \<Longrightarrow> length (result_code t s) < 2 ^ 64 \<Longrightarrow>
       unat (ctx_body_size c) = length (result_code t s) \<Longrightarrow> \<not> is_null_type t \<Longrightarrow>
       ser_deserializeRpcResult S b c = Inr (\<lparr>res_has_exception = has_exception_type t\<rparr>, True)"

subsection \<open>DubboHessian2SerializerImpl\<close>

definition deserializeRpcInvocation ::
  "'b hessian_ops \<Rightarrow> 'b \<Rightarrow> 'b dubbo_context \<Rightarrow> exn + (rpc_invocation \<times> bool)" where
  "deserializeRpcInvocation Hs buffer context =
     (let (dubbo_version, o1) = hes_decode_string Hs buffer 0;
          (service_name, o2) = hes_decode_string Hs buffer o1;
          (service_version, o3) = hes_decode_string Hs buffer o2;
          (method_name, offset) = hes_decode_string Hs buffer o3
      in if unat (ctx_body_size context) < offset then
           Inl (EnvoyException (''RpcInvocation size('' @ dec_nat offset @
             '') larger than body size('' @ dec_nat (unat (ctx_body_size context)) @ '')''))
         else
           (case (dubbo_version, service_name, service_version, method_name) of
              (Some _, Some service, Some version, Some method_nm) \<Rightarrow>
                Inr (\<lparr>inv_service_name = service, inv_method_name = method_nm,
                      inv_service_version = Some version, inv_group = None,
                      inv_parsed_size = ctx_header_size context + of_nat offset\<rparr>, True)
            | _ \<Rightarrow> Inl (EnvoyException ''RpcInvocation has no request metadata'')))"

definition deserializeRpcResult ::
  "'b buffer_ops \<Rightarrow> 'b hessian_ops \<Rightarrow> 'b \<Rightarrow> 'b dubbo_context \<Rightarrow> exn + (rpc_result \<times> bool)" where
  "deserializeRpcResult B Hs buffer context =
     (if \<not> unat (ctx_body_size context) \<le> buf_length B buffer then
        Inl (Panic ''ASSERT(buffer.length() >= context->bodySize())'')
      else
        (case hes_decode_int32 Hs buffer 0 of
           (None, _) \<Rightarrow> Inl (EnvoyException ''Cannot parse RpcResult type from buffer'')
         | (Some type_value, total_size) \<Rightarrow>
             (let type_code = ucast type_value :: u8;
                  body_size = unat (ctx_body_size context);
                  finish = (\<lambda>has_exception has_value.
                    if body_size < total_size then
                      Inl (EnvoyException (''RpcResult size('' @ dec_nat total_size @
                        '') large than body size('' @ dec_nat body_size @ '')''))
                    else if \<not> has_value \<and> body_size \<noteq> total_size then
                      Inl (EnvoyException (''RpcResult is no value, but the rest of the body size('' @
                        dec_nat (body_size - total_size) @ '') not equal 0''))
                    else Inr (\<lparr>res_has_exception = has_exception\<rparr>, True))
              in case rpc_type_of_u8 type_code of
                   Some ResponseWithException \<Rightarrow> finish True True
                 | Some ResponseWithExceptionWithAttachments \<Rightarrow> finish True True
                 | Some ResponseWithNullValue \<Rightarrow> finish False False
                 | Some ResponseNullValueWithAttachments \<Rightarrow> finish False False
                 | Some ResponseWithValue \<Rightarrow> finish False True
                 | Some ResponseValueWithAttachments \<Rightarrow> finish False True
                 | None \<Rightarrow> Inl (EnvoyException (''not supported return type '' @
                     dec_nat (unat type_code))))))"

definition serializeRpcResult ::
  "'b buffer_ops \<Rightarrow> 'b hessian_ops \<Rightarrow> 'b \<Rightarrow> string \<Rightarrow> RpcResponseType \<Rightarrow> (u64, 'b) outcome" where
  "serializeRpcResult B Hs output_buffer message_content t =
     (let origin_length = of_nat (buf_length B output_buffer) :: u64;
          (result1, b1) = hes_encode_u8 Hs output_buffer (u8_of_rpc_type t);
          (result2, b2) = hes_encode_string Hs b1 message_content
      in if \<not> (result1 \<or> result2) then (Inl (Panic ''ASSERT(result)''), b2)
         else (Inr (of_nat (buf_length B b2) - origin_length), b2))"

definition DubboHessian2SerializerImpl :: "'b buffer_ops \<Rightarrow> 'b hessian_ops \<Rightarrow> 'b serializer" where
  "DubboHessian2SerializerImpl B Hs =
     \<lparr>ser_deserializeRpcInvocation = deserializeRpcInvocation Hs,
      ser_deserializeRpcResult = deserializeRpcResult B Hs,
      ser_serializeRpcResult = serializeRpcResult B Hs\<rparr>"

lemma DubboHessian2SerializerImpl_sel [simp]:
  "ser_deserializeRpcInvocation (DubboHessian2SerializerImpl B Hs) = deserializeRpcInvocation Hs"
  "ser_deserializeRpcResult (DubboHessian2SerializerImpl B Hs) = deserializeRpcResult B Hs"
  "ser_serializeRpcResult (DubboHessian2SerializerImpl B Hs) = serializeRpcResult B Hs"
  by (simp_all add: DubboHessian2SerializerImpl_def)

subsection \<open>The serializer meets its contract\<close>

lemma agree_refl_Inr [simp]: "agree (Inr x) (Inr x)"
  by simp

lemma agree_by_success:
  assumes "\<And>x. r = Inr x \<Longrightarrow> r' = Inr x" and "\<And>x. r' = Inr x \<Longrightarrow> r = Inr x"
    and "\<And>e. r = Inl e \<Longrightarrow> is_envoy_exception e" and "\<And>e. r' = Inl e \<Longrightarrow> is_envoy_exception e"
  shows "agree r r'"
  using assms by (cases r; cases r') auto

lemma deserializeRpcInvocation_cong:
  assumes "ctx_header_size c = ctx_header_size c'" and "ctx_body_size c = ctx_body_size c'"
  shows "deserializeRpcInvocation Hs b c = deserializeRpcInvocation Hs b c'"
  unfolding deserializeRpcInvocation_def assms ..

lemma deserializeRpcResult_cong:
  assumes "ctx_body_size c = ctx_body_size c'"
  shows "deserializeRpcResult B Hs b c = deserializeRpcResult B Hs b c'"
  unfolding deserializeRpcResult_def assms ..

lemma deserializeRpcInvocation_Inl:
  "deserializeRpcInvocation Hs b c = Inl e \<Longrightarrow> is_envoy_exception e"
  by (auto simp: deserializeRpcInvocation_def Let_def split: prod.splits option.splits if_splits)

lemma deserializeRpcInvocation_InrE:
  assumes "deserializeRpcInvocation Hs b c = Inr r"
  obtains v o1 s o2 sv o3 m off where
    "hes_decode_string Hs b 0 = (Some v, o1)" "hes_decode_string Hs b o1 = (Some s, o2)"
    "hes_decode_string Hs b o2 = (Some sv, o3)" "hes_decode_string Hs b o3 = (Some m, off)"
    "off \<le> unat (ctx_body_size c)"
    "r = (\<lparr>inv_service_name = s, inv_method_name = m, inv_service_version = Some sv,
           inv_group = None, inv_parsed_size = ctx_header_size c + of_nat off\<rparr>, True)"
  using assms
  by (auto simp: deserializeRpcInvocation_def Let_def split: prod.splits option.splits if_splits)

lemma deserializeRpcResult_Inl:
  "unat (ctx_body_size c) \<le> buf_length B b \<Longrightarrow>
   deserializeRpcResult B Hs b c = Inl e \<Longrightarrow> is_envoy_exception e"
  by (auto simp: deserializeRpcResult_def Let_def
      split: prod.splits option.splits if_splits RpcResponseType.splits)

lemma deserializeRpcResult_InrE:
  assumes "deserializeRpcResult B Hs b c = Inr r"
  obtains v j t where "hes_decode_int32 Hs b 0 = (Some v, j)" "j \<le> unat (ctx_body_size c)"
    "rpc_type_of_u8 (ucast v) = Some t" "is_null_type t \<longrightarrow> unat (ctx_body_size c) = j"
    "r = (\<lparr>res_has_exception = has_exception_type t\<rparr>, True)"
  using assms
  by (auto simp: deserializeRpcResult_def Let_def
      split: prod.splits option.splits if_splits RpcResponseType.splits)

lemma deserializeRpcResult_InrI:
  assumes "unat (ctx_body_size c) \<le> buf_length B b" "hes_decode_int32 Hs b 0 = (Some v, j)"
    "j \<le> unat (ctx_body_size c)" "rpc_type_of_u8 (ucast v) = Some t"
    "is_null_type t \<longrightarrow> unat (ctx_body_size c) = j"
  shows "deserializeRpcResult B Hs b c = Inr (\<lparr>res_has_exception = has_exception_type t\<rparr>, True)"
  using assms by (cases t) (auto simp: deserializeRpcResult_def Let_def)

context hessian2
begin

lemma invocation_success_local:
  assumes "deserializeRpcInvocation Hs b c = Inr r"
    and "take (unat (ctx_body_size c)) (content b) = take (unat (ctx_body_size c)) (content b')"
  shows "deserializeRpcInvocation Hs b' c = Inr r"
proof -
  from assms(1) obtain v o1 s o2 sv o3 m off where
    d: "hes_decode_string Hs b 0 = (Some v, o1)" "hes_decode_string Hs b o1 = (Some s, o2)"
       "hes_decode_string Hs b o2 = (Some sv, o3)" "hes_decode_string Hs b o3 = (Some m, off)"
    and off: "off \<le> unat (ctx_body_size c)"
    and r: "r = (\<lparr>inv_service_name = s, inv_method_name = m, inv_service_version = Some sv,
           inv_group = None, inv_parsed_size = ctx_header_size c + of_nat off\<rparr>, True)"
    by (rule deserializeRpcInvocation_InrE)
  have mono: "o1 \<le> o2" "o2 \<le> o3" "o3 \<le> off"
    using string_read d by blast+
  have pre: "take k (content b') = take k (content b)" if "k \<le> off" for k
    using take_eq_take_le [OF assms(2)] that off by simp
  have "hes_decode_string Hs b' 0 = (Some v, o1)" "hes_decode_string Hs b' o1 = (Some s, o2)"
    "hes_decode_string Hs b' o2 = (Some sv, o3)" "hes_decode_string Hs b' o3 = (Some m, off)"
    using d mono by (blast intro: string_local pre order_trans)+
  with off r show ?thesis by (simp add: deserializeRpcInvocation_def)
qed

lemma result_success_local:
  assumes "deserializeRpcResult B Hs b c = Inr r"
    and "take (unat (ctx_body_size c)) (content b) = take (unat (ctx_body_size c)) (content b')"
    and "unat (ctx_body_size c) \<le> length (content b')"
  shows "deserializeRpcResult B Hs b' c = Inr r"
proof -
  from assms(1) obtain v j t where d: "hes_decode_int32 Hs b 0 = (Some v, j)"
    and j: "j \<le> unat (ctx_body_size c)" and t: "rpc_type_of_u8 (ucast v) = Some t"
    "is_null_type t \<longrightarrow> unat (ctx_body_size c) = j"
    and r: "r = (\<lparr>res_has_exception = has_exception_type t\<rparr>, True)"
    by (rule deserializeRpcResult_InrE)
  have "take j (content b') = take j (content b)"
    using take_eq_take_le [OF assms(2) j] by simp
  with d have "hes_decode_int32 Hs b' 0 = (Some v, j)" by (rule int32_local)
  with t j r assms(3) show ?thesis
    by (simp add: deserializeRpcResult_InrI length_content)
qed

lemma serializeRpcResult_appends:
  "\<exists>b'. serializeRpcResult B Hs b s t =
          (Inr (of_nat (length (int_code (u8_of_rpc_type t) @ string_code s))), b') \<and>
        content b' = content b @ int_code (u8_of_rpc_type t) @ string_code s"
proof -
  let ?e1 = "hes_encode_u8 Hs b (u8_of_rpc_type t)"
  let ?e2 = "hes_encode_string Hs (snd ?e1) s"
  have ok: "fst ?e1" and c1: "content (snd ?e1) = content b @ int_code (u8_of_rpc_type t)"
    using encode_u8_code by auto
  have c2: "content (snd ?e2) = content b @ int_code (u8_of_rpc_type t) @ string_code s"
    using encode_string_code c1 by simp
  have "serializeRpcResult B Hs b s t =
      (Inr (of_nat (buf_length B (snd ?e2)) - of_nat (buf_length B b)), snd ?e2)"
    using ok by (simp add: serializeRpcResult_def Let_def case_prod_beta)
  then show ?thesis
    using c2 by (simp add: length_content algebra_simps)
qed

lemma ucast_rpc_code: "ucast (ucast (u8_of_rpc_type t) :: u32) = (u8_of_rpc_type t :: u8)"
  by (cases t) simp_all

end

sublocale hessian2 \<subseteq> rpc_serializer B content "DubboHessian2SerializerImpl B Hs"
  "\<lambda>t s. int_code (u8_of_rpc_type t) @ string_code s"
proof unfold_locales
  fix c :: "'b dubbo_context" and b b'
  assume len: "unat (ctx_body_size c) \<le> length (content b)" "unat (ctx_body_size c) \<le> length (content b')"
    and eq: "take (unat (ctx_body_size c)) (content b) = take (unat (ctx_body_size c)) (content b')"
  show "agree (ser_deserializeRpcInvocation (DubboHessian2SerializerImpl B Hs) b c)
      (ser_deserializeRpcInvocation (DubboHessian2SerializerImpl B Hs) b' c)"
    using eq
    by (auto intro!: agree_by_success
        intro: invocation_success_local deserializeRpcInvocation_Inl)
  show "agree (ser_deserializeRpcResult (DubboHessian2SerializerImpl B Hs) b c)
      (ser_deserializeRpcResult (DubboHessian2SerializerImpl B Hs) b' c)"
    using eq len
    by (auto simp: length_content intro!: agree_by_success
        intro: result_success_local deserializeRpcResult_Inl [rotated])
next
  fix b i ok and c c' :: "'b dubbo_context"
  show "ser_deserializeRpcInvocation (DubboHessian2SerializerImpl B Hs) b c = Inr (i, ok) \<Longrightarrow> ok"
    by (auto elim: deserializeRpcInvocation_InrE)
  show "ctx_header_size c = ctx_header_size c' \<Longrightarrow> ctx_body_size c = ctx_body_size c' \<Longrightarrow>
      ser_deserializeRpcInvocation (DubboHessian2SerializerImpl B Hs) b c =
      ser_deserializeRpcInvocation (DubboHessian2SerializerImpl B Hs) b c'"
    by (auto intro: deserializeRpcInvocation_cong)
next
  fix b r ok and c c' :: "'b dubbo_context"
  show "ser_deserializeRpcResult (DubboHessian2SerializerImpl B Hs) b c = Inr (r, ok) \<Longrightarrow> ok"
    by (auto elim: deserializeRpcResult_InrE)
  show "ctx_body_size c = ctx_body_size c' \<Longrightarrow>
      ser_deserializeRpcResult (DubboHessian2SerializerImpl B Hs) b c =
      ser_deserializeRpcResult (DubboHessian2SerializerImpl B Hs) b c'"
    by (auto intro: deserializeRpcResult_cong)
next
  fix b s t
  show "\<exists>b'. ser_serializeRpcResult (DubboHessian2SerializerImpl B Hs) b s t =
        (Inr (of_nat (length (int_code (u8_of_rpc_type t) @ string_code s))), b') \<and>
      content b' = content b @ int_code (u8_of_rpc_type t) @ string_code s"
    using serializeRpcResult_appends by simp
next
  fix b t s rest and c :: "'b dubbo_context"
  assume b: "content b = (int_code (u8_of_rpc_type t) @ string_code s) @ rest"
    and size: "unat (ctx_body_size c) = length (int_code (u8_of_rpc_type t) @ string_code s)"
    and t: "\<not> is_null_type t"
  have "hes_decode_int32 Hs b 0 = (Some (ucast (u8_of_rpc_type t)), 0 + length (int_code (u8_of_rpc_type t)))"
    by (rule int32_of_code [where rest = "string_code s @ rest"]) (simp add: b)
  then show "ser_deserializeRpcResult (DubboHessian2SerializerImpl B Hs) b c =
      Inr (\<lparr>res_has_exception = has_exception_type t\<rparr>, True)"
    using b size t
    by (simp add: deserializeRpcResult_InrI length_content
        ucast_rpc_code)
qed

subsection \<open>A reference instance of the hessian2 package\<close>

text \<open>
  The one- and two-octet integers and the short strings of the Hessian 2.0 format, over a list of
  bytes: enough to run the model on concrete messages.
\<close>

definition list_decode_string :: "u8 list \<Rightarrow> nat \<Rightarrow> string option \<times> nat" where
  "list_decode_string bs i =
     (if i < length bs \<and> unat (bs ! i) < 32 \<and> i + 1 + unat (bs ! i) \<le> length bs
      then (Some (map char_of_byte (take (unat (bs ! i)) (drop (i + 1) bs))), i + 1 + unat (bs ! i))
      else (None, i))"

definition list_decode_int32 :: "u8 list \<Rightarrow> nat \<Rightarrow> u32 option \<times> nat" where
  "list_decode_int32 bs i =
     (if i < length bs \<and> 144 \<le> bs ! i \<and> bs ! i \<le> 191 then (Some (ucast (bs ! i - 144)), i + 1)
      else if i + 1 < length bs \<and> bs ! i = 200 then (Some (ucast (bs ! (i + 1))), i + 2)
      else (None, i))"

definition list_int_code :: "u8 \<Rightarrow> u8 list" where
  "list_int_code x = (if x < 48 then [x + 144] else [200, x])"

definition list_string_code :: "string \<Rightarrow> u8 list" where
  "list_string_code s =
     (if length s < 32 then of_nat (length s) # map byte_of_char s
      else 83 # be_of_nat 2 (length s) @ map byte_of_char s)"

definition list_hessian :: "u8 list hessian_ops" where
  "list_hessian =
     \<lparr>hes_decode_string = list_decode_string,
      hes_decode_int32 = list_decode_int32,
      hes_encode_u8 = (\<lambda>b x. (True, b @ list_int_code x)),
      hes_encode_string = (\<lambda>b s. (True, b @ list_string_code s))\<rparr>"

lemma nth_take_eq:
  assumes "take j ys = take j xs" and "i < j" and "j \<le> length xs"
  shows "ys ! i = xs ! i \<and> j \<le> length ys"
proof
  have "length (take j ys) = length (take j xs)" using assms(1) by simp
  then show "j \<le> length ys" using assms(3) by simp
  show "ys ! i = xs ! i" using assms(1,2) by (metis nth_take)
qed

lemma take_drop_eq:
  assumes "take j ys = take j xs" and "i + n \<le> j"
  shows "take n (drop i ys) = take n (drop i xs)"
proof -
  have "take n (drop i (take j ys)) = take n (drop i (take j xs))" using assms(1) by simp
  then show ?thesis using assms(2) by (simp add: drop_take)
qed

lemma list_decode_string_local:
  assumes "list_decode_string b i = (Some s, j)" and "take j b' = take j b"
  shows "list_decode_string b' i = (Some s, j)"
proof -
  from assms(1) have j: "j = i + 1 + unat (b ! i)" "i < length b" "unat (b ! i) < 32" "j \<le> length b"
    and s: "s = map char_of_byte (take (unat (b ! i)) (drop (i + 1) b))"
    by (auto simp: list_decode_string_def split: if_splits)
  have "b' ! i = b ! i" and len: "j \<le> length b'"
    using nth_take_eq [OF assms(2), of i] j by auto
  moreover have "take (unat (b ! i)) (drop (i + 1) b') = take (unat (b ! i)) (drop (i + 1) b)"
    using j by (intro take_drop_eq [OF assms(2)]) auto
  ultimately show ?thesis using j s by (simp add: list_decode_string_def)
qed

lemma list_decode_int32_local:
  assumes "list_decode_int32 b i = (Some v, j)" and "take j b' = take j b"
  shows "list_decode_int32 b' i = (Some v, j)"
proof -
  from assms(1) have j: "i < j" "j \<le> length b" "j = i + 1 \<or> j = i + 2"
    by (auto simp: list_decode_int32_def split: if_splits)
  have "b' ! i = b ! i" "j \<le> length b'" "j = i + 2 \<longrightarrow> b' ! (i + 1) = b ! (i + 1)"
    using nth_take_eq [OF assms(2), of i] nth_take_eq [OF assms(2), of "i + 1"] j by auto
  then show ?thesis
    using assms(1) j by (auto simp: list_decode_int32_def split: if_splits)
qed

lemma list_int_code_byte:
  fixes x :: u8
  assumes "x < 48"
  shows "144 \<le> x + 144 \<and> x + 144 \<le> 191"
  using assms by (simp add: word_le_nat_alt word_less_nat_alt unat_word_ariths)

lemma list_decode_int32_code:
  assumes "drop i b = list_int_code x @ rest"
  shows "list_decode_int32 b i = (Some (ucast x), i + length (list_int_code x))"
proof (cases "x < 48")
  case True
  with assms have d: "drop i b = (x + 144) # rest" by (simp add: list_int_code_def)
  then have "i < length b" "b ! i = x + 144"
    by (metis drop_eq_Nil2 leI list.distinct(1), metis nth_via_drop)
  then show ?thesis
    using True list_int_code_byte [OF True] by (simp add: list_decode_int32_def list_int_code_def)
next
  case False
  with assms have d: "drop i b = 200 # x # rest" by (simp add: list_int_code_def)
  then have "b ! i = 200" by (metis nth_via_drop)
  moreover have "drop (Suc i) b = x # rest" using d by (metis list.sel(3) tl_drop drop_Suc)
  then have "b ! (i + 1) = x" by (simp add: nth_via_drop)
  moreover have "i + 1 < length b" using d by (metis \<open>drop (Suc i) b = x # rest\<close> Suc_eq_plus1 drop_eq_Nil2 leI list.distinct(1))
  ultimately show ?thesis
    using False by (simp add: list_decode_int32_def list_int_code_def)
qed

interpretation lh: hessian2 list_buffer "\<lambda>bs. bs" list_hessian list_int_code list_string_code
proof unfold_locales
  fix b :: "u8 list" and i s j
  assume "hes_decode_string list_hessian b i = (Some s, j)"
  then show "i \<le> j \<and> j \<le> length b"
    by (auto simp: list_hessian_def list_decode_string_def split: if_splits)
next
  fix b b' :: "u8 list" and i s j
  assume "hes_decode_string list_hessian b i = (Some s, j)" "take j b' = take j b"
  then show "hes_decode_string list_hessian b' i = (Some s, j)"
    by (auto simp: list_hessian_def intro: list_decode_string_local)
next
  fix b :: "u8 list" and i v j
  assume "hes_decode_int32 list_hessian b i = (Some v, j)"
  then show "i \<le> j \<and> j \<le> length b"
    by (auto simp: list_hessian_def list_decode_int32_def split: if_splits)
next
  fix b b' :: "u8 list" and i v j
  assume "hes_decode_int32 list_hessian b i = (Some v, j)" "take j b' = take j b"
  then show "hes_decode_int32 list_hessian b' i = (Some v, j)"
    by (auto simp: list_hessian_def intro: list_decode_int32_local)
next
  fix b :: "u8 list" and i x rest
  assume "drop i b = list_int_code x @ rest"
  then show "hes_decode_int32 list_hessian b i = (Some (ucast x), i + length (list_int_code x))"
    by (simp add: list_hessian_def list_decode_int32_code)
qed (simp_all add: list_hessian_def)

end
