(* ===== verification/Dubbo_Protocol.thy ===== *)
theory Dubbo_Protocol
  imports Dubbo_Serializer
begin

text \<open>
  The Dubbo wire protocol, src/src/application_protocols/dubbo/dubbo_protocol_impl.cc: validation
  of the codes of the header, \<open>decodeHeader\<close>, \<open>decodeData\<close> and \<open>encode\<close>. The layout of the
  16 byte header is also stated as a function of its fields (\<open>header_bytes\<close>), against which the
  decoder and the encoder are proved.
\<close>

subsection \<open>Constants and validation\<close>

definition MessageSize :: nat where "MessageSize = 16"
definition MaxBodySize :: int where "MaxBodySize = 16 * 1024 * 1024"
definition MagicNumber :: u16 where "MagicNumber = 0xdabb"
definition MessageTypeMask :: u8 where "MessageTypeMask = 0x80"
definition EventMask :: u8 where "EventMask = 0x20"
definition TwoWayMask :: u8 where "TwoWayMask = 0x40"
definition SerializationTypeMask :: u8 where "SerializationTypeMask = 0x1f"
definition FlagOffset :: nat where "FlagOffset = 2"
definition StatusOffset :: nat where "StatusOffset = 3"
definition RequestIDOffset :: nat where "RequestIDOffset = 4"
definition BodySizeOffset :: nat where "BodySizeOffset = 12"

lemmas dubbo_constants =
  MessageSize_def MaxBodySize_def MagicNumber_def MessageTypeMask_def EventMask_def
  TwoWayMask_def SerializationTypeMask_def FlagOffset_def StatusOffset_def RequestIDOffset_def
  BodySizeOffset_def

definition isValidSerializationType :: "u8 \<Rightarrow> bool" where
  "isValidSerializationType type_code =
     (case serialization_type_of_u8 type_code of Some Hessian2 \<Rightarrow> True | None \<Rightarrow> False)"

definition isValidResponseStatus :: "u8 \<Rightarrow> bool" where
  "isValidResponseStatus status =
     (case response_status_of_u8 status of
        Some DOk \<Rightarrow> True
      | Some ClientTimeout \<Rightarrow> True
      | Some ServerTimeout \<Rightarrow> True
      | Some DBadRequest \<Rightarrow> True
      | Some DBadResponse \<Rightarrow> True
      | Some ServiceNotFound \<Rightarrow> True
      | Some ServiceError \<Rightarrow> True
      | Some ClientError \<Rightarrow> True
      | Some ServerThreadpoolExhaustedError \<Rightarrow> True
      | _ \<Rightarrow> False)"

lemma isValidSerializationType_iff: "isValidSerializationType t \<longleftrightarrow> t = 2"
  by (auto simp: isValidSerializationType_def serialization_type_of_u8_def
      split: SerializationType.splits)

lemma isValidResponseStatus_iff:
  "isValidResponseStatus s \<longleftrightarrow> (\<exists>e. s = u8_of_response_status e \<and> e \<noteq> ServerError)"
proof
  assume "isValidResponseStatus s"
  then obtain e where "response_status_of_u8 s = Some e" "e \<noteq> ServerError"
    by (auto simp: isValidResponseStatus_def split: option.splits DubboResponseStatus.splits)
  then show "\<exists>e. s = u8_of_response_status e \<and> e \<noteq> ServerError"
    using response_status_of_u8_Some by blast
next
  assume "\<exists>e. s = u8_of_response_status e \<and> e \<noteq> ServerError"
  then show "isValidResponseStatus s"
    by (auto simp: isValidResponseStatus_def split: DubboResponseStatus.splits)
qed

subsection \<open>Decoding the header\<close>

definition parseRequestInfoFromBuffer ::
  "'b buffer_ops \<Rightarrow> 'b \<Rightarrow> dubbo_metadata \<Rightarrow> (unit, dubbo_metadata) outcome" where
  "parseRequestInfoFromBuffer B data metadata =
     (if \<not> MessageSize \<le> buf_length B data then
        (Inl (Panic ''ASSERT(data.length() >= MessageSize)''), metadata)
      else and_then (buf_peek8 B data FlagOffset, metadata) (\<lambda>flag metadata.
        let is_two_way = ((flag AND TwoWayMask) = TwoWayMask);
            type_code = flag AND SerializationTypeMask
        in if \<not> isValidSerializationType type_code then
             (Inl (EnvoyException (''invalid dubbo message serialization type '' @
                dec_nat (unat type_code))), metadata)
           else
             (let metadata1 =
                (if \<not> is_two_way \<and> dm_message_type metadata \<noteq> DHeartbeatRequest
                 then metadata\<lparr>dm_message_type := DOneway\<rparr> else metadata)
              in (Inr (), setSerializationType type_code metadata1))))"

definition parseResponseInfoFromBuffer ::
  "'b buffer_ops \<Rightarrow> 'b \<Rightarrow> dubbo_metadata \<Rightarrow> (unit, dubbo_metadata) outcome" where
  "parseResponseInfoFromBuffer B buffer metadata =
     (if \<not> MessageSize \<le> buf_length B buffer then
        (Inl (Panic ''ASSERT(buffer.length() >= MessageSize)''), metadata)
      else and_then (buf_peek8 B buffer StatusOffset, metadata) (\<lambda>status metadata.
        if \<not> isValidResponseStatus status then
          (Inl (EnvoyException (''invalid dubbo message response status '' @
             dec_nat (unat status))), metadata)
        else (Inr (), setResponseStatus status metadata)))"

definition decodeHeader_metadata ::
  "'b buffer_ops \<Rightarrow> 'b \<Rightarrow> dubbo_metadata \<Rightarrow>
   ('b dubbo_context option \<times> bool, dubbo_metadata) outcome" where
  "decodeHeader_metadata B buffer metadata =
     (if buf_length B buffer < MessageSize then (Inr (None, False), metadata)
      else and_then (buf_peekBE16 B buffer 0, metadata) (\<lambda>magic_number metadata.
        if magic_number \<noteq> MagicNumber then
          (Inl (EnvoyException (''invalid dubbo message magic number '' @
             dec_nat (unat magic_number))), metadata)
        else and_then (buf_peek8 B buffer FlagOffset, metadata) (\<lambda>flag metadata.
          let type0 = (if (flag AND MessageTypeMask) = MessageTypeMask then DRequest else DResponse);
              is_event = ((flag AND EventMask) = EventMask)
          in and_then (buf_peekBE64 B buffer RequestIDOffset, metadata) (\<lambda>request_id metadata.
            and_then (buf_peekBE32 B buffer BodySizeOffset, metadata) (\<lambda>body_size metadata.
              if sint body_size > MaxBodySize \<or> sint body_size < 0 then
                (Inl (EnvoyException (''invalid dubbo message size '' @
                   dec_int (sint body_size))), metadata)
              else
                let metadata = metadata\<lparr>dm_request_id := request_id\<rparr>;
                    parsed =
                      (if type0 = DRequest then
                         parseRequestInfoFromBuffer B buffer
                           (metadata\<lparr>dm_message_type :=
                              (if is_event then DHeartbeatRequest else type0)\<rparr>)
                       else
                         parseResponseInfoFromBuffer B buffer
                           (metadata\<lparr>dm_message_type :=
                              (if is_event then DHeartbeatResponse else type0)\<rparr>));
                    context =
                      (ContextImpl B)\<lparr>ctx_header_size := of_nat MessageSize,
                        ctx_body_size := scast body_size, ctx_is_heartbeat := is_event\<rparr>
                in and_then parsed (\<lambda>_ metadata. (Inr (Some context, True), metadata)))))))"

text \<open>
  The metadata comes as a shared pointer, checked first. Everything after that check is
  \<open>decodeHeader_metadata\<close>.
\<close>

fun decodeHeader ::
  "'b buffer_ops \<Rightarrow> 'b \<Rightarrow> dubbo_metadata option \<Rightarrow>
   ('b dubbo_context option \<times> bool, dubbo_metadata option) outcome" where
  "decodeHeader B buffer None = (Inl (EnvoyException ''invalid metadata parameter''), None)"
| "decodeHeader B buffer (Some metadata) =
     apsnd Some (decodeHeader_metadata B buffer metadata)"

subsection \<open>Decoding the body\<close>

definition decodeData ::
  "'b buffer_ops \<Rightarrow> 'b serializer \<Rightarrow> 'b \<Rightarrow> 'b dubbo_context \<Rightarrow> dubbo_metadata \<Rightarrow>
   (bool, dubbo_metadata) outcome" where
  "decodeData B S buffer context metadata =
     (if buf_length B buffer < unat (ctx_body_size context) then (Inr False, metadata)
      else if dm_message_type metadata \<in> {DOneway, DRequest} then
        and_then (ser_deserializeRpcInvocation S buffer context, metadata) (\<lambda>ret metadata.
          if \<not> snd ret then (Inr False, metadata)
          else (Inr True, metadata\<lparr>dm_invocation_info := Some (fst ret)\<rparr>))
      else if dm_message_type metadata = DResponse then
        and_then (ser_deserializeRpcResult S buffer context, metadata) (\<lambda>ret metadata.
          if \<not> snd ret then (Inr False, metadata)
          else if res_has_exception (fst ret) then
            (Inr True, metadata\<lparr>dm_message_type := DException\<rparr>)
          else (Inr True, metadata))
      else (Inl (Panic ''NOT_REACHED''), metadata))"

subsection \<open>Encoding\<close>

definition DubboProtocolImpl_encode ::
  "'b buffer_ops \<Rightarrow> 'b serializer \<Rightarrow> 'b \<Rightarrow> dubbo_metadata \<Rightarrow> string \<Rightarrow> RpcResponseType \<Rightarrow>
   (bool, 'b) outcome" where
  "DubboProtocolImpl_encode B S buffer metadata message_content t =
     (if dm_message_type metadata = DHeartbeatResponse then
        (if \<not> hasResponseStatus metadata then
           (Inl (Panic ''ASSERT(metadata.hasResponseStatus())''), buffer)
         else if message_content \<noteq> [] then (Inl (Panic ''ASSERT(content.empty())''), buffer)
         else
           (let b1 = buf_writeBE16 B buffer MagicNumber;
                flag = dm_serialization_type metadata XOR EventMask;
                b2 = buf_write8 B b1 flag
            in and_then (responseStatus metadata, b2) (\<lambda>status b2.
              let b3 = buf_write8 B b2 status;
                  b4 = buf_writeBE64 B b3 (dm_request_id metadata);
                  b5 = buf_writeBE32 B b4 0
              in (Inr True, b5))))
      else if dm_message_type metadata = DResponse then
        (if \<not> hasResponseStatus metadata then
           (Inl (Panic ''ASSERT(metadata.hasResponseStatus())''), buffer)
         else if message_content = [] then (Inl (Panic ''ASSERT(!content.empty())''), buffer)
         else
           (case ser_serializeRpcResult S (buf_new B) message_content t of
              (Inl e, body_buffer) \<Rightarrow> (Inl e, buffer)
            | (Inr serialized_body_size, body_buffer) \<Rightarrow>
                (let b1 = buf_writeBE16 B buffer MagicNumber;
                     b2 = buf_write8 B b1 (dm_serialization_type metadata)
                 in and_then (responseStatus metadata, b2) (\<lambda>status b2.
                   let b3 = buf_write8 B b2 status;
                       b4 = buf_writeBE64 B b3 (dm_request_id metadata);
                       b5 = buf_writeBE32 B b4 (ucast serialized_body_size);
                       (b6, _) = buf_move B b5 body_buffer (unat serialized_body_size)
                   in (Inr True, b6)))))
      else if dm_message_type metadata \<in> {DRequest, DOneway, DException} then
        (Inl (Panic ''NOT_IMPLEMENTED''), buffer)
      else (Inl (Panic ''NOT_REACHED''), buffer))"

subsection \<open>The layout of a header\<close>

definition header_bytes :: "u8 \<Rightarrow> u8 \<Rightarrow> u64 \<Rightarrow> u32 \<Rightarrow> u8 list" where
  "header_bytes flag status request_id body_size =
     be_bytes 2 MagicNumber @ [flag, status] @ be_bytes 8 request_id @ be_bytes 4 body_size"

definition flag_request :: "u8 \<Rightarrow> bool" where
  "flag_request flag = ((flag AND MessageTypeMask) = MessageTypeMask)"

definition flag_event :: "u8 \<Rightarrow> bool" where
  "flag_event flag = ((flag AND EventMask) = EventMask)"

definition flag_two_way :: "u8 \<Rightarrow> bool" where
  "flag_two_way flag = ((flag AND TwoWayMask) = TwoWayMask)"

definition header_type :: "u8 \<Rightarrow> DubboMessageType" where
  "header_type flag =
     (if flag_request flag then
        (if flag_event flag then DHeartbeatRequest
         else if flag_two_way flag then DRequest else DOneway)
      else if flag_event flag then DHeartbeatResponse else DResponse)"

definition valid_size :: "u32 \<Rightarrow> bool" where
  "valid_size body_size = (0 \<le> sint body_size \<and> sint body_size \<le> MaxBodySize)"

definition valid_header :: "u8 \<Rightarrow> u8 \<Rightarrow> u32 \<Rightarrow> bool" where
  "valid_header flag status body_size =
     (valid_size body_size \<and>
      (if flag_request flag then flag AND SerializationTypeMask = 2
       else isValidResponseStatus status))"

text \<open>The context and the metadata a valid header gives.\<close>

definition header_context :: "'b buffer_ops \<Rightarrow> u8 \<Rightarrow> u32 \<Rightarrow> 'b dubbo_context" where
  "header_context B flag body_size =
     \<lparr>ctx_origin_message = buf_new B, ctx_header_size = 16, ctx_body_size = ucast body_size,
      ctx_is_heartbeat = flag_event flag\<rparr>"

definition header_metadata :: "u8 \<Rightarrow> u8 \<Rightarrow> u64 \<Rightarrow> dubbo_metadata \<Rightarrow> dubbo_metadata" where
  "header_metadata flag status request_id m =
     (let m1 = m\<lparr>dm_request_id := request_id, dm_message_type := header_type flag\<rparr>
      in if flag_request flag then m1\<lparr>dm_serialization_type := 2\<rparr>
         else m1\<lparr>dm_response_status := Some status\<rparr>)"

lemma length_header_bytes [simp]: "length (header_bytes f s i n) = 16"
  by (simp add: header_bytes_def)

lemma sint_nonneg_unat:
  fixes n :: u32
  assumes "0 \<le> sint n"
  shows "sint n = int (unat n)"
proof -
  have "sint n < 2 ^ 31" using sint_lt [of n] by simp
  then have "take_bit 32 (sint n) = sint n"
    using assms by (simp add: take_bit_int_eq_self)
  then show ?thesis using uint_sint [of n] by simp
qed

lemma sint_nonneg_scast:
  fixes n :: u32
  assumes "0 \<le> sint n"
  shows "scast n = (ucast n :: u64)"
  using sint_nonneg_unat [OF assms] by (simp add: scast_eq)

lemma unat_ucast_32_64: "unat (ucast (n :: u32) :: u64) = unat n"
proof -
  have "unat n < 2 ^ 32" using unsigned_less [of n] by simp
  then show ?thesis by (simp add: unsigned_ucast_eq take_bit_nat_eq_self)
qed

lemma valid_size_unat: "valid_size n \<Longrightarrow> unat n \<le> 16777216"
  using sint_nonneg_unat [of n] unfolding valid_size_def MaxBodySize_def by linarith

lemma header_type_simps:
  "header_type flag \<in> {DHeartbeatRequest, DHeartbeatResponse} \<longleftrightarrow> flag_event flag"
  "header_type flag \<noteq> DException"
  by (simp_all add: header_type_def)

context envoy_buffer
begin

text \<open>What the peeks of \<open>decodeHeader\<close> see in a buffer that starts with a header.\<close>

lemma header_peeks:
  assumes "content b = header_bytes flag status i n @ rest"
  shows "\<not> buf_length B b < MessageSize"
    and "buf_peekBE16 B b 0 = Inr MagicNumber"
    and "buf_peek8 B b FlagOffset = Inr flag"
    and "buf_peek8 B b StatusOffset = Inr status"
    and "buf_peekBE64 B b RequestIDOffset = Inr i"
    and "buf_peekBE32 B b BodySizeOffset = Inr n"
  using assms
  by (simp_all add: length_content peekBE16_content peek8_content peekBE64_content
      peekBE32_content header_bytes_def dubbo_constants nth_append)

text \<open>
  Every buffer of at least 16 bytes that starts with the magic number starts with the bytes of
  some header.
\<close>

lemma header_bytes_exist:
  assumes "16 \<le> length bs" and "(be_word (take 2 bs) :: u16) = MagicNumber"
  obtains flag status i n rest where "bs = header_bytes flag status i n @ rest"
proof -
  let ?i = "be_word (take 8 (drop 4 bs)) :: u64"
  let ?n = "be_word (take 4 (drop 12 bs)) :: u32"
  have magic: "be_bytes 2 MagicNumber = take 2 bs"
    using be_bytes_be_word [of "take 2 bs" 2, where 'a = 16] assms by (simp add: min_def)
  have "be_bytes 8 ?i = take 8 (drop 4 bs)" and "be_bytes 4 ?n = take 4 (drop 12 bs)"
    using assms(1) by (simp_all add: be_bytes_be_word)
  moreover have "[bs ! 2, bs ! 3] = take 2 (drop 2 bs)"
    using assms(1)
    by (intro nth_equalityI) (auto simp: less_Suc_eq numeral_2_eq_2 numeral_3_eq_3)
  ultimately have "header_bytes (bs ! 2) (bs ! 3) ?i ?n =
      take 2 bs @ take 2 (drop 2 bs) @ take 8 (drop 4 bs) @ take 4 (drop 12 bs)"
    using magic by (simp add: header_bytes_def)
  also have "\<dots> = take 16 bs"
    using take_add [of 2 2 bs] take_add [of 4 8 bs] take_add [of 12 4 bs] by simp
  finally have "bs = header_bytes (bs ! 2) (bs ! 3) ?i ?n @ drop 16 bs" by simp
  then show thesis by (rule that)
qed

lemma decodeHeader_short:
  "length (content b) < 16 \<Longrightarrow> decodeHeader_metadata B b m = (Inr (None, False), m)"
  by (simp add: decodeHeader_metadata_def length_content MessageSize_def)

lemma decodeHeader_bad_magic:
  assumes "16 \<le> length (content b)" and "(be_word (take 2 (content b)) :: u16) \<noteq> MagicNumber"
  shows "decodeHeader_metadata B b m =
    (Inl (EnvoyException (''invalid dubbo message magic number '' @
       dec_nat (unat (be_word (take 2 (content b)) :: u16)))), m)"
  using assms by (simp add: decodeHeader_metadata_def length_content MessageSize_def
      peekBE16_content)

lemma decodeHeader_bad_size:
  assumes "content b = header_bytes flag status i n @ rest" and "\<not> valid_size n"
  shows "decodeHeader_metadata B b m =
    (Inl (EnvoyException (''invalid dubbo message size '' @ dec_int (sint n))), m)"
  using assms(2) header_peeks [OF assms(1)]
  by (auto simp: decodeHeader_metadata_def valid_size_def Let_def)

lemma decodeHeader_bad_serialization:
  assumes "content b = header_bytes flag status i n @ rest" and "valid_size n"
    and "flag_request flag" and "flag AND SerializationTypeMask \<noteq> 2"
  shows "decodeHeader_metadata B b m =
    (Inl (EnvoyException (''invalid dubbo message serialization type '' @
       dec_nat (unat (flag AND SerializationTypeMask)))),
     m\<lparr>dm_request_id := i,
       dm_message_type := (if flag_event flag then DHeartbeatRequest else DRequest)\<rparr>)"
  using assms(2-) header_peeks [OF assms(1)]
  by (auto simp: decodeHeader_metadata_def parseRequestInfoFromBuffer_def valid_size_def
      flag_request_def flag_event_def isValidSerializationType_iff Let_def not_less)

lemma decodeHeader_bad_status:
  assumes "content b = header_bytes flag status i n @ rest" and "valid_size n"
    and "\<not> flag_request flag" and "\<not> isValidResponseStatus status"
  shows "decodeHeader_metadata B b m =
    (Inl (EnvoyException (''invalid dubbo message response status '' @ dec_nat (unat status))),
     m\<lparr>dm_request_id := i,
       dm_message_type := (if flag_event flag then DHeartbeatResponse else DResponse)\<rparr>)"
  using assms(2-) header_peeks [OF assms(1)]
  by (auto simp: decodeHeader_metadata_def parseResponseInfoFromBuffer_def valid_size_def
      flag_request_def flag_event_def Let_def not_less)

lemma decodeHeader_valid:
  assumes "content b = header_bytes flag status i n @ rest" and "valid_header flag status n"
  shows "decodeHeader_metadata B b m =
    (Inr (Some (header_context B flag n), True), header_metadata flag status i m)"
proof -
  have ctx: "(ContextImpl B)\<lparr>ctx_header_size := of_nat MessageSize,
      ctx_body_size := scast n, ctx_is_heartbeat := flag_event flag\<rparr> = header_context B flag n"
    using assms(2) sint_nonneg_scast [of n]
    by (simp add: ContextImpl_def header_context_def MessageSize_def valid_header_def valid_size_def)
  show ?thesis
    using assms(2) header_peeks [OF assms(1)] ctx
    by (auto simp: decodeHeader_metadata_def parseRequestInfoFromBuffer_def
        parseResponseInfoFromBuffer_def valid_header_def valid_size_def flag_request_def
        flag_event_def flag_two_way_def header_type_def header_metadata_def
        isValidSerializationType_iff setSerializationType_def setResponseStatus_def Let_def not_less)
qed

end

end
