(* ===== verification/Dubbo_Codec.thy ===== *)
theory Dubbo_Codec
  imports Dubbo_Protocol
begin

text \<open>
  The Dubbo codec, src/src/application_protocols/dubbo/dubbo_codec.cc and dubbo_codec.h: the
  decoder state machine (\<open>DecoderStateMachine::run\<close>), \<open>DubboCodec::decode\<close>, \<open>encode\<close> and
  \<open>onError\<close>, and the translation between Dubbo's metadata and the proxy's (\<open>toMetadata\<close>,
  \<open>toMsgMetadata\<close>).
\<close>

subsection \<open>Metadata translation\<close>

text \<open>The types of the values the Dubbo codec puts in \<open>std::any\<close>, beside strings and bools.\<close>

datatype dubbo_any =
    AnyInvocation rpc_invocation
  | AnyProtocolType DubboProtocolType
  | AnyU8 u8
  | AnyMessageType DubboMessageType
  | AnyU32 u32
  | AnyOptU32 "u32 option"
  | AnySerializationType u8
  | AnyResponseStatus u8

fun message_type_of_dubbo :: "DubboMessageType \<Rightarrow> MessageType" where
  "message_type_of_dubbo DRequest = Request"
| "message_type_of_dubbo DResponse = Response"
| "message_type_of_dubbo DOneway = Oneway"
| "message_type_of_dubbo DException = MsgError"
| "message_type_of_dubbo DHeartbeatRequest = Heartbeat"
| "message_type_of_dubbo DHeartbeatResponse = Heartbeat"

definition toMetadata_msg ::
  "'h header_ops \<Rightarrow> dubbo_metadata \<Rightarrow> (dubbo_any, 'b, 'h) metadata \<Rightarrow> (dubbo_any, 'b, 'h) metadata" where
  "toMetadata_msg H msgMetadata metadata =
     (let m1 =
        (case dm_invocation_info msgMetadata of
           None \<Rightarrow> metadata
         | Some invo \<Rightarrow>
             Metadata_put
               (Metadata_putString H
                 (Metadata_putString H metadata ''interface'' (inv_service_name invo))
                 ''method'' (inv_method_name invo))
               ''InvocationInfo'' (AnyOther (AnyInvocation invo)));
          m2 = Metadata_put m1 ''ProtocolType'' (AnyOther (AnyProtocolType (dm_proto_type msgMetadata)));
          m3 = Metadata_put m2 ''ProtocolVersion'' (AnyOther (AnyU8 (dm_protocol_version msgMetadata)));
          m4 = Metadata_put m3 ''MessageType'' (AnyOther (AnyMessageType (dm_message_type msgMetadata)));
          m5 = m4\<lparr>md_request_id := dm_request_id msgMetadata\<rparr>;
          m6 = (if dm_timeout msgMetadata \<noteq> None
                then Metadata_put m5 ''Timeout'' (AnyOther (AnyOptU32 (dm_timeout msgMetadata)))
                else m5);
          m7 = Metadata_put m6 ''TwoWay'' (AnyBool (dm_is_two_way msgMetadata));
          m8 = Metadata_put m7 ''SerializationType''
                 (AnyOther (AnySerializationType (dm_serialization_type msgMetadata)));
          m9 = (case dm_response_status msgMetadata of
                  Some s \<Rightarrow> Metadata_put m8 ''ResponseStatus'' (AnyOther (AnyResponseStatus s))
                | None \<Rightarrow> m8);
          m10 = m9\<lparr>md_message_type := message_type_of_dubbo (dm_message_type msgMetadata)\<rparr>
      in case dm_response_status msgMetadata of
           Some s \<Rightarrow>
             if s = u8_of_response_status DOk then m10\<lparr>md_response_status := StatusOk\<rparr>
             else m10\<lparr>md_response_status := StatusError\<rparr>
         | None \<Rightarrow> m10)"

definition toMetadata ::
  "'h header_ops \<Rightarrow> dubbo_metadata \<Rightarrow> 'b dubbo_context \<Rightarrow> (dubbo_any, 'b, 'h) metadata \<Rightarrow>
   (dubbo_any, 'b, 'h) metadata" where
  "toMetadata H msgMetadata context metadata =
     (toMetadata_msg H msgMetadata metadata)
       \<lparr>md_header_size := ctx_header_size context,
        md_body_size := ctx_body_size context,
        md_origin_message := ctx_origin_message context\<rparr>"

text \<open>\<open>std::any_cast\<close> to the types above; any other type throws \<open>bad_any_cast\<close>.\<close>

fun cast_invocation :: "dubbo_any std_any \<Rightarrow> exn + rpc_invocation" where
  "cast_invocation (AnyOther (AnyInvocation i)) = Inr i" | "cast_invocation _ = Inl BadAnyCast"

fun cast_protocol_type :: "dubbo_any std_any \<Rightarrow> exn + DubboProtocolType" where
  "cast_protocol_type (AnyOther (AnyProtocolType p)) = Inr p"
| "cast_protocol_type _ = Inl BadAnyCast"

fun cast_u8 :: "dubbo_any std_any \<Rightarrow> exn + u8" where
  "cast_u8 (AnyOther (AnyU8 x)) = Inr x" | "cast_u8 _ = Inl BadAnyCast"

fun cast_message_type :: "dubbo_any std_any \<Rightarrow> exn + DubboMessageType" where
  "cast_message_type (AnyOther (AnyMessageType t)) = Inr t"
| "cast_message_type _ = Inl BadAnyCast"

fun cast_u32 :: "dubbo_any std_any \<Rightarrow> exn + u32" where
  "cast_u32 (AnyOther (AnyU32 x)) = Inr x" | "cast_u32 _ = Inl BadAnyCast"

fun cast_serialization_type :: "dubbo_any std_any \<Rightarrow> exn + u8" where
  "cast_serialization_type (AnyOther (AnySerializationType s)) = Inr s"
| "cast_serialization_type _ = Inl BadAnyCast"

fun cast_response_status :: "dubbo_any std_any \<Rightarrow> exn + u8" where
  "cast_response_status (AnyOther (AnyResponseStatus s)) = Inr s"
| "cast_response_status _ = Inl BadAnyCast"

text \<open>
  A key that must be there: \<open>assert(ref.has_value())\<close>, then the cast. A key that may be there:
  the cast only where it is.
\<close>

definition required ::
  "'x std_any option \<Rightarrow> ('x std_any \<Rightarrow> exn + 'a) \<Rightarrow> 's \<Rightarrow> ('a, 's) outcome" where
  "required ref cast s =
     (case ref of None \<Rightarrow> (Inl (Panic ''assert(ref.has_value())''), s) | Some v \<Rightarrow> (cast v, s))"

definition optional ::
  "'x std_any option \<Rightarrow> ('x std_any \<Rightarrow> exn + 'a) \<Rightarrow> 's \<Rightarrow> ('a option, 's) outcome" where
  "optional ref cast s =
     (case ref of
        None \<Rightarrow> (Inr None, s)
      | Some v \<Rightarrow> (case cast v of Inl e \<Rightarrow> (Inl e, s) | Inr x \<Rightarrow> (Inr (Some x), s)))"

lemma required_Some [simp]: "required (Some v) cast s = (cast v, s)"
  by (simp add: required_def)

lemma optional_None [simp]: "optional None cast s = (Inr None, s)"
  by (simp add: optional_def)

lemma optional_Some [simp]: "cast v = Inr x \<Longrightarrow> optional (Some v) cast s = (Inr (Some x), s)"
  by (simp add: optional_def)

lemma optional_bad [simp]: "cast v = Inl e \<Longrightarrow> optional (Some v) cast s = (Inl e, s)"
  by (simp add: optional_def)

definition toMsgMetadata ::
  "(dubbo_any, 'b, 'h) metadata \<Rightarrow> dubbo_metadata \<Rightarrow> (unit, dubbo_metadata) outcome" where
  "toMsgMetadata metadata msgMetadata =
     (let m0 = msgMetadata\<lparr>dm_request_id := md_request_id metadata\<rparr> in
      and_then (optional (Metadata_get metadata ''InvocationInfo'') cast_invocation m0) (\<lambda>invo m.
      let m = (case invo of Some i \<Rightarrow> m\<lparr>dm_invocation_info := Some i\<rparr> | None \<Rightarrow> m) in
      and_then (required (Metadata_get metadata ''ProtocolType'') cast_protocol_type m) (\<lambda>p m.
      let m = m\<lparr>dm_proto_type := p\<rparr> in
      and_then (required (Metadata_get metadata ''ProtocolVersion'') cast_u8 m) (\<lambda>v m.
      let m = m\<lparr>dm_protocol_version := v\<rparr> in
      and_then (required (Metadata_get metadata ''MessageType'') cast_message_type m) (\<lambda>t m.
      let m = m\<lparr>dm_message_type := t\<rparr> in
      and_then (optional (Metadata_get metadata ''Timeout'') cast_u32 m) (\<lambda>timeout m.
      let m = (case timeout of Some x \<Rightarrow> m\<lparr>dm_timeout := Some x\<rparr> | None \<Rightarrow> m) in
      and_then (required (Metadata_get metadata ''TwoWay'') Inr m) (\<lambda>_ m.
      and_then (Metadata_getBool metadata ''TwoWay'', m) (\<lambda>two_way m.
      let m = m\<lparr>dm_is_two_way := two_way\<rparr> in
      and_then (required (Metadata_get metadata ''SerializationType'') cast_serialization_type m) (\<lambda>s m.
      let m = setSerializationType s m in
      and_then (optional (Metadata_get metadata ''ResponseStatus'') cast_response_status m) (\<lambda>status m.
      (Inr (), (case status of Some r \<Rightarrow> setResponseStatus r m | None \<Rightarrow> m))))))))))))"

subsection \<open>The decoder state machine\<close>

datatype DubboProtocolState =
  DStopIteration | DWaitForData | DOnDecodeStreamHeader | DOnDecodeStreamData | DDone

record 'b dubbo_sm =
  sm_metadata :: dubbo_metadata
  sm_context :: "'b dubbo_context option"
  sm_state :: DubboProtocolState

definition DubboDecoderStateMachine :: "'b dubbo_sm" where
  "DubboDecoderStateMachine =
     \<lparr>sm_metadata = MessageMetadata, sm_context = None, sm_state = DOnDecodeStreamHeader\<rparr>"

definition onDecodeStreamHeader ::
  "'b buffer_ops \<Rightarrow> 'b \<Rightarrow> 'b dubbo_sm \<Rightarrow> (DubboProtocolState, 'b \<times> 'b dubbo_sm) outcome" where
  "onDecodeStreamHeader B buffer sm =
     (let (ret, md) = decodeHeader B buffer (Some (sm_metadata sm));
          sm = (case md of Some m \<Rightarrow> sm\<lparr>sm_metadata := m\<rparr> | None \<Rightarrow> sm)
      in case ret of
           Inl e \<Rightarrow> (Inl e, (buffer, sm))
         | Inr (ctx, second) \<Rightarrow>
             if \<not> second then (Inr DWaitForData, (buffer, sm))
             else
               (let sm = sm\<lparr>sm_context := ctx\<rparr>
                in case ctx of
                     None \<Rightarrow> (Inl (Panic ''null context_''), (buffer, sm))
                   | Some context \<Rightarrow>
                       (let size = unat (ctx_header_size context + ctx_body_size context)
                        in if dm_message_type (sm_metadata sm) \<in> {DHeartbeatRequest, DHeartbeatResponse} then
                             if buf_length B buffer < size then (Inr DWaitForData, (buffer, sm))
                             else
                               (let (origin, buffer) = buf_move B (ctx_origin_message context) buffer size
                                in (Inr DDone, (buffer, sm\<lparr>sm_context :=
                                     Some (context\<lparr>ctx_origin_message := origin\<rparr>)\<rparr>)))
                           else
                             (let (origin, buffer) =
                                buf_move B (ctx_origin_message context) buffer (unat (ctx_header_size context))
                              in (Inr DOnDecodeStreamData, (buffer, sm\<lparr>sm_context :=
                                   Some (context\<lparr>ctx_origin_message := origin\<rparr>)\<rparr>))))))"

definition onDecodeStreamData ::
  "'b buffer_ops \<Rightarrow> 'b serializer \<Rightarrow> 'b \<Rightarrow> 'b dubbo_sm \<Rightarrow>
   (DubboProtocolState, 'b \<times> 'b dubbo_sm) outcome" where
  "onDecodeStreamData B S buffer sm =
     (case sm_context sm of
        None \<Rightarrow> (Inl (Panic ''null context_''), (buffer, sm))
      | Some context \<Rightarrow>
          (let (ret, md) = decodeData B S buffer context (sm_metadata sm);
               sm = sm\<lparr>sm_metadata := md\<rparr>
           in case ret of
                Inl e \<Rightarrow> (Inl e, (buffer, sm))
              | Inr ok \<Rightarrow>
                  if \<not> ok then (Inr DWaitForData, (buffer, sm))
                  else
                    (let (origin, buffer) =
                       buf_move B (ctx_origin_message context) buffer (unat (ctx_body_size context))
                     in (Inr DDone, (buffer, sm\<lparr>sm_context :=
                          Some (context\<lparr>ctx_origin_message := origin\<rparr>)\<rparr>)))))"

definition dubbo_handleState ::
  "'b buffer_ops \<Rightarrow> 'b serializer \<Rightarrow> 'b \<Rightarrow> 'b dubbo_sm \<Rightarrow>
   (DubboProtocolState, 'b \<times> 'b dubbo_sm) outcome" where
  "dubbo_handleState B S buffer sm =
     (case sm_state sm of
        DOnDecodeStreamHeader \<Rightarrow> onDecodeStreamHeader B buffer sm
      | DOnDecodeStreamData \<Rightarrow> onDecodeStreamData B S buffer sm
      | _ \<Rightarrow> (Inl (Panic ''NOT_REACHED''), (buffer, sm)))"

text \<open>The states come in order, so the loop of \<open>run\<close> makes at most two turns.\<close>

fun state_rank :: "DubboProtocolState \<Rightarrow> nat" where
  "state_rank DOnDecodeStreamHeader = 2"
| "state_rank DOnDecodeStreamData = 1"
| "state_rank _ = 0"

lemma dubbo_handleState_rank:
  "dubbo_handleState B S b sm = (Inr nxt, (b', sm')) \<Longrightarrow> nxt \<noteq> DWaitForData \<Longrightarrow>
   state_rank nxt < state_rank (sm_state sm)"
  by (auto simp: dubbo_handleState_def onDecodeStreamHeader_def onDecodeStreamData_def Let_def
      split: DubboProtocolState.splits prod.splits sum.splits option.splits if_splits)

function dubbo_run ::
  "'b buffer_ops \<Rightarrow> 'b serializer \<Rightarrow> 'b \<Rightarrow> 'b dubbo_sm \<Rightarrow>
   (DubboProtocolState, 'b \<times> 'b dubbo_sm) outcome" where
  "dubbo_run B S buffer sm =
     (if sm_state sm = DDone then (Inr (sm_state sm), (buffer, sm))
      else
        (case dubbo_handleState B S buffer sm of
           (Inl e, s) \<Rightarrow> (Inl e, s)
         | (Inr nextState, (buffer', sm')) \<Rightarrow>
             if nextState = DWaitForData then (Inr DWaitForData, (buffer', sm'))
             else dubbo_run B S buffer' (sm'\<lparr>sm_state := nextState\<rparr>)))"
  by pat_completeness auto
termination
  by (relation "measure (\<lambda>(B, S, b, sm). state_rank (sm_state sm))")
    (auto dest: dubbo_handleState_rank [OF sym])

declare dubbo_run.simps [simp del]

subsection \<open>The codec\<close>

record 'b dubbo_codec =
  dc_state_machine :: "'b dubbo_sm option"
  dc_decode_started :: bool

definition DubboCodec_init :: "'b dubbo_codec" where
  "DubboCodec_init = \<lparr>dc_state_machine = None, dc_decode_started = False\<rparr>"

definition DubboCodec_start :: "'b dubbo_codec \<Rightarrow> 'b dubbo_codec" where
  "DubboCodec_start c =
     c\<lparr>dc_state_machine := Some DubboDecoderStateMachine, dc_decode_started := True\<rparr>"

definition DubboCodec_complete :: "'b dubbo_codec \<Rightarrow> 'b dubbo_codec" where
  "DubboCodec_complete c = c\<lparr>dc_state_machine := None, dc_decode_started := False\<rparr>"

definition DubboCodec_decode ::
  "'b buffer_ops \<Rightarrow> 'h header_ops \<Rightarrow> 'b serializer \<Rightarrow> 'b dubbo_codec \<Rightarrow> 'b \<Rightarrow>
   (dubbo_any, 'b, 'h) metadata \<Rightarrow>
   (DecodeStatus, 'b dubbo_codec \<times> 'b \<times> (dubbo_any, 'b, 'h) metadata) outcome" where
  "DubboCodec_decode B H S c buffer metadata =
     (let c = (if \<not> dc_decode_started c then DubboCodec_start c else c)
      in case dc_state_machine c of
           None \<Rightarrow> (Inl (Panic ''null state_machine_''), (c, buffer, metadata))
         | Some sm \<Rightarrow>
             (let (ret, (buffer, sm)) = dubbo_run B S buffer sm;
                  c = c\<lparr>dc_state_machine := Some sm\<rparr>
              in case ret of
                   Inl e \<Rightarrow> (Inl e, (c, buffer, metadata))
                 | Inr state \<Rightarrow>
                     if state = DWaitForData then (Inr DecodeWaitForData, (c, buffer, metadata))
                     else if state \<noteq> DDone then
                       (Inl (Panic ''ASSERT(state == ProtocolState::Done)''), (c, buffer, metadata))
                     else
                       (case sm_context sm of
                          None \<Rightarrow> (Inl (Panic ''null messageContext()''), (c, buffer, metadata))
                        | Some context \<Rightarrow>
                            (Inr DecodeDone,
                             (DubboCodec_complete c, buffer,
                              toMetadata H (sm_metadata sm) context metadata)))))"

definition DubboCodec_encodeHeartbeat ::
  "'b buffer_ops \<Rightarrow> 'b serializer \<Rightarrow> (dubbo_any, 'b, 'h) metadata \<Rightarrow> 'b \<Rightarrow> (unit, 'b) outcome" where
  "DubboCodec_encodeHeartbeat B S metadata buffer =
     (case toMsgMetadata metadata MessageMetadata of
        (Inl e, _) \<Rightarrow> (Inl e, buffer)
      | (Inr _, msgMetadata) \<Rightarrow>
          (let m1 = setResponseStatus (u8_of_response_status DOk) msgMetadata;
               m2 = m1\<lparr>dm_message_type := DHeartbeatResponse\<rparr>
           in and_then (DubboProtocolImpl_encode B S buffer m2 [] ResponseWithValue) (\<lambda>ok buffer.
                if \<not> ok then (Inl (EnvoyException ''failed to encode heartbeat message''), buffer)
                else (Inr (), buffer))))"

definition DubboCodec_encode ::
  "'b buffer_ops \<Rightarrow> 'b serializer \<Rightarrow> (dubbo_any, 'b, 'h) metadata \<Rightarrow> dubbo_any mutation \<Rightarrow> 'b \<Rightarrow>
   (unit, 'b) outcome" where
  "DubboCodec_encode B S metadata mutation buffer =
     (if buf_length B buffer \<noteq> 0 then (Inl (Panic ''ASSERT(buffer.length() == 0)''), buffer)
      else
        (case md_message_type metadata of
           Heartbeat \<Rightarrow> DubboCodec_encodeHeartbeat B S metadata buffer
         | Request \<Rightarrow> (Inr (), buffer)
         | MsgError \<Rightarrow> (Inr (), buffer)
         | _ \<Rightarrow> (Inl (Panic ''NOT_REACHED''), buffer)))"

fun onError_status :: "ErrorType \<Rightarrow> DubboResponseStatus" where
  "onError_status RouteNotFound = ServiceNotFound"
| "onError_status BadResponse = DBadResponse"
| "onError_status _ = ServerError"

definition DubboCodec_onError ::
  "'b buffer_ops \<Rightarrow> 'b serializer \<Rightarrow> (dubbo_any, 'b, 'h) metadata \<Rightarrow> error \<Rightarrow> 'b \<Rightarrow>
   (unit, 'b) outcome" where
  "DubboCodec_onError B S metadata err buffer =
     (if buf_length B buffer \<noteq> 0 then (Inl (Panic ''ASSERT(buffer.length() == 0)''), buffer)
      else
        (case toMsgMetadata metadata MessageMetadata of
           (Inl e, _) \<Rightarrow> (Inl e, buffer)
         | (Inr _, msgMetadata) \<Rightarrow>
             (let m1 = setResponseStatus (u8_of_response_status DOk) msgMetadata;
                  m2 = m1\<lparr>dm_message_type := DResponse\<rparr>;
                  status = onError_status (err_type err);
                  m3 = setResponseStatus (u8_of_response_status status) m2
              in and_then
                   (DubboProtocolImpl_encode B S buffer m3 (err_message err) ResponseWithException)
                   (\<lambda>ok buffer.
                      if \<not> ok then
                        (Inl (EnvoyException ''failed to encode heartbeat message''), buffer)
                      else (Inr (), buffer)))))"

text \<open>The codec object the proxy calls, over the interface of codec.h.\<close>

definition DubboCodec ::
  "'b buffer_ops \<Rightarrow> 'h header_ops \<Rightarrow> 'b serializer \<Rightarrow>
   ('b dubbo_codec, dubbo_any, 'b, 'h) codec" where
  "DubboCodec B H S =
     \<lparr>codec_decode = DubboCodec_decode B H S,
      codec_encode = (\<lambda>c metadata mutation buffer.
        apsnd (\<lambda>b. (c, b)) (DubboCodec_encode B S metadata mutation buffer)),
      codec_onError = (\<lambda>c metadata err buffer.
        apsnd (\<lambda>b. (c, b)) (DubboCodec_onError B S metadata err buffer))\<rparr>"

end
