(* ===== verification/Dubbo_Run.thy ===== *)
theory Dubbo_Run
  imports Dubbo_Codec
begin

text \<open>
  What one call of the Dubbo state machine does, case by case over the bytes in the buffer, and
  what follows for the codec: its invariant, the conservation of bytes, and the independence of
  the result from the way the stream was cut into reads.
\<close>

subsection \<open>Views: values with each buffer replaced by its content\<close>

definition ctx_view :: "('b \<Rightarrow> u8 list) \<Rightarrow> 'b dubbo_context \<Rightarrow> u8 list dubbo_context" where
  "ctx_view content c =
     \<lparr>ctx_origin_message = content (ctx_origin_message c), ctx_header_size = ctx_header_size c,
      ctx_body_size = ctx_body_size c, ctx_is_heartbeat = ctx_is_heartbeat c\<rparr>"

definition sm_view :: "('b \<Rightarrow> u8 list) \<Rightarrow> 'b dubbo_sm \<Rightarrow> u8 list dubbo_sm" where
  "sm_view content sm =
     \<lparr>sm_metadata = sm_metadata sm, sm_context = map_option (ctx_view content) (sm_context sm),
      sm_state = sm_state sm\<rparr>"

definition codec_view :: "('b \<Rightarrow> u8 list) \<Rightarrow> 'b dubbo_codec \<Rightarrow> u8 list dubbo_codec" where
  "codec_view content c =
     \<lparr>dc_state_machine = map_option (sm_view content) (dc_state_machine c),
      dc_decode_started = dc_decode_started c\<rparr>"

subsection \<open>Invariants\<close>

text \<open>
  Between two calls the machine waits either for a header (or for the rest of a heartbeat), or
  for the body of a message whose header it has taken off the stream.
\<close>

definition data_ok :: "('b \<Rightarrow> u8 list) \<Rightarrow> 'b dubbo_sm \<Rightarrow> bool" where
  "data_ok content sm =
     (case sm_context sm of
        None \<Rightarrow> False
      | Some c \<Rightarrow>
          ctx_header_size c = 16 \<and> unat (ctx_body_size c) \<le> 16777216 \<and>
          length (content (ctx_origin_message c)) = 16 \<and>
          dm_message_type (sm_metadata sm) \<in> {DRequest, DOneway, DResponse})"

definition sm_ok :: "('b \<Rightarrow> u8 list) \<Rightarrow> 'b dubbo_sm \<Rightarrow> bool" where
  "sm_ok content sm =
     (sm_state sm = DOnDecodeStreamHeader \<or>
      sm_state sm = DOnDecodeStreamData \<and> data_ok content sm)"

text \<open>Bytes of the current message the machine has already taken from the stream.\<close>

definition sm_pending :: "('b \<Rightarrow> u8 list) \<Rightarrow> 'b dubbo_sm \<Rightarrow> u8 list" where
  "sm_pending content sm =
     (if sm_state sm = DOnDecodeStreamData then
        (case sm_context sm of Some c \<Rightarrow> content (ctx_origin_message c) | None \<Rightarrow> [])
      else [])"

definition codec_ok :: "('b \<Rightarrow> u8 list) \<Rightarrow> 'b dubbo_codec \<Rightarrow> bool" where
  "codec_ok content c =
     (case dc_state_machine c of
        None \<Rightarrow> \<not> dc_decode_started c
      | Some sm \<Rightarrow> dc_decode_started c \<and> sm_ok content sm \<and>
          (sm_state sm = DOnDecodeStreamData \<longrightarrow>
             (case sm_context sm of Some ctx \<Rightarrow> 0 < unat (ctx_body_size ctx) | None \<Rightarrow> False)))"

definition codec_pending :: "('b \<Rightarrow> u8 list) \<Rightarrow> 'b dubbo_codec \<Rightarrow> u8 list" where
  "codec_pending content c =
     (case dc_state_machine c of None \<Rightarrow> [] | Some sm \<Rightarrow> sm_pending content sm)"

subsection \<open>One turn in each state\<close>

lemma unat_16_plus:
  assumes "unat (n :: u64) \<le> 16777216"
  shows "unat (16 + n) = 16 + unat n"
  using assms by (simp add: unat_word_ariths)

lemma dubbo_run_step:
  "sm_state sm \<noteq> DDone \<Longrightarrow>
   dubbo_run B S b sm =
     (case dubbo_handleState B S b sm of
        (Inl e, s) \<Rightarrow> (Inl e, s)
      | (Inr nextState, (b', sm')) \<Rightarrow>
          if nextState = DWaitForData then (Inr DWaitForData, (b', sm'))
          else dubbo_run B S b' (sm'\<lparr>sm_state := nextState\<rparr>))"
  by (simp add: dubbo_run.simps [of B S b sm])

lemma dubbo_run_done: "sm_state sm = DDone \<Longrightarrow> dubbo_run B S b sm = (Inr DDone, (b, sm))"
  by (simp add: dubbo_run.simps)

context envoy_buffer
begin

lemma run_header_short:
  assumes "sm_state sm = DOnDecodeStreamHeader" and "length (content b) < 16"
  shows "dubbo_run B S b sm = (Inr DWaitForData, (b, sm))"
  using assms by (simp add: dubbo_run_step dubbo_handleState_def onDecodeStreamHeader_def
      decodeHeader_short)

text \<open>A header that is refused: the exception and the metadata it leaves.\<close>

lemma run_header_error:
  assumes "sm_state sm = DOnDecodeStreamHeader"
    and "decodeHeader_metadata B b (sm_metadata sm) = (Inl e, m)"
  shows "dubbo_run B S b sm = (Inl e, (b, sm\<lparr>sm_metadata := m\<rparr>))"
  using assms by (simp add: dubbo_run_step dubbo_handleState_def onDecodeStreamHeader_def)

lemma header_cases:
  obtains (short) "length (content b) < 16"
  | (bad) e where "\<And>m. \<exists>m'. decodeHeader_metadata B b m = (Inl e, m')" "is_envoy_exception e"
      "16 \<le> length (content b)"
  | (header) flag status i n rest where "content b = header_bytes flag status i n @ rest"
      "valid_header flag status n"
proof (cases "length (content b) < 16")
  case True
  then show thesis by (rule short)
next
  case long: False
  show thesis
  proof (cases "(be_word (take 2 (content b)) :: u16) = MagicNumber")
    case False
    with long decodeHeader_bad_magic [of b] show thesis by (intro bad) auto
  next
    case True
    then obtain flag status i n rest where h: "content b = header_bytes flag status i n @ rest"
      using header_bytes_exist [of "content b"] long by (metis not_less)
    show thesis
    proof (cases "valid_header flag status n")
      case True
      with h show thesis by (rule header)
    next
      case False
      show thesis
      proof (cases "valid_size n")
        case v: True
        with False consider "flag_request flag" "flag AND SerializationTypeMask \<noteq> 2"
          | "\<not> flag_request flag" "\<not> isValidResponseStatus status"
          by (auto simp: valid_header_def split: if_splits)
        then show thesis
          using decodeHeader_bad_serialization [OF h v] decodeHeader_bad_status [OF h v] long
          by cases (auto intro!: bad)
      qed (use decodeHeader_bad_size [OF h] long in \<open>auto intro!: bad\<close>)
    qed
  qed
qed

lemma header_metadata_type [simp]:
  "dm_message_type (header_metadata flag status i m) = header_type flag"
  by (simp add: header_metadata_def Let_def)

lemma header_metadata_idem [simp]:
  "header_metadata flag status i (header_metadata flag status i m) = header_metadata flag status i m"
  by (simp add: header_metadata_def Let_def)

lemma header_size_unat:
  assumes "valid_header flag status n"
  shows "unat (16 + (ucast n :: u64)) = 16 + unat n"
    and "unat (ucast n :: u64) = unat n"
  using assms valid_size_unat [of n] unat_ucast_32_64 [of n]
  by (simp_all add: valid_header_def unat_16_plus)

lemma run_heartbeat_wait:
  assumes "sm_state sm = DOnDecodeStreamHeader"
    and "content b = header_bytes flag status i n @ rest" and "valid_header flag status n"
    and "flag_event flag" and "length rest < unat n"
  shows "dubbo_run B S b sm = (Inr DWaitForData,
    (b, sm\<lparr>sm_metadata := header_metadata flag status i (sm_metadata sm),
           sm_context := Some (header_context B flag n)\<rparr>))"
  using assms(1,2,4,5) decodeHeader_valid [OF assms(2,3)] header_type_simps(1) [of flag]
    header_size_unat [OF assms(3)]
  by (simp add: dubbo_run_step dubbo_handleState_def onDecodeStreamHeader_def header_context_def
      length_content)

lemma run_heartbeat_done:
  assumes "sm_state sm = DOnDecodeStreamHeader"
    and "content b = header_bytes flag status i n @ rest" and "valid_header flag status n"
    and "flag_event flag" and "unat n \<le> length rest"
  obtains o' b' where
    "dubbo_run B S b sm = (Inr DDone,
      (b', sm\<lparr>sm_metadata := header_metadata flag status i (sm_metadata sm),
             sm_context := Some ((header_context B flag n)\<lparr>ctx_origin_message := o'\<rparr>),
             sm_state := DDone\<rparr>))"
    "content o' = header_bytes flag status i n @ take (unat n) rest" "content b' = drop (unat n) rest"
proof -
  have le: "16 + unat n \<le> length (content b)" using assms(2,5) by simp
  obtain o' b' where mv: "buf_move B (buf_new B) b (16 + unat n) = (o', b')"
    "content o' = content (buf_new B) @ take (16 + unat n) (content b)"
    "content b' = drop (16 + unat n) (content b)"
    using moveE [OF le] .
  have "content o' = header_bytes flag status i n @ take (unat n) rest"
    "content b' = drop (unat n) rest"
    using mv(2,3) assms(2) by (simp_all add: new_content)
  moreover have "dubbo_run B S b sm = (Inr DDone,
      (b', sm\<lparr>sm_metadata := header_metadata flag status i (sm_metadata sm),
             sm_context := Some ((header_context B flag n)\<lparr>ctx_origin_message := o'\<rparr>),
             sm_state := DDone\<rparr>))"
    using assms(1,2,4,5) decodeHeader_valid [OF assms(2,3)] header_type_simps(1) [of flag]
      header_size_unat [OF assms(3)] mv(1)
    by (simp add: dubbo_run_step dubbo_handleState_def onDecodeStreamHeader_def header_context_def
        length_content dubbo_run_done)
  ultimately show thesis using that by blast
qed

lemma run_header_then_data:
  assumes "sm_state sm = DOnDecodeStreamHeader"
    and "content b = header_bytes flag status i n @ rest" and "valid_header flag status n"
    and "\<not> flag_event flag"
  obtains o' b' where
    "dubbo_run B S b sm = dubbo_run B S b'
      (sm\<lparr>sm_metadata := header_metadata flag status i (sm_metadata sm),
         sm_context := Some ((header_context B flag n)\<lparr>ctx_origin_message := o'\<rparr>),
         sm_state := DOnDecodeStreamData\<rparr>)"
    "content o' = header_bytes flag status i n" "content b' = rest"
proof -
  have le: "16 \<le> length (content b)" using assms(2) by simp
  obtain o' b' where mv: "buf_move B (buf_new B) b 16 = (o', b')"
    "content o' = content (buf_new B) @ take 16 (content b)" "content b' = drop 16 (content b)"
    using moveE [OF le] .
  have "content o' = header_bytes flag status i n" "content b' = rest"
    using mv(2,3) assms(2) by (simp_all add: new_content)
  moreover have "dubbo_run B S b sm = dubbo_run B S b'
      (sm\<lparr>sm_metadata := header_metadata flag status i (sm_metadata sm),
         sm_context := Some ((header_context B flag n)\<lparr>ctx_origin_message := o'\<rparr>),
         sm_state := DOnDecodeStreamData\<rparr>)"
    using assms(1,4) decodeHeader_valid [OF assms(2,3)] header_type_simps(1) [of flag] mv(1)
    by (simp add: dubbo_run_step dubbo_handleState_def onDecodeStreamHeader_def header_context_def)
  ultimately show thesis using that by blast
qed

lemma run_data_wait:
  assumes "sm_state sm = DOnDecodeStreamData" and "sm_context sm = Some c"
    and "length (content b) < unat (ctx_body_size c)"
  shows "dubbo_run B S b sm = (Inr DWaitForData, (b, sm))"
  using assms by (simp add: dubbo_run_step dubbo_handleState_def onDecodeStreamData_def
      decodeData_def length_content)

end

subsection \<open>The body\<close>

text \<open>
  What decoding a complete body does to the metadata: an invocation for a request, the exception
  flag of the result for a response.
\<close>

definition body_outcome ::
  "'b serializer \<Rightarrow> 'b \<Rightarrow> 'b dubbo_context \<Rightarrow> dubbo_metadata \<Rightarrow> exn + dubbo_metadata" where
  "body_outcome S b c m =
     (if dm_message_type m \<in> {DOneway, DRequest} then
        (case ser_deserializeRpcInvocation S b c of
           Inl e \<Rightarrow> Inl e
         | Inr (invo, _) \<Rightarrow> Inr (m\<lparr>dm_invocation_info := Some invo\<rparr>))
      else
        (case ser_deserializeRpcResult S b c of
           Inl e \<Rightarrow> Inl e
         | Inr (r, _) \<Rightarrow> Inr (if res_has_exception r then m\<lparr>dm_message_type := DException\<rparr> else m)))"

context rpc_serializer
begin

lemma run_data_error:
  assumes "sm_state sm = DOnDecodeStreamData" and "sm_context sm = Some c"
    and "unat (ctx_body_size c) \<le> length (content b)"
    and "dm_message_type (sm_metadata sm) \<in> {DRequest, DOneway, DResponse}"
    and "body_outcome S b c (sm_metadata sm) = Inl e"
  shows "dubbo_run B S b sm = (Inl e, (b, sm))"
  using assms
  by (auto simp: dubbo_run_step dubbo_handleState_def onDecodeStreamData_def decodeData_def
      body_outcome_def length_content and_then_def not_less split: sum.splits prod.splits if_splits)

lemma run_data_done:
  assumes "sm_state sm = DOnDecodeStreamData" and "sm_context sm = Some c"
    and "unat (ctx_body_size c) \<le> length (content b)"
    and "dm_message_type (sm_metadata sm) \<in> {DRequest, DOneway, DResponse}"
    and "body_outcome S b c (sm_metadata sm) = Inr m"
  obtains o' b' where
    "dubbo_run B S b sm = (Inr DDone,
      (b', sm\<lparr>sm_metadata := m, sm_context := Some (c\<lparr>ctx_origin_message := o'\<rparr>),
             sm_state := DDone\<rparr>))"
    "content o' = content (ctx_origin_message c) @ take (unat (ctx_body_size c)) (content b)"
    "content b' = drop (unat (ctx_body_size c)) (content b)"
proof -
  obtain o' b' where
    mv: "buf_move B (ctx_origin_message c) b (unat (ctx_body_size c)) = (o', b')" and
    cont: "content o' = content (ctx_origin_message c) @ take (unat (ctx_body_size c)) (content b)"
      "content b' = drop (unat (ctx_body_size c)) (content b)"
    using moveE [OF assms(3)] .
  have "decodeData B S b c (sm_metadata sm) = (Inr True, m)"
    using assms(3,4,5)
    by (auto simp: decodeData_def body_outcome_def length_content not_less
        split: sum.splits prod.splits if_splits dest: invocation_complete result_complete)
  then have "dubbo_run B S b sm = (Inr DDone,
      (b', sm\<lparr>sm_metadata := m, sm_context := Some (c\<lparr>ctx_origin_message := o'\<rparr>),
             sm_state := DDone\<rparr>))"
    using assms(1,2) mv
    by (simp add: dubbo_run_step dubbo_handleState_def onDecodeStreamData_def dubbo_run_done)
  then show thesis using cont that by blast
qed

text \<open>The body is read from the bytes of the body alone.\<close>

lemma body_outcome_local:
  assumes "unat (ctx_body_size c) \<le> length (content b)"
    and "unat (ctx_body_size c) \<le> length (content b')"
    and "take (unat (ctx_body_size c)) (content b) = take (unat (ctx_body_size c)) (content b')"
    and "ctx_header_size c = ctx_header_size c'" and "ctx_body_size c = ctx_body_size c'"
  shows "agree (body_outcome S b c m) (body_outcome S b' c' m)"
proof -
  have "agree (ser_deserializeRpcInvocation S b c) (ser_deserializeRpcInvocation S b' c')"
    using invocation_local [OF assms(1-3)] invocation_context [OF assms(4,5)] by simp
  moreover have "agree (ser_deserializeRpcResult S b c) (ser_deserializeRpcResult S b' c')"
    using result_local [OF assms(1-3)] result_context [OF assms(5)] by simp
  ultimately show ?thesis
    by (cases "ser_deserializeRpcInvocation S b c"; cases "ser_deserializeRpcInvocation S b' c'";
        cases "ser_deserializeRpcResult S b c"; cases "ser_deserializeRpcResult S b' c'")
      (auto simp: body_outcome_def split: prod.splits)
qed

lemma body_outcome_Inl:
  assumes "unat (ctx_body_size c) \<le> length (content b)" and "body_outcome S b c m = Inl e"
  shows "is_envoy_exception e"
  using body_outcome_local [OF assms(1,1) refl refl refl, of m] assms(2) by simp

lemma body_outcome_type:
  "body_outcome S b c m = Inr m' \<Longrightarrow> dm_message_type m \<in> {DRequest, DOneway, DResponse} \<Longrightarrow>
   dm_message_type m' \<in> {DRequest, DOneway, DResponse, DException} \<and>
   dm_request_id m' = dm_request_id m"
  by (auto simp: body_outcome_def split: sum.splits prod.splits if_splits)

end

end
