(* ===== verification/Dubbo_Stream.thy ===== *)
theory Dubbo_Stream
  imports Dubbo_Run
begin

text \<open>
  The Dubbo codec as a reader of a byte stream: its invariant is kept, it meets the contracts of
  \<open>Meta_Codec\<close>, and cutting the stream into reads does not change what is decoded.
\<close>

subsection \<open>Runs of the state machine\<close>

text \<open>
  The stream a machine and a buffer stand for, and what a run leaves of it, for each outcome.
\<close>

definition run_result_ok ::
  "('b \<Rightarrow> u8 list) \<Rightarrow> 'b \<Rightarrow> 'b dubbo_sm \<Rightarrow>
   (DubboProtocolState, 'b \<times> 'b dubbo_sm) outcome \<Rightarrow> bool" where
  "run_result_ok content b sm r =
     (case r of
        (Inl e, _) \<Rightarrow> is_envoy_exception e
      | (Inr st, (b', sm')) \<Rightarrow>
          (if st = DWaitForData then
             sm_ok content sm' \<and> sm_pending content sm' @ content b' = sm_pending content sm @ content b \<and>
             (\<forall>c. sm_state sm' = DOnDecodeStreamData \<longrightarrow> sm_context sm' = Some c \<longrightarrow>
                0 < unat (ctx_body_size c))
           else
             st = DDone \<and>
             (\<exists>c. sm_context sm' = Some c \<and> ctx_header_size c = 16 \<and>
                unat (ctx_body_size c) \<le> 16777216 \<and>
                length (content (ctx_origin_message c)) = 16 + unat (ctx_body_size c) \<and>
                content (ctx_origin_message c) @ content b' = sm_pending content sm @ content b)))"

lemma run_result_ok_stream:
  assumes "run_result_ok content b sm r"
    and "sm_pending content sm @ content b = sm_pending content sm' @ content b'"
  shows "run_result_ok content b' sm' r"
  using assms(1) unfolding run_result_ok_def assms(2) .

context rpc_serializer
begin

lemma run_data_ok:
  assumes "sm_state sm = DOnDecodeStreamData" and "data_ok content sm"
  shows "run_result_ok content b sm (dubbo_run B S b sm)"
proof -
  from assms(2) obtain c where c: "sm_context sm = Some c" "ctx_header_size c = 16"
      "unat (ctx_body_size c) \<le> 16777216" "length (content (ctx_origin_message c)) = 16"
      "dm_message_type (sm_metadata sm) \<in> {DRequest, DOneway, DResponse}"
    by (auto simp: data_ok_def split: option.splits)
  show ?thesis
  proof (cases "length (content b) < unat (ctx_body_size c)")
    case True
    then show ?thesis
      using run_data_wait [OF assms(1) c(1) True] assms c
      by (simp add: run_result_ok_def sm_ok_def data_ok_def)
  next
    case False
    then have len: "unat (ctx_body_size c) \<le> length (content b)" by simp
    show ?thesis
    proof (cases "body_outcome S b c (sm_metadata sm)")
      case (Inl e)
      then show ?thesis
        using run_data_error [OF assms(1) c(1) len c(5) Inl] body_outcome_Inl [OF len Inl]
        by (simp add: run_result_ok_def)
    next
      case (Inr m)
      obtain o' b' where r: "dubbo_run B S b sm = (Inr DDone,
          (b', sm\<lparr>sm_metadata := m, sm_context := Some (c\<lparr>ctx_origin_message := o'\<rparr>),
                 sm_state := DDone\<rparr>))"
        "content o' = content (ctx_origin_message c) @ take (unat (ctx_body_size c)) (content b)"
        "content b' = drop (unat (ctx_body_size c)) (content b)"
        using run_data_done [OF assms(1) c(1) len c(5) Inr] .
      then show ?thesis
        using assms(1) c len by (simp add: run_result_ok_def sm_pending_def)
    qed
  qed
qed

lemma run_header_ok:
  assumes "sm_state sm = DOnDecodeStreamHeader"
  shows "run_result_ok content b sm (dubbo_run B S b sm)"
proof (cases rule: header_cases [of b])
  case short
  then show ?thesis
    using assms by (simp add: run_header_short run_result_ok_def sm_ok_def sm_pending_def)
next
  case (bad e)
  then obtain m' where "decodeHeader_metadata B b (sm_metadata sm) = (Inl e, m')" by blast
  then show ?thesis
    using run_header_error [OF assms] bad(2) by (simp add: run_result_ok_def)
next
  case (header flag status i n rest)
  note sizes = header_size_unat [OF header(2)]
  have n: "unat n \<le> 16777216"
    using header(2) valid_size_unat by (auto simp: valid_header_def)
  show ?thesis
  proof (cases "flag_event flag")
    case event: True
    show ?thesis
    proof (cases "length rest < unat n")
      case True
      then show ?thesis
        using run_heartbeat_wait [OF assms header event True] assms
        by (simp add: run_result_ok_def sm_ok_def sm_pending_def)
    next
      case False
      then have le: "unat n \<le> length rest" by simp
      obtain o' b' where "dubbo_run B S b sm = (Inr DDone,
          (b', sm\<lparr>sm_metadata := header_metadata flag status i (sm_metadata sm),
                 sm_context := Some ((header_context B flag n)\<lparr>ctx_origin_message := o'\<rparr>),
                 sm_state := DDone\<rparr>))"
        "content o' = header_bytes flag status i n @ take (unat n) rest"
        "content b' = drop (unat n) rest"
        using run_heartbeat_done [OF assms header event le] .
      then show ?thesis
        using assms n sizes header(1) le
        by (simp add: run_result_ok_def sm_pending_def header_context_def)
    qed
  next
    case False
    obtain o' b' where r: "dubbo_run B S b sm = dubbo_run B S b'
        (sm\<lparr>sm_metadata := header_metadata flag status i (sm_metadata sm),
           sm_context := Some ((header_context B flag n)\<lparr>ctx_origin_message := o'\<rparr>),
           sm_state := DOnDecodeStreamData\<rparr>)" (is "_ = dubbo_run B S b' ?sm'")
      "content o' = header_bytes flag status i n" "content b' = rest"
      using run_header_then_data [OF assms header False] .
    have "header_type flag \<in> {DRequest, DOneway, DResponse}"
      using False by (simp add: header_type_def)
    then have "data_ok content ?sm'"
      using r(2) n sizes by (simp add: data_ok_def header_context_def)
    then have "run_result_ok content b' ?sm' (dubbo_run B S b' ?sm')"
      by (intro run_data_ok) simp_all
    then have "run_result_ok content b sm (dubbo_run B S b' ?sm')"
      by (rule run_result_ok_stream)
        (use r header(1) assms in \<open>simp add: sm_pending_def header_context_def\<close>)
    with r(1) show ?thesis by simp
  qed
qed

lemma run_ok: "sm_ok content sm \<Longrightarrow> run_result_ok content b sm (dubbo_run B S b sm)"
  by (auto simp: sm_ok_def intro: run_header_ok run_data_ok)

end

subsection \<open>The codec\<close>

lemma codec_ok_init [simp]: "codec_ok content DubboCodec_init"
  by (simp add: codec_ok_def DubboCodec_init_def)

lemma codec_pending_init [simp]: "codec_pending content DubboCodec_init = []"
  by (simp add: codec_pending_def DubboCodec_init_def)

lemma codec_complete_simps [simp]:
  "codec_ok content (DubboCodec_complete c)" "codec_pending content (DubboCodec_complete c) = []"
  by (simp_all add: codec_ok_def codec_pending_def DubboCodec_complete_def)

text \<open>The machine \<open>decode\<close> runs: the one the codec holds, or a new one.\<close>

definition codec_machine :: "'b dubbo_codec \<Rightarrow> 'b dubbo_sm" where
  "codec_machine c =
     (case dc_state_machine c of None \<Rightarrow> DubboDecoderStateMachine | Some sm \<Rightarrow> sm)"

lemma codec_machine_ok:
  assumes "codec_ok content c"
  shows "sm_ok content (codec_machine c)"
    and "sm_pending content (codec_machine c) = codec_pending content c"
  using assms
  by (auto simp: codec_ok_def codec_machine_def codec_pending_def sm_ok_def sm_pending_def
      DubboDecoderStateMachine_def split: option.splits)

text \<open>\<open>decode\<close> in terms of the run of that machine.\<close>

lemma decode_by_run:
  assumes "codec_ok content c"
  shows "DubboCodec_decode B H S c b m =
    (case dubbo_run B S b (codec_machine c) of
       (Inl e, (b', sm')) \<Rightarrow>
         (Inl e, (\<lparr>dc_state_machine = Some sm', dc_decode_started = True\<rparr>, b', m))
     | (Inr st, (b', sm')) \<Rightarrow>
         (let c' = \<lparr>dc_state_machine = Some sm', dc_decode_started = True\<rparr>
          in if st = DWaitForData then (Inr DecodeWaitForData, (c', b', m))
             else if st \<noteq> DDone then
               (Inl (Panic ''ASSERT(state == ProtocolState::Done)''), (c', b', m))
             else
               (case sm_context sm' of
                  None \<Rightarrow> (Inl (Panic ''null messageContext()''), (c', b', m))
                | Some ctx \<Rightarrow>
                    (Inr DecodeDone,
                     (DubboCodec_complete c', b', toMetadata H (sm_metadata sm') ctx m)))))"
proof -
  have "(if \<not> dc_decode_started c then DubboCodec_start c else c) =
      \<lparr>dc_state_machine = Some (codec_machine c), dc_decode_started = True\<rparr>"
    using assms
    by (cases c) (auto simp: codec_ok_def codec_machine_def DubboCodec_start_def split: option.splits)
  then show ?thesis
    by (simp add: DubboCodec_decode_def Let_def split: prod.splits sum.splits)
qed

lemma toMetadata_origin [simp]:
  "md_origin_message (toMetadata H dm ctx m) = ctx_origin_message ctx"
  "md_header_size (toMetadata H dm ctx m) = ctx_header_size ctx"
  "md_body_size (toMetadata H dm ctx m) = ctx_body_size ctx"
  by (simp_all add: toMetadata_def)

text \<open>A codec that holds back a header waits for a body that is not empty.\<close>

lemma codec_pending_cases:
  assumes "codec_ok content c"
  obtains "codec_pending content c = []"
  | sm ctx where "dc_state_machine c = Some sm" "sm_state sm = DOnDecodeStreamData"
      "sm_context sm = Some ctx" "0 < unat (ctx_body_size ctx)" "data_ok content sm"
      "codec_pending content c = content (ctx_origin_message ctx)"
      "length (codec_pending content c) = 16"
  using assms
  by (auto simp: codec_ok_def codec_pending_def sm_pending_def sm_ok_def data_ok_def
      split: option.splits if_splits)

context rpc_serializer
begin

lemma decode_inv_dubbo:
  assumes "codec_ok content c" and "DubboCodec_decode B H S c b m = (Inr st, (c', b', m'))"
  shows "codec_ok content c'"
proof -
  have "run_result_ok content b (codec_machine c) (dubbo_run B S b (codec_machine c))"
    by (rule run_ok) (rule codec_machine_ok [OF assms(1)])
  then show ?thesis
    using assms(2) unfolding decode_by_run [OF assms(1)]
    by (auto simp: run_result_ok_def codec_ok_def sm_ok_def data_ok_def DubboCodec_complete_def
        Let_def split: prod.splits sum.splits if_splits option.splits)
qed

lemma decode_throws_dubbo:
  assumes "codec_ok content c" and "DubboCodec_decode B H S c b m = (Inl e, s)"
  shows "is_envoy_exception e"
proof -
  have "run_result_ok content b (codec_machine c) (dubbo_run B S b (codec_machine c))"
    by (rule run_ok) (rule codec_machine_ok [OF assms(1)])
  then show ?thesis
    using assms(2) unfolding decode_by_run [OF assms(1)]
    by (auto simp: run_result_ok_def Let_def split: prod.splits sum.splits if_splits option.splits)
qed

lemma decode_wait_dubbo:
  assumes "codec_ok content c"
    and "DubboCodec_decode B H S c b m = (Inr DecodeWaitForData, (c', b', m'))"
  shows "codec_pending content c' @ content b' = codec_pending content c @ content b \<and> m' = m"
proof -
  have "run_result_ok content b (codec_machine c) (dubbo_run B S b (codec_machine c))"
    by (rule run_ok) (rule codec_machine_ok [OF assms(1)])
  then show ?thesis
    using assms(2) codec_machine_ok(2) [OF assms(1)] unfolding decode_by_run [OF assms(1)]
    by (auto simp: run_result_ok_def codec_pending_def Let_def
        split: prod.splits sum.splits if_splits option.splits)
qed

text \<open>A complete message: its size fields, its bytes, and what is left.\<close>

lemma decode_done_dubbo:
  assumes "codec_ok content c"
    and "DubboCodec_decode B H S c b m = (Inr DecodeDone, (c', b', m'))"
  shows "content (md_origin_message m') @ content b' = codec_pending content c @ content b"
    and "codec_pending content c' = []"
    and "length (content (md_origin_message m')) = unat (getMessageSize m')"
    and "md_header_size m' = 16"
proof -
  have run: "run_result_ok content b (codec_machine c) (dubbo_run B S b (codec_machine c))"
    by (rule run_ok) (rule codec_machine_ok [OF assms(1)])
  show "content (md_origin_message m') @ content b' = codec_pending content c @ content b"
    "codec_pending content c' = []" "md_header_size m' = 16"
    "length (content (md_origin_message m')) = unat (getMessageSize m')"
    using run assms(2) codec_machine_ok(2) [OF assms(1)] unfolding decode_by_run [OF assms(1)]
    by (auto simp: run_result_ok_def getMessageSize_def unat_16_plus Let_def
        split: prod.splits sum.splits if_splits option.splits)
qed

text \<open>A body that was waited for takes at least one byte.\<close>

lemma run_data_progress:
  assumes "sm_state sm = DOnDecodeStreamData" "sm_context sm = Some c" "data_ok content sm"
    and "0 < unat (ctx_body_size c)" and "dubbo_run B S b sm = (Inr DDone, (b', sm'))"
  shows "length (content b') < length (content b)"
proof (cases "length (content b) < unat (ctx_body_size c)")
  case True
  then show ?thesis using run_data_wait [OF assms(1,2) True] assms(5) by simp
next
  case False
  then have len: "unat (ctx_body_size c) \<le> length (content b)" by simp
  have ty: "dm_message_type (sm_metadata sm) \<in> {DRequest, DOneway, DResponse}"
    using assms(2,3) by (simp add: data_ok_def)
  show ?thesis
  proof (cases "body_outcome S b c (sm_metadata sm)")
    case (Inl e)
    then show ?thesis using run_data_error [OF assms(1,2) len ty Inl] assms(5) by simp
  next
    case (Inr m)
    show ?thesis
      using run_data_done [OF assms(1,2) len ty Inr] assms(4,5) len
      by (metis (no_types, lifting) Pair_inject diff_less length_drop order_less_le_trans)
  qed
qed

lemma decode_progress_dubbo:
  assumes "codec_ok content c"
    and "DubboCodec_decode B H S c b m = (Inr DecodeDone, (c', b', m'))"
  shows "length (content b') < length (content b)"
  using assms(1)
proof (cases rule: codec_pending_cases)
  case 1
  have "length (content (md_origin_message m')) \<ge> 16"
  proof -
    have "run_result_ok content b (codec_machine c) (dubbo_run B S b (codec_machine c))"
      by (rule run_ok) (rule codec_machine_ok [OF assms(1)])
    then show ?thesis
      using assms(2) unfolding decode_by_run [OF assms(1)]
      by (auto simp: run_result_ok_def Let_def
          split: prod.splits sum.splits if_splits option.splits)
  qed
  then show ?thesis
    using arg_cong [OF decode_done_dubbo(1) [OF assms], of length] 1 by simp
next
  case (2 sm ctx)
  then have sm: "codec_machine c = sm" by (simp add: codec_machine_def)
  have "\<exists>sm'. dubbo_run B S b sm = (Inr DDone, (b', sm'))"
    using assms(2) unfolding decode_by_run [OF assms(1)] sm
    by (auto simp: Let_def split: prod.splits sum.splits if_splits option.splits)
  then show ?thesis using run_data_progress [OF 2(2,3,5,4)] by blast
qed

end

sublocale rpc_serializer \<subseteq> dubbo: transparent_codec B content
    "DubboCodec B (H :: 'h header_ops) S" "codec_ok content" "codec_pending content"
  by unfold_locales
    (auto simp: DubboCodec_def dest: decode_inv_dubbo decode_progress_dubbo decode_throws_dubbo
      decode_wait_dubbo decode_done_dubbo)

end
