(* ===== verification/Dubbo_Fragments.thy ===== *)
theory Dubbo_Fragments
  imports Dubbo_Stream
begin

text \<open>
  Cutting the stream into reads does not change what the Dubbo codec decodes: a run that stops
  for more data and is resumed with it ends as the run over all the data does, up to the
  identity of the buffers.
\<close>

subsection \<open>Runs that end alike\<close>

fun same_run ::
  "('b \<Rightarrow> u8 list) \<Rightarrow> (DubboProtocolState, 'b \<times> 'b dubbo_sm) outcome \<Rightarrow>
   (DubboProtocolState, 'b \<times> 'b dubbo_sm) outcome \<Rightarrow> bool" where
  "same_run content (Inl e, _) (Inl e', _) = (is_envoy_exception e \<and> is_envoy_exception e')"
| "same_run content (Inr st, (b, sm)) (Inr st', (b', sm')) =
     (st = st' \<and> content b = content b' \<and> sm_view content sm = sm_view content sm')"
| "same_run content _ _ = False"

fun same_decode ::
  "('b \<Rightarrow> u8 list) \<Rightarrow>
   (DecodeStatus, 'b dubbo_codec \<times> 'b \<times> ('x, 'b, 'h) metadata) outcome \<Rightarrow>
   (DecodeStatus, 'b dubbo_codec \<times> 'b \<times> ('x, 'b, 'h) metadata) outcome \<Rightarrow> bool" where
  "same_decode content (Inl e, _) (Inl e', _) = (is_envoy_exception e \<and> is_envoy_exception e')"
| "same_decode content (Inr st, (c, b, m)) (Inr st', (c', b', m')) =
     (st = st' \<and> content b = content b' \<and> codec_view content c = codec_view content c' \<and>
      metadata_view content m = metadata_view content m')"
| "same_decode content _ _ = False"

lemma header_bytes_inject:
  assumes "header_bytes f s i n @ rest = header_bytes f' s' i' n' @ rest'"
  shows "f = f' \<and> s = s' \<and> i = i' \<and> n = n' \<and> rest = rest'"
proof -
  have eq: "be_bytes 8 i = be_bytes 8 i' \<and> be_bytes 4 n = be_bytes 4 n'"
    and rest: "f = f' \<and> s = s' \<and> rest = rest'"
    using assms by (auto simp: header_bytes_def append_eq_append_conv)
  have "i = i'" using eq be_word_be_bytes_64 by metis
  moreover have "n = n'" using eq be_word_be_bytes_32 by metis
  ultimately show ?thesis using rest by simp
qed

lemma sm_view_eqI:
  "sm_metadata sm = sm_metadata sm' \<Longrightarrow> sm_state sm = sm_state sm' \<Longrightarrow>
   map_option (ctx_view content) (sm_context sm) = map_option (ctx_view content) (sm_context sm') \<Longrightarrow>
   sm_view content sm = sm_view content sm'"
  by (simp add: sm_view_def)

lemma sm_view_eqD:
  assumes "sm_view content sm = sm_view content sm'"
  shows "sm_metadata sm = sm_metadata sm'" "sm_state sm = sm_state sm'"
    "map_option (ctx_view content) (sm_context sm) = map_option (ctx_view content) (sm_context sm')"
  using assms by (simp_all add: sm_view_def)

lemma ctx_view_eqD:
  assumes "ctx_view content c = ctx_view content c'"
  shows "content (ctx_origin_message c) = content (ctx_origin_message c')"
    "ctx_header_size c = ctx_header_size c'" "ctx_body_size c = ctx_body_size c'"
    "ctx_is_heartbeat c = ctx_is_heartbeat c'"
  using assms by (simp_all add: ctx_view_def)

context rpc_serializer
begin

lemma data_sim:
  assumes "sm_state sm = DOnDecodeStreamData" and "data_ok content sm"
    and "sm_view content sm = sm_view content sm'" and "content b = content b'"
  shows "same_run content (dubbo_run B S b sm) (dubbo_run B S b' sm')"
proof -
  note eq = sm_view_eqD [OF assms(3)]
  obtain c where c: "sm_context sm = Some c"
      "dm_message_type (sm_metadata sm) \<in> {DRequest, DOneway, DResponse}"
    using assms(2) by (auto simp: data_ok_def split: option.splits)
  obtain c' where c': "sm_context sm' = Some c'" "ctx_view content c = ctx_view content c'"
    using eq(3) c(1) by (cases "sm_context sm'") auto
  note ceq = ctx_view_eqD [OF c'(2)]
  have st': "sm_state sm' = DOnDecodeStreamData" using assms(1) eq(2) by simp
  have ty': "dm_message_type (sm_metadata sm') \<in> {DRequest, DOneway, DResponse}"
    using c(2) eq(1) by simp
  show ?thesis
  proof (cases "length (content b) < unat (ctx_body_size c)")
    case True
    then have "length (content b') < unat (ctx_body_size c')" using assms(4) ceq by simp
    then show ?thesis
      using run_data_wait [OF assms(1) c(1) True] run_data_wait [OF st' c'(1)] assms(3,4) by simp
  next
    case False
    then have len: "unat (ctx_body_size c) \<le> length (content b)" by simp
    then have len': "unat (ctx_body_size c') \<le> length (content b')" using assms(4) ceq by simp
    have "agree (body_outcome S b c (sm_metadata sm)) (body_outcome S b' c' (sm_metadata sm))"
      using len len' assms(4) ceq by (intro body_outcome_local) simp_all
    then have ag: "agree (body_outcome S b c (sm_metadata sm)) (body_outcome S b' c' (sm_metadata sm'))"
      using eq(1) by simp
    show ?thesis
    proof (cases "body_outcome S b c (sm_metadata sm)")
      case (Inl e)
      with ag obtain e' where e': "body_outcome S b' c' (sm_metadata sm') = Inl e'"
        by (cases "body_outcome S b' c' (sm_metadata sm')") auto
      show ?thesis
        using run_data_error [OF assms(1) c(1) len c(2) Inl] run_data_error [OF st' c'(1) len' ty' e']
          ag Inl e' by simp
    next
      case (Inr m)
      with ag have m': "body_outcome S b' c' (sm_metadata sm') = Inr m"
        by (cases "body_outcome S b' c' (sm_metadata sm')") auto
      obtain o1 b1 where r1: "dubbo_run B S b sm = (Inr DDone,
          (b1, sm\<lparr>sm_metadata := m, sm_context := Some (c\<lparr>ctx_origin_message := o1\<rparr>),
                 sm_state := DDone\<rparr>))"
        "content o1 = content (ctx_origin_message c) @ take (unat (ctx_body_size c)) (content b)"
        "content b1 = drop (unat (ctx_body_size c)) (content b)"
        using run_data_done [OF assms(1) c(1) len c(2) Inr] .
      obtain o2 b2 where r2: "dubbo_run B S b' sm' = (Inr DDone,
          (b2, sm'\<lparr>sm_metadata := m, sm_context := Some (c'\<lparr>ctx_origin_message := o2\<rparr>),
                 sm_state := DDone\<rparr>))"
        "content o2 = content (ctx_origin_message c') @ take (unat (ctx_body_size c')) (content b')"
        "content b2 = drop (unat (ctx_body_size c')) (content b')"
        using run_data_done [OF st' c'(1) len' ty' m'] .
      show ?thesis
        using r1 r2 ceq assms(4) by (simp add: sm_view_def ctx_view_def)
    qed
  qed
qed

text \<open>
  A run that reads a header depends on the machine only through what the header leaves of its
  metadata.
\<close>

lemma header_sim:
  assumes "sm_state sm = DOnDecodeStreamHeader" and "sm_state sm' = DOnDecodeStreamHeader"
    and "content b = content b'"
    and short: "length (content b) < 16 \<Longrightarrow> sm_view content sm = sm_view content sm'"
    and meta: "\<And>f s i n rest. content b = header_bytes f s i n @ rest \<Longrightarrow>
      header_metadata f s i (sm_metadata sm) = header_metadata f s i (sm_metadata sm')"
  shows "same_run content (dubbo_run B S b sm) (dubbo_run B S b' sm')"
proof (cases rule: header_cases [of b])
  case short
  then show ?thesis
    using assms(1-3) assms(4) by (simp add: run_header_short)
next
  case (bad e)
  obtain m1 where m1: "decodeHeader_metadata B b (sm_metadata sm) = (Inl e, m1)" using bad by blast
  obtain e2 m2 where m2: "decodeHeader_metadata B b' (sm_metadata sm') = (Inl e2, m2)"
    "is_envoy_exception e2"
  proof (cases rule: header_cases [of b'])
    case short
    then show ?thesis using bad(3) assms(3) by simp
  next
    case (bad e')
    then show ?thesis using that by blast
  next
    case (header flag status i n rest)
    then have "\<exists>m'. decodeHeader_metadata B b (sm_metadata sm) = (Inr (Some (header_context B flag n), True), m')"
      using decodeHeader_valid assms(3) by metis
    then show ?thesis using m1 by simp
  qed
  show ?thesis
    using run_header_error [OF assms(1) m1] run_header_error [OF assms(2) m2(1)] bad(2) m2(2) by simp
next
  case (header flag status i n rest)
  have h': "content b' = header_bytes flag status i n @ rest" using header(1) assms(3) by simp
  note meq = meta [OF header(1)]
  show ?thesis
  proof (cases "flag_event flag")
    case event: True
    show ?thesis
    proof (cases "length rest < unat n")
      case True
      show ?thesis
        using run_heartbeat_wait [OF assms(1) header event True]
          run_heartbeat_wait [OF assms(2) h' header(2) event True] assms(1-3) meq
        by (simp add: sm_view_def)
    next
      case False
      then have le: "unat n \<le> length rest" by simp
      obtain o1 b1 where r1: "dubbo_run B S b sm = (Inr DDone,
          (b1, sm\<lparr>sm_metadata := header_metadata flag status i (sm_metadata sm),
                 sm_context := Some ((header_context B flag n)\<lparr>ctx_origin_message := o1\<rparr>),
                 sm_state := DDone\<rparr>))"
        "content o1 = header_bytes flag status i n @ take (unat n) rest"
        "content b1 = drop (unat n) rest"
        using run_heartbeat_done [OF assms(1) header event le] .
      obtain o2 b2 where r2: "dubbo_run B S b' sm' = (Inr DDone,
          (b2, sm'\<lparr>sm_metadata := header_metadata flag status i (sm_metadata sm'),
                 sm_context := Some ((header_context B flag n)\<lparr>ctx_origin_message := o2\<rparr>),
                 sm_state := DDone\<rparr>))"
        "content o2 = header_bytes flag status i n @ take (unat n) rest"
        "content b2 = drop (unat n) rest"
        using run_heartbeat_done [OF assms(2) h' header(2) event le] .
      show ?thesis
        using r1 r2 meq by (simp add: sm_view_def ctx_view_def)
    qed
  next
    case False
    obtain o1 b1 where r1: "dubbo_run B S b sm = dubbo_run B S b1
        (sm\<lparr>sm_metadata := header_metadata flag status i (sm_metadata sm),
           sm_context := Some ((header_context B flag n)\<lparr>ctx_origin_message := o1\<rparr>),
           sm_state := DOnDecodeStreamData\<rparr>)" (is "_ = dubbo_run B S b1 ?sm1")
      "content o1 = header_bytes flag status i n" "content b1 = rest"
      using run_header_then_data [OF assms(1) header False] .
    obtain o2 b2 where r2: "dubbo_run B S b' sm' = dubbo_run B S b2
        (sm'\<lparr>sm_metadata := header_metadata flag status i (sm_metadata sm'),
           sm_context := Some ((header_context B flag n)\<lparr>ctx_origin_message := o2\<rparr>),
           sm_state := DOnDecodeStreamData\<rparr>)" (is "_ = dubbo_run B S b2 ?sm2")
      "content o2 = header_bytes flag status i n" "content b2 = rest"
      using run_header_then_data [OF assms(2) h' header(2) False] .
    have "data_ok content ?sm1"
      using r1(2) False header(2) valid_size_unat header_size_unat [OF header(2)]
      by (simp add: data_ok_def header_context_def header_type_def valid_header_def)
    then have "same_run content (dubbo_run B S b1 ?sm1) (dubbo_run B S b2 ?sm2)"
      using r1 r2 meq by (intro data_sim) (simp_all add: sm_view_def ctx_view_def)
    with r1(1) r2(1) show ?thesis by simp
  qed
qed

lemma run_sim:
  assumes "sm_ok content sm" and "sm_view content sm = sm_view content sm'"
    and "content b = content b'"
  shows "same_run content (dubbo_run B S b sm) (dubbo_run B S b' sm')"
proof -
  from assms(1) consider "sm_state sm = DOnDecodeStreamHeader"
    | "sm_state sm = DOnDecodeStreamData" "data_ok content sm"
    by (auto simp: sm_ok_def)
  then show ?thesis
  proof cases
    case 1
    then show ?thesis
      using sm_view_eqD [OF assms(2)] assms(2,3) by (intro header_sim) simp_all
  next
    case 2
    then show ?thesis using assms(2,3) by (intro data_sim) simp_all
  qed
qed

text \<open>A run that waited, resumed with more bytes, against the run over all of them.\<close>

lemma resume_same:
  assumes "sm_state sm = DOnDecodeStreamData" and "data_ok content sm"
    and "dubbo_run B S b sm = (Inr DWaitForData, (b1, sm1))"
  shows "b1 = b \<and> sm1 = sm"
proof -
  obtain c where c: "sm_context sm = Some c"
      "dm_message_type (sm_metadata sm) \<in> {DRequest, DOneway, DResponse}"
    using assms(2) by (auto simp: data_ok_def split: option.splits)
  show ?thesis
  proof (cases "length (content b) < unat (ctx_body_size c)")
    case True
    then show ?thesis using run_data_wait [OF assms(1) c(1) True] assms(3) by simp
  next
    case False
    then have len: "unat (ctx_body_size c) \<le> length (content b)" by simp
    show ?thesis
    proof (cases "body_outcome S b c (sm_metadata sm)")
      case (Inl e)
      then show ?thesis using run_data_error [OF assms(1) c(1) len c(2) Inl] assms(3) by simp
    next
      case (Inr m)
      show ?thesis
        by (rule run_data_done [OF assms(1) c(1) len c(2) Inr]) (use assms(3) in simp)
    qed
  qed
qed

lemma resume_data:
  assumes "sm_state sm = DOnDecodeStreamData" and "data_ok content sm"
    and "dubbo_run B S b sm = (Inr DWaitForData, (b1, sm1))"
    and "content b2 = content b1 @ xs" and "content b3 = content b @ xs"
  shows "same_run content (dubbo_run B S b2 sm1) (dubbo_run B S b3 sm)"
  using resume_same [OF assms(1-3)] assms by (intro run_sim) (simp_all add: sm_ok_def)

lemma resume_header:
  assumes "sm_state sm = DOnDecodeStreamHeader"
    and "dubbo_run B S b sm = (Inr DWaitForData, (b1, sm1))"
    and "content b2 = content b1 @ xs" and "content b3 = content b @ xs"
  shows "same_run content (dubbo_run B S b2 sm1) (dubbo_run B S b3 sm)"
proof (cases rule: header_cases [of b])
  case short
  then have "b1 = b \<and> sm1 = sm" using run_header_short [OF assms(1)] assms(2) by simp
  then show ?thesis using assms by (intro run_sim) (simp_all add: sm_ok_def)
next
  case (bad e)
  then show ?thesis using run_header_error [OF assms(1)] assms(2) by (metis Inl_Inr_False prod.inject)
next
  case (header flag status i n rest)
  have h3: "content b3 = header_bytes flag status i n @ (rest @ xs)"
    using header(1) assms(4) by simp
  show ?thesis
  proof (cases "flag_event flag")
    case event: True
    have w: "length rest < unat n"
    proof (rule ccontr)
      assume "\<not> length rest < unat n"
      then have le: "unat n \<le> length rest" by simp
      show False
        by (rule run_heartbeat_done [where S = S, OF assms(1) header event le]) (use assms(2) in simp)
    qed
    have sm1: "b1 = b" "sm1 = sm\<lparr>sm_metadata := header_metadata flag status i (sm_metadata sm),
        sm_context := Some (header_context B flag n)\<rparr>"
      using run_heartbeat_wait [OF assms(1) header event w] assms(2) by simp_all
    show ?thesis
    proof (rule header_sim)
      show "content b2 = content b3" using sm1 assms(3,4) by simp
      then show "sm_view content sm1 = sm_view content sm" if "length (content b2) < 16"
        using that h3 by simp
      show "header_metadata f s j (sm_metadata sm1) = header_metadata f s j (sm_metadata sm)"
        if "content b2 = header_bytes f s j k @ r" for f s j k r
        using header_bytes_inject [of f s j k r flag status i n "rest @ xs"] that h3 sm1 assms(3,4)
          header(1) by simp
    qed (use sm1 assms(1) in simp_all)
  next
    case False
    obtain o1 b' where r1: "dubbo_run B S b sm = dubbo_run B S b'
        (sm\<lparr>sm_metadata := header_metadata flag status i (sm_metadata sm),
           sm_context := Some ((header_context B flag n)\<lparr>ctx_origin_message := o1\<rparr>),
           sm_state := DOnDecodeStreamData\<rparr>)" (is "_ = dubbo_run B S b' ?sm1")
      "content o1 = header_bytes flag status i n" "content b' = rest"
      using run_header_then_data [OF assms(1) header False] .
    obtain o3 b3' where r3: "dubbo_run B S b3 sm = dubbo_run B S b3'
        (sm\<lparr>sm_metadata := header_metadata flag status i (sm_metadata sm),
           sm_context := Some ((header_context B flag n)\<lparr>ctx_origin_message := o3\<rparr>),
           sm_state := DOnDecodeStreamData\<rparr>)" (is "_ = dubbo_run B S b3' ?sm3")
      "content o3 = header_bytes flag status i n" "content b3' = rest @ xs"
      using run_header_then_data [OF assms(1) h3 header(2) False] .
    have ok: "data_ok content ?sm1" "data_ok content ?sm3"
      using r1(2) r3(2) False header(2) valid_size_unat header_size_unat [OF header(2)]
      by (simp_all add: data_ok_def header_context_def header_type_def valid_header_def)
    have w: "dubbo_run B S b' ?sm1 = (Inr DWaitForData, (b1, sm1))" using assms(2) r1(1) by simp
    have "b1 = b' \<and> sm1 = ?sm1"
      using resume_same [OF _ ok(1) w] by simp
    then show ?thesis
      using r1 r3 ok assms(3) by (simp, intro data_sim) (simp_all add: sm_view_def ctx_view_def)
  qed
qed

lemma resume:
  assumes "sm_ok content sm" and "dubbo_run B S b sm = (Inr DWaitForData, (b1, sm1))"
    and "content b2 = content b1 @ xs" and "content b3 = content b @ xs"
  shows "same_run content (dubbo_run B S b2 sm1) (dubbo_run B S b3 sm)"
  using assms(1) resume_header [OF _ assms(2-4)] resume_data [OF _ _ assms(2-4)]
  by (auto simp: sm_ok_def)

end

subsection \<open>The codec\<close>

lemma toMetadata_view:
  assumes "ctx_view content ctx = ctx_view content ctx'"
  shows "metadata_view content (toMetadata H dm ctx m) = metadata_view content (toMetadata H dm ctx' m)"
  using ctx_view_eqD [OF assms] by (simp add: metadata_view_def toMetadata_def)

lemma codec_machine_started:
  "codec_machine \<lparr>dc_state_machine = Some sm, dc_decode_started = s\<rparr> = sm"
  by (simp add: codec_machine_def)

text \<open>\<open>decode\<close> as a function of what the run gives.\<close>

lemma same_decode_by_run:
  assumes "codec_ok content c" and "codec_ok content c'"
    and "same_run content (dubbo_run B S b (codec_machine c)) (dubbo_run B S b' (codec_machine c'))"
    and "run_result_ok content b (codec_machine c) (dubbo_run B S b (codec_machine c))"
  shows "same_decode content (DubboCodec_decode B H S c b m) (DubboCodec_decode B H S c' b' m)"
proof -
  obtain r b1 sm1 where 1: "dubbo_run B S b (codec_machine c) = (r, (b1, sm1))"
    by (metis prod.collapse)
  obtain r' b2 sm2 where 2: "dubbo_run B S b' (codec_machine c') = (r', (b2, sm2))"
    by (metis prod.collapse)
  show ?thesis
  proof (cases r)
    case (Inl e)
    then show ?thesis
      using assms(3) unfolding decode_by_run [OF assms(1)] decode_by_run [OF assms(2)] 1 2
      by (cases r') simp_all
  next
    case (Inr st)
    then have eq: "r' = Inr st" "content b1 = content b2" "sm_view content sm1 = sm_view content sm2"
      using assms(3) unfolding 1 2 by (cases r'; simp)+
    show ?thesis
    proof (cases "st = DWaitForData")
      case True
      then show ?thesis
        using Inr eq unfolding decode_by_run [OF assms(1)] decode_by_run [OF assms(2)] 1 2
        by (simp add: codec_view_def)
    next
      case False
      then obtain ctx where ctx: "st = DDone" "sm_context sm1 = Some ctx"
        using assms(4) Inr unfolding 1 by (auto simp: run_result_ok_def)
      then obtain ctx' where ctx': "sm_context sm2 = Some ctx'" "ctx_view content ctx = ctx_view content ctx'"
        using sm_view_eqD(3) [OF eq(3)] by (cases "sm_context sm2") auto
      have "metadata_view content (toMetadata H (sm_metadata sm1) ctx m) =
          metadata_view content (toMetadata H (sm_metadata sm2) ctx' m)"
        using sm_view_eqD(1) [OF eq(3)] by (simp add: toMetadata_view [OF ctx'(2)])
      then show ?thesis
        using Inr eq ctx ctx' unfolding decode_by_run [OF assms(1)] decode_by_run [OF assms(2)] 1 2
        by (simp add: codec_view_def DubboCodec_complete_def)
    qed
  qed
qed

context rpc_serializer
begin

lemma decode_resumed:
  assumes "codec_ok content c"
    and "DubboCodec_decode B H S c b m = (Inr DecodeWaitForData, (c1, b1, m1))"
    and "content b2 = content b1 @ xs" and "content b3 = content b @ xs"
  shows "same_decode content (DubboCodec_decode B H S c1 b2 m1) (DubboCodec_decode B H S c b3 m)"
proof -
  obtain sm1 where run: "dubbo_run B S b (codec_machine c) = (Inr DWaitForData, (b1, sm1))"
    and c1: "c1 = \<lparr>dc_state_machine = Some sm1, dc_decode_started = True\<rparr>" "m1 = m"
    using assms(2) unfolding decode_by_run [OF assms(1)]
    by (auto simp: Let_def split: prod.splits sum.splits if_splits option.splits)
  have ok: "codec_ok content c1" using decode_inv_dubbo [OF assms(1,2)] .
  have m: "codec_machine c1 = sm1" using c1(1) by (simp add: codec_machine_started)
  have "same_run content (dubbo_run B S b2 (codec_machine c1)) (dubbo_run B S b3 (codec_machine c))"
    unfolding m by (rule resume [OF codec_machine_ok(1) [OF assms(1)] run assms(3,4)])
  moreover have "run_result_ok content b2 (codec_machine c1) (dubbo_run B S b2 (codec_machine c1))"
    by (rule run_ok) (rule codec_machine_ok(1) [OF ok])
  ultimately show ?thesis
    unfolding c1(2) by (rule same_decode_by_run [OF ok assms(1)])
qed

end

end
