(* ===== verification/Dubbo_Roundtrip.thy ===== *)
theory Dubbo_Roundtrip
  imports Dubbo_Fragments
begin

text \<open>
  Round trips of the Dubbo codec: from Dubbo's metadata to the proxy's and back, and from the
  replies the proxy encodes (heartbeat responses and local error replies) through the codec's own
  decoder.
\<close>

subsection \<open>Metadata\<close>

lemma get_put_same:
  "Metadata_get m k = None \<Longrightarrow> Metadata_get (Metadata_put m k v) k = Some v"
  by (simp add: getput)

lemma get_put_other:
  "k' \<noteq> k \<Longrightarrow> Metadata_get (Metadata_put m k v) k' = Metadata_get m k'"
  "k' \<noteq> k \<Longrightarrow> Metadata_get (Metadata_putString H m k s) k' = Metadata_get m k'"
  by (simp_all add: getput)

lemma toMetadata_get:
  fixes B :: "'b buffer_ops" and H :: "'h header_ops"
  defines "new \<equiv> (MetadataImpl B H :: (dubbo_any, 'b, 'h) metadata)"
  shows "Metadata_get (toMetadata H dm ctx new) ''InvocationInfo'' =
      map_option (\<lambda>i. AnyOther (AnyInvocation i)) (dm_invocation_info dm)"
    and "Metadata_get (toMetadata H dm ctx new) ''ProtocolType'' =
      Some (AnyOther (AnyProtocolType (dm_proto_type dm)))"
    and "Metadata_get (toMetadata H dm ctx new) ''ProtocolVersion'' =
      Some (AnyOther (AnyU8 (dm_protocol_version dm)))"
    and "Metadata_get (toMetadata H dm ctx new) ''MessageType'' =
      Some (AnyOther (AnyMessageType (dm_message_type dm)))"
    and "Metadata_get (toMetadata H dm ctx new) ''Timeout'' =
      (if dm_timeout dm = None then None else Some (AnyOther (AnyOptU32 (dm_timeout dm))))"
    and "Metadata_get (toMetadata H dm ctx new) ''TwoWay'' = Some (AnyBool (dm_is_two_way dm))"
    and "Metadata_get (toMetadata H dm ctx new) ''SerializationType'' =
      Some (AnyOther (AnySerializationType (dm_serialization_type dm)))"
    and "Metadata_get (toMetadata H dm ctx new) ''ResponseStatus'' =
      map_option (\<lambda>s. AnyOther (AnyResponseStatus s)) (dm_response_status dm)"
  unfolding new_def toMetadata_def toMetadata_msg_def Let_def
  by (cases "dm_invocation_info dm"; cases "dm_timeout dm"; cases "dm_response_status dm";
      simp add: get_put_same get_put_other getput
        del: Metadata_get_put Metadata_get_putString if_split)+

lemma toMetadata_fields:
  "md_request_id (toMetadata H dm ctx m) = dm_request_id dm"
  "md_message_type (toMetadata H dm ctx m) = message_type_of_dubbo (dm_message_type dm)"
  "md_response_status (toMetadata H dm ctx m) =
     (case dm_response_status dm of
        Some s \<Rightarrow> if s = u8_of_response_status DOk then StatusOk else StatusError
      | None \<Rightarrow> md_response_status m)"
  by (simp_all add: toMetadata_def toMetadata_msg_def Let_def getput split: option.splits)

lemma toMsgMetadata_toMetadata:
  assumes "dm_timeout dm = None"
  shows "toMsgMetadata (toMetadata H dm ctx (MetadataImpl B H)) MessageMetadata = (Inr (), dm)"
  using assms
  by (cases "dm_invocation_info dm"; cases "dm_response_status dm")
    (simp_all add: toMsgMetadata_def toMetadata_get toMetadata_fields Let_def Metadata_getBool_eq
      MessageMetadata_def setSerializationType_def setResponseStatus_def)

lemma toMsgMetadata_timeout:
  assumes "dm_timeout dm = Some t"
  shows "fst (toMsgMetadata (toMetadata H dm ctx (MetadataImpl B H)) mm) = Inl BadAnyCast"
  using assms
  by (cases "dm_invocation_info dm")
    (simp_all add: toMsgMetadata_def toMetadata_get toMetadata_fields Let_def)

subsection \<open>What the codec decodes has no timeout\<close>

text \<open>
  Nothing calls \<open>setTimeout\<close> on the metadata a decoder fills, and the serialization type is Hessian2, by
  default or checked in the header.
\<close>

definition hessian_metadata :: "dubbo_metadata \<Rightarrow> bool" where
  "hessian_metadata dm = (dm_timeout dm = None \<and> dm_serialization_type dm = 2)"

lemma hessian_metadata_simps [simp]:
  "hessian_metadata MessageMetadata"
  "hessian_metadata (dm\<lparr>dm_request_id := i\<rparr>) = hessian_metadata dm"
  "hessian_metadata (dm\<lparr>dm_message_type := t\<rparr>) = hessian_metadata dm"
  "hessian_metadata (dm\<lparr>dm_invocation_info := v\<rparr>) = hessian_metadata dm"
  "hessian_metadata (dm\<lparr>dm_is_two_way := w\<rparr>) = hessian_metadata dm"
  "hessian_metadata (setResponseStatus s dm) = hessian_metadata dm"
  "hessian_metadata dm \<Longrightarrow> isValidSerializationType b \<Longrightarrow> hessian_metadata (setSerializationType b dm)"
  by (simp_all add: hessian_metadata_def MessageMetadata_def setResponseStatus_def setSerializationType_def
      isValidSerializationType_iff)

lemma parse_hessian:
  "hessian_metadata dm \<Longrightarrow> parseRequestInfoFromBuffer B b dm = (Inr u, dm') \<Longrightarrow> hessian_metadata dm'"
  "hessian_metadata dm \<Longrightarrow> parseResponseInfoFromBuffer B b dm = (Inr u, dm') \<Longrightarrow> hessian_metadata dm'"
  by (auto simp: parseRequestInfoFromBuffer_def parseResponseInfoFromBuffer_def and_then_def Let_def
      split: prod.splits sum.splits if_splits)

lemma decodeHeader_hessian:
  assumes "decodeHeader_metadata B b dm = (Inr r, dm')" and "hessian_metadata dm"
  shows "hessian_metadata dm'"
  using assms
  by (auto simp: decodeHeader_metadata_def and_then_def Let_def elim!: parse_hessian [rotated]
      split: prod.splits sum.splits if_splits)

lemma decodeHeader_some_hessian:
  "decodeHeader B b (Some dm) = (Inr r, Some dm') \<Longrightarrow> hessian_metadata dm \<Longrightarrow> hessian_metadata dm'"
  by (cases "decodeHeader_metadata B b dm") (auto dest: decodeHeader_hessian)

lemma decodeData_hessian:
  assumes "decodeData B S b ctx dm = (Inr r, dm')" and "hessian_metadata dm"
  shows "hessian_metadata dm'"
  using assms
  by (auto simp: decodeData_def and_then_def split: prod.splits sum.splits if_splits)

lemma handleState_hessian:
  assumes "dubbo_handleState B S b sm = (Inr st, (b', sm'))" and "hessian_metadata (sm_metadata sm)"
  shows "hessian_metadata (sm_metadata sm')"
  using assms
  by (auto simp: dubbo_handleState_def onDecodeStreamHeader_def onDecodeStreamData_def Let_def
      simp del: decodeHeader.simps split: DubboProtocolState.splits prod.splits sum.splits option.splits if_splits
      dest: decodeHeader_some_hessian decodeData_hessian)

lemma dubbo_run_hessian:
  assumes "dubbo_run B S b sm = (Inr st, (b', sm'))" and "hessian_metadata (sm_metadata sm)"
  shows "hessian_metadata (sm_metadata sm')"
  using assms
proof (induction B S b sm rule: dubbo_run.induct)
  case (1 B S b sm)
  show ?case
  proof (cases "sm_state sm = DDone")
    case True
    then show ?thesis using 1(2,3) by (simp add: dubbo_run.simps [of B S b sm])
  next
    case False
    then obtain nxt b1 sm1 where h: "dubbo_handleState B S b sm = (Inr nxt, (b1, sm1))"
      "(if nxt = DWaitForData then (Inr DWaitForData, (b1, sm1))
        else dubbo_run B S b1 (sm1\<lparr>sm_state := nxt\<rparr>)) = (Inr st, (b', sm'))"
      using 1(2) by (auto simp: dubbo_run_step split: prod.splits sum.splits)
    have sm1: "hessian_metadata (sm_metadata sm1)" using handleState_hessian [OF h(1) 1(3)] .
    show ?thesis
    proof (cases "nxt = DWaitForData")
      case True
      then show ?thesis using h(2) sm1 by simp
    next
      case next_state: False
      then show ?thesis using 1(1) [OF False h(1) [symmetric] refl refl next_state] h(2) sm1 by simp
    qed
  qed
qed

text \<open>The codecs a connection can have: a new one, and what a decoding that returned left.\<close>

inductive codec_reached ::
  "'b buffer_ops \<Rightarrow> 'h header_ops \<Rightarrow> 'b serializer \<Rightarrow> 'b dubbo_codec \<Rightarrow> bool" for B H S where
  codec_new: "codec_reached B H S DubboCodec_init"
| codec_decoded: "codec_reached B H S c \<Longrightarrow>
    DubboCodec_decode B H S c b m = (Inr st, (c', b', m')) \<Longrightarrow> codec_reached B H S c'"

lemma decode_hessian:
  assumes "DubboCodec_decode B H S c b m = (Inr st, (c', b', m'))"
    and "dc_decode_started c \<longrightarrow> (\<forall>sm. dc_state_machine c = Some sm \<longrightarrow> hessian_metadata (sm_metadata sm))"
  shows "dc_state_machine c' = Some sm' \<Longrightarrow> hessian_metadata (sm_metadata sm')"
    and "st = DecodeDone \<Longrightarrow> \<exists>dm ctx. hessian_metadata dm \<and> m' = toMetadata H dm ctx m"
proof -
  let ?c = "if \<not> dc_decode_started c then DubboCodec_start c else c"
  obtain sm where sm: "dc_state_machine ?c = Some sm"
    using assms(1) by (auto simp: DubboCodec_decode_def Let_def split: option.splits)
  have "hessian_metadata (sm_metadata sm)"
    using sm assms(2) by (auto simp: DubboCodec_start_def DubboDecoderStateMachine_def split: if_splits)
  moreover obtain ret b1 sm1 where run: "dubbo_run B S b sm = (ret, (b1, sm1))" by (metis surj_pair)
  ultimately have sm1: "hessian_metadata (sm_metadata sm1)" if "ret = Inr x" for x
    using dubbo_run_hessian [of B S b sm x b1 sm1] that by simp
  note d = assms(1) [unfolded DubboCodec_decode_def Let_def, unfolded sm option.case run prod.case]
  show "hessian_metadata (sm_metadata sm')" if "dc_state_machine c' = Some sm'"
    using d sm1 that by (auto simp: DubboCodec_complete_def split: sum.splits option.splits if_splits)
  show "\<exists>dm ctx. hessian_metadata dm \<and> m' = toMetadata H dm ctx m" if "st = DecodeDone"
    using d sm1 that by (auto split: sum.splits option.splits if_splits)
qed

lemma codec_reached_hessian:
  assumes "codec_reached B H S c" and "dc_state_machine c = Some sm"
  shows "hessian_metadata (sm_metadata sm)"
  using assms
proof (induction arbitrary: sm rule: codec_reached.induct)
  case codec_new
  then show ?case by (simp add: DubboCodec_init_def)
next
  case (codec_decoded c b m st c' b' m')
  show ?case
    by (rule decode_hessian(1) [OF codec_decoded(2) _ codec_decoded(4)]) (simp add: codec_decoded(3))
qed

lemma decoded_metadata:
  assumes "codec_reached B H S c" and "DubboCodec_decode B H S c b m = (Inr DecodeDone, (c', b', m'))"
  obtains dm ctx where "dm_timeout dm = None" "dm_serialization_type dm = 2" "m' = toMetadata H dm ctx m"
  using decode_hessian(2) [OF assms(2)] codec_reached_hessian [OF assms(1)] that
  by (auto simp: hessian_metadata_def)

subsection \<open>A complete message on a fresh codec\<close>

lemma decode_init:
  "DubboCodec_decode B H S DubboCodec_init b m =
    (case dubbo_run B S b DubboDecoderStateMachine of
       (Inl e, (b', sm')) \<Rightarrow>
         (Inl e, (\<lparr>dc_state_machine = Some sm', dc_decode_started = True\<rparr>, b', m))
     | (Inr st, (b', sm')) \<Rightarrow>
         (let c' = \<lparr>dc_state_machine = Some sm', dc_decode_started = True\<rparr>
          in if st = DWaitForData then (Inr DecodeWaitForData, (c', b', m))
             else if st \<noteq> DDone then
               (Inl (Panic ''ASSERT(state == ProtocolState::Done)''), (c', b', m))
             else
               (case sm_context sm' of
                  None \<Rightarrow> (Inl (Panic ''null messageContext()''), (c', b', m))
                | Some ctx \<Rightarrow>
                    (Inr DecodeDone,
                     (DubboCodec_complete c', b', toMetadata H (sm_metadata sm') ctx m)))))"
  using decode_by_run [OF codec_ok_init, of B H S b m]
  by (simp add: codec_machine_def DubboCodec_init_def)

lemma complete_is_init: "DubboCodec_complete c = DubboCodec_init"
  by (simp add: DubboCodec_complete_def DubboCodec_init_def)

lemma new_machine [simp]:
  "sm_state DubboDecoderStateMachine = DOnDecodeStreamHeader"
  "sm_metadata DubboDecoderStateMachine = MessageMetadata"
  by (simp_all add: DubboDecoderStateMachine_def)

context rpc_serializer
begin

lemma decode_heartbeat:
  assumes "content b = header_bytes flag status i n @ rest" and "valid_header flag status n"
    and "flag_event flag" and "unat n \<le> length rest"
  obtains o' b' where
    "DubboCodec_decode B H S DubboCodec_init b m =
       (Inr DecodeDone, (DubboCodec_init, b',
         toMetadata H (header_metadata flag status i MessageMetadata)
           ((header_context B flag n)\<lparr>ctx_origin_message := o'\<rparr>) m))"
    "content o' = header_bytes flag status i n @ take (unat n) rest" "content b' = drop (unat n) rest"
proof -
  obtain o' b' where "dubbo_run B S b DubboDecoderStateMachine = (Inr DDone,
      (b', DubboDecoderStateMachine\<lparr>sm_metadata := header_metadata flag status i MessageMetadata,
             sm_context := Some ((header_context B flag n)\<lparr>ctx_origin_message := o'\<rparr>),
             sm_state := DDone\<rparr>))"
    "content o' = header_bytes flag status i n @ take (unat n) rest" "content b' = drop (unat n) rest"
    using run_heartbeat_done [OF new_machine(1) assms, where S = S] by (metis new_machine(2))
  then show thesis by (intro that) (simp_all add: decode_init complete_is_init)
qed

lemma decode_body:
  assumes "content b = header_bytes flag status i n @ rest" and "valid_header flag status n"
    and "\<not> flag_event flag" and "unat n \<le> length rest"
    and "\<And>b. content b = rest \<Longrightarrow>
      body_outcome S b (header_context B flag n) (header_metadata flag status i MessageMetadata) = Inr dm"
  obtains o' b' where
    "DubboCodec_decode B H S DubboCodec_init b m =
       (Inr DecodeDone, (DubboCodec_init, b',
         toMetadata H dm ((header_context B flag n)\<lparr>ctx_origin_message := o'\<rparr>) m))"
    "content o' = header_bytes flag status i n @ take (unat n) rest" "content b' = drop (unat n) rest"
proof -
  let ?m = "header_metadata flag status i MessageMetadata"
  obtain o1 b1 where r1: "dubbo_run B S b DubboDecoderStateMachine = dubbo_run B S b1
        (DubboDecoderStateMachine\<lparr>sm_metadata := ?m,
           sm_context := Some ((header_context B flag n)\<lparr>ctx_origin_message := o1\<rparr>),
           sm_state := DOnDecodeStreamData\<rparr>)" (is "_ = dubbo_run B S b1 ?sm")
      "content o1 = header_bytes flag status i n" "content b1 = rest"
    using run_header_then_data [OF new_machine(1) assms(1-3), where S = S] by (metis new_machine(2))
  let ?c = "(header_context B flag n)\<lparr>ctx_origin_message := o1\<rparr>"
  have size: "unat (ctx_body_size ?c) = unat n"
    using header_size_unat(2) [OF assms(2)] by (simp add: header_context_def)
  have len: "unat (ctx_body_size ?c) \<le> length (content b1)" using assms(4) r1(3) size by simp
  have ty: "dm_message_type ?m \<in> {DRequest, DOneway, DResponse}"
    using assms(3) by (simp add: header_type_def)
  have "agree (body_outcome S b1 (header_context B flag n) ?m) (body_outcome S b1 ?c ?m)"
    using len by (intro body_outcome_local) simp_all
  then have out: "body_outcome S b1 ?c ?m = Inr dm"
    using assms(5) [OF r1(3)] by (cases "body_outcome S b1 ?c ?m") auto
  obtain o' b' where "dubbo_run B S b1 ?sm = (Inr DDone,
      (b', ?sm\<lparr>sm_metadata := dm, sm_context := Some (?c\<lparr>ctx_origin_message := o'\<rparr>),
             sm_state := DDone\<rparr>))"
    "content o' = content o1 @ take (unat n) (content b1)" "content b' = drop (unat n) (content b1)"
  proof -
    have st: "sm_state ?sm = DOnDecodeStreamData" "sm_context ?sm = Some ?c" by simp_all
    have ty': "dm_message_type (sm_metadata ?sm) \<in> {DRequest, DOneway, DResponse}" using ty by simp
    have out': "body_outcome S b1 ?c (sm_metadata ?sm) = Inr dm" using out by simp
    show thesis
      by (rule run_data_done [OF st len ty' out']) (rule that, use size in simp_all)
  qed
  then show thesis
    using r1 by (intro that) (simp_all add: decode_init complete_is_init)
qed

lemma decode_body_wait:
  assumes "content b = header_bytes flag status i n @ rest" and "valid_header flag status n"
    and "\<not> flag_event flag" and "length rest < unat n"
  obtains c' b' where
    "DubboCodec_decode B H S DubboCodec_init b m = (Inr DecodeWaitForData, (c', b', m))"
    "codec_pending content c' = header_bytes flag status i n" "content b' = rest"
proof -
  obtain o1 b1 where r1: "dubbo_run B S b DubboDecoderStateMachine = dubbo_run B S b1
        (DubboDecoderStateMachine\<lparr>sm_metadata := header_metadata flag status i MessageMetadata,
           sm_context := Some ((header_context B flag n)\<lparr>ctx_origin_message := o1\<rparr>),
           sm_state := DOnDecodeStreamData\<rparr>)" (is "_ = dubbo_run B S b1 ?sm")
      "content o1 = header_bytes flag status i n" "content b1 = rest"
    using run_header_then_data [OF new_machine(1) assms(1-3), where S = S] by (metis new_machine(2))
  have "dubbo_run B S b1 ?sm = (Inr DWaitForData, (b1, ?sm))"
    by (rule run_data_wait [of _ "(header_context B flag n)\<lparr>ctx_origin_message := o1\<rparr>"])
      (use assms(4) r1(3) header_size_unat(2) [OF assms(2)] in \<open>simp_all add: header_context_def\<close>)
  then show thesis
    using r1
    by (intro that [of "\<lparr>dc_state_machine = Some ?sm, dc_decode_started = True\<rparr>" b1])
      (simp_all add: decode_init codec_pending_def sm_pending_def)
qed

end

subsection \<open>Heartbeats\<close>

definition heartbeat_reply :: "u64 \<Rightarrow> u8 list" where
  "heartbeat_reply i = header_bytes 0x22 20 i 0"

lemma heartbeat_reply_valid:
  "valid_header 0x22 20 0" "flag_event 0x22" "\<not> flag_request 0x22"
  by (simp_all add: valid_header_def valid_size_def flag_request_def flag_event_def MaxBodySize_def
      MessageTypeMask_def EventMask_def isValidResponseStatus_def response_status_of_u8_def
      response_statuses_def)

context envoy_buffer
begin

lemma encode_heartbeat:
  assumes "content out = []" and "dm_timeout dm = None" and "dm_serialization_type dm = 2"
    and "dm_message_type dm \<in> {DHeartbeatRequest, DHeartbeatResponse}"
  obtains out' where
    "DubboCodec_encode B S (toMetadata H dm ctx (MetadataImpl B H)) mut out = (Inr (), out')"
    "content out' = heartbeat_reply (dm_request_id dm)"
proof
  let ?out = "buf_writeBE32 B (buf_writeBE64 B (buf_write8 B (buf_write8 B
    (buf_writeBE16 B out MagicNumber) 0x22) 20) (dm_request_id dm)) 0"
  show "DubboCodec_encode B S (toMetadata H dm ctx (MetadataImpl B H)) mut out = (Inr (), ?out)"
    using assms
    by (auto simp: DubboCodec_encode_def DubboCodec_encodeHeartbeat_def toMetadata_fields
        toMsgMetadata_toMetadata length_content DubboProtocolImpl_encode_def hasResponseStatus_def
        responseStatus_def setResponseStatus_def EventMask_def Let_def)
  show "content ?out = heartbeat_reply (dm_request_id dm)"
    using assms(1) by (simp add: content_simps heartbeat_reply_def header_bytes_def)
qed

end

subsection \<open>Local replies\<close>

definition error_status_code :: "ErrorType \<Rightarrow> u8" where
  "error_status_code t = u8_of_response_status (onError_status t)"

context rpc_serializer
begin

lemma encode_error:
  assumes "content out = []" and "dm_timeout dm = None" and "dm_serialization_type dm = 2"
    and "err_message err \<noteq> []"
    and "length (result_code ResponseWithException (err_message err)) < 2 ^ 64"
  obtains out' where
    "DubboCodec_onError B S (toMetadata H dm ctx (MetadataImpl B H)) err out = (Inr (), out')"
    "content out' = header_bytes 2 (error_status_code (err_type err)) (dm_request_id dm)
       (of_nat (length (result_code ResponseWithException (err_message err)))) @
       result_code ResponseWithException (err_message err)"
proof -
  let ?code = "result_code ResponseWithException (err_message err)"
  obtain body where body: "ser_serializeRpcResult S (buf_new B) (err_message err) ResponseWithException =
      (Inr (of_nat (length ?code)), body)" "content body = ?code"
    using serialize_result [of "buf_new B" "err_message err" ResponseWithException] new_content by auto
  have len: "unat (of_nat (length ?code) :: u64) = length ?code"
    using assms(5) by (simp add: unat_of_nat)
  let ?b5 = "buf_writeBE32 B (buf_writeBE64 B (buf_write8 B (buf_write8 B
    (buf_writeBE16 B out MagicNumber) 2) (error_status_code (err_type err))) (dm_request_id dm))
    (of_nat (length ?code))"
  obtain out' src where mv: "buf_move B ?b5 body (length ?code) = (out', src)"
    "content out' = content ?b5 @ take (length ?code) (content body)"
    by (rule moveE [of "length ?code" body ?b5]) (use body(2) in auto)
  have "DubboCodec_onError B S (toMetadata H dm ctx (MetadataImpl B H)) err out = (Inr (), out')"
    using assms(1-4) body(1) mv(1) len
    by (auto simp: DubboCodec_onError_def toMsgMetadata_toMetadata length_content
        DubboProtocolImpl_encode_def hasResponseStatus_def responseStatus_def setResponseStatus_def
        error_status_code_def unsigned_of_nat Let_def)
  moreover have "content out' = header_bytes 2 (error_status_code (err_type err)) (dm_request_id dm)
       (of_nat (length ?code)) @ ?code"
    using mv(2) body(2) assms(1) by (simp add: content_simps header_bytes_def)
  ultimately show thesis by (rule that)
qed

text \<open>What the codec's own decoder makes of a local reply.\<close>

lemma body_outcome_reply:
  assumes "content b = result_code ResponseWithException msg"
    and "length (result_code ResponseWithException msg) \<le> 16777216"
    and "dm_message_type m = DResponse"
  shows "body_outcome S b (header_context B flag (of_nat (length (result_code ResponseWithException msg)))) m
    = Inr (m\<lparr>dm_message_type := DException\<rparr>)"
proof -
  let ?n = "of_nat (length (result_code ResponseWithException msg)) :: u32"
  have "unat (ucast ?n :: u64) = length (result_code ResponseWithException msg)"
    using assms(2) by (simp add: unat_ucast_32_64 unat_of_nat)
  then have "ser_deserializeRpcResult S b (header_context B flag ?n) =
      Inr (\<lparr>res_has_exception = True\<rparr>, True)"
    using assms(1,2) deserialize_serialized [of b ResponseWithException msg "[]" "header_context B flag ?n"]
    by (simp add: header_context_def)
  then show ?thesis using assms(3) by (simp add: body_outcome_def)
qed

end

lemma error_status_code_valid:
  "isValidResponseStatus (error_status_code t) \<longleftrightarrow> t \<in> {RouteNotFound, BadResponse}"
  by (cases t) (simp_all add: error_status_code_def isValidResponseStatus_def
      response_status_of_u8_def response_statuses_def)

lemma valid_size_of_nat: "k \<le> 16777216 \<Longrightarrow> valid_size (of_nat k)"
proof -
  assume k: "k \<le> 16777216"
  have "sint (of_nat k :: u32) = int k"
    using k by (simp add: signed_of_nat signed_take_bit_int_eq_self)
  then show ?thesis using k by (simp add: valid_size_def MaxBodySize_def)
qed

lemma reply_flags: "\<not> flag_request 2" "\<not> flag_event 2" "header_type 2 = DResponse"
  by (simp_all add: flag_request_def flag_event_def header_type_def MessageTypeMask_def EventMask_def)

end
