(* ===== verification/Dubbo_Properties.thy ===== *)
theory Dubbo_Properties
  imports Dubbo_Roundtrip
begin

text \<open>
  The properties of the Dubbo codec. Each holds for every buffer that meets \<open>envoy_buffer\<close> and,
  where bodies are read, every serializer that meets \<open>rpc_serializer\<close>; the witnesses are runs on
  a list of bytes with the serializer of \<open>Dubbo_Serializer\<close> over the reference hessian2 package.
\<close>

subsection \<open>A concrete codec and concrete messages\<close>

abbreviation list_serializer :: "u8 list serializer" where
  "list_serializer \<equiv> DubboHessian2SerializerImpl list_buffer list_hessian"

abbreviation list_result_code :: "RpcResponseType \<Rightarrow> string \<Rightarrow> u8 list" where
  "list_result_code \<equiv> \<lambda>t s. list_int_code (u8_of_rpc_type t) @ list_string_code s"

abbreviation new_metadata :: "('x, u8 list, (string \<times> string) list) metadata" where
  "new_metadata \<equiv> MetadataImpl list_buffer alist_headers"

abbreviation list_decode ::
  "u8 list \<Rightarrow> (DecodeStatus, u8 list dubbo_codec \<times> u8 list \<times>
     (dubbo_any, u8 list, (string \<times> string) list) metadata) outcome" where
  "list_decode b \<equiv>
     DubboCodec_decode list_buffer alist_headers list_serializer DubboCodec_init b new_metadata"

lemmas list_serializer_ok = lh.rpc_serializer_axioms

text \<open>A two-way request for method m of interface i: its body is four short strings.\<close>

definition sample_body :: "u8 list" where
  "sample_body = [1, 50, 1, 105, 1, 48, 1, 109]"

lemma sample_header_valid:
  "valid_header 0xC2 0 8" "\<not> flag_event 0xC2" "flag_request 0xC2" "header_type 0xC2 = DRequest"
  by (simp_all add: valid_header_def valid_size_def flag_request_def flag_event_def MaxBodySize_def
      MessageTypeMask_def EventMask_def SerializationTypeMask_def header_type_def flag_two_way_def
      TwoWayMask_def)

lemma sample_chars:
  "char_of_byte 105 = CHR ''i''" "char_of_byte 109 = CHR ''m''" "char_of_byte 48 = CHR ''0''"
  by code_simp+

lemma sample_body_outcome:
  "body_outcome list_serializer sample_body (header_context list_buffer 0xC2 8)
     (header_metadata 0xC2 0 7 MessageMetadata) =
   Inr ((header_metadata 0xC2 0 7 MessageMetadata)\<lparr>dm_invocation_info :=
     Some \<lparr>inv_service_name = ''i'', inv_method_name = ''m'', inv_service_version = Some ''0'',
           inv_group = None, inv_parsed_size = 24\<rparr>\<rparr>)"
  by (simp add: body_outcome_def sample_header_valid deserializeRpcInvocation_def list_hessian_def
      list_decode_string_def sample_body_def header_context_def sample_chars
      lb.header_metadata_type)

lemma sample_wait:
  obtains c' where
    "list_decode (header_bytes 0xC2 0 7 8 @ take 4 sample_body) =
       (Inr DecodeWaitForData, (c', take 4 sample_body, new_metadata))"
    "codec_pending (\<lambda>bs. bs) c' = header_bytes 0xC2 0 7 8"
  using lh.decode_body_wait [OF refl sample_header_valid(1,2), where rest = "take 4 sample_body"
      and i = 7 and H = alist_headers and m = new_metadata]
  by (auto simp: sample_body_def)

lemma sample_done:
  obtains m' where
    "list_decode (header_bytes 0xC2 0 7 8 @ sample_body) = (Inr DecodeDone, (DubboCodec_init, [], m'))"
    "md_origin_message m' = header_bytes 0xC2 0 7 8 @ sample_body"
    "md_message_type m' = Request" "md_request_id m' = 7"
proof -
  have len: "unat (8 :: u32) \<le> length sample_body" by (simp add: sample_body_def)
  show thesis
    by (rule lh.decode_body [OF refl sample_header_valid(1,2) len,
          where i = 7 and H = alist_headers and m = new_metadata])
      (use sample_body_outcome that in \<open>auto simp: toMetadata_fields sample_header_valid
        sample_body_def header_metadata_def lb.header_metadata_type\<close>)
qed

subsection \<open>Reading the stream\<close>

text \<open>C1: cutting the stream into reads does not change what is decoded. When \<open>decode\<close> waits on
  the bytes it got and is called again after more arrived, it ends as one call on all the bytes
  does: the same status, bytes left, codec state and metadata, or both calls throw an
  \<open>EnvoyException\<close>.\<close>

theorem dubbo_decode_fragmentation:
  assumes "rpc_serializer B content S result_code" and "codec_ok content c"
    and "DubboCodec_decode B H S c b m = (Inr DecodeWaitForData, (c1, b1, m1))"
    and "content b2 = content b1 @ xs" and "content b3 = content b @ xs"
  shows "same_decode content (DubboCodec_decode B H S c1 b2 m1) (DubboCodec_decode B H S c b3 m)"
  by (rule rpc_serializer.decode_resumed [OF assms])

theorem dubbo_decode_fragmentation_witness:
  "\<exists>c1. list_decode (header_bytes 0xC2 0 7 8 @ take 4 sample_body) =
       (Inr DecodeWaitForData, (c1, take 4 sample_body, new_metadata)) \<and>
     same_decode (\<lambda>bs. bs)
       (DubboCodec_decode list_buffer alist_headers list_serializer c1 sample_body new_metadata)
       (list_decode (header_bytes 0xC2 0 7 8 @ sample_body))"
proof -
  obtain c1 where c1: "list_decode (header_bytes 0xC2 0 7 8 @ take 4 sample_body) =
      (Inr DecodeWaitForData, (c1, take 4 sample_body, new_metadata))"
    by (rule sample_wait)
  then show ?thesis
    using dubbo_decode_fragmentation [OF list_serializer_ok codec_ok_init c1,
        where xs = "drop 4 sample_body" and ?b2.0 = sample_body
          and ?b3.0 = "header_bytes 0xC2 0 7 8 @ sample_body"]
    by simp
qed

text \<open>C11: no byte of the stream is lost, duplicated or reordered. While it waits, the codec holds
  back a prefix of the stream; when a message is complete, its origin message and the buffer are
  the stream, and the message has the size its header announces.\<close>

theorem dubbo_decode_transparent:
  assumes "rpc_serializer B content S result_code" and "codec_ok content c"
    and "DubboCodec_decode B H S c b m = (Inr st, (c', b', m'))"
  shows "case st of
      DecodeWaitForData \<Rightarrow>
        codec_pending content c' @ content b' = codec_pending content c @ content b \<and> m' = m
    | DecodeDone \<Rightarrow>
        content (md_origin_message m') @ content b' = codec_pending content c @ content b \<and>
        codec_pending content c' = [] \<and>
        length (content (md_origin_message m')) = unat (getMessageSize m')"
proof (cases st)
  case DecodeWaitForData
  then show ?thesis
    using rpc_serializer.decode_wait_dubbo [OF assms(1,2)] assms(3) by simp
next
  case DecodeDone
  show ?thesis
    using rpc_serializer.decode_done_dubbo(1-3) [OF assms(1,2) assms(3) [unfolded DecodeDone]]
      DecodeDone by simp
qed

theorem dubbo_decode_transparent_witness:
  "\<exists>m'. list_decode (header_bytes 0xC2 0 7 8 @ sample_body) = (Inr DecodeDone, (DubboCodec_init, [], m')) \<and>
     md_origin_message m' @ [] = [] @ (header_bytes 0xC2 0 7 8 @ sample_body) \<and>
     length (md_origin_message m') = unat (getMessageSize m')"
proof -
  obtain m' where m': "list_decode (header_bytes 0xC2 0 7 8 @ sample_body) =
      (Inr DecodeDone, (DubboCodec_init, [], m'))"
    by (rule sample_done)
  then show ?thesis
    using dubbo_decode_transparent [OF list_serializer_ok codec_ok_init m'] by (intro exI [of _ m'] conjI) auto
qed

subsection \<open>Errors\<close>

text \<open>C14: whatever the bytes, \<open>decode\<close> of a codec that is between two messages throws nothing
  but \<open>EnvoyException\<close> (which the decoder's caller catches): no assertion fails, no unreachable
  branch is taken, no null pointer is read; and where it returns, the codec is again ready for
  the next call and a complete message has taken at least one byte.\<close>

theorem dubbo_decode_safe:
  assumes "rpc_serializer B content S result_code" and "codec_ok content c"
  shows "case DubboCodec_decode B H S c b m of
      (Inl e, _) \<Rightarrow> is_envoy_exception e
    | (Inr st, (c', b', _)) \<Rightarrow>
        codec_ok content c' \<and> (st = DecodeDone \<longrightarrow> length (content b') < length (content b))"
  using rpc_serializer.decode_throws_dubbo [OF assms, of H b m]
    rpc_serializer.decode_inv_dubbo [OF assms, of H b m]
    rpc_serializer.decode_progress_dubbo [OF assms, of H b m]
  by (auto split: prod.splits sum.splits)

theorem dubbo_decode_safe_witness:
  "case list_decode [0xda, 0xbc, 0, 0, 0, 0, 0, 0, 0, 0, 0, 0, 0, 0, 0, 0] of
      (Inl e, _) \<Rightarrow> is_envoy_exception e
    | (Inr st, (c', b', _)) \<Rightarrow>
        codec_ok (\<lambda>bs. bs) c' \<and> (st = DecodeDone \<longrightarrow>
          length b' < length ([0xda, 0xbc, 0, 0, 0, 0, 0, 0, 0, 0, 0, 0, 0, 0, 0, 0] :: u8 list))"
  by (rule dubbo_decode_safe [OF list_serializer_ok codec_ok_init])

text \<open>C27: \<open>decodeHeader\<close> reads the 16 byte header. With fewer bytes it asks for more; a header
  with the magic number, a body size between 0 and 16 MiB and, for a request, the serialization
  type Hessian2, for a response a known status, gives a context and metadata with the fields of
  the header, and drains nothing; every other header is refused with an \<open>EnvoyException\<close>.\<close>

theorem dubbo_decodeHeader_spec:
  assumes "envoy_buffer B content"
  shows "if length (content b) < 16 then decodeHeader B b (Some m) = (Inr (None, False), Some m)
    else if be_word (take 2 (content b)) \<noteq> MagicNumber then
      \<exists>s. decodeHeader B b (Some m) = (Inl (EnvoyException s), Some m)
    else \<exists>flag status i n. take 16 (content b) = header_bytes flag status i n \<and>
      (if valid_header flag status n then
         decodeHeader B b (Some m) =
           (Inr (Some (header_context B flag n), True), Some (header_metadata flag status i m))
       else \<exists>s m'. decodeHeader B b (Some m) = (Inl (EnvoyException s), Some m'))"
proof (cases "length (content b) < 16 \<or> be_word (take 2 (content b)) \<noteq> MagicNumber")
  case True
  then show ?thesis
    using envoy_buffer.decodeHeader_short [OF assms] envoy_buffer.decodeHeader_bad_magic [OF assms]
    by (auto simp: not_less)
next
  case False
  then obtain flag status i n rest where h: "content b = header_bytes flag status i n @ rest"
    using lb.header_bytes_exist [of "content b"] by (metis not_less)
  then have pre: "take 16 (content b) = header_bytes flag status i n" by simp
  show ?thesis
  proof (cases "valid_header flag status n")
    case True
    then have "decodeHeader B b (Some m) =
        (Inr (Some (header_context B flag n), True), Some (header_metadata flag status i m))"
      using envoy_buffer.decodeHeader_valid [OF assms h] by simp
    then show ?thesis using False pre True by auto
  next
    case invalid: False
    then have "\<exists>s m'. decodeHeader_metadata B b m = (Inl (EnvoyException s), m')"
      using envoy_buffer.decodeHeader_bad_size [OF assms h]
        envoy_buffer.decodeHeader_bad_serialization [OF assms h]
        envoy_buffer.decodeHeader_bad_status [OF assms h]
      by (fastforce simp: valid_header_def split: if_splits)
    then have "\<exists>s m'. decodeHeader B b (Some m) = (Inl (EnvoyException s), Some m')" by auto
    then show ?thesis using False pre invalid by (metis (no_types, lifting))
  qed
qed

theorem dubbo_decodeHeader_spec_witness:
  "\<exists>flag status i n. take 16 (header_bytes 0xC2 0 7 8 @ sample_body) = header_bytes flag status i n \<and>
    (if valid_header flag status n then
       decodeHeader list_buffer (header_bytes 0xC2 0 7 8 @ sample_body) (Some MessageMetadata) =
         (Inr (Some (header_context list_buffer flag n), True),
          Some (header_metadata flag status i MessageMetadata))
     else \<exists>s m'. decodeHeader list_buffer (header_bytes 0xC2 0 7 8 @ sample_body) (Some MessageMetadata) =
         (Inl (EnvoyException s), Some m'))"
proof -
  have "be_word (take 2 (header_bytes 0xC2 0 7 8 @ sample_body)) = MagicNumber"
    by (simp add: header_bytes_def)
  then show ?thesis
    using dubbo_decodeHeader_spec [OF lb.envoy_buffer_axioms, of "header_bytes 0xC2 0 7 8 @ sample_body"
        MessageMetadata] by simp
qed

subsection \<open>Replies\<close>

text \<open>C21: a heartbeat request is answered in kind. The message the codec makes of it is encoded
  as a heartbeat response: status OK, no body, the request's id; and the codec's own decoder reads
  it back as a heartbeat with that id.\<close>

theorem dubbo_heartbeat_roundtrip:
  assumes "rpc_serializer B content S result_code"
    and "content b = header_bytes flag status i n @ rest" and "valid_header flag status n"
    and "flag_event flag" and "flag_request flag" and "unat n \<le> length rest" and "content out = []"
  shows "\<exists>b' m' out' m2 b2.
    DubboCodec_decode B H S DubboCodec_init b (MetadataImpl B H) =
      (Inr DecodeDone, (DubboCodec_init, b', m')) \<and>
    md_message_type m' = Heartbeat \<and> md_request_id m' = i \<and> content b' = drop (unat n) rest \<and>
    DubboCodec_encode B S m' mut out = (Inr (), out') \<and>
    content out' = header_bytes 0x22 (u8_of_response_status DOk) i 0 \<and>
    DubboCodec_decode B H S DubboCodec_init out' (MetadataImpl B H) =
      (Inr DecodeDone, (DubboCodec_init, b2, m2)) \<and>
    md_message_type m2 = Heartbeat \<and> md_response_status m2 = StatusOk \<and> md_request_id m2 = i \<and>
    content b2 = []"
proof -
  have B: "envoy_buffer B content" using assms(1) by (rule rpc_serializer.axioms)
  let ?dm = "header_metadata flag status i MessageMetadata"
  obtain o' b' where d: "DubboCodec_decode B H S DubboCodec_init b (MetadataImpl B H) =
      (Inr DecodeDone, (DubboCodec_init, b',
        toMetadata H ?dm ((header_context B flag n)\<lparr>ctx_origin_message := o'\<rparr>) (MetadataImpl B H)))"
    "content b' = drop (unat n) rest"
    using rpc_serializer.decode_heartbeat [OF assms(1-4,6)] by metis
  have dm: "dm_message_type ?dm = DHeartbeatRequest" "dm_timeout ?dm = None"
    "dm_serialization_type ?dm = 2" "dm_request_id ?dm = i"
    using assms(4,5) by (simp_all add: header_metadata_def header_type_def MessageMetadata_def Let_def)
  obtain out' where e: "DubboCodec_encode B S
      (toMetadata H ?dm ((header_context B flag n)\<lparr>ctx_origin_message := o'\<rparr>) (MetadataImpl B H))
      mut out = (Inr (), out')" "content out' = heartbeat_reply i"
    using envoy_buffer.encode_heartbeat [OF B assms(7) dm(2,3)] dm(1,4) by (metis insertI1)
  have out: "content out' = header_bytes 0x22 20 i 0 @ []" using e(2) by (simp add: heartbeat_reply_def)
  have z: "unat (0 :: u32) \<le> length ([] :: u8 list)" by simp
  obtain o2 b2 where r: "DubboCodec_decode B H S DubboCodec_init out' (MetadataImpl B H) =
      (Inr DecodeDone, (DubboCodec_init, b2,
        toMetadata H (header_metadata 0x22 20 i MessageMetadata)
          ((header_context B 0x22 0)\<lparr>ctx_origin_message := o2\<rparr>) (MetadataImpl B H)))"
    "content b2 = []"
    using rpc_serializer.decode_heartbeat [OF assms(1) out heartbeat_reply_valid(1,2) z]
    by (metis drop_Nil)
  show ?thesis
    using d e r dm heartbeat_reply_valid
    by (auto simp: toMetadata_fields header_metadata_def header_type_def heartbeat_reply_def Let_def)
qed

theorem dubbo_heartbeat_roundtrip_witness:
  "\<exists>b' m' out' m2 b2.
    list_decode (header_bytes 0xE2 0 9 1 @ [78]) = (Inr DecodeDone, (DubboCodec_init, b', m')) \<and>
    md_message_type m' = Heartbeat \<and> md_request_id m' = 9 \<and> b' = drop (unat (1 :: u32)) [78] \<and>
    DubboCodec_encode list_buffer list_serializer m' MutationImpl [] = (Inr (), out') \<and>
    out' = header_bytes 0x22 (u8_of_response_status DOk) 9 0 \<and>
    list_decode out' = (Inr DecodeDone, (DubboCodec_init, b2, m2)) \<and>
    md_message_type m2 = Heartbeat \<and> md_response_status m2 = StatusOk \<and> md_request_id m2 = 9 \<and>
    b2 = []"
proof -
  have v: "valid_header 0xE2 0 1" "flag_event 0xE2" "flag_request 0xE2" "unat (1 :: u32) \<le> length [78 :: u8]"
    by (simp_all add: valid_header_def valid_size_def flag_request_def flag_event_def MaxBodySize_def
        MessageTypeMask_def EventMask_def SerializationTypeMask_def)
  show ?thesis
    by (rule dubbo_heartbeat_roundtrip [OF list_serializer_ok refl v refl])
qed

text \<open>C18: a local error reply the codec encodes for a request reaches the client as one: the
  codec's own decoder reads it back as an error message with the request's id, and the whole
  reply is consumed. This holds for the errors whose status the decoder knows.\<close>

theorem dubbo_local_reply_roundtrip:
  assumes "rpc_serializer B content S result_code"
    and "dm_timeout dm = None" and "dm_serialization_type dm = 2"
    and "err_type err \<in> {RouteNotFound, BadResponse}" and "err_message err \<noteq> []"
    and "length (result_code ResponseWithException (err_message err)) \<le> 16777216"
    and "content out = []"
  shows "\<exists>out' b' m'.
    DubboCodec_onError B S (toMetadata H dm ctx (MetadataImpl B H)) err out = (Inr (), out') \<and>
    DubboCodec_decode B H S DubboCodec_init out' (MetadataImpl B H) =
      (Inr DecodeDone, (DubboCodec_init, b', m')) \<and>
    md_message_type m' = MsgError \<and> md_response_status m' = StatusError \<and>
    md_request_id m' = dm_request_id dm \<and> content b' = []"
proof -
  let ?code = "result_code ResponseWithException (err_message err)"
  let ?n = "of_nat (length ?code) :: u32"
  let ?s = "error_status_code (err_type err)"
  have B: "envoy_buffer B content" using assms(1) by (rule rpc_serializer.axioms)
  obtain out' where e:
    "DubboCodec_onError B S (toMetadata H dm ctx (MetadataImpl B H)) err out = (Inr (), out')"
    "content out' = header_bytes 2 ?s (dm_request_id dm) ?n @ ?code"
    using rpc_serializer.encode_error [OF assms(1,7,2,3,5)] assms(6) by auto
  have v: "valid_header 2 ?s ?n"
    using assms(4) by (simp add: valid_header_def valid_size_of_nat [OF assms(6)] reply_flags
        error_status_code_valid)
  have n: "unat ?n = length ?code" using assms(6) by (simp add: unat_of_nat)
  let ?m = "header_metadata 2 ?s (dm_request_id dm) MessageMetadata"
  have ty: "dm_message_type ?m = DResponse"
    by (simp add: header_metadata_def reply_flags Let_def)
  obtain o' b' where d: "DubboCodec_decode B H S DubboCodec_init out' (MetadataImpl B H) =
      (Inr DecodeDone, (DubboCodec_init, b', toMetadata H (?m\<lparr>dm_message_type := DException\<rparr>)
        ((header_context B 2 ?n)\<lparr>ctx_origin_message := o'\<rparr>) (MetadataImpl B H)))"
    "content b' = []"
  proof (rule rpc_serializer.decode_body [OF assms(1) e(2) v reply_flags(2)])
    show "unat ?n \<le> length ?code" using n by simp
    show "body_outcome S b (header_context B 2 ?n) ?m = Inr (?m\<lparr>dm_message_type := DException\<rparr>)"
      if "content b = ?code" for b
      by (rule rpc_serializer.body_outcome_reply [OF assms(1) that assms(6) ty])
  qed (use n that in auto)
  have "?s \<noteq> u8_of_response_status DOk"
    using assms(4) by (auto simp: error_status_code_def)
  then show ?thesis
    using e(1) d by (auto simp: toMetadata_fields header_metadata_def reply_flags Let_def)
qed

theorem dubbo_local_reply_roundtrip_witness:
  "\<exists>out' b' m'.
    DubboCodec_onError list_buffer list_serializer
      (toMetadata alist_headers (header_metadata 0xC2 0 7 MessageMetadata) (ContextImpl list_buffer) new_metadata)
      (mk_error RouteNotFound ''no route'') [] = (Inr (), out') \<and>
    list_decode out' = (Inr DecodeDone, (DubboCodec_init, b', m')) \<and>
    md_message_type m' = MsgError \<and> md_response_status m' = StatusError \<and>
    md_request_id m' = dm_request_id (header_metadata 0xC2 0 7 MessageMetadata) \<and> b' = []"
  by (rule dubbo_local_reply_roundtrip [OF list_serializer_ok])
    (simp_all add: header_metadata_def MessageMetadata_def sample_header_valid mk_error_def
      list_string_code_def list_int_code_def)

text \<open>C34: the errors ClusterNotFound, NoHealthyUpstream and Unspecified are encoded with the
  status ServerError (80), which \<open>isValidResponseStatus\<close> leaves out: the codec's own decoder
  refuses such a reply.\<close>

theorem dubbo_server_error_reply_refused:
  assumes "rpc_serializer B content S result_code"
    and "dm_timeout dm = None" and "dm_serialization_type dm = 2"
    and "err_type err \<in> {ClusterNotFound, NoHealthyUpstream, Unspecified}" and "err_message err \<noteq> []"
    and "length (result_code ResponseWithException (err_message err)) \<le> 16777216"
    and "content out = []"
  shows "\<exists>out'.
    DubboCodec_onError B S (toMetadata H dm ctx (MetadataImpl B H)) err out = (Inr (), out') \<and>
    fst (DubboCodec_decode B H S DubboCodec_init out' (MetadataImpl B H)) =
      Inl (EnvoyException ''invalid dubbo message response status 80'')"
proof -
  let ?code = "result_code ResponseWithException (err_message err)"
  let ?n = "of_nat (length ?code) :: u32"
  have B: "envoy_buffer B content" using assms(1) by (rule rpc_serializer.axioms)
  have s: "error_status_code (err_type err) = 80" using assms(4) by (auto simp: error_status_code_def)
  obtain out' where e:
    "DubboCodec_onError B S (toMetadata H dm ctx (MetadataImpl B H)) err out = (Inr (), out')"
    "content out' = header_bytes 2 80 (dm_request_id dm) ?n @ ?code"
    using rpc_serializer.encode_error [OF assms(1,7,2,3,5)] assms(6) s by auto
  have bad: "\<not> isValidResponseStatus 80"
    using error_status_code_valid [of Unspecified] by (simp add: error_status_code_def)
  have dec: "dec_nat 80 = ''80''" by code_simp
  have "dubbo_run B S out' DubboDecoderStateMachine =
      (Inl (EnvoyException ''invalid dubbo message response status 80''),
       (out', DubboDecoderStateMachine\<lparr>sm_metadata := MessageMetadata\<lparr>dm_request_id := dm_request_id dm,
          dm_message_type := DResponse\<rparr>\<rparr>))"
    using envoy_buffer.run_header_error [OF B new_machine(1)]
      envoy_buffer.decodeHeader_bad_status [OF B e(2) valid_size_of_nat [OF assms(6)] reply_flags(1) bad]
    by (simp add: reply_flags dec)
  then show ?thesis using e(1) by (simp add: decode_init)
qed

theorem dubbo_server_error_reply_refused_witness:
  "\<exists>out'.
    DubboCodec_onError list_buffer list_serializer
      (toMetadata alist_headers (header_metadata 0xC2 0 7 MessageMetadata) (ContextImpl list_buffer) new_metadata)
      (mk_error ClusterNotFound ''no cluster'') [] = (Inr (), out') \<and>
    fst (list_decode out') = Inl (EnvoyException ''invalid dubbo message response status 80'')"
  by (rule dubbo_server_error_reply_refused [OF list_serializer_ok])
    (simp_all add: header_metadata_def MessageMetadata_def sample_header_valid mk_error_def
      list_string_code_def list_int_code_def)

subsection \<open>Metadata\<close>

text \<open>C30: the proxy's metadata carries Dubbo's: what \<open>toMetadata\<close> stores, \<open>toMsgMetadata\<close> reads
  back, field by field, for every message without a timeout.\<close>

theorem dubbo_metadata_roundtrip:
  assumes "dm_timeout dm = None"
  shows "toMsgMetadata (toMetadata H dm ctx (MetadataImpl B H)) MessageMetadata = (Inr (), dm)"
  by (rule toMsgMetadata_toMetadata [OF assms])

theorem dubbo_metadata_roundtrip_witness:
  "toMsgMetadata (toMetadata alist_headers (header_metadata 0xC2 0 7 MessageMetadata)
     (ContextImpl list_buffer) new_metadata) MessageMetadata =
   (Inr (), header_metadata 0xC2 0 7 MessageMetadata)"
  by (rule dubbo_metadata_roundtrip) (simp add: header_metadata_def MessageMetadata_def Let_def)

text \<open>C40: every message the codec decodes can be answered: on the metadata it gives, with any codec a
  connection can have, \<open>onError\<close> writes an error reply with the id of the message, and a heartbeat is
  encoded as a heartbeat reply with its id. The cast to \<open>uint32_t\<close> of a timeout, which would throw
  \<open>bad_any_cast\<close> on the \<open>optional\<close> that \<open>toMetadata\<close> stores, is not reached: no decoded message has one.\<close>

theorem dubbo_decoded_answerable:
  assumes "rpc_serializer B content S result_code" and "codec_reached B H S c"
    and "DubboCodec_decode B H S c b (MetadataImpl B H) = (Inr DecodeDone, (c', b', m))"
    and "err_message err \<noteq> []"
    and "length (result_code ResponseWithException (err_message err)) \<le> 16777216"
    and "content out = []"
  shows "\<exists>reply beat. Metadata_get m ''Timeout'' = None \<and>
    DubboCodec_onError B S m err out = (Inr (), reply) \<and>
    content reply = header_bytes 2 (u8_of_response_status (onError_status (err_type err))) (md_request_id m)
      (of_nat (length (result_code ResponseWithException (err_message err)))) @
      result_code ResponseWithException (err_message err) \<and>
    (md_message_type m = Heartbeat \<longrightarrow>
      DubboCodec_encode B S m mut out = (Inr (), beat) \<and>
      content beat = header_bytes 0x22 (u8_of_response_status DOk) (md_request_id m) 0)"
proof -
  have B: "envoy_buffer B content" using assms(1) by (rule rpc_serializer.axioms)
  obtain dm ctx where dm: "dm_timeout dm = None" "dm_serialization_type dm = 2"
    and m: "m = toMetadata H dm ctx (MetadataImpl B H)"
    by (rule decoded_metadata [OF assms(2,3)])
  obtain reply where reply: "DubboCodec_onError B S m err out = (Inr (), reply)"
    "content reply = header_bytes 2 (error_status_code (err_type err)) (dm_request_id dm)
      (of_nat (length (result_code ResponseWithException (err_message err)))) @
      result_code ResponseWithException (err_message err)"
    using rpc_serializer.encode_error [OF assms(1,6) dm assms(4)] assms(5) unfolding m by auto
  have "\<exists>beat. md_message_type m = Heartbeat \<longrightarrow>
      DubboCodec_encode B S m mut out = (Inr (), beat) \<and> content beat = heartbeat_reply (dm_request_id dm)"
  proof (cases "dm_message_type dm \<in> {DHeartbeatRequest, DHeartbeatResponse}")
    case True
    then show ?thesis
      using envoy_buffer.encode_heartbeat [OF B assms(6) dm True] unfolding m by metis
  next
    case False
    then have "md_message_type m \<noteq> Heartbeat"
      by (cases "dm_message_type dm") (simp_all add: m toMetadata_fields)
    then show ?thesis by simp
  qed
  then obtain beat where "md_message_type m = Heartbeat \<longrightarrow>
      DubboCodec_encode B S m mut out = (Inr (), beat) \<and> content beat = heartbeat_reply (dm_request_id dm)"
    by blast
  moreover have "Metadata_get m ''Timeout'' = None" by (simp add: m toMetadata_get dm(1))
  moreover have "md_request_id m = dm_request_id dm" by (simp add: m toMetadata_fields)
  ultimately show ?thesis
    using reply by (auto simp: error_status_code_def heartbeat_reply_def)
qed

theorem dubbo_decoded_answerable_witness:
  "\<exists>b' m reply beat. list_decode (header_bytes 0xE2 0 9 1 @ [78]) = (Inr DecodeDone, (DubboCodec_init, b', m)) \<and>
    Metadata_get m ''Timeout'' = None \<and>
    DubboCodec_onError list_buffer list_serializer m (mk_error ClusterNotFound ''no cluster'') [] = (Inr (), reply) \<and>
    reply = header_bytes 2 80 9 (of_nat (length (list_result_code ResponseWithException ''no cluster''))) @
      list_result_code ResponseWithException ''no cluster'' \<and>
    DubboCodec_encode list_buffer list_serializer m MutationImpl [] = (Inr (), beat) \<and>
    beat = header_bytes 0x22 20 9 0"
proof -
  have v: "valid_header 0xE2 0 1" "flag_event 0xE2" "flag_request 0xE2" "unat (1 :: u32) \<le> length [78 :: u8]"
    by (simp_all add: valid_header_def valid_size_def flag_request_def flag_event_def MaxBodySize_def
        MessageTypeMask_def EventMask_def SerializationTypeMask_def)
  obtain b' m where m: "list_decode (header_bytes 0xE2 0 9 1 @ [78]) = (Inr DecodeDone, (DubboCodec_init, b', m))"
    "md_request_id m = 9" "md_message_type m = Heartbeat"
    by (rule lh.decode_heartbeat [OF refl v(1,2,4), where i = 9 and H = alist_headers and m = new_metadata])
      (use v in \<open>auto simp: toMetadata_fields header_metadata_def header_type_def Let_def\<close>)
  show ?thesis
    using dubbo_decoded_answerable [OF list_serializer_ok codec_new m(1), of "mk_error ClusterNotFound ''no cluster''"
        "[]" MutationImpl] m
    by (simp add: mk_error_def list_string_code_def list_int_code_def)
qed

subsection \<open>The body\<close>

text \<open>On the parameter descriptor of a Java method (primitive types, objects and arrays, as
  the Java specification writes them) \<open>getParametersNumber\<close> is the number of parameters.\<close>

theorem getParametersNumber_counts:
  assumes "list_all valid_jtype ts"
  shows "getParametersNumber (concat (map descriptor ts)) = of_nat (length ts)"
  using loop_descriptors [OF assms, of 0] by (simp add: getParametersNumber_loop_eq)

theorem getParametersNumber_counts_witness:
  "getParametersNumber
     (concat (map descriptor [JArray JInt, JObject ''java/lang/String'', JArray (JArray (JObject ''II'')), JLong])) =
   of_nat (length [JArray JInt, JObject ''java/lang/String'', JArray (JArray (JObject ''II'')), JLong])"
  by (rule getParametersNumber_counts) simp

end
