(* ===== verification/Dubbo_Invocation.thy ===== *)
theory Dubbo_Invocation
  imports Dubbo_Properties
begin

text \<open>
  The part of a Dubbo invocation that is decoded on demand: \<open>RpcInvocationImpl\<close> and its
  \<open>Attachment\<close> (src/src/application_protocols/dubbo/message_impl.h and message_impl.cc) and the two
  callbacks \<open>deserializeRpcInvocation\<close> installs (dubbo_hessian2_serializer_impl.cc).

  Both callbacks read with one decoder, \<open>delayed_decoder\<close>, from the origin message of the context
  the invocation was decoded with. The decoder holds a reference to that buffer and nothing keeps
  the context alive, so the accessors take the origin message of the context, None where the context
  was destroyed; reading it then is a \<open>Panic\<close>.
\<close>

subsection \<open>Objects of the hessian2 package\<close>

text \<open>
  \<open>ho_decode\<close> is \<open>decode<Hessian2::Object>\<close>: the object, None for a null pointer, and the new
  offset. \<open>ho_untyped_map\<close> gives the entries of an object of type \<open>UntypedMap\<close>, \<open>ho_string\<close> is the
  constructor of \<open>StringObject\<close>, \<open>ho_equal\<close> the equality of the keys of a map.
\<close>

record ('o, 'b) hessian_objects =
  ho_decode :: "'b \<Rightarrow> nat \<Rightarrow> 'o option \<times> nat"
  ho_untyped_map :: "'o \<Rightarrow> ('o \<times> 'o) list option"
  ho_toString :: "'o \<Rightarrow> string option"
  ho_string :: "string \<Rightarrow> 'o"
  ho_equal :: "'o \<Rightarrow> 'o \<Rightarrow> bool"

text \<open>A string is a key equal to the string objects with its content and to no other object.\<close>

locale hessian_strings =
  fixes Oh :: "('o, 'b) hessian_objects"
  assumes toString_string: "ho_toString Oh (ho_string Oh s) = Some s"
    and equal_string: "ho_equal Oh x (ho_string Oh s) \<longleftrightarrow> ho_toString Oh x = Some s"

text \<open>\<open>find\<close>, \<open>emplace\<close> and \<open>erase\<close> of the map, as a list of entries with different keys.\<close>

definition map_find :: "('o, 'b) hessian_objects \<Rightarrow> ('o \<times> 'o) list \<Rightarrow> 'o \<Rightarrow> ('o \<times> 'o) option" where
  "map_find Oh m k = find (\<lambda>p. ho_equal Oh (fst p) k) m"

definition map_emplace :: "('o, 'b) hessian_objects \<Rightarrow> ('o \<times> 'o) list \<Rightarrow> 'o \<Rightarrow> 'o \<Rightarrow> ('o \<times> 'o) list" where
  "map_emplace Oh m k v = (case map_find Oh m k of Some _ \<Rightarrow> m | None \<Rightarrow> m @ [(k, v)])"

definition map_erase :: "('o, 'b) hessian_objects \<Rightarrow> ('o \<times> 'o) list \<Rightarrow> 'o \<Rightarrow> ('o \<times> 'o) list" where
  "map_erase Oh m k = filter (\<lambda>p. \<not> ho_equal Oh (fst p) k) m"

subsection \<open>Attachments\<close>

record ('o, 'h) attachment =
  at_updated :: bool
  at_map :: "('o \<times> 'o) list"
  at_offset :: nat
  at_headers :: 'h

text \<open>The loop of the constructor: entries whose key and value are strings go to the headers.\<close>

fun attachment_headers ::
  "('o, 'b) hessian_objects \<Rightarrow> 'h header_ops \<Rightarrow> ('o \<times> 'o) list \<Rightarrow> 'h \<Rightarrow> 'h" where
  "attachment_headers Oh H [] h = h"
| "attachment_headers Oh H ((k, v) # ps) h =
     attachment_headers Oh H ps
       (case (ho_toString Oh k, ho_toString Oh v) of
          (Some key, Some value) \<Rightarrow> hdr_addCopy H h (hdr_lower H key) value
        | _ \<Rightarrow> h)"

definition Attachment ::
  "('o, 'b) hessian_objects \<Rightarrow> 'h header_ops \<Rightarrow> ('o \<times> 'o) list \<Rightarrow> nat \<Rightarrow> ('o, 'h) attachment" where
  "Attachment Oh H value offset =
     \<lparr>at_updated = False, at_map = value, at_offset = offset,
      at_headers = attachment_headers Oh H value (hdr_create H)\<rparr>"

definition Attachment_insert ::
  "('o, 'b) hessian_objects \<Rightarrow> 'h header_ops \<Rightarrow> string \<Rightarrow> string \<Rightarrow> ('o, 'h) attachment \<Rightarrow>
   ('o, 'h) attachment" where
  "Attachment_insert Oh H key value a =
     (let a = a\<lparr>at_updated := True,
                at_map := map_emplace Oh (at_map a) (ho_string Oh key) (ho_string Oh value)\<rparr>;
          lowcase_key = hdr_lower H key
      in a\<lparr>at_headers := hdr_addCopy H (hdr_remove H (at_headers a) lowcase_key) lowcase_key value\<rparr>)"

definition Attachment_remove ::
  "('o, 'b) hessian_objects \<Rightarrow> 'h header_ops \<Rightarrow> string \<Rightarrow> ('o, 'h) attachment \<Rightarrow> ('o, 'h) attachment" where
  "Attachment_remove Oh H key a =
     a\<lparr>at_updated := True, at_map := map_erase Oh (at_map a) (ho_string Oh key),
       at_headers := hdr_remove H (at_headers a) (hdr_lower H key)\<rparr>"

definition Attachment_lookup ::
  "('o, 'b) hessian_objects \<Rightarrow> string \<Rightarrow> ('o, 'h) attachment \<Rightarrow> string option" where
  "Attachment_lookup Oh key a =
     (case map_find Oh (at_map a) (ho_string Oh key) of
        Some result \<Rightarrow> ho_toString Oh (snd result)
      | None \<Rightarrow> None)"

subsection \<open>The callbacks\<close>

fun decode_objects ::
  "('o, 'b) hessian_objects \<Rightarrow> 'b \<Rightarrow> nat \<Rightarrow> nat \<Rightarrow> (exn + 'o list) \<times> nat" where
  "decode_objects Oh b 0 i = (Inr [], i)"
| "decode_objects Oh b (Suc n) i =
     (case ho_decode Oh b i of
        (None, j) \<Rightarrow> (Inl (EnvoyException ''Cannot parse RpcInvocation parameter from buffer''), j)
      | (Some x, j) \<Rightarrow>
          (case decode_objects Oh b n j of
             (Inl e, k) \<Rightarrow> (Inl e, k)
           | (Inr xs, k) \<Rightarrow> (Inr (x # xs), k)))"

definition parameters_lazy_callback ::
  "'b hessian_ops \<Rightarrow> ('o, 'b) hessian_objects \<Rightarrow> 'b \<Rightarrow> nat \<Rightarrow> (exn + 'o list) \<times> nat" where
  "parameters_lazy_callback Hs Oh b i =
     (case hes_decode_string Hs b i of
        (None, j) \<Rightarrow> (Inr [], j)
      | (Some types, j) \<Rightarrow>
          if types = [] then (Inr [], j)
          else decode_objects Oh b (unat (getParametersNumber types)) j)"

definition attachment_lazy_callback ::
  "('o, 'b) hessian_objects \<Rightarrow> 'h header_ops \<Rightarrow> 'b \<Rightarrow> nat \<Rightarrow> ('o, 'h) attachment \<times> nat" where
  "attachment_lazy_callback Oh H b offset =
     (let (result, j) = ho_decode Oh b offset
      in case result of
           None \<Rightarrow> (Attachment Oh H [] offset, j)
         | Some x \<Rightarrow>
             (case ho_untyped_map Oh x of
                Some m \<Rightarrow> (Attachment Oh H m offset, j)
              | None \<Rightarrow> (Attachment Oh H [] offset, j)))"

subsection \<open>RpcInvocationImpl\<close>

text \<open>\<open>ri_decoder\<close> is the offset of \<open>delayed_decoder\<close>; the two callbacks share it.\<close>

record ('o, 'h) invocation_impl =
  ri_invocation :: rpc_invocation
  ri_parameters :: "'o list option"
  ri_attachment :: "('o, 'h) attachment option"
  ri_parameters_callback :: bool
  ri_attachment_callback :: bool
  ri_decoder :: nat

text \<open>The invocation \<open>deserializeRpcInvocation\<close> returns.\<close>

definition RpcInvocationImpl :: "rpc_invocation \<Rightarrow> ('o, 'h) invocation_impl" where
  "RpcInvocationImpl i =
     \<lparr>ri_invocation = i, ri_parameters = None, ri_attachment = None,
      ri_parameters_callback = True, ri_attachment_callback = True,
      ri_decoder = unat (inv_parsed_size i)\<rparr>"

definition assignParametersIfNeed ::
  "'b hessian_ops \<Rightarrow> ('o, 'b) hessian_objects \<Rightarrow> 'b option \<Rightarrow> ('o, 'h) invocation_impl \<Rightarrow>
   (unit, ('o, 'h) invocation_impl) outcome" where
  "assignParametersIfNeed Hs Oh origin v =
     (if \<not> ri_parameters_callback v then
        (Inl (Panic ''ASSERT(parameters_lazy_callback_ != nullptr)''), v)
      else if ri_parameters v \<noteq> None then (Inr (), v)
      else
        (case origin of
           None \<Rightarrow> (Inl (Panic ''read of the origin message of a destroyed context''), v)
         | Some b \<Rightarrow>
             (case parameters_lazy_callback Hs Oh b (ri_decoder v) of
                (Inl e, j) \<Rightarrow> (Inl e, v\<lparr>ri_decoder := j\<rparr>)
              | (Inr ps, j) \<Rightarrow> (Inr (), v\<lparr>ri_parameters := Some ps, ri_decoder := j\<rparr>))))"

definition assignAttachmentIfNeed ::
  "'b hessian_ops \<Rightarrow> ('o, 'b) hessian_objects \<Rightarrow> 'h header_ops \<Rightarrow> 'b option \<Rightarrow>
   ('o, 'h) invocation_impl \<Rightarrow> (unit, ('o, 'h) invocation_impl) outcome" where
  "assignAttachmentIfNeed Hs Oh H origin v =
     (if \<not> ri_attachment_callback v then
        (Inl (Panic ''ASSERT(attachment_lazy_callback_ != nullptr)''), v)
      else if ri_attachment v \<noteq> None then (Inr (), v)
      else
        and_then (assignParametersIfNeed Hs Oh origin v) (\<lambda>_ v.
          case origin of
            None \<Rightarrow> (Inl (Panic ''read of the origin message of a destroyed context''), v)
          | Some b \<Rightarrow>
              (let (a, j) = attachment_lazy_callback Oh H b (ri_decoder v);
                   v = v\<lparr>ri_attachment := Some a, ri_decoder := j\<rparr>
               in case Attachment_lookup Oh ''group'' a of
                    Some g \<Rightarrow> (Inr (), v\<lparr>ri_invocation := (ri_invocation v)\<lparr>inv_group := Some g\<rparr>\<rparr>)
                  | None \<Rightarrow> (Inr (), v))))"

definition serviceGroup ::
  "'b hessian_ops \<Rightarrow> ('o, 'b) hessian_objects \<Rightarrow> 'h header_ops \<Rightarrow> 'b option \<Rightarrow>
   ('o, 'h) invocation_impl \<Rightarrow> (string option, ('o, 'h) invocation_impl) outcome" where
  "serviceGroup Hs Oh H origin v =
     and_then (assignAttachmentIfNeed Hs Oh H origin v) (\<lambda>_ v. (Inr (inv_group (ri_invocation v)), v))"


definition invocation_parameters ::
  "'b hessian_ops \<Rightarrow> ('o, 'b) hessian_objects \<Rightarrow> 'b option \<Rightarrow> ('o, 'h) invocation_impl \<Rightarrow>
   ('o list, ('o, 'h) invocation_impl) outcome" where
  "invocation_parameters Hs Oh origin v =
     and_then (assignParametersIfNeed Hs Oh origin v) (\<lambda>_ v.
       case ri_parameters v of
         Some ps \<Rightarrow> (Inr ps, v)
       | None \<Rightarrow> (Inl (Panic ''null parameters_''), v))"



subsection \<open>Headers and map of an attachment\<close>

text \<open>
  \<open>string_entries\<close>: the entries of a map whose key and value are strings. An attachment is
  \<open>in_sync\<close> when its headers are those entries, under the lower case of their keys.
\<close>

definition string_entries ::
  "('o, 'b) hessian_objects \<Rightarrow> ('o \<times> 'o) list \<Rightarrow> (string \<times> string) list" where
  "string_entries Oh m =
     List.map_filter (\<lambda>(k, v). case (ho_toString Oh k, ho_toString Oh v) of
        (Some key, Some value) \<Rightarrow> Some (key, value) | _ \<Rightarrow> None) m"

definition with_lower :: "'h header_ops \<Rightarrow> string \<Rightarrow> (string \<times> string) list \<Rightarrow> string list" where
  "with_lower H l es = map snd (filter (\<lambda>p. hdr_lower H (fst p) = l) es)"

definition in_sync ::
  "('o, 'b) hessian_objects \<Rightarrow> 'h header_ops \<Rightarrow> ('h \<Rightarrow> string \<Rightarrow> string list) \<Rightarrow>
   ('o, 'h) attachment \<Rightarrow> bool" where
  "in_sync Oh H hget a \<longleftrightarrow>
     (\<forall>l. hget (at_headers a) l = with_lower H l (string_entries Oh (at_map a)))"

lemma find_snoc: "(\<And>y. y \<in> set xs \<Longrightarrow> \<not> P y) \<Longrightarrow> P x \<Longrightarrow> find P (xs @ [x]) = Some x"
  by (induction xs) auto

lemma string_entries_simps [simp]:
  "string_entries Oh [] = []"
  "string_entries Oh (p # ps) =
     (case (ho_toString Oh (fst p), ho_toString Oh (snd p)) of
        (Some key, Some value) \<Rightarrow> (key, value) # string_entries Oh ps
      | _ \<Rightarrow> string_entries Oh ps)"
  by (simp_all add: string_entries_def List.map_filter_simps split: prod.split option.split)

lemma string_entries_append [simp]:
  "string_entries Oh (xs @ ys) = string_entries Oh xs @ string_entries Oh ys"
  by (induction xs) (simp_all split: option.split)

lemma with_lower_append [simp]: "with_lower H l (xs @ ys) = with_lower H l xs @ with_lower H l ys"
  by (simp add: with_lower_def)

context header_map
begin

lemma attachment_headers_hget:
  "hget (attachment_headers Oh H m h) l = hget h l @ with_lower H l (string_entries Oh m)"
  by (induction m arbitrary: h) (auto simp: with_lower_def addCopy_hget split: option.splits)

lemma attachment_in_sync: "in_sync Oh H hget (Attachment Oh H m offset)"
  by (simp add: in_sync_def Attachment_def attachment_headers_hget create_hget)

end

context hessian_strings
begin

lemma emplace_new:
  "map_find Oh m (ho_string Oh key) = None \<Longrightarrow>
   string_entries Oh (map_emplace Oh m (ho_string Oh key) (ho_string Oh value)) =
     string_entries Oh m @ [(key, value)]"
  by (simp add: map_emplace_def toString_string)

lemma erase_entries:
  "string_entries Oh (map_erase Oh m (ho_string Oh key)) =
     filter (\<lambda>p. fst p \<noteq> key) (string_entries Oh m)"
  by (induction m) (auto simp: map_erase_def equal_string split: option.splits)

lemma find_emplaced:
  "map_find Oh m k = None \<Longrightarrow> ho_equal Oh k k \<Longrightarrow> map_find Oh (map_emplace Oh m k v) k = Some (k, v)"
  by (simp add: map_emplace_def) (auto simp: map_find_def find_None_iff intro!: find_snoc)

lemma lookup_inserted:
  "map_find Oh (at_map a) (ho_string Oh key) = None \<Longrightarrow>
   Attachment_lookup Oh key (Attachment_insert Oh H key value a) = Some value"
  by (simp add: Attachment_lookup_def Attachment_insert_def Let_def find_emplaced equal_string
      toString_string)

lemma lookup_insert_existing:
  "Attachment_lookup Oh key a = Some v \<Longrightarrow>
   Attachment_lookup Oh key (Attachment_insert Oh H key value a) = Some v"
  by (auto simp: Attachment_lookup_def Attachment_insert_def Let_def map_emplace_def split: option.splits)

lemma find_erased: "map_find Oh (map_erase Oh m k) k = None"
  by (auto simp: map_find_def map_erase_def find_None_iff)

lemma lookup_removed: "Attachment_lookup Oh key (Attachment_remove Oh H key a) = None"
  by (simp add: Attachment_lookup_def Attachment_remove_def find_erased)

end

text \<open>Inserting and removing with the headers kept in step.\<close>

lemma insert_in_sync:
  assumes "hessian_strings Oh" and "header_map H hget" and "in_sync Oh H hget a"
    and "map_find Oh (at_map a) (ho_string Oh key) = None"
    and "with_lower H (hdr_lower H key) (string_entries Oh (at_map a)) = []"
  shows "in_sync Oh H hget (Attachment_insert Oh H key value a)"
  using assms(3,5)
  by (auto simp: in_sync_def Attachment_insert_def Let_def header_map.replace_hget [OF assms(2)]
      hessian_strings.emplace_new [OF assms(1,4)] with_lower_def)

lemma remove_in_sync:
  assumes "hessian_strings Oh" and "header_map H hget" and "in_sync Oh H hget a"
    and "\<And>k v. (k, v) \<in> set (string_entries Oh (at_map a)) \<Longrightarrow> hdr_lower H k = hdr_lower H key \<Longrightarrow> k = key"
  shows "in_sync Oh H hget (Attachment_remove Oh H key a)"
proof -
  let ?es = "string_entries Oh (at_map a)"
  have "filter (\<lambda>p. hdr_lower H (fst p) = hdr_lower H key \<and> fst p \<noteq> key) ?es = []"
    using assms(4) by (auto simp: filter_empty_conv)
  moreover have "filter (\<lambda>p. hdr_lower H (fst p) = l \<and> fst p \<noteq> key) ?es =
      filter (\<lambda>p. hdr_lower H (fst p) = l) ?es" if "l \<noteq> hdr_lower H key" for l
    using that by (intro filter_cong) auto
  ultimately show ?thesis
    using assms(3)
    by (auto simp: in_sync_def Attachment_remove_def header_map.remove_hget [OF assms(2)]
        hessian_strings.erase_entries [OF assms(1)] with_lower_def conj_commute)
qed

subsection \<open>Decoding once\<close>






text \<open>The origin message of the context a codec decodes with; None where it holds no context.\<close>

definition context_origin :: "'b dubbo_codec \<Rightarrow> 'b option" where
  "context_origin c =
     Option.bind (dc_state_machine c) (\<lambda>sm. map_option ctx_origin_message (sm_context sm))"

lemma decoded_no_context:
  assumes "DubboCodec_decode B H S c b m = (Inr DecodeDone, (c', b', m'))"
  shows "context_origin c' = None"
  using assms
  by (auto simp: DubboCodec_decode_def DubboCodec_complete_def context_origin_def Let_def
      split: option.splits prod.splits sum.splits if_splits)

lemma access_destroyed:
  "fst (serviceGroup Hs Oh H None (RpcInvocationImpl i)) =
     Inl (Panic ''read of the origin message of a destroyed context'')"
  "fst (invocation_parameters Hs Oh None (RpcInvocationImpl i)) =
     Inl (Panic ''read of the origin message of a destroyed context'')"
  by (simp_all add: serviceGroup_def invocation_parameters_def assignAttachmentIfNeed_def
      assignParametersIfNeed_def RpcInvocationImpl_def and_then_def)

subsection \<open>A reference instance of the objects\<close>

text \<open>Short strings and untyped maps of the Hessian 2.0 format, over a list of bytes.\<close>

datatype list_object = ListString string | ListMap "(list_object \<times> list_object) list"

fun list_decode_object :: "nat \<Rightarrow> u8 list \<Rightarrow> nat \<Rightarrow> list_object option \<times> nat"
  and list_decode_entries :: "nat \<Rightarrow> u8 list \<Rightarrow> nat \<Rightarrow> (list_object \<times> list_object) list option \<times> nat" where
  "list_decode_object 0 bs i = (None, i)"
| "list_decode_object (Suc n) bs i =
     (if i < length bs \<and> bs ! i = 72 then
        (let (es, j) = list_decode_entries n bs (i + 1) in (map_option ListMap es, j))
      else (let (s, j) = list_decode_string bs i in (map_option ListString s, j)))"
| "list_decode_entries 0 bs i = (None, i)"
| "list_decode_entries (Suc n) bs i =
     (if i < length bs \<and> bs ! i = 90 then (Some [], i + 1)
      else
        (case list_decode_object n bs i of
           (None, j) \<Rightarrow> (None, j)
         | (Some k, j) \<Rightarrow>
             (case list_decode_object n bs j of
                (None, j) \<Rightarrow> (None, j)
              | (Some v, j) \<Rightarrow>
                  (let (es, j) = list_decode_entries n bs j
                   in (map_option (\<lambda>es. (k, v) # es) es, j)))))"

definition list_objects :: "(list_object, u8 list) hessian_objects" where
  "list_objects =
     \<lparr>ho_decode = (\<lambda>bs i. list_decode_object (length bs) bs i),
      ho_untyped_map = (\<lambda>x. case x of ListMap es \<Rightarrow> Some es | ListString _ \<Rightarrow> None),
      ho_toString = (\<lambda>x. case x of ListString s \<Rightarrow> Some s | ListMap _ \<Rightarrow> None),
      ho_string = ListString,
      ho_equal = (=)\<rparr>"

interpretation lo: hessian_strings list_objects
  by unfold_locales (auto simp: list_objects_def split: list_object.split)

text \<open>Attachments of one group, and the bytes of an invocation with one parameter and that group.\<close>

definition sample_attachment :: "(list_object, (string \<times> string) list) attachment" where
  "sample_attachment = Attachment list_objects alist_headers
     [(ListString ''group'', ListString ''g''), (ListMap [], ListString ''h'')] 4"


definition sample_rpc :: rpc_invocation where
  "sample_rpc = \<lparr>inv_service_name = ''i'', inv_method_name = ''m'',
     inv_service_version = Some ''0'', inv_group = None, inv_parsed_size = 0\<rparr>"

lemma sample_attachment_entries:
  "string_entries list_objects (at_map sample_attachment) = [(''group'', ''g'')]"
  "map_find list_objects (at_map sample_attachment) (ListString ''tag'') = None"
  "Attachment_lookup list_objects ''group'' sample_attachment = Some ''g''"
  by code_simp+

lemma sample_lower:
  "hdr_lower alist_headers ''tag'' = ''tag''" "hdr_lower alist_headers ''group'' = ''group''"
  by code_simp+

text \<open>The invocation of these bytes, after its parameters and after its attachment were read.\<close>

abbreviation sample_impl :: "(list_object, (string \<times> string) list) invocation_impl" where
  "sample_impl \<equiv> RpcInvocationImpl sample_rpc"




subsection \<open>Properties\<close>

text \<open>C32: the headers of an attachment follow its map. The constructor makes them agree for every
  map; inserting a key that is not there (in no spelling) and removing a key of which no other
  spelling is there keep them in step, the new value is found and the removed one is not.\<close>

theorem attachment_headers_in_step:
  assumes "hessian_strings Oh" and "header_map H hget"
  shows "in_sync Oh H hget (Attachment Oh H m offset) \<and>
    (in_sync Oh H hget a \<and> map_find Oh (at_map a) (ho_string Oh key) = None \<and>
       with_lower H (hdr_lower H key) (string_entries Oh (at_map a)) = [] \<longrightarrow>
     in_sync Oh H hget (Attachment_insert Oh H key value a) \<and>
     Attachment_lookup Oh key (Attachment_insert Oh H key value a) = Some value) \<and>
    (in_sync Oh H hget a \<and>
       list_all (\<lambda>(k, v). hdr_lower H k = hdr_lower H key \<longrightarrow> k = key) (string_entries Oh (at_map a)) \<longrightarrow>
     in_sync Oh H hget (Attachment_remove Oh H key a) \<and>
     Attachment_lookup Oh key (Attachment_remove Oh H key a) = None)"
  by (auto simp: header_map.attachment_in_sync [OF assms(2)] hessian_strings.lookup_inserted [OF assms(1)]
      hessian_strings.lookup_removed [OF assms(1)] list_all_iff
      intro: insert_in_sync [OF assms] remove_in_sync [OF assms])

theorem attachment_headers_in_step_witness:
  "in_sync list_objects alist_headers alist_get sample_attachment \<and>
   Attachment_lookup list_objects ''tag''
     (Attachment_insert list_objects alist_headers ''tag'' ''blue'' sample_attachment) = Some ''blue'' \<and>
   Attachment_lookup list_objects ''group''
     (Attachment_remove list_objects alist_headers ''group'' sample_attachment) = None"
proof (intro conjI)
  note step = attachment_headers_in_step [OF lo.hessian_strings_axioms ah.header_map_axioms]
  show sync: "in_sync list_objects alist_headers alist_get sample_attachment"
    using step unfolding sample_attachment_def by blast
  have absent: "with_lower alist_headers ''tag'' [(''group'', ''g'')] = []"
    by (simp add: with_lower_def sample_lower)
  have "map_find list_objects (at_map sample_attachment) (ho_string list_objects ''tag'') = None"
    using sample_attachment_entries by (simp add: list_objects_def)
  then show "Attachment_lookup list_objects ''tag''
     (Attachment_insert list_objects alist_headers ''tag'' ''blue'' sample_attachment) = Some ''blue''"
    using step [of _ _ sample_attachment "''tag''" "''blue''"] sync absent
    by (simp add: sample_attachment_entries sample_lower)
  show "Attachment_lookup list_objects ''group''
     (Attachment_remove list_objects alist_headers ''group'' sample_attachment) = None"
    using step [of _ _ sample_attachment "''group''"] sync by (simp add: sample_attachment_entries)
qed

text \<open>Inserting a key that is there does not replace its value. The map, which is what the
  attachment is serialised from, keeps the old value, \<open>lookup\<close> returns it, and the headers hold
  the new one.\<close>

theorem attachment_insert_keeps_old:
  assumes "header_map H hget" and "Attachment_lookup Oh key a = Some old"
  shows "at_map (Attachment_insert Oh H key value a) = at_map a \<and>
    at_updated (Attachment_insert Oh H key value a) \<and>
    Attachment_lookup Oh key (Attachment_insert Oh H key value a) = Some old \<and>
    hget (at_headers (Attachment_insert Oh H key value a)) (hdr_lower H key) = [value]"
  using assms(2)
  by (auto simp: Attachment_lookup_def Attachment_insert_def Let_def map_emplace_def
      header_map.replace_hget [OF assms(1)] split: option.splits)

theorem attachment_insert_keeps_old_witness:
  "Attachment_lookup list_objects ''group''
     (Attachment_insert list_objects alist_headers ''group'' ''new'' sample_attachment) = Some ''g'' \<and>
   alist_get (at_headers (Attachment_insert list_objects alist_headers ''group'' ''new''
     sample_attachment)) ''group'' = [''new'']"
  using attachment_insert_keeps_old [OF ah.header_map_axioms sample_attachment_entries(3), of "''new''"]
  by (simp add: sample_lower)



text \<open>The decoder an invocation keeps for its parameters and its attachment reads from a
  context that is gone. When \<open>decode\<close> completes a message, it destroys the context (the metadata
  has a copy of its bytes); to ask the invocation that was put into the metadata for its group, its
  attachment or its parameters then is a read of a destroyed buffer.\<close>

theorem invocation_outlives_context:
  assumes "DubboCodec_decode B H S c b m = (Inr DecodeDone, (c', b', m'))"
  shows "fst (serviceGroup Hs Oh H (context_origin c') (RpcInvocationImpl i)) =
      Inl (Panic ''read of the origin message of a destroyed context'') \<and>
    fst (invocation_parameters Hs Oh (context_origin c')
      (RpcInvocationImpl i :: ('o, 'h) invocation_impl)) =
      Inl (Panic ''read of the origin message of a destroyed context'')"
  unfolding decoded_no_context [OF assms] by (simp add: access_destroyed)

theorem invocation_outlives_context_witness:
  "\<exists>c' b' m'. list_decode (header_bytes 0xC2 0 7 8 @ sample_body) = (Inr DecodeDone, (c', b', m')) \<and>
     fst (serviceGroup list_hessian list_objects alist_headers (context_origin c') sample_impl) =
       Inl (Panic ''read of the origin message of a destroyed context'')"
proof -
  obtain m' where m': "list_decode (header_bytes 0xC2 0 7 8 @ sample_body) =
      (Inr DecodeDone, (DubboCodec_init, [], m'))"
    by (rule sample_done)
  then show ?thesis using invocation_outlives_context [OF m'] by blast
qed

end
