(* ===== verification/Meta_Decoder.thy ===== *)
theory Meta_Decoder
  imports Meta_Codec
begin

text \<open>
  The message decoder of the proxy, src/src/meta_protocol_proxy/decoder.cc and decoder.h:
  \<open>DecoderStateMachine\<close> reads one message with the codec and hands it to the callbacks,
  \<open>DecoderBase::onData\<close> runs it once per message and reports underflow.

  The same code runs on both sides of the proxy: the connection manager owns a
  \<open>RequestDecoder\<close>, an active message a \<open>ResponseDecoder\<close>. Codec, buffer, callbacks and the
  decoder object itself all live in the state \<open>'s\<close> of the owner, so the decoder is a function of
  a record of operations on that state. \<open>'k\<close> names a \<open>StreamHandler\<close>.
\<close>

subsection \<open>The decoder object and its owner\<close>

datatype ProtocolState = WaitForData | OnDecodeStreamData | Done

datatype FilterStatus = Continue | StopIteration | Retry

text \<open>
  \<open>md_state_machine\<close> is the state of \<open>state_machine_\<close>, None for the null pointer;
  \<open>md_stream\<close> says whether \<open>stream_\<close> is set.
\<close>

record msg_decoder =
  md_state_machine :: "ProtocolState option"
  md_stream :: bool
  md_decode_started :: bool

definition new_decoder :: msg_decoder where
  "new_decoder = \<lparr>md_state_machine = None, md_stream = False, md_decode_started = False\<rparr>"

record ('s, 'x, 'b, 'h, 'k) decoder_ops =
  do_get :: "'s \<Rightarrow> msg_decoder"
  do_put :: "msg_decoder \<Rightarrow> 's \<Rightarrow> 's"
  do_new_metadata :: "('x, 'b, 'h) metadata"
  do_decode :: "('x, 'b, 'h) metadata \<Rightarrow> 's \<Rightarrow> (DecodeStatus \<times> ('x, 'b, 'h) metadata, 's) outcome"
  do_data_length :: "'s \<Rightarrow> nat"
  do_newStream :: "'s \<Rightarrow> ('k, 's) outcome"
  do_onStreamDecoded :: "'k \<Rightarrow> ('x, 'b, 'h) metadata \<Rightarrow> 'x mutation \<Rightarrow> 's \<Rightarrow> (unit, 's) outcome"
  do_onHeartbeat :: "('x, 'b, 'h) metadata \<Rightarrow> 's \<Rightarrow> (unit, 's) outcome"

definition modify_decoder ::
  "('s, 'x, 'b, 'h, 'k) decoder_ops \<Rightarrow> (msg_decoder \<Rightarrow> msg_decoder) \<Rightarrow> 's \<Rightarrow> 's" where
  "modify_decoder D f s = do_put D (f (do_get D s)) s"

subsection \<open>The code\<close>

text \<open>\<open>Decoder<T>::newStream\<close>: the stream object holds the handler the callbacks give.\<close>

definition Decoder_newStream ::
  "('s, 'x, 'b, 'h, 'k) decoder_ops \<Rightarrow> 's \<Rightarrow> ('k, 's) outcome" where
  "Decoder_newStream D s =
     (if md_stream (do_get D s) then (Inl (Panic ''ASSERT(!stream_)''), s)
      else and_then (do_newStream D s) (\<lambda>handler s.
        (Inr handler, modify_decoder D (\<lambda>d. d\<lparr>md_stream := True\<rparr>) s)))"

definition onDecodeStream ::
  "('s, 'x, 'b, 'h, 'k) decoder_ops \<Rightarrow> 's \<Rightarrow> (ProtocolState, 's) outcome" where
  "onDecodeStream D s =
     and_then (do_decode D (do_new_metadata D) s) (\<lambda>(decodeStatus, metadata) s.
       if decodeStatus = DecodeWaitForData then (Inr WaitForData, s)
       else if md_message_type metadata = Heartbeat then
         and_then (do_onHeartbeat D metadata s) (\<lambda>_ s. (Inr Done, s))
       else
         and_then (Decoder_newStream D s) (\<lambda>handler s.
         and_then (do_onStreamDecoded D handler metadata MutationImpl s) (\<lambda>_ s. (Inr Done, s))))"

text \<open>
  \<open>state_\<close> is a field of the state machine: \<open>run\<close> writes it after the callbacks returned, and
  where one of them reset the decoder, the machine it belongs to is gone.
\<close>

definition DecoderStateMachine_run ::
  "('s, 'x, 'b, 'h, 'k) decoder_ops \<Rightarrow> 's \<Rightarrow> (ProtocolState, 's) outcome" where
  "DecoderStateMachine_run D s =
     (if md_state_machine (do_get D s) = Some Done then
        (Inl (Panic ''ASSERT(state_ != ProtocolState::Done)''), s)
      else and_then (onDecodeStream D s) (\<lambda>state s.
        if md_state_machine (do_get D s) = None then
          (Inl (Panic ''write to state_ of a destroyed DecoderStateMachine''), s)
        else (Inr state, modify_decoder D (\<lambda>d. d\<lparr>md_state_machine := Some state\<rparr>) s)))"

definition Decoder_start :: "('s, 'x, 'b, 'h, 'k) decoder_ops \<Rightarrow> 's \<Rightarrow> 's" where
  "Decoder_start D =
     modify_decoder D
       (\<lambda>d. d\<lparr>md_state_machine := Some OnDecodeStreamData, md_decode_started := True\<rparr>)"

definition Decoder_complete :: "('s, 'x, 'b, 'h, 'k) decoder_ops \<Rightarrow> 's \<Rightarrow> 's" where
  "Decoder_complete D =
     modify_decoder D
       (\<lambda>d. d\<lparr>md_state_machine := None, md_stream := False, md_decode_started := False\<rparr>)"

definition Decoder_reset :: "('s, 'x, 'b, 'h, 'k) decoder_ops \<Rightarrow> 's \<Rightarrow> 's" where
  "Decoder_reset D = Decoder_complete D"

text \<open>\<open>onData\<close> returns \<open>FilterStatus::Continue\<close> and the out parameter \<open>buffer_underflow\<close>.\<close>

definition Decoder_onData ::
  "('s, 'x, 'b, 'h, 'k) decoder_ops \<Rightarrow> 's \<Rightarrow> (FilterStatus \<times> bool, 's) outcome" where
  "Decoder_onData D s =
     (let s = (if \<not> md_decode_started (do_get D s) then Decoder_start D s else s)
      in if md_state_machine (do_get D s) = None then
           (Inl (Panic ''ASSERT(state_machine_ != nullptr)''), s)
         else and_then (DecoderStateMachine_run D s) (\<lambda>state s.
           if state = WaitForData then (Inr (Continue, True), s)
           else if state \<noteq> Done then (Inl (Panic ''ASSERT(state == ProtocolState::Done)''), s)
           else
             (let s = Decoder_complete D s
              in (Inr (Continue, do_data_length D s = 0), s))))"

subsection \<open>What every callback keeps, the decoder keeps\<close>

lemma and_then_keeps:
  assumes "P (snd r)" and "\<And>x s. r = (Inr x, s) \<Longrightarrow> P s \<Longrightarrow> P (snd (f x s))"
  shows "P (snd (and_then r f))"
  using assms by (cases r; cases "fst r") auto

lemma Decoder_onData_keeps:
  assumes s: "P s"
    and put: "\<And>d s. P s \<Longrightarrow> P (do_put D d s)"
    and decode: "\<And>m s. P s \<Longrightarrow> P (snd (do_decode D m s))"
    and new: "\<And>s. P s \<Longrightarrow> P (snd (do_newStream D s))"
    and decoded: "\<And>k m mu s. P s \<Longrightarrow> P (snd (do_onStreamDecoded D k m mu s))"
    and heartbeat: "\<And>m s. P s \<Longrightarrow> P (snd (do_onHeartbeat D m s))"
  shows "P (snd (Decoder_onData D s))"
proof -
  have modify: "P (modify_decoder D f s)" if "P s" for f s
    using put that by (simp add: modify_decoder_def)
  have new_stream: "P (snd (Decoder_newStream D s))" if "P s" for s
    unfolding Decoder_newStream_def using that
    by (simp, intro impI and_then_keeps [where P = P] new) (simp_all add: modify)
  have handed: "P (snd (and_then (Decoder_newStream D s) (\<lambda>k s.
      and_then (do_onStreamDecoded D k m mu s) (\<lambda>_ s. (Inr Done, s)))))" if "P s" for m mu s
    by (intro and_then_keeps [where P = P] new_stream decoded that) simp_all
  have beat: "P (snd (and_then (do_onHeartbeat D m s) (\<lambda>_ s. (Inr Done, s))))" if "P s" for m s
    by (intro and_then_keeps [where P = P] heartbeat that) simp_all
  have stream: "P (snd (onDecodeStream D s))" if "P s" for s
    unfolding onDecodeStream_def case_prod_beta
    by (rule and_then_keeps [where P = P]) (use that decode handed beat in simp_all)
  have run: "P (snd (DecoderStateMachine_run D s))" if "P s" for s
    unfolding DecoderStateMachine_run_def using that
    by (simp, intro impI and_then_keeps [where P = P] stream) (simp_all add: modify)
  have start: "P (if \<not> md_decode_started (do_get D s) then Decoder_start D s else s)"
    using s by (simp add: Decoder_start_def modify)
  show ?thesis
    unfolding Decoder_onData_def Let_def using start
    by (simp only: split: if_split, intro conjI impI and_then_keeps [where P = P] run)
      (simp_all add: Decoder_complete_def modify)
qed

subsection \<open>The contract of an owner\<close>

text \<open>Between two calls a decoder is new, or its machine waits for data and no stream is open.\<close>

definition decoder_idle :: "msg_decoder \<Rightarrow> bool" where
  "decoder_idle d = (d = new_decoder \<or>
     d = \<lparr>md_state_machine = Some WaitForData, md_stream = False, md_decode_started = True\<rparr>)"

text \<open>
  \<open>do_get\<close> and \<open>do_put\<close> are a field of the owner's state, the callbacks other than a reset leave
  it alone, and neither do the callbacks touch what \<open>decode\<close> left in the buffer, measured by
  \<open>do_data_length\<close>. \<open>good\<close> is the owner's invariant between two calls.
\<close>

locale decoder_owner =
  fixes D :: "('s, 'x, 'b, 'h, 'k) decoder_ops"
    and good :: "'s \<Rightarrow> bool"
  assumes get_put: "do_get D (do_put D d s) = d"
    and put_good: "good s \<Longrightarrow> good (do_put D d s)"
    and put_length: "do_data_length D (do_put D d s) = do_data_length D s"
    and decode_get: "do_get D (snd (do_decode D m s)) = do_get D s"
    and decode_good: "good s \<Longrightarrow> do_decode D m s = (Inr r, s') \<Longrightarrow> good s'"
    and decode_drains: "good s \<Longrightarrow> do_decode D m s = (Inr (DecodeDone, m'), s') \<Longrightarrow>
      do_data_length D s' < do_data_length D s"
    and newStream_get: "do_newStream D s = (hr, s') \<Longrightarrow> do_get D s' = do_get D s"
    and newStream_good: "good s \<Longrightarrow> do_newStream D s = (hr, s') \<Longrightarrow>
      good s' \<and> do_data_length D s' = do_data_length D s"
    and decoded_get: "do_onStreamDecoded D h m mu s = (Inr u, s') \<Longrightarrow> do_get D s' = do_get D s"
    and decoded_good: "good s \<Longrightarrow> do_onStreamDecoded D h m mu s = (Inr u, s') \<Longrightarrow>
      good s' \<and> do_data_length D s' = do_data_length D s"
    and heartbeat_get: "do_onHeartbeat D m s = (Inr u, s') \<Longrightarrow> do_get D s' = do_get D s"
    and heartbeat_good: "good s \<Longrightarrow> do_onHeartbeat D m s = (Inr u, s') \<Longrightarrow>
      good s' \<and> do_data_length D s' = do_data_length D s"
begin

text \<open>
  Between two calls no message is half handed over: either no decode is in progress, or the
  machine waits for data and no stream is open.
\<close>

definition idle :: "'s \<Rightarrow> bool" where
  "idle s =
     (do_get D s = new_decoder \<or>
      do_get D s = \<lparr>md_state_machine = Some WaitForData, md_stream = False, md_decode_started = True\<rparr>)"

lemma modify_get [simp]: "do_get D (modify_decoder D f s) = f (do_get D s)"
  by (simp add: modify_decoder_def get_put)

lemma modify_good: "good s \<Longrightarrow> good (modify_decoder D f s)"
  by (simp add: modify_decoder_def put_good)

lemma modify_length [simp]: "do_data_length D (modify_decoder D f s) = do_data_length D s"
  by (simp add: modify_decoder_def put_length)

lemma onDecodeStream_returns:
  assumes "good s" and "md_stream (do_get D s) = False" and "onDecodeStream D s = (Inr st, s')"
  shows "good s' \<and> md_state_machine (do_get D s') = md_state_machine (do_get D s) \<and>
    (st = WaitForData \<and> do_get D s' = do_get D s \<or>
     st = Done \<and> do_data_length D s' < do_data_length D s)"
proof -
  obtain ds m s1 where d: "do_decode D (do_new_metadata D) s = (Inr (ds, m), s1)"
    using assms(3) by (cases "do_decode D (do_new_metadata D) s"; cases "fst (do_decode D (do_new_metadata D) s)")
      (auto simp: onDecodeStream_def)
  have s1: "good s1" "do_get D s1 = do_get D s"
    using decode_good [OF assms(1) d] decode_get [of "do_new_metadata D" s] d by simp_all
  show ?thesis
  proof (cases "ds = DecodeWaitForData")
    case True
    then show ?thesis using assms(3) d s1 by (simp add: onDecodeStream_def)
  next
    case False
    then have ds: "ds = DecodeDone" by (cases ds) simp_all
    have len: "do_data_length D s1 < do_data_length D s"
      using decode_drains [OF assms(1)] d ds by simp
    show ?thesis
    proof (cases "md_message_type m = Heartbeat")
      case True
      then obtain u where h: "do_onHeartbeat D m s1 = (Inr u, s')" "st = Done"
        using assms(3) d ds
        by (auto simp: onDecodeStream_def and_then_def split: prod.splits sum.splits)
      then show ?thesis
        using heartbeat_good [OF s1(1) h(1)] heartbeat_get [OF h(1)] s1 len by simp
    next
      case False
      obtain h s2 where n: "do_newStream D s1 = (Inr h, s2)" and
        u: "do_onStreamDecoded D h m MutationImpl (modify_decoder D (\<lambda>d. d\<lparr>md_stream := True\<rparr>) s2) = (Inr (), s')"
        "st = Done"
        using assms(2,3) d ds False s1
        by (auto simp: onDecodeStream_def Decoder_newStream_def and_then_def
            split: prod.splits sum.splits if_splits)
      have s2: "good s2" "do_data_length D s2 = do_data_length D s1" "do_get D s2 = do_get D s1"
        using newStream_good [OF s1(1) n] newStream_get [OF n] by simp_all
      show ?thesis
        using decoded_good [OF modify_good [OF s2(1)] u(1)] decoded_get [OF u(1)] s2 s1 len u(2)
        by simp
    qed
  qed
qed

text \<open>
  What one call of \<open>onData\<close> does, where it returns: the owner stays good, the decoder is again
  between two messages, and either the message is incomplete and nothing but that is reported, or
  a message was handed over and the buffer is shorter.
\<close>

lemma onData_returns:
  assumes "good s" and "idle s" and "Decoder_onData D s = (Inr (fs, underflow), s')"
  shows "good s' \<and> idle s' \<and> fs = Continue \<and>
    (underflow \<or> do_data_length D s' < do_data_length D s)"
proof -
  let ?s = "if \<not> md_decode_started (do_get D s) then Decoder_start D s else s"
  have g: "good ?s" "do_data_length D ?s = do_data_length D s"
    using assms(1) by (simp_all add: Decoder_start_def modify_good)
  have i: "md_stream (do_get D ?s) = False" "md_decode_started (do_get D ?s)"
    "md_state_machine (do_get D ?s) \<in> {Some OnDecodeStreamData, Some WaitForData}"
    using assms(2) by (auto simp: idle_def new_decoder_def Decoder_start_def)
  obtain st s1 where r: "onDecodeStream D ?s = (Inr st, s1)"
    and s': "(st = WaitForData \<and> fs = Continue \<and> underflow \<and>
        s' = modify_decoder D (\<lambda>d. d\<lparr>md_state_machine := Some st\<rparr>) s1) \<or>
      (st = Done \<and> fs = Continue \<and>
        s' = Decoder_complete D (modify_decoder D (\<lambda>d. d\<lparr>md_state_machine := Some st\<rparr>) s1))"
    using assms(3) i
    by (auto simp: Decoder_onData_def DecoderStateMachine_run_def Let_def and_then_def
        split: prod.splits sum.splits if_splits)
  note R = onDecodeStream_returns [OF g(1) i(1) r]
  show ?thesis
    using s'
  proof
    assume w: "st = WaitForData \<and> fs = Continue \<and> underflow \<and>
        s' = modify_decoder D (\<lambda>d. d\<lparr>md_state_machine := Some st\<rparr>) s1"
    then have "do_get D s1 = do_get D ?s" using R by auto
    then have "do_get D s' = \<lparr>md_state_machine = Some WaitForData, md_stream = False, md_decode_started = True\<rparr>"
      using w i by (cases "do_get D ?s") simp
    then show ?thesis using w R by (simp add: idle_def modify_good)
  next
    assume c: "st = Done \<and> fs = Continue \<and>
        s' = Decoder_complete D (modify_decoder D (\<lambda>d. d\<lparr>md_state_machine := Some st\<rparr>) s1)"
    then have "do_get D s' = new_decoder"
      by (cases "do_get D s1") (simp add: Decoder_complete_def new_decoder_def)
    then show ?thesis
      using c R g(2) by (auto simp: idle_def Decoder_complete_def modify_good)
  qed
qed

text \<open>The assertions of the decoder hold: what is thrown was thrown by the owner.\<close>

lemma onData_throws:
  assumes "good s" and "idle s" and "Decoder_onData D s = (Inl e, s')"
  shows "(\<exists>m s1 s2. do_decode D m s1 = (Inl e, s2) \<and> good s1) \<or>
    (\<exists>m s1 s2. do_onHeartbeat D m s1 = (Inl e, s2) \<and> good s1) \<or>
    (\<exists>s1 s2. do_newStream D s1 = (Inl e, s2) \<and> good s1) \<or>
    (\<exists>k m s1 s2. do_onStreamDecoded D k m MutationImpl s1 = (Inl e, s2) \<and> good s1)"
proof -
  let ?s = "if \<not> md_decode_started (do_get D s) then Decoder_start D s else s"
  have g: "good ?s" using assms(1) by (simp add: Decoder_start_def modify_good)
  have i: "md_stream (do_get D ?s) = False"
    "md_state_machine (do_get D ?s) \<in> {Some OnDecodeStreamData, Some WaitForData}"
    using assms(2) by (auto simp: idle_def new_decoder_def Decoder_start_def)
  have e: "onDecodeStream D ?s = (Inl e, s')"
  proof (cases "onDecodeStream D ?s")
    case (Pair r s1)
    then show ?thesis
    proof (cases r)
      case (Inl e')
      then show ?thesis using Pair assms(3) i
        by (auto simp: Decoder_onData_def DecoderStateMachine_run_def Let_def)
    next
      case (Inr st)
      then have R: "st = WaitForData \<or> st = Done"
        "md_state_machine (do_get D s1) = md_state_machine (do_get D ?s)"
        using onDecodeStream_returns [OF g i(1)] Pair by blast+
      then have "md_state_machine (do_get D s1) \<noteq> None" using i(2) by auto
      with R(1) show ?thesis using Inr Pair assms(3) i
        by (auto simp: Decoder_onData_def DecoderStateMachine_run_def Let_def)
    qed
  qed
  show ?thesis
  proof (cases "do_decode D (do_new_metadata D) ?s")
    case (Pair r s1)
    show ?thesis
    proof (cases r)
      case (Inl e')
      then have "do_decode D (do_new_metadata D) ?s = (Inl e, s')"
        using Pair e by (simp add: onDecodeStream_def)
      then show ?thesis using g by blast
    next
      case (Inr dm)
      obtain ds m where dm: "dm = (ds, m)" by fastforce
      have s1: "good s1" "do_get D s1 = do_get D ?s"
        using decode_good [OF g] decode_get [of "do_new_metadata D" ?s] Pair Inr by simp_all
      show ?thesis
      proof (cases "md_message_type m = Heartbeat")
        case True
        then have "do_onHeartbeat D m s1 = (Inl e, s')"
          using e Pair Inr dm
          by (auto simp: onDecodeStream_def and_then_def split: prod.splits sum.splits if_splits)
        then show ?thesis using s1 by blast
      next
        case False
        then consider "do_newStream D s1 = (Inl e, s')"
          | h s2 where "do_newStream D s1 = (Inr h, s2)"
            "do_onStreamDecoded D h m MutationImpl (modify_decoder D (\<lambda>d. d\<lparr>md_stream := True\<rparr>) s2) = (Inl e, s')"
          using e Pair Inr dm s1 i(1)
          by (auto simp: onDecodeStream_def Decoder_newStream_def and_then_def
              split: prod.splits sum.splits if_splits)
        then show ?thesis using s1(1) newStream_good [OF s1(1)] modify_good by cases blast+
      qed
    qed
  qed
qed

end

end
