(* ===== verification/Proxy_World.thy ===== *)
theory Proxy_World
  imports Meta_Decoder
begin

text \<open>
  The objects of one downstream connection: the connection manager
  (src/src/meta_protocol_proxy/conn_manager.h), its active messages (active_message.h), their
  filters, the router filter with its upstream request (filters/router/router_impl.h), the
  counters (stats.h) and the connection.

  Objects that other objects point to live in a store: a message is a number, a filter of a
  message is an index into the message's filters. Reading an object that is not in the store is a
  panic, so that the absence of panics includes the absence of dangling pointers. The metadata of
  a message is one shared object; it is the field \<open>am_metadata\<close> of the message, also where the
  code reaches it through a captured or copied pointer.

  What the proxy does to the outside (writes, closes, answers to the outlier detector) is recorded
  in order in \<open>cx_effects\<close>.
\<close>

subsection \<open>Enumerations\<close>

datatype UpstreamResponseStatus = MoreData | Complete | Reset | UpstreamRetry

datatype ResponseType = SuccessReply | ErrorReply | ExceptionReply

datatype FilterIterationStartState = AlwaysStartFromNext | CanStartFromCurrent

text \<open>Enumerations of Envoy's network API.\<close>

datatype ConnectionState = ConnOpen | ConnClosing | ConnClosed

datatype ConnectionCloseType = FlushWrite | NoFlush

datatype ConnectionEvent = RemoteClose | LocalClose | Connected

datatype PoolFailureReason = Overflow | LocalConnectionFailure | RemoteConnectionFailure | Timeout

datatype OutlierResult =
    ExtOriginRequestFailed | ExtOriginRequestSuccess | LocalOriginTimeout
  | LocalOriginConnectFailed | LocalOriginConnectSuccess

subsection \<open>Statistics\<close>

datatype MetaProtocolProxyStats =
    cx_destroy_local_with_active_rq | cx_destroy_remote_with_active_rq
  | local_response_business_exception | local_response_error | local_response_success
  | stat_request | request_decoding_error | request_decoding_success | request_event
  | request_oneway | request_twoway | stat_response | response_business_exception
  | response_decoding_error | response_decoding_success | response_error
  | response_error_caused_connection_close | response_success
  | request_active

subsection \<open>The router filter\<close>

text \<open>
  The pointers of an upstream request that matter: \<open>conn_pool_handle_\<close> and \<open>conn_data_\<close> are set
  or not, \<open>upstream_host_\<close> is the address of the host.
\<close>

record upstream_request =
  ur_conn_pool_handle :: bool
  ur_conn_data :: bool
  ur_upstream_host :: "string option"
  ur_request_complete :: bool
  ur_response_started :: bool
  ur_response_complete :: bool
  ur_stream_reset :: bool

definition UpstreamRequest :: upstream_request where
  "UpstreamRequest =
     \<lparr>ur_conn_pool_handle = False, ur_conn_data = False, ur_upstream_host = None,
      ur_request_complete = False, ur_response_started = False, ur_response_complete = False,
      ur_stream_reset = False\<rparr>"

text \<open>A resolved route is the name of its cluster.\<close>

record 'b router =
  rt_route :: "string option"
  rt_cluster :: "string option"
  rt_upstream_request :: "upstream_request option"
  rt_upstream_request_buffer :: 'b
  rt_filter_complete :: bool

definition Router :: "'b buffer_ops \<Rightarrow> 'b router" where
  "Router B =
     \<lparr>rt_route = None, rt_cluster = None, rt_upstream_request = None,
      rt_upstream_request_buffer = buf_new B, rt_filter_complete = False\<rparr>"

subsection \<open>Filters and messages\<close>

text \<open>Filters other than the router are not in the repository: their state is \<open>'f\<close>.\<close>

datatype ('b, 'f) filter_object = RouterFilter "'b router" | ExternalFilter 'f

record filter_wrapper =
  fw_handle :: nat
  fw_dual_filter :: bool

record ('c, 'x, 'b, 'h) response_decoder =
  rd_codec :: 'c
  rd_decoder :: msg_decoder
  rd_metadata :: "('x, 'b, 'h) metadata option"
  rd_mutation :: "'x mutation"
  rd_complete :: bool
  rd_response_status :: UpstreamResponseStatus

record ('c, 'x, 'b, 'h, 'f) active_message =
  am_metadata :: "('x, 'b, 'h) metadata option"
  am_mutation :: "'x mutation"
  am_response_decoder :: "('c, 'x, 'b, 'h) response_decoder option"
  am_cached_route :: "string option option"
  am_filters :: "('b, 'f) filter_object list"
  am_decoder_filters :: "filter_wrapper list"
  am_encoder_filters :: "filter_wrapper list"
  am_filter_action :: bool
  am_encoder_filter_action :: bool
  am_stream_id :: u64
  am_pending_stream_decoded :: bool
  am_local_response_sent :: bool

subsection \<open>Effects and the connection manager\<close>

datatype 'b effect =
    DownstreamWrite 'b bool
  | DownstreamClose ConnectionCloseType
  | DownstreamReadDisable bool
  | UpstreamWrite nat 'b
  | UpstreamClose nat
  | UpstreamRelease nat
  | PoolCancel nat
  | PutResult string OutlierResult

record ('c, 'x, 'b, 'h, 'f) proxy =
  cm_request_buffer :: 'b
  cm_active_message_list :: "nat list"
  cm_stopped :: bool
  cm_half_closed :: bool
  cm_stats :: "MetaProtocolProxyStats \<Rightarrow> nat"
  cm_codec :: 'c
  cm_decoder :: msg_decoder
  cx_state :: ConnectionState
  cx_effects :: "'b effect list"
  ev_deferred :: "nat list"
  st_messages :: "nat \<rightharpoonup> ('c, 'x, 'b, 'h, 'f) active_message"
  st_next :: nat

subsection \<open>The environment\<close>

text \<open>
  What the connection manager is configured with and what it calls outside the repository: the
  codec, the route configuration, the cluster manager, the connection pool, the other filters, the
  random generator, and whether the connection has bytes not written yet. An answer that may
  differ from one call to the next is a function of the effects so far.

  A connection pool answers \<open>newConnection\<close> with a handle and calls back later, or it calls back
  before it returns: ready, or a failure that is not a connection error (the comment in
  \<open>UpstreamRequest::onPoolFailure\<close>), which is \<open>Overflow\<close>.
\<close>

datatype pool_answer = ConnectionPending | ConnectionReady string | ConnectionOverflow "string option"

record cluster =
  cl_maintenanceMode :: bool
  cl_tcpConnPool :: bool

datatype 'f FilterFactoryCb =
  AddRouter | AddDecoderFilter 'f | AddEncoderFilter 'f | AddFilter 'f

record ('c, 'x, 'b, 'h, 'f) env =
  en_buffer :: "'b buffer_ops"
  en_headers :: "'h header_ops"
  en_codec :: "('c, 'x, 'b, 'h) codec"
  en_createCodec :: 'c
  en_applicationProtocol :: string
  en_filter_factories :: "'f FilterFactoryCb list"
  en_route :: "('x, 'b, 'h) metadata \<Rightarrow> u64 \<Rightarrow> string option"
  en_getThreadLocalCluster :: "string \<Rightarrow> cluster option"
  en_newConnection :: "string \<Rightarrow> 'b effect list \<Rightarrow> pool_answer"
  en_write_pending :: "'b effect list \<Rightarrow> bool"
  en_random :: "nat \<Rightarrow> u64"
  en_onMessageDecoded :: "'f \<Rightarrow> ('x, 'b, 'h) metadata \<Rightarrow> 'x mutation \<Rightarrow>
    'f \<times> ('x, 'b, 'h) metadata \<times> 'x mutation \<times> (error \<times> bool) option \<times> FilterStatus"
  en_onMessageEncoded :: "'f \<Rightarrow> ('x, 'b, 'h) metadata \<Rightarrow> 'x mutation \<Rightarrow>
    'f \<times> ('x, 'b, 'h) metadata \<times> 'x mutation \<times> FilterStatus"

subsection \<open>Access to the objects\<close>

type_synonym ('a, 'c, 'x, 'b, 'h, 'f) action =
  "('c, 'x, 'b, 'h, 'f) proxy \<Rightarrow> ('a, ('c, 'x, 'b, 'h, 'f) proxy) outcome"

definition return :: "'a \<Rightarrow> ('a, 'c, 'x, 'b, 'h, 'f) action" where
  "return x px = (Inr x, px)"

definition panic :: "string \<Rightarrow> ('a, 'c, 'x, 'b, 'h, 'f) action" where
  "panic what px = (Inl (Panic what), px)"

text \<open>Counting up and down, an effect, the message with an id.\<close>

definition inc :: "MetaProtocolProxyStats \<Rightarrow> ('c, 'x, 'b, 'h, 'f) proxy \<Rightarrow> ('c, 'x, 'b, 'h, 'f) proxy" where
  "inc s px = px\<lparr>cm_stats := (cm_stats px)(s := cm_stats px s + 1)\<rparr>"

definition dec :: "MetaProtocolProxyStats \<Rightarrow> ('c, 'x, 'b, 'h, 'f) proxy \<Rightarrow> ('c, 'x, 'b, 'h, 'f) proxy" where
  "dec s px = px\<lparr>cm_stats := (cm_stats px)(s := cm_stats px s - 1)\<rparr>"

definition emit :: "'b effect \<Rightarrow> ('c, 'x, 'b, 'h, 'f) proxy \<Rightarrow> ('c, 'x, 'b, 'h, 'f) proxy" where
  "emit e px = px\<lparr>cx_effects := cx_effects px @ [e]\<rparr>"

definition with_message ::
  "nat \<Rightarrow> (('c, 'x, 'b, 'h, 'f) active_message \<Rightarrow> ('a, 'c, 'x, 'b, 'h, 'f) action) \<Rightarrow>
   ('a, 'c, 'x, 'b, 'h, 'f) action" where
  "with_message mid f px =
     (case st_messages px mid of
        None \<Rightarrow> panic ''dangling ActiveMessage'' px
      | Some am \<Rightarrow> f am px)"

definition update_message ::
  "nat \<Rightarrow> (('c, 'x, 'b, 'h, 'f) active_message \<Rightarrow> ('c, 'x, 'b, 'h, 'f) active_message) \<Rightarrow>
   ('c, 'x, 'b, 'h, 'f) proxy \<Rightarrow> ('c, 'x, 'b, 'h, 'f) proxy" where
  "update_message mid f px =
     px\<lparr>st_messages := (st_messages px)(mid := map_option f (st_messages px mid))\<rparr>"

text \<open>The router at index \<open>fi\<close> of the filters of message \<open>mid\<close>.\<close>

definition get_router ::
  "nat \<Rightarrow> nat \<Rightarrow> ('c, 'x, 'b, 'h, 'f) proxy \<Rightarrow> 'b router option" where
  "get_router mid fi px =
     (case st_messages px mid of
        None \<Rightarrow> None
      | Some am \<Rightarrow>
          if fi < length (am_filters am) then
            (case am_filters am ! fi of RouterFilter r \<Rightarrow> Some r | ExternalFilter _ \<Rightarrow> None)
          else None)"

definition with_router ::
  "nat \<Rightarrow> nat \<Rightarrow> ('b router \<Rightarrow> ('a, 'c, 'x, 'b, 'h, 'f) action) \<Rightarrow> ('a, 'c, 'x, 'b, 'h, 'f) action" where
  "with_router mid fi f px =
     (case get_router mid fi px of
        None \<Rightarrow> panic ''dangling Router'' px
      | Some r \<Rightarrow> f r px)"

fun update_router_object ::
  "('b router \<Rightarrow> 'b router) \<Rightarrow> ('b, 'f) filter_object \<Rightarrow> ('b, 'f) filter_object" where
  "update_router_object g (RouterFilter r) = RouterFilter (g r)"
| "update_router_object g (ExternalFilter f) = ExternalFilter f"

definition update_router ::
  "nat \<Rightarrow> nat \<Rightarrow> ('b router \<Rightarrow> 'b router) \<Rightarrow> ('c, 'x, 'b, 'h, 'f) proxy \<Rightarrow> ('c, 'x, 'b, 'h, 'f) proxy" where
  "update_router mid fi g =
     update_message mid (\<lambda>am. am\<lparr>am_filters :=
       (if fi < length (am_filters am)
        then (am_filters am)[fi := update_router_object g (am_filters am ! fi)]
        else am_filters am)\<rparr>)"

text \<open>The upstream request of a router, a null dereference where there is none.\<close>

definition with_request ::
  "nat \<Rightarrow> nat \<Rightarrow> (upstream_request \<Rightarrow> ('a, 'c, 'x, 'b, 'h, 'f) action) \<Rightarrow> ('a, 'c, 'x, 'b, 'h, 'f) action" where
  "with_request mid fi f =
     with_router mid fi (\<lambda>r. case rt_upstream_request r of
       None \<Rightarrow> panic ''null upstream_request_''
     | Some ur \<Rightarrow> f ur)"

definition update_request ::
  "nat \<Rightarrow> nat \<Rightarrow> (upstream_request \<Rightarrow> upstream_request) \<Rightarrow>
   ('c, 'x, 'b, 'h, 'f) proxy \<Rightarrow> ('c, 'x, 'b, 'h, 'f) proxy" where
  "update_request mid fi g =
     update_router mid fi (\<lambda>r. r\<lparr>rt_upstream_request := map_option g (rt_upstream_request r)\<rparr>)"

definition with_metadata ::
  "nat \<Rightarrow> (('x, 'b, 'h) metadata \<Rightarrow> ('a, 'c, 'x, 'b, 'h, 'f) action) \<Rightarrow> ('a, 'c, 'x, 'b, 'h, 'f) action" where
  "with_metadata mid f =
     with_message mid (\<lambda>am. case am_metadata am of
       None \<Rightarrow> panic ''ASSERT(metadata_)''
     | Some m \<Rightarrow> f m)"

end
