(* ===== verification/Downstream.thy ===== *)
theory Downstream
  imports Proxy_World
begin

text \<open>
  What the connection manager does with its connection and its list of messages, and nothing of
  the filters: closing and writing, \<open>deferredMessage\<close>, \<open>resetAllMessages\<close>, \<open>onEvent\<close>, the
  watermark callbacks, \<open>sendLocalReply\<close> and \<open>onHeartbeat\<close> of
  src/src/meta_protocol_proxy/conn_manager.cc; the direct responses of app_exception.h and
  heartbeat_response.cc; and the parts of an active message that only forward to these
  (active_message.cc: \<open>route\<close>, \<open>sendLocalReply\<close>, \<open>resetStream\<close>, \<open>onReset\<close>, \<open>onError\<close>,
  \<open>resetDownstreamConnection\<close>).
\<close>

subsection \<open>The list of messages\<close>

text \<open>\<open>inserted()\<close>: the message is in the list of the connection manager.\<close>

definition deferredMessage ::
  "nat \<Rightarrow> ('c, 'x, 'b, 'h, 'f) proxy \<Rightarrow> ('c, 'x, 'b, 'h, 'f) proxy" where
  "deferredMessage mid px =
     (if mid \<notin> set (cm_active_message_list px) then px
      else px\<lparr>cm_active_message_list := remove1 mid (cm_active_message_list px),
             ev_deferred := ev_deferred px @ [mid]\<rparr>)"

definition ActiveMessage_onReset ::
  "nat \<Rightarrow> ('c, 'x, 'b, 'h, 'f) proxy \<Rightarrow> ('c, 'x, 'b, 'h, 'f) proxy" where
  "ActiveMessage_onReset mid = deferredMessage mid"

definition ActiveMessage_resetStream ::
  "nat \<Rightarrow> ('c, 'x, 'b, 'h, 'f) proxy \<Rightarrow> ('c, 'x, 'b, 'h, 'f) proxy" where
  "ActiveMessage_resetStream mid = deferredMessage mid"

lemma inc_list [simp]:
  "cm_active_message_list (inc s px) = cm_active_message_list px"
  "ev_deferred (inc s px) = ev_deferred px"
  by (simp_all add: inc_def)

text \<open>The loop ends: each turn takes the front message off the list.\<close>

function resetAllMessages ::
  "bool \<Rightarrow> ('c, 'x, 'b, 'h, 'f) proxy \<Rightarrow> ('c, 'x, 'b, 'h, 'f) proxy" where
  "resetAllMessages local_reset px =
     (case cm_active_message_list px of
        [] \<Rightarrow> px
      | front # _ \<Rightarrow>
          resetAllMessages local_reset
            (ActiveMessage_onReset front
               (inc (if local_reset then cx_destroy_local_with_active_rq
                     else cx_destroy_remote_with_active_rq) px)))"
  by pat_completeness auto
termination
  by (relation "measure (\<lambda>(_, px). length (cm_active_message_list px))")
    (auto simp: ActiveMessage_onReset_def deferredMessage_def)

declare resetAllMessages.simps [simp del]

subsection \<open>The connection\<close>

definition ConnectionManager_onEvent ::
  "ConnectionEvent \<Rightarrow> ('c, 'x, 'b, 'h, 'f) proxy \<Rightarrow> ('c, 'x, 'b, 'h, 'f) proxy" where
  "ConnectionManager_onEvent event = resetAllMessages (event = LocalClose)"

text \<open>
  \<open>Network::Connection::close\<close>: without pending writes, or with \<open>NoFlush\<close>, the socket is closed
  at once and the callbacks get \<open>LocalClose\<close> before the call returns; otherwise the connection is
  closing and the event comes later. A closed connection is left alone.
\<close>

definition connection_close ::
  "('c, 'x, 'b, 'h, 'f) env \<Rightarrow> ConnectionCloseType \<Rightarrow>
   ('c, 'x, 'b, 'h, 'f) proxy \<Rightarrow> ('c, 'x, 'b, 'h, 'f) proxy" where
  "connection_close E t px =
     (if cx_state px = ConnClosed then px
      else if t = FlushWrite \<and> en_write_pending E (cx_effects px) then
        emit (DownstreamClose t) (px\<lparr>cx_state := ConnClosing\<rparr>)
      else
        ConnectionManager_onEvent LocalClose
          (emit (DownstreamClose t) (px\<lparr>cx_state := ConnClosed\<rparr>)))"

text \<open>\<open>write\<close> takes the bytes out of the buffer it is given; the new buffer is returned.\<close>

definition connection_write ::
  "('c, 'x, 'b, 'h, 'f) env \<Rightarrow> 'b \<Rightarrow> bool \<Rightarrow>
   ('c, 'x, 'b, 'h, 'f) proxy \<Rightarrow> 'b \<times> ('c, 'x, 'b, 'h, 'f) proxy" where
  "connection_write E data end_stream px =
     (let (written, rest) = buf_move_all (en_buffer E) (buf_new (en_buffer E)) data
      in (rest, emit (DownstreamWrite written end_stream) px))"

definition onAboveWriteBufferHighWatermark ::
  "('c, 'x, 'b, 'h, 'f) proxy \<Rightarrow> ('c, 'x, 'b, 'h, 'f) proxy" where
  "onAboveWriteBufferHighWatermark = emit (DownstreamReadDisable True)"

definition onBelowWriteBufferLowWatermark ::
  "('c, 'x, 'b, 'h, 'f) proxy \<Rightarrow> ('c, 'x, 'b, 'h, 'f) proxy" where
  "onBelowWriteBufferLowWatermark = emit (DownstreamReadDisable False)"

definition ActiveMessage_resetDownstreamConnection ::
  "('c, 'x, 'b, 'h, 'f) env \<Rightarrow> ('c, 'x, 'b, 'h, 'f) proxy \<Rightarrow> ('c, 'x, 'b, 'h, 'f) proxy" where
  "ActiveMessage_resetDownstreamConnection E = connection_close E NoFlush"

subsection \<open>Direct responses\<close>

text \<open>\<open>encode\<close> of the two direct responses: they write to the buffer with the manager's codec.\<close>

definition AppException_encode ::
  "('c, 'x, 'b, 'h, 'f) env \<Rightarrow> error \<Rightarrow> ('x, 'b, 'h) metadata \<Rightarrow> 'c \<Rightarrow> 'b \<Rightarrow>
   (ResponseType, 'c \<times> 'b) outcome" where
  "AppException_encode E err metadata codec buffer =
     (if buf_length (en_buffer E) buffer \<noteq> 0 then
        (Inl (Panic ''ASSERT(buffer.length() == 0)''), (codec, buffer))
      else
        and_then (codec_onError (en_codec E) codec metadata err buffer)
          (\<lambda>_ s. (Inr ExceptionReply, s)))"

definition HeartbeatResponse_encode ::
  "('c, 'x, 'b, 'h, 'f) env \<Rightarrow> ('x, 'b, 'h) metadata \<Rightarrow> 'c \<Rightarrow> 'b \<Rightarrow>
   (ResponseType, 'c \<times> 'b) outcome" where
  "HeartbeatResponse_encode E metadata codec buffer =
     and_then
       (codec_encode (en_codec E) codec (metadata\<lparr>md_message_type := Heartbeat\<rparr>) MutationImpl buffer)
       (\<lambda>_ s. (Inr SuccessReply, s))"

definition ConnectionManager_onHeartbeat ::
  "('c, 'x, 'b, 'h, 'f) env \<Rightarrow> ('x, 'b, 'h) metadata \<Rightarrow> (unit, 'c, 'x, 'b, 'h, 'f) action" where
  "ConnectionManager_onHeartbeat E metadata px =
     (let px = inc request_event px
      in if cx_state px \<noteq> ConnOpen then (Inr (), px)
         else
           (let (result, (codec, response_buffer)) =
              HeartbeatResponse_encode E metadata (cm_codec px) (buf_new (en_buffer E));
                px = px\<lparr>cm_codec := codec\<rparr>
            in case result of
                 Inl e \<Rightarrow> (Inl e, px)
               | Inr _ \<Rightarrow> (Inr (), snd (connection_write E response_buffer False px))))"

fun count_local_response ::
  "ResponseType \<Rightarrow> ('c, 'x, 'b, 'h, 'f) proxy \<Rightarrow> ('c, 'x, 'b, 'h, 'f) proxy" where
  "count_local_response SuccessReply = inc local_response_success"
| "count_local_response ErrorReply = inc local_response_error"
| "count_local_response ExceptionReply = inc local_response_business_exception"

text \<open>
  \<open>sendLocalReply\<close> with an \<open>AppException\<close>, the direct response the proxy's own code sends. An
  \<open>EnvoyException\<close> of the encoder is logged, anything else goes on to the caller.
\<close>

definition ConnectionManager_sendLocalReply ::
  "('c, 'x, 'b, 'h, 'f) env \<Rightarrow> ('x, 'b, 'h) metadata \<Rightarrow> error \<Rightarrow> bool \<Rightarrow>
   (unit, 'c, 'x, 'b, 'h, 'f) action" where
  "ConnectionManager_sendLocalReply E metadata err end_stream px =
     (if cx_state px \<noteq> ConnOpen then (Inr (), px)
      else
        (let (encoded, (codec, buffer)) =
           AppException_encode E err metadata (cm_codec px) (buf_new (en_buffer E));
             px = px\<lparr>cm_codec := codec\<rparr>;
             (result, px) =
               (case encoded of
                  Inr r \<Rightarrow> (Inr r, snd (connection_write E buffer end_stream px))
                | Inl e \<Rightarrow> if is_envoy_exception e then (Inr ErrorReply, px) else (Inl e, px))
         in and_then (result, px) (\<lambda>r px.
              let px = (if end_stream then connection_close E FlushWrite px else px)
              in (Inr (), count_local_response r px))))"

subsection \<open>What an active message forwards\<close>

definition ActiveMessage_sendLocalReply ::
  "('c, 'x, 'b, 'h, 'f) env \<Rightarrow> nat \<Rightarrow> error \<Rightarrow> bool \<Rightarrow> (unit, 'c, 'x, 'b, 'h, 'f) action" where
  "ActiveMessage_sendLocalReply E mid err end_stream =
     with_metadata mid (\<lambda>metadata px.
       and_then (ConnectionManager_sendLocalReply E metadata err end_stream px) (\<lambda>_ px.
         if end_stream then (Inr (), px)
         else (Inr (), update_message mid (\<lambda>am. am\<lparr>am_local_response_sent := True\<rparr>) px)))"

definition ActiveMessage_route ::
  "('c, 'x, 'b, 'h, 'f) env \<Rightarrow> nat \<Rightarrow> (string option, 'c, 'x, 'b, 'h, 'f) action" where
  "ActiveMessage_route E mid =
     with_message mid (\<lambda>am px.
       case am_cached_route am of
         Some route \<Rightarrow> (Inr route, px)
       | None \<Rightarrow>
           (case am_metadata am of
              Some metadata \<Rightarrow>
                (let route = en_route E metadata (am_stream_id am)
                 in (Inr route, update_message mid (\<lambda>am. am\<lparr>am_cached_route := Some route\<rparr>) px))
            | None \<Rightarrow> (Inr None, px)))"

definition ActiveMessage_onError ::
  "('c, 'x, 'b, 'h, 'f) env \<Rightarrow> nat \<Rightarrow> string \<Rightarrow> (unit, 'c, 'x, 'b, 'h, 'f) action" where
  "ActiveMessage_onError E mid what =
     with_message mid (\<lambda>am px.
       let px = (if am_metadata am = None
                 then update_message mid
                   (\<lambda>am. am\<lparr>am_metadata := Some (MetadataImpl (en_buffer E) (en_headers E))\<rparr>) px
                 else px)
       in and_then (ActiveMessage_sendLocalReply E mid (mk_error BadResponse what) False px)
            (\<lambda>_ px. (Inr (), deferredMessage mid px)))"

definition ActiveMessage_requestId :: "('c, 'x, 'b, 'h, 'f) active_message \<Rightarrow> u64" where
  "ActiveMessage_requestId am =
     (case am_metadata am of Some m \<Rightarrow> md_request_id m | None \<Rightarrow> 0)"

end
