(* ===== verification/Router_Filter.thy ===== *)
theory Router_Filter
  imports Downstream
begin

text \<open>
  The router filter, src/src/meta_protocol_proxy/filters/router/router_impl.cc: routing a request
  to a connection of the upstream cluster's pool, and the upstream request's own operations. The
  callbacks of the pool that continue the filter chain are in \<open>Upstream_Events\<close>.

  A router is addressed by its message \<open>mid\<close> and its index \<open>fi\<close> among the message's filters.
\<close>

subsection \<open>The upstream request\<close>

text \<open>
  \<open>resetStream\<close>. Closing the connection raises \<open>LocalClose\<close> to \<open>Router::onEvent\<close> before
  \<open>close\<close> returns; \<open>stream_reset_\<close> is set by then, so that call returns at its second guard.
\<close>

definition UpstreamRequest_resetStream ::
  "nat \<Rightarrow> nat \<Rightarrow> (unit, 'c, 'x, 'b, 'h, 'f) action" where
  "UpstreamRequest_resetStream mid fi px =
     (let px = update_request mid fi (\<lambda>ur. ur\<lparr>ur_stream_reset := True\<rparr>) px
      in and_then
           (with_request mid fi (\<lambda>ur px.
              if ur_conn_pool_handle ur then
                if ur_conn_data ur then panic ''ASSERT(!conn_data_)'' px
                else (Inr (), update_request mid fi (\<lambda>ur. ur\<lparr>ur_conn_pool_handle := False\<rparr>)
                       (emit (PoolCancel mid) px))
              else (Inr (), px)) px)
           (\<lambda>_. with_request mid fi (\<lambda>ur px.
              if ur_conn_data ur then
                if ur_conn_pool_handle ur then panic ''ASSERT(!conn_pool_handle_)'' px
                else (Inr (), update_request mid fi (\<lambda>ur. ur\<lparr>ur_conn_data := False\<rparr>)
                       (emit (UpstreamClose mid) px))
              else (Inr (), px))))"

text \<open>\<open>encodeData\<close> writes the router's request buffer to the upstream connection.\<close>

definition UpstreamRequest_encodeData ::
  "('c, 'x, 'b, 'h, 'f) env \<Rightarrow> nat \<Rightarrow> nat \<Rightarrow> (unit, 'c, 'x, 'b, 'h, 'f) action" where
  "UpstreamRequest_encodeData E mid fi =
     with_request mid fi (\<lambda>ur.
       if \<not> ur_conn_data ur then panic ''ASSERT(conn_data_)''
       else if ur_conn_pool_handle ur then panic ''ASSERT(!conn_pool_handle_)''
       else with_router mid fi (\<lambda>r px.
         let (written, rest) = buf_move_all (en_buffer E) (buf_new (en_buffer E))
               (rt_upstream_request_buffer r)
         in (Inr (), update_router mid fi (\<lambda>r. r\<lparr>rt_upstream_request_buffer := rest\<rparr>)
               (emit (UpstreamWrite mid written) px))))"

text \<open>
  \<open>conn_data_.reset()\<close> gives the connection back to the pool; without one it does nothing.
\<close>

definition UpstreamRequest_onResponseComplete ::
  "nat \<Rightarrow> nat \<Rightarrow> (unit, 'c, 'x, 'b, 'h, 'f) action" where
  "UpstreamRequest_onResponseComplete mid fi =
     with_request mid fi (\<lambda>ur px.
       let px = update_request mid fi (\<lambda>ur. ur\<lparr>ur_response_complete := True, ur_conn_data := False\<rparr>) px
       in (Inr (), if ur_conn_data ur then emit (UpstreamRelease mid) px else px))"

definition Router_cleanup ::
  "nat \<Rightarrow> nat \<Rightarrow> ('c, 'x, 'b, 'h, 'f) proxy \<Rightarrow> ('c, 'x, 'b, 'h, 'f) proxy" where
  "Router_cleanup mid fi = update_router mid fi (\<lambda>r. r\<lparr>rt_upstream_request := None\<rparr>)"

definition UpstreamRequest_onUpstreamHostSelected ::
  "nat \<Rightarrow> nat \<Rightarrow> string option \<Rightarrow> ('c, 'x, 'b, 'h, 'f) proxy \<Rightarrow> ('c, 'x, 'b, 'h, 'f) proxy" where
  "UpstreamRequest_onUpstreamHostSelected mid fi host =
     update_request mid fi (\<lambda>ur. ur\<lparr>ur_upstream_host := host\<rparr>)"

definition Router_onDestroy :: "nat \<Rightarrow> nat \<Rightarrow> (unit, 'c, 'x, 'b, 'h, 'f) action" where
  "Router_onDestroy mid fi =
     with_router mid fi (\<lambda>r px.
       and_then
         (if rt_upstream_request r \<noteq> None then UpstreamRequest_resetStream mid fi px else (Inr (), px))
         (\<lambda>_ px. (Inr (), Router_cleanup mid fi px)))"

text \<open>A word in single quotes, as the texts of the local replies have it.\<close>

definition quoted :: "string \<Rightarrow> string" where
  "quoted what = [CHR 0x27] @ what @ [CHR 0x27]"

text \<open>\<open>upstream_host_->address()->asString()\<close>, with the null dereference.\<close>

definition with_host ::
  "upstream_request \<Rightarrow> (string \<Rightarrow> (unit, 'c, 'x, 'b, 'h, 'f) action) \<Rightarrow> (unit, 'c, 'x, 'b, 'h, 'f) action" where
  "with_host ur f =
     (case ur_upstream_host ur of None \<Rightarrow> panic ''null upstream_host_'' | Some host \<Rightarrow> f host)"

text \<open>
  \<open>onResetStream\<close>: the message's request fails. The metadata the request holds is the message's.
\<close>

definition UpstreamRequest_onResetStream ::
  "('c, 'x, 'b, 'h, 'f) env \<Rightarrow> nat \<Rightarrow> nat \<Rightarrow> PoolFailureReason \<Rightarrow> (unit, 'c, 'x, 'b, 'h, 'f) action" where
  "UpstreamRequest_onResetStream E mid fi reason =
     with_metadata mid (\<lambda>metadata.
     with_request mid fi (\<lambda>ur px.
       if md_message_type metadata = Oneway then (Inr (), ActiveMessage_resetStream mid px)
       else
         and_then
           (case reason of
              Overflow \<Rightarrow>
                ActiveMessage_sendLocalReply E mid
                  (mk_error Unspecified ''meta protocol upstream request: too many connections'') False px
            | LocalConnectionFailure \<Rightarrow>
                with_host ur (\<lambda>host. ActiveMessage_sendLocalReply E mid
                  (mk_error Unspecified
                    (''meta protocol upstream request: local connection failure '' @ quoted host)) False) px
            | RemoteConnectionFailure \<Rightarrow>
                with_host ur (\<lambda>host. ActiveMessage_sendLocalReply E mid
                  (mk_error Unspecified
                    (''meta protocol upstream request: remote connection failure '' @ quoted host)) False) px
            | Timeout \<Rightarrow>
                with_host ur (\<lambda>host. ActiveMessage_sendLocalReply E mid
                  (mk_error Unspecified
                    (''meta protocol upstream request: connection failure '' @ quoted host @
                     '' due to timeout'')) False) px)
           (\<lambda>_. with_router mid fi (\<lambda>r. with_request mid fi (\<lambda>ur px.
              (Inr (), if rt_filter_complete r \<and> \<not> ur_response_complete ur
                       then ActiveMessage_resetStream mid px else px))))))"

subsection \<open>Pool callbacks before newConnection returns\<close>

text \<open>
  The parts of \<open>onPoolReady\<close> and \<open>onPoolFailure\<close> around \<open>continueDecoding\<close>. \<open>onPoolReady\<close>
  continues the filter chain only where the chain was stopped for the connection.
\<close>

definition UpstreamRequest_pool_connected ::
  "nat \<Rightarrow> nat \<Rightarrow> string \<Rightarrow> (bool, 'c, 'x, 'b, 'h, 'f) action" where
  "UpstreamRequest_pool_connected mid fi host =
     with_request mid fi (\<lambda>ur px.
       let continue_decoding = ur_conn_pool_handle ur;
           px = UpstreamRequest_onUpstreamHostSelected mid fi (Some host) px;
           px = emit (PutResult host LocalOriginConnectSuccess) px;
           px = update_request mid fi
                  (\<lambda>ur. ur\<lparr>ur_conn_data := True, ur_conn_pool_handle := False\<rparr>) px
       in (Inr continue_decoding, px))"

definition UpstreamRequest_send_request ::
  "('c, 'x, 'b, 'h, 'f) env \<Rightarrow> nat \<Rightarrow> nat \<Rightarrow> (unit, 'c, 'x, 'b, 'h, 'f) action" where
  "UpstreamRequest_send_request E mid fi =
     with_request mid fi (\<lambda>_ px.
       UpstreamRequest_encodeData E mid fi
         (update_request mid fi (\<lambda>ur. ur\<lparr>ur_request_complete := True\<rparr>) px))"

definition UpstreamRequest_pool_failed ::
  "('c, 'x, 'b, 'h, 'f) env \<Rightarrow> nat \<Rightarrow> nat \<Rightarrow> PoolFailureReason \<Rightarrow> string option \<Rightarrow>
   (unit, 'c, 'x, 'b, 'h, 'f) action" where
  "UpstreamRequest_pool_failed E mid fi reason host =
     with_request mid fi (\<lambda>_ px.
       let px = update_request mid fi (\<lambda>ur. ur\<lparr>ur_conn_pool_handle := False\<rparr>) px;
           px = UpstreamRequest_onUpstreamHostSelected mid fi host px
       in and_then (UpstreamRequest_onResetStream E mid fi reason px) (\<lambda>_.
            with_router mid fi (\<lambda>r px.
              (Inr (), update_router mid fi (\<lambda>r. r\<lparr>rt_upstream_request_buffer :=
                 buf_drain (en_buffer E) (rt_upstream_request_buffer r)
                   (buf_length (en_buffer E) (rt_upstream_request_buffer r))\<rparr>) px))))"

text \<open>
  \<open>start\<close>. A pool that is ready calls \<open>onPoolReady\<close> before it returns, with no handle stored yet,
  so the chain is not continued from there.
\<close>

definition UpstreamRequest_start ::
  "('c, 'x, 'b, 'h, 'f) env \<Rightarrow> nat \<Rightarrow> nat \<Rightarrow> string \<Rightarrow> (FilterStatus, 'c, 'x, 'b, 'h, 'f) action" where
  "UpstreamRequest_start E mid fi cluster px =
     (case en_newConnection E cluster (cx_effects px) of
        ConnectionPending \<Rightarrow>
          with_request mid fi (\<lambda>_ px.
            (Inr StopIteration, update_request mid fi (\<lambda>ur. ur\<lparr>ur_conn_pool_handle := True\<rparr>) px)) px
      | ConnectionReady host \<Rightarrow>
          and_then (UpstreamRequest_pool_connected mid fi host px) (\<lambda>continue_decoding px.
            if continue_decoding then panic ''continueDecoding inside newConnection'' px
            else and_then (UpstreamRequest_send_request E mid fi px) (\<lambda>_ px. (Inr Continue, px)))
      | ConnectionOverflow host \<Rightarrow>
          and_then (UpstreamRequest_pool_failed E mid fi Overflow host px)
            (\<lambda>_ px. (Inr Continue, px)))"

subsection \<open>The filter\<close>

definition Router_onMessageDecoded ::
  "('c, 'x, 'b, 'h, 'f) env \<Rightarrow> nat \<Rightarrow> nat \<Rightarrow> (FilterStatus, 'c, 'x, 'b, 'h, 'f) action" where
  "Router_onMessageDecoded E mid fi =
     with_metadata mid (\<lambda>metadata px.
     and_then (ActiveMessage_route E mid px) (\<lambda>route px.
     let px = update_router mid fi (\<lambda>r. r\<lparr>rt_route := route\<rparr>) px in
     case route of
       None \<Rightarrow>
         and_then (ActiveMessage_sendLocalReply E mid (mk_error RouteNotFound
             (''meta protocol router: no cluster match for request '' @
              quoted (dec_nat (unat (md_request_id metadata))))) False px)
           (\<lambda>_ px. (Inr StopIteration, px))
     | Some cluster_name \<Rightarrow>
         (case en_getThreadLocalCluster E cluster_name of
            None \<Rightarrow>
              and_then (ActiveMessage_sendLocalReply E mid (mk_error ClusterNotFound
                  (''meta protocol router: unknown cluster '' @ quoted cluster_name)) False px)
                (\<lambda>_ px. (Inr StopIteration, px))
          | Some cluster \<Rightarrow>
              (let px = update_router mid fi (\<lambda>r. r\<lparr>rt_cluster := Some cluster_name\<rparr>) px
               in if cl_maintenanceMode cluster then
                    and_then (ActiveMessage_sendLocalReply E mid (mk_error Unspecified
                        (''meta protocol router: maintenance mode for cluster '' @
                         quoted cluster_name)) False px)
                      (\<lambda>_ px. (Inr StopIteration, px))
                  else if \<not> cl_tcpConnPool cluster then
                    and_then (ActiveMessage_sendLocalReply E mid (mk_error NoHealthyUpstream
                        (''meta protocol router: no healthy upstream for '' @
                         quoted cluster_name)) False px)
                      (\<lambda>_ px. (Inr StopIteration, px))
                  else
                    with_router mid fi (\<lambda>r px.
                      let (buffer, origin) = buf_move (en_buffer E) (rt_upstream_request_buffer r)
                            (md_origin_message metadata)
                            (buf_length (en_buffer E) (md_origin_message metadata));
                          px = update_message mid
                            (\<lambda>am. am\<lparr>am_metadata := Some (metadata\<lparr>md_origin_message := origin\<rparr>)\<rparr>) px;
                          px = update_router mid fi
                            (\<lambda>r. r\<lparr>rt_upstream_request_buffer := buffer,
                                 rt_upstream_request := Some UpstreamRequest\<rparr>) px
                      in UpstreamRequest_start E mid fi cluster_name px) px))))"

text \<open>
  \<open>onMessageEncoded\<close> reports the upstream's answer to the outlier detector of the host.
\<close>

definition Router_onMessageEncoded ::
  "nat \<Rightarrow> nat \<Rightarrow> ('x, 'b, 'h) metadata \<Rightarrow> (FilterStatus, 'c, 'x, 'b, 'h, 'f) action" where
  "Router_onMessageEncoded mid fi metadata =
     with_router mid fi (\<lambda>r px.
       case rt_upstream_request r of
         None \<Rightarrow> (Inr Continue, px)
       | Some ur \<Rightarrow>
           and_then
             (with_host ur (\<lambda>host px.
                (Inr (), emit (PutResult host
                  (case md_response_status metadata of
                     StatusOk \<Rightarrow> if md_message_type metadata = MsgError then ExtOriginRequestFailed
                                 else ExtOriginRequestSuccess
                   | StatusError \<Rightarrow> ExtOriginRequestFailed)) px)) px)
             (\<lambda>_ px. (Inr Continue, px)))"

end
