(* ===== verification/Active_Message.thy ===== *)
theory Active_Message
  imports Router_Filter
begin

text \<open>
  Active messages, src/src/meta_protocol_proxy/active_message.cc: building the filter chain of a
  message, running the decoder and the encoder filters, the end of a request, and the destructor.

  A chain is a list of wrappers in the order the factories added them; an iterator into it is a
  position, \<open>entry()\<close> of a wrapper its own position.
\<close>

subsection \<open>Construction\<close>

definition add_filter_object ::
  "('b, 'f) filter_object \<Rightarrow> bool \<Rightarrow> bool \<Rightarrow> bool \<Rightarrow>
   ('c, 'x, 'b, 'h, 'f) active_message \<Rightarrow> ('c, 'x, 'b, 'h, 'f) active_message" where
  "add_filter_object fo decoder encoder dual am =
     (let wrapper = \<lparr>fw_handle = length (am_filters am), fw_dual_filter = dual\<rparr>
      in am\<lparr>am_filters := am_filters am @ [fo],
            am_decoder_filters := (if decoder then am_decoder_filters am @ [wrapper]
                                   else am_decoder_filters am),
            am_encoder_filters := (if encoder then am_encoder_filters am @ [wrapper]
                                   else am_encoder_filters am)\<rparr>)"

definition addDecoderFilter ::
  "('b, 'f) filter_object \<Rightarrow> ('c, 'x, 'b, 'h, 'f) active_message \<Rightarrow> ('c, 'x, 'b, 'h, 'f) active_message" where
  "addDecoderFilter fo = add_filter_object fo True False False"

definition addEncoderFilter ::
  "('b, 'f) filter_object \<Rightarrow> ('c, 'x, 'b, 'h, 'f) active_message \<Rightarrow> ('c, 'x, 'b, 'h, 'f) active_message" where
  "addEncoderFilter fo = add_filter_object fo False True False"

definition addFilter ::
  "('b, 'f) filter_object \<Rightarrow> ('c, 'x, 'b, 'h, 'f) active_message \<Rightarrow> ('c, 'x, 'b, 'h, 'f) active_message" where
  "addFilter fo = add_filter_object fo True True True"

text \<open>\<open>ConfigImpl::createFilterChain\<close> calls the factories in order; the router's adds a \<open>Router\<close>.\<close>

fun call_factory ::
  "'b buffer_ops \<Rightarrow> 'f FilterFactoryCb \<Rightarrow>
   ('c, 'x, 'b, 'h, 'f) active_message \<Rightarrow> ('c, 'x, 'b, 'h, 'f) active_message" where
  "call_factory B AddRouter am = addFilter (RouterFilter (Router B)) am"
| "call_factory B (AddDecoderFilter f) am = addDecoderFilter (ExternalFilter f) am"
| "call_factory B (AddEncoderFilter f) am = addEncoderFilter (ExternalFilter f) am"
| "call_factory B (AddFilter f) am = addFilter (ExternalFilter f) am"

definition createFilterChain ::
  "('c, 'x, 'b, 'h, 'f) env \<Rightarrow> ('c, 'x, 'b, 'h, 'f) active_message \<Rightarrow> ('c, 'x, 'b, 'h, 'f) active_message" where
  "createFilterChain E am = fold (call_factory (en_buffer E)) (en_filter_factories E) am"

definition ActiveMessage :: "u64 \<Rightarrow> ('c, 'x, 'b, 'h, 'f) active_message" where
  "ActiveMessage stream_id =
     \<lparr>am_metadata = None, am_mutation = MutationImpl, am_response_decoder = None,
      am_cached_route = None, am_filters = [], am_decoder_filters = [], am_encoder_filters = [],
      am_filter_action = False, am_encoder_filter_action = False, am_stream_id = stream_id,
      am_pending_stream_decoded = False, am_local_response_sent = False\<rparr>"

text \<open>\<open>ConnectionManager::newStream\<close>: the new message goes to the front of the list.\<close>

definition ConnectionManager_newStream ::
  "('c, 'x, 'b, 'h, 'f) env \<Rightarrow> (nat, 'c, 'x, 'b, 'h, 'f) action" where
  "ConnectionManager_newStream E px =
     (let px = inc request_active px;
          mid = st_next px;
          new_message = createFilterChain E (ActiveMessage (en_random E mid))
      in (Inr mid, px\<lparr>st_messages := (st_messages px)(mid \<mapsto> new_message),
                      st_next := mid + 1,
                      cm_active_message_list := mid # cm_active_message_list px\<rparr>))"

subsection \<open>Decoder filters\<close>

text \<open>The position to start from: \<open>None\<close> stands for the null filter pointer.\<close>

fun commonDecodePrefix :: "nat option \<Rightarrow> FilterIterationStartState \<Rightarrow> nat" where
  "commonDecodePrefix None state = 0"
| "commonDecodePrefix (Some entry) CanStartFromCurrent = entry"
| "commonDecodePrefix (Some entry) AlwaysStartFromNext = entry + 1"

fun commonEncodePrefix :: "nat option \<Rightarrow> FilterIterationStartState \<Rightarrow> nat" where
  "commonEncodePrefix None state = 0"
| "commonEncodePrefix (Some entry) CanStartFromCurrent = entry"
| "commonEncodePrefix (Some entry) AlwaysStartFromNext = entry + 1"

text \<open>\<open>filter_action_\<close> on a filter: \<open>onMessageDecoded\<close> with the message's metadata and mutation.\<close>

definition call_decoder_filter ::
  "('c, 'x, 'b, 'h, 'f) env \<Rightarrow> nat \<Rightarrow> nat \<Rightarrow> (FilterStatus, 'c, 'x, 'b, 'h, 'f) action" where
  "call_decoder_filter E mid fi =
     with_message mid (\<lambda>am.
       if fi < length (am_filters am) then
         (case am_filters am ! fi of
            RouterFilter _ \<Rightarrow> Router_onMessageDecoded E mid fi
          | ExternalFilter f \<Rightarrow>
              with_metadata mid (\<lambda>metadata px.
                let (f', metadata', mutation', reply, status) =
                      en_onMessageDecoded E f metadata (am_mutation am);
                    px = update_message mid (\<lambda>am. am\<lparr>am_metadata := Some metadata',
                           am_mutation := mutation',
                           am_filters := (am_filters am)[fi := ExternalFilter f']\<rparr>) px
                in case reply of
                     None \<Rightarrow> (Inr status, px)
                   | Some (err, end_stream) \<Rightarrow>
                       and_then (ActiveMessage_sendLocalReply E mid err end_stream px)
                         (\<lambda>_ px. (Inr status, px))))
       else panic ''dangling filter'')"

text \<open>
  The loop over the chain: \<open>None\<close> where it ran to the end or a local response was sent, the status
  of the filter that stopped it otherwise.
\<close>

fun decoder_filter_loop ::
  "('c, 'x, 'b, 'h, 'f) env \<Rightarrow> nat \<Rightarrow> filter_wrapper list \<Rightarrow> (FilterStatus option, 'c, 'x, 'b, 'h, 'f) action" where
  "decoder_filter_loop E mid [] px = (Inr None, px)"
| "decoder_filter_loop E mid (w # ws) px =
     and_then (call_decoder_filter E mid (fw_handle w) px) (\<lambda>status.
       with_message mid (\<lambda>am px.
         if am_local_response_sent am then (Inr None, px)
         else if status \<noteq> Continue then (Inr (Some status), px)
         else decoder_filter_loop E mid ws px))"

definition applyDecoderFilters ::
  "('c, 'x, 'b, 'h, 'f) env \<Rightarrow> nat \<Rightarrow> nat option \<Rightarrow> FilterIterationStartState \<Rightarrow>
   (FilterStatus, 'c, 'x, 'b, 'h, 'f) action" where
  "applyDecoderFilters E mid filter_pos state =
     with_message mid (\<lambda>am px.
       if \<not> am_filter_action am then panic ''ASSERT(filter_action_ != nullptr)'' px
       else
         and_then
           (if \<not> am_local_response_sent am
            then decoder_filter_loop E mid
                   (drop (commonDecodePrefix filter_pos state) (am_decoder_filters am)) px
            else (Inr None, px))
           (\<lambda>stopped px.
              case stopped of
                Some status \<Rightarrow> (Inr status, px)
              | None \<Rightarrow> (Inr Continue, update_message mid (\<lambda>am. am\<lparr>am_filter_action := False\<rparr>) px)))"

definition ActiveMessage_finalizeRequest :: "nat \<Rightarrow> (unit, 'c, 'x, 'b, 'h, 'f) action" where
  "ActiveMessage_finalizeRequest mid px =
     (let px = inc stat_request (update_message mid (\<lambda>am. am\<lparr>am_pending_stream_decoded := False\<rparr>) px)
      in with_metadata mid (\<lambda>metadata.
           with_message mid (\<lambda>am px.
             let is_one_way = (md_message_type metadata = Oneway);
                 px = (case md_message_type metadata of
                         Request \<Rightarrow> inc request_twoway px
                       | Oneway \<Rightarrow> inc request_oneway px
                       | _ \<Rightarrow> px)
             in (Inr (), if am_local_response_sent am \<or> is_one_way then deferredMessage mid px else px))) px)"

definition ActiveMessage_onStreamDecoded ::
  "('c, 'x, 'b, 'h, 'f) env \<Rightarrow> nat \<Rightarrow> ('x, 'b, 'h) metadata \<Rightarrow> 'x mutation \<Rightarrow>
   (unit, 'c, 'x, 'b, 'h, 'f) action" where
  "ActiveMessage_onStreamDecoded E mid metadata mutation px =
     (let px = inc request_decoding_success px;
          px = update_message mid (\<lambda>am. am\<lparr>am_metadata := Some metadata, am_mutation := mutation,
                 am_filter_action := True\<rparr>) px
      in and_then (applyDecoderFilters E mid None CanStartFromCurrent px) (\<lambda>status px.
           if status = StopIteration then
             (Inr (), update_message mid (\<lambda>am. am\<lparr>am_pending_stream_decoded := True\<rparr>) px)
           else ActiveMessage_finalizeRequest mid px))"

subsection \<open>Encoder filters\<close>

text \<open>
  \<open>encoder_filter_action_\<close> on a filter: \<open>onMessageEncoded\<close> with the metadata and the mutation of
  the response, which the loop passes along.
\<close>

definition call_encoder_filter ::
  "('c, 'x, 'b, 'h, 'f) env \<Rightarrow> nat \<Rightarrow> nat \<Rightarrow> ('x, 'b, 'h) metadata \<times> 'x mutation \<Rightarrow>
   (FilterStatus \<times> ('x, 'b, 'h) metadata \<times> 'x mutation, 'c, 'x, 'b, 'h, 'f) action" where
  "call_encoder_filter E mid fi response =
     with_message mid (\<lambda>am px.
       if fi < length (am_filters am) then
         (case am_filters am ! fi of
            RouterFilter _ \<Rightarrow>
              and_then (Router_onMessageEncoded mid fi (fst response) px)
                (\<lambda>status px. (Inr (status, response), px))
          | ExternalFilter f \<Rightarrow>
              (let (f', metadata', mutation', status) =
                     en_onMessageEncoded E f (fst response) (snd response)
               in (Inr (status, (metadata', mutation')),
                   update_message mid
                     (\<lambda>am. am\<lparr>am_filters := (am_filters am)[fi := ExternalFilter f']\<rparr>) px)))
       else panic ''dangling filter'' px)"

fun encoder_filter_loop ::
  "('c, 'x, 'b, 'h, 'f) env \<Rightarrow> nat \<Rightarrow> filter_wrapper list \<Rightarrow> ('x, 'b, 'h) metadata \<times> 'x mutation \<Rightarrow>
   (FilterStatus option \<times> ('x, 'b, 'h) metadata \<times> 'x mutation, 'c, 'x, 'b, 'h, 'f) action" where
  "encoder_filter_loop E mid [] response px = (Inr (None, response), px)"
| "encoder_filter_loop E mid (w # ws) response px =
     and_then (call_encoder_filter E mid (fw_handle w) response px) (\<lambda>(status, response).
       with_message mid (\<lambda>am px.
         if am_local_response_sent am then (Inr (None, response), px)
         else if status \<noteq> Continue then (Inr (Some status, response), px)
         else encoder_filter_loop E mid ws response px))"

definition applyEncoderFilters ::
  "('c, 'x, 'b, 'h, 'f) env \<Rightarrow> nat \<Rightarrow> nat option \<Rightarrow> FilterIterationStartState \<Rightarrow>
   ('x, 'b, 'h) metadata \<times> 'x mutation \<Rightarrow>
   (FilterStatus \<times> ('x, 'b, 'h) metadata \<times> 'x mutation, 'c, 'x, 'b, 'h, 'f) action" where
  "applyEncoderFilters E mid filter_pos state response =
     with_message mid (\<lambda>am px.
       if \<not> am_encoder_filter_action am then panic ''ASSERT(encoder_filter_action_ != nullptr)'' px
       else
         and_then
           (if \<not> am_local_response_sent am
            then encoder_filter_loop E mid
                   (drop (commonEncodePrefix filter_pos state) (am_encoder_filters am)) response px
            else (Inr (None, response), px))
           (\<lambda>(stopped, response) px.
              case stopped of
                Some status \<Rightarrow> (Inr (status, response), px)
              | None \<Rightarrow> (Inr (Continue, response),
                  update_message mid (\<lambda>am. am\<lparr>am_encoder_filter_action := False\<rparr>) px)))"

text \<open>
  \<open>ActiveMessageEncoderFilter::continueEncoding\<close> of the wrapper at position \<open>pos\<close>: the filters
  after it, or it and those after it where the request still has its bytes, run on the response the
  stored action holds. The status of the chain is only logged.
\<close>

definition EncoderFilter_continueEncoding ::
  "('c, 'x, 'b, 'h, 'f) env \<Rightarrow> nat \<Rightarrow> nat \<Rightarrow> ('x, 'b, 'h) metadata \<times> 'x mutation \<Rightarrow>
   (('x, 'b, 'h) metadata \<times> 'x mutation, 'c, 'x, 'b, 'h, 'f) action" where
  "EncoderFilter_continueEncoding E mid pos response =
     with_metadata mid (\<lambda>metadata px.
       let state = (if buf_length (en_buffer E) (md_origin_message metadata) \<noteq> 0
                    then CanStartFromCurrent else AlwaysStartFromNext)
       in and_then (applyEncoderFilters E mid (Some pos) state response px)
            (\<lambda>(status, response) px. (Inr response, px)))"

subsection \<open>Destruction\<close>

text \<open>
  The destructor, which the dispatcher runs for the objects handed to \<open>deferredDelete\<close>:
  \<open>onDestroy\<close> of the decoder filters, then of the encoder filters that are not also decoder
  filters. A filter that is not the router has no effect on the proxy when it is destroyed.
\<close>

definition call_onDestroy :: "nat \<Rightarrow> nat \<Rightarrow> (unit, 'c, 'x, 'b, 'h, 'f) action" where
  "call_onDestroy mid fi =
     with_message mid (\<lambda>am.
       if fi < length (am_filters am) then
         (case am_filters am ! fi of
            RouterFilter _ \<Rightarrow> Router_onDestroy mid fi
          | ExternalFilter _ \<Rightarrow> return ())
       else panic ''dangling filter'')"

fun destroy_filters :: "nat \<Rightarrow> nat list \<Rightarrow> (unit, 'c, 'x, 'b, 'h, 'f) action" where
  "destroy_filters mid [] px = (Inr (), px)"
| "destroy_filters mid (fi # fis) px =
     and_then (call_onDestroy mid fi px) (\<lambda>_. destroy_filters mid fis)"

definition ActiveMessage_destroy :: "nat \<Rightarrow> (unit, 'c, 'x, 'b, 'h, 'f) action" where
  "ActiveMessage_destroy mid =
     with_message mid (\<lambda>am px.
       and_then (destroy_filters mid
           (map fw_handle (am_decoder_filters am) @
            map fw_handle (filter (\<lambda>w. \<not> fw_dual_filter w) (am_encoder_filters am)))
           (dec request_active px))
         (\<lambda>_ px. (Inr (), px\<lparr>st_messages := (st_messages px)(mid := None)\<rparr>)))"

end
