(* ===== verification/Conn_Manager.thy ===== *)
theory Conn_Manager
  imports Active_Message
begin

text \<open>
  The connection manager's data path, src/src/meta_protocol_proxy/conn_manager.cc: \<open>onData\<close>,
  \<open>dispatch\<close> and \<open>continueDecoding\<close>, with the decoder of \<open>Meta_Decoder\<close> over the manager's state,
  and \<open>ActiveMessageDecoderFilter::continueDecoding\<close> of active_message.cc, which ends in it.

  The loop of \<open>dispatch\<close> runs while the decoder reports no underflow. A codec that completes a
  message without taking a byte would keep it running, so it is a partial function: \<open>None\<close> means
  that the call does not return.
\<close>

subsection \<open>The request decoder\<close>

definition request_decode ::
  "('c, 'x, 'b, 'h, 'f) env \<Rightarrow> ('x, 'b, 'h) metadata \<Rightarrow>
   (DecodeStatus \<times> ('x, 'b, 'h) metadata, 'c, 'x, 'b, 'h, 'f) action" where
  "request_decode E metadata px =
     (let (result, (codec, buffer, metadata)) =
        codec_decode (en_codec E) (cm_codec px) (cm_request_buffer px) metadata;
          px = px\<lparr>cm_codec := codec, cm_request_buffer := buffer\<rparr>
      in and_then (result, px) (\<lambda>status px. (Inr (status, metadata), px)))"

definition request_ops ::
  "('c, 'x, 'b, 'h, 'f) env \<Rightarrow> (('c, 'x, 'b, 'h, 'f) proxy, 'x, 'b, 'h, nat) decoder_ops" where
  "request_ops E =
     \<lparr>do_get = cm_decoder,
      do_put = (\<lambda>d px. px\<lparr>cm_decoder := d\<rparr>),
      do_new_metadata = MetadataImpl (en_buffer E) (en_headers E),
      do_decode = request_decode E,
      do_data_length = (\<lambda>px. buf_length (en_buffer E) (cm_request_buffer px)),
      do_newStream = ConnectionManager_newStream E,
      do_onStreamDecoded = ActiveMessage_onStreamDecoded E,
      do_onHeartbeat = ConnectionManager_onHeartbeat E\<rparr>"

subsection \<open>Dispatch\<close>

partial_function (option) dispatch_loop ::
  "('c, 'x, 'b, 'h, 'f) env \<Rightarrow> ('c, 'x, 'b, 'h, 'f) proxy \<Rightarrow>
   (unit, ('c, 'x, 'b, 'h, 'f) proxy) outcome option" where
  "dispatch_loop E px =
     (case Decoder_onData (request_ops E) px of
        (Inl e, px') \<Rightarrow> Some (Inl e, px')
      | (Inr r, px') \<Rightarrow> if snd r then Some (Inr (), px') else dispatch_loop E px')"

declare dispatch_loop.simps [code]

text \<open>What \<open>dispatch\<close> does after the loop: an \<open>EnvoyException\<close> closes the connection.\<close>

definition dispatch_catch ::
  "('c, 'x, 'b, 'h, 'f) env \<Rightarrow> (unit, ('c, 'x, 'b, 'h, 'f) proxy) outcome \<Rightarrow>
   (unit, ('c, 'x, 'b, 'h, 'f) proxy) outcome" where
  "dispatch_catch E r =
     (case r of
        (Inr _, px) \<Rightarrow> (Inr (), px)
      | (Inl e, px) \<Rightarrow>
          if is_envoy_exception e then
            (Inr (), resetAllMessages True
               (inc request_decoding_error (connection_close E NoFlush px)))
          else (Inl e, px))"

definition dispatch ::
  "('c, 'x, 'b, 'h, 'f) env \<Rightarrow> ('c, 'x, 'b, 'h, 'f) proxy \<Rightarrow>
   (unit, ('c, 'x, 'b, 'h, 'f) proxy) outcome option" where
  "dispatch E px =
     (if buf_length (en_buffer E) (cm_request_buffer px) = 0 then Some (Inr (), px)
      else if cm_stopped px then Some (Inr (), px)
      else map_option (dispatch_catch E) (dispatch_loop E px))"

definition ConnectionManager_continueDecoding ::
  "('c, 'x, 'b, 'h, 'f) env \<Rightarrow> ('c, 'x, 'b, 'h, 'f) proxy \<Rightarrow>
   (unit, ('c, 'x, 'b, 'h, 'f) proxy) outcome option" where
  "ConnectionManager_continueDecoding E px =
     map_option (\<lambda>r. and_then r (\<lambda>_ px.
         (Inr (), if \<not> cm_stopped px \<and> cm_half_closed px
                  then connection_close E FlushWrite (resetAllMessages False px) else px)))
       (dispatch E (px\<lparr>cm_stopped := False\<rparr>))"

text \<open>\<open>onData\<close>: every path returns \<open>StopIteration\<close>.\<close>

definition ConnectionManager_onData ::
  "('c, 'x, 'b, 'h, 'f) env \<Rightarrow> 'b \<Rightarrow> bool \<Rightarrow> ('c, 'x, 'b, 'h, 'f) proxy \<Rightarrow>
   (unit, ('c, 'x, 'b, 'h, 'f) proxy) outcome option" where
  "ConnectionManager_onData E data end_stream px =
     (let (buffer, _) = buf_move_all (en_buffer E) (cm_request_buffer px) data
      in map_option (\<lambda>r. and_then r (\<lambda>_ px.
           if \<not> end_stream then (Inr (), px)
           else
             and_then
               (if cm_stopped px then
                  (case cm_active_message_list px of
                     [] \<Rightarrow> panic ''ASSERT(!active_message_list_.empty())'' px
                   | mid # _ \<Rightarrow>
                       with_message mid (\<lambda>am px.
                         (Inr (case am_metadata am of
                                 Some m \<Rightarrow> md_message_type m = Oneway | None \<Rightarrow> False), px)) px)
                else (Inr False, px))
               (\<lambda>wait px.
                  if wait then (Inr (), px\<lparr>cm_half_closed := True\<rparr>)
                  else (Inr (), connection_close E FlushWrite (resetAllMessages False px)))))
         (dispatch E (px\<lparr>cm_request_buffer := buffer\<rparr>)))"

subsection \<open>Continuing a filter chain\<close>

text \<open>
  \<open>ActiveMessageDecoderFilter::continueDecoding\<close> of the wrapper at position \<open>pos\<close>: the filters
  after it are run, or it and those after it where the message is still there.
\<close>

definition resume_filters ::
  "('c, 'x, 'b, 'h, 'f) env \<Rightarrow> nat \<Rightarrow> nat \<Rightarrow> (bool, 'c, 'x, 'b, 'h, 'f) action" where
  "resume_filters E mid pos =
     with_metadata mid (\<lambda>metadata px.
       let state = (if buf_length (en_buffer E) (md_origin_message metadata) \<noteq> 0
                    then CanStartFromCurrent else AlwaysStartFromNext)
       in and_then (applyDecoderFilters E mid (Some pos) state px) (\<lambda>status px.
            if status \<noteq> Continue then (Inr False, px)
            else
              and_then
                (with_message mid (\<lambda>am px.
                   if am_pending_stream_decoded am then ActiveMessage_finalizeRequest mid px
                   else (Inr (), px)) px)
                (\<lambda>_ px. (Inr True, px))))"

definition DecoderFilter_continueDecoding ::
  "('c, 'x, 'b, 'h, 'f) env \<Rightarrow> nat \<Rightarrow> nat \<Rightarrow> ('c, 'x, 'b, 'h, 'f) proxy \<Rightarrow>
   (unit, ('c, 'x, 'b, 'h, 'f) proxy) outcome option" where
  "DecoderFilter_continueDecoding E mid pos px =
     (case resume_filters E mid pos px of
        (Inl e, px) \<Rightarrow> Some (Inl e, px)
      | (Inr all_run, px) \<Rightarrow>
          if all_run then ConnectionManager_continueDecoding E px else Some (Inr (), px))"

end
