(* ===== verification/Upstream_Events.thy ===== *)
theory Upstream_Events
  imports Conn_Manager
begin

text \<open>
  What comes back from upstream: the pool's asynchronous callbacks and the data and events of the
  upstream connection (router_impl.cc: \<open>onPoolReady\<close>, \<open>onPoolFailure\<close>, \<open>onUpstreamData\<close>,
  \<open>onEvent\<close>), and the response side of an active message (active_message.cc: \<open>startUpstreamResponse\<close>,
  \<open>upstreamData\<close>, class \<open>ActiveResponseDecoder\<close>).
\<close>

subsection \<open>The response decoder\<close>

text \<open>
  A response decoder works on itself, on the data it is given and on the proxy; while it works it
  is taken out of the message that owns it.
\<close>

type_synonym ('c, 'x, 'b, 'h, 'f) response_state =
  "('c, 'x, 'b, 'h) response_decoder \<times> 'b \<times> ('c, 'x, 'b, 'h, 'f) proxy"

definition ActiveResponseDecoder ::
  "('c, 'x, 'b, 'h, 'f) env \<Rightarrow> ('c, 'x, 'b, 'h) response_decoder" where
  "ActiveResponseDecoder E =
     \<lparr>rd_codec = en_createCodec E, rd_decoder = new_decoder, rd_metadata = None,
      rd_mutation = MutationImpl, rd_complete = False, rd_response_status = MoreData\<rparr>"

definition response_decode ::
  "('c, 'x, 'b, 'h, 'f) env \<Rightarrow> ('x, 'b, 'h) metadata \<Rightarrow> ('c, 'x, 'b, 'h, 'f) response_state \<Rightarrow>
   (DecodeStatus \<times> ('x, 'b, 'h) metadata, ('c, 'x, 'b, 'h, 'f) response_state) outcome" where
  "response_decode E metadata = (\<lambda>(rd, data, px).
     let (result, (codec, data, metadata)) = codec_decode (en_codec E) (rd_codec rd) data metadata
     in and_then (result, (rd\<lparr>rd_codec := codec\<rparr>, data, px)) (\<lambda>status s. (Inr (status, metadata), s)))"

text \<open>
  \<open>applyMessageEncodedFilters\<close>: the filters work on the metadata and mutation of the response.
\<close>

definition applyMessageEncodedFilters ::
  "('c, 'x, 'b, 'h, 'f) env \<Rightarrow> nat \<Rightarrow> ('x, 'b, 'h) metadata \<Rightarrow> 'x mutation \<Rightarrow>
   ('c, 'x, 'b, 'h, 'f) response_state \<Rightarrow> (FilterStatus, ('c, 'x, 'b, 'h, 'f) response_state) outcome" where
  "applyMessageEncodedFilters E mid metadata mutation = (\<lambda>(rd, data, px).
     let px = update_message mid (\<lambda>am. am\<lparr>am_encoder_filter_action := True\<rparr>) px
     in case applyEncoderFilters E mid None CanStartFromCurrent (metadata, mutation) px of
          (Inl e, px) \<Rightarrow> (Inl e, (rd, data, px))
        | (Inr (status, (metadata, mutation)), px) \<Rightarrow>
            (let rd = rd\<lparr>rd_metadata := Some metadata, rd_mutation := mutation\<rparr>
             in case status of
                  StopIteration \<Rightarrow> (Inr status, (rd, data, px))
                | Retry \<Rightarrow>
                    (Inr status,
                     (rd\<lparr>rd_response_status := UpstreamRetry,
                         rd_decoder := (rd_decoder rd)\<lparr>md_state_machine := None, md_stream := False,
                           md_decode_started := False\<rparr>\<rparr>, data, px))
                | Continue \<Rightarrow> (Inr status, (rd, data, px))))"

definition count_response ::
  "('x, 'b, 'h) metadata \<Rightarrow> ('c, 'x, 'b, 'h, 'f) proxy \<Rightarrow> ('c, 'x, 'b, 'h, 'f) proxy" where
  "count_response metadata px =
     (let px = inc stat_response px;
          px = inc response_decoding_success px;
          px = (if md_message_type metadata = MsgError then inc response_business_exception px else px)
      in case md_response_status metadata of
           StatusOk \<Rightarrow> inc response_success px
         | StatusError \<Rightarrow> inc response_error px)"

definition ActiveResponseDecoder_onStreamDecoded ::
  "('c, 'x, 'b, 'h, 'f) env \<Rightarrow> nat \<Rightarrow> ('x, 'b, 'h) metadata \<Rightarrow> 'x mutation \<Rightarrow>
   ('c, 'x, 'b, 'h, 'f) response_state \<Rightarrow> (unit, ('c, 'x, 'b, 'h, 'f) response_state) outcome" where
  "ActiveResponseDecoder_onStreamDecoded E mid metadata mutation = (\<lambda>(rd, data, px).
     if md_message_type metadata \<notin> {Response, MsgError} then
       (Inl (Panic ''ASSERT(metadata->getMessageType() == Response || Error)''), (rd, data, px))
     else
       and_then
         (applyMessageEncodedFilters E mid metadata mutation
            (rd\<lparr>rd_metadata := Some metadata\<rparr>, data, px))
         (\<lambda>status (rd, data, px).
            if status \<noteq> Continue then
              (Inr (), (rd\<lparr>rd_response_status := Complete\<rparr>, data, px))
            else if cx_state px \<noteq> ConnOpen then
              (Inl (DownstreamConnectionCloseException ''Downstream has closed or closing''),
               (rd, data, px))
            else
              (case rd_metadata rd of
                 None \<Rightarrow> (Inl (Panic ''null metadata''), (rd, data, px))
               | Some metadata \<Rightarrow>
                   (let (rest, px) = connection_write E (md_origin_message metadata) False px;
                        metadata = metadata\<lparr>md_origin_message := rest\<rparr>;
                        px = count_response metadata px
                    in (Inr (), (rd\<lparr>rd_metadata := Some metadata, rd_complete := True,
                                   rd_response_status := Complete\<rparr>, data, px))))))"

definition ActiveResponseDecoder_onHeartbeat ::
  "('x, 'b, 'h) metadata \<Rightarrow> ('c, 'x, 'b, 'h, 'f) response_state \<Rightarrow>
   (unit, ('c, 'x, 'b, 'h, 'f) response_state) outcome" where
  "ActiveResponseDecoder_onHeartbeat metadata s = (Inl (Panic ''NOT_IMPLEMENTED''), s)"

definition response_ops ::
  "('c, 'x, 'b, 'h, 'f) env \<Rightarrow> nat \<Rightarrow>
   (('c, 'x, 'b, 'h, 'f) response_state, 'x, 'b, 'h, unit) decoder_ops" where
  "response_ops E mid =
     \<lparr>do_get = (\<lambda>(rd, _, _). rd_decoder rd),
      do_put = (\<lambda>d (rd, data, px). (rd\<lparr>rd_decoder := d\<rparr>, data, px)),
      do_new_metadata = MetadataImpl (en_buffer E) (en_headers E),
      do_decode = response_decode E,
      do_data_length = (\<lambda>(_, data, _). buf_length (en_buffer E) data),
      do_newStream = (\<lambda>s. (Inr (), s)),
      do_onStreamDecoded = (\<lambda>_. ActiveResponseDecoder_onStreamDecoded E mid),
      do_onHeartbeat = ActiveResponseDecoder_onHeartbeat\<rparr>"

definition ActiveResponseDecoder_onData ::
  "('c, 'x, 'b, 'h, 'f) env \<Rightarrow> nat \<Rightarrow> ('c, 'x, 'b, 'h, 'f) response_state \<Rightarrow>
   (UpstreamResponseStatus, ('c, 'x, 'b, 'h, 'f) response_state) outcome" where
  "ActiveResponseDecoder_onData E mid s =
     and_then (Decoder_onData (response_ops E mid) s) (\<lambda>(_, underflow) (rd, data, px).
       if \<not> (rd_complete rd \<or> underflow) then
         (Inl (Panic ''ASSERT(complete_ || underflow)''), (rd, data, px))
       else (Inr (rd_response_status rd), (rd, data, px)))"

definition ActiveResponseDecoder_requestId :: "('c, 'x, 'b, 'h) response_decoder \<Rightarrow> u64" where
  "ActiveResponseDecoder_requestId rd =
     (case rd_metadata rd of Some m \<Rightarrow> md_request_id m | None \<Rightarrow> 0)"

subsection \<open>The response side of an active message\<close>

definition ActiveMessage_startUpstreamResponse ::
  "('c, 'x, 'b, 'h, 'f) env \<Rightarrow> nat \<Rightarrow> (unit, 'c, 'x, 'b, 'h, 'f) action" where
  "ActiveMessage_startUpstreamResponse E mid =
     with_message mid (\<lambda>am px.
       if am_response_decoder am \<noteq> None then panic ''ASSERT(response_decoder_ == nullptr)'' px
       else (Inr (), update_message mid
              (\<lambda>am. am\<lparr>am_response_decoder := Some (ActiveResponseDecoder E)\<rparr>) px))"

text \<open>
  \<open>upstreamData\<close>: the body of the \<open>try\<close>, then its handlers. It returns the status and what is
  left of the data.
\<close>

definition request_id_mismatch :: "string \<Rightarrow> u64 \<Rightarrow> u64 \<Rightarrow> exn" where
  "request_id_mismatch protocol own other =
     EnvoyException (''meta protocol '' @ protocol @ '' response: request ID is not equal, '' @
       dec_nat (unat own) @ '':'' @ dec_nat (unat other))"

definition ActiveMessage_upstreamData_try ::
  "('c, 'x, 'b, 'h, 'f) env \<Rightarrow> nat \<Rightarrow> 'b \<Rightarrow> (UpstreamResponseStatus \<times> 'b, 'c, 'x, 'b, 'h, 'f) action" where
  "ActiveMessage_upstreamData_try E mid buffer =
     with_message mid (\<lambda>am px.
       case am_response_decoder am of
         None \<Rightarrow> panic ''ASSERT(response_decoder_ != nullptr)'' px
       | Some rd \<Rightarrow>
           (let (result, (rd, buffer, px)) = ActiveResponseDecoder_onData E mid (rd, buffer, px);
                px = update_message mid (\<lambda>am. am\<lparr>am_response_decoder := Some rd\<rparr>) px
            in and_then (result, px) (\<lambda>status.
                 with_message mid (\<lambda>am px.
                   if status = Complete then
                     if ActiveMessage_requestId am \<noteq> ActiveResponseDecoder_requestId rd then
                       (Inl (request_id_mismatch (en_applicationProtocol E)
                          (ActiveMessage_requestId am) (ActiveResponseDecoder_requestId rd)), px)
                     else (Inr (status, buffer), deferredMessage mid px)
                   else if status = UpstreamRetry then
                     (Inr (status, buffer),
                      update_message mid (\<lambda>am. am\<lparr>am_response_decoder := None\<rparr>) px)
                   else (Inr (status, buffer), px)))))"

text \<open>Where the connection is to be reset, what is left of its data does not matter.\<close>

definition ActiveMessage_upstreamData ::
  "('c, 'x, 'b, 'h, 'f) env \<Rightarrow> nat \<Rightarrow> 'b \<Rightarrow> (UpstreamResponseStatus \<times> 'b, 'c, 'x, 'b, 'h, 'f) action" where
  "ActiveMessage_upstreamData E mid buffer px =
     (case ActiveMessage_upstreamData_try E mid buffer px of
        (Inr r, px) \<Rightarrow> (Inr r, px)
      | (Inl (DownstreamConnectionCloseException what), px) \<Rightarrow>
          (Inr (Reset, buffer),
           inc response_error_caused_connection_close (ActiveMessage_onReset mid px))
      | (Inl (EnvoyException what), px) \<Rightarrow>
          and_then (ActiveMessage_onError E mid what (inc response_decoding_error px))
            (\<lambda>_ px. (Inr (Reset, buffer), px))
      | (Inl e, px) \<Rightarrow> (Inl e, px))"

subsection \<open>Callbacks of the connection pool\<close>

text \<open>
  The wrapper through which a router reaches its message stands at position \<open>pos\<close> of the chain.
\<close>

definition decoder_position :: "('c, 'x, 'b, 'h, 'f) active_message \<Rightarrow> nat \<Rightarrow> nat option" where
  "decoder_position am fi =
     (case filter (\<lambda>(i, w). fw_handle w = fi) (enumerate 0 (am_decoder_filters am)) of
        [] \<Rightarrow> None | (i, _) # _ \<Rightarrow> Some i)"

definition Router_continueDecoding ::
  "('c, 'x, 'b, 'h, 'f) env \<Rightarrow> nat \<Rightarrow> nat \<Rightarrow> ('c, 'x, 'b, 'h, 'f) proxy \<Rightarrow>
   (unit, ('c, 'x, 'b, 'h, 'f) proxy) outcome option" where
  "Router_continueDecoding E mid fi px =
     (case st_messages px mid of
        None \<Rightarrow> Some (panic ''dangling callbacks_'' px)
      | Some am \<Rightarrow>
          (case decoder_position am fi of
             None \<Rightarrow> Some (panic ''dangling callbacks_'' px)
           | Some pos \<Rightarrow> DecoderFilter_continueDecoding E mid pos px))"

definition UpstreamRequest_onPoolReady ::
  "('c, 'x, 'b, 'h, 'f) env \<Rightarrow> nat \<Rightarrow> nat \<Rightarrow> string \<Rightarrow> ('c, 'x, 'b, 'h, 'f) proxy \<Rightarrow>
   (unit, ('c, 'x, 'b, 'h, 'f) proxy) outcome option" where
  "UpstreamRequest_onPoolReady E mid fi host px =
     (case UpstreamRequest_pool_connected mid fi host px of
        (Inl e, px) \<Rightarrow> Some (Inl e, px)
      | (Inr continue_decoding, px) \<Rightarrow>
          map_option (\<lambda>r. and_then r (\<lambda>_. UpstreamRequest_send_request E mid fi))
            (if continue_decoding then Router_continueDecoding E mid fi px else Some (Inr (), px)))"

text \<open>A connection error is reported to the outlier detector, and the chain goes on.\<close>

definition report_pool_failure ::
  "PoolFailureReason \<Rightarrow> string option \<Rightarrow> (unit, 'c, 'x, 'b, 'h, 'f) action" where
  "report_pool_failure reason host px =
     (case (reason, host) of
        (Timeout, Some h) \<Rightarrow> (Inr (), emit (PutResult h LocalOriginTimeout) px)
      | (RemoteConnectionFailure, Some h) \<Rightarrow> (Inr (), emit (PutResult h LocalOriginConnectFailed) px)
      | (Timeout, None) \<Rightarrow> panic ''null host'' px
      | (RemoteConnectionFailure, None) \<Rightarrow> panic ''null host'' px
      | _ \<Rightarrow> (Inr (), px))"

definition UpstreamRequest_onPoolFailure ::
  "('c, 'x, 'b, 'h, 'f) env \<Rightarrow> nat \<Rightarrow> nat \<Rightarrow> PoolFailureReason \<Rightarrow> string option \<Rightarrow>
   ('c, 'x, 'b, 'h, 'f) proxy \<Rightarrow> (unit, ('c, 'x, 'b, 'h, 'f) proxy) outcome option" where
  "UpstreamRequest_onPoolFailure E mid fi reason host px =
     (case UpstreamRequest_pool_failed E mid fi reason host px of
        (Inl e, px) \<Rightarrow> Some (Inl e, px)
      | (Inr _, px) \<Rightarrow>
          if reason \<in> {Timeout, LocalConnectionFailure, RemoteConnectionFailure} then
            (case report_pool_failure reason host px of
               (Inl e, px) \<Rightarrow> Some (Inl e, px)
             | (Inr _, px) \<Rightarrow> Router_continueDecoding E mid fi px)
          else Some (Inr (), px))"

subsection \<open>Data and events of the upstream connection\<close>

text \<open>
  \<open>onUpstreamData\<close> gets the read buffer of the upstream connection and returns what it left there.
\<close>

definition Router_onUpstreamData ::
  "('c, 'x, 'b, 'h, 'f) env \<Rightarrow> nat \<Rightarrow> nat \<Rightarrow> 'b \<Rightarrow> bool \<Rightarrow> ('b, 'c, 'x, 'b, 'h, 'f) action" where
  "Router_onUpstreamData E mid fi data end_stream =
     with_request mid fi (\<lambda>ur px.
       if ur_response_complete ur then panic ''ASSERT(!upstream_request_->response_complete_)'' px
       else
         and_then
           (if \<not> ur_response_started ur then
              and_then (ActiveMessage_startUpstreamResponse E mid px)
                (\<lambda>_ px. (Inr (), update_request mid fi (\<lambda>ur. ur\<lparr>ur_response_started := True\<rparr>) px))
            else (Inr (), px))
           (\<lambda>_ px.
              and_then (ActiveMessage_upstreamData E mid data px) (\<lambda>(status, data) px.
                if status = Complete then
                  and_then (UpstreamRequest_onResponseComplete mid fi px)
                    (\<lambda>_ px. (Inr data, Router_cleanup mid fi px))
                else if status = Reset then
                  and_then (UpstreamRequest_resetStream mid fi px) (\<lambda>_ px. (Inr data, px))
                else if end_stream then
                  and_then (UpstreamRequest_onResetStream E mid fi RemoteConnectionFailure px) (\<lambda>_ px.
                  and_then (UpstreamRequest_onResponseComplete mid fi px)
                    (\<lambda>_ px. (Inr data, Router_cleanup mid fi px)))
                else (Inr data, px))))"

definition Router_onEvent ::
  "('c, 'x, 'b, 'h, 'f) env \<Rightarrow> nat \<Rightarrow> nat \<Rightarrow> ConnectionEvent \<Rightarrow> (unit, 'c, 'x, 'b, 'h, 'f) action" where
  "Router_onEvent E mid fi event =
     with_router mid fi (\<lambda>r px.
       case rt_upstream_request r of
         None \<Rightarrow> (Inr (), px)
       | Some ur \<Rightarrow>
           if ur_response_complete ur then (Inr (), px)
           else if ur_stream_reset ur \<and> event = LocalClose then (Inr (), px)
           else
             (case event of
                RemoteClose \<Rightarrow>
                  and_then (UpstreamRequest_onResetStream E mid fi RemoteConnectionFailure px)
                    (\<lambda>_. with_request mid fi (\<lambda>ur. with_host ur (\<lambda>host px.
                       (Inr (), emit (PutResult host LocalOriginConnectFailed) px))))
              | LocalClose \<Rightarrow> UpstreamRequest_onResetStream E mid fi LocalConnectionFailure px
              | Connected \<Rightarrow> panic ''NOT_REACHED'' px))"

end
