(* ===== verification/Proxy_System.thy ===== *)
theory Proxy_System
  imports Upstream_Events
begin

text \<open>
  The proxy as a state machine: one downstream connection, driven by the events Envoy's event loop
  delivers. An event runs to completion before the next; what an event may assume (\<open>enabled\<close>) is
  the documented behaviour of the callers: the pool calls back once, for a request that waits for
  it, with a host where it is a connection error; data and events of an upstream connection come
  while the request holds an open connection; objects handed to \<open>deferredDelete\<close> are destroyed
  later, in order.
\<close>

subsection \<open>Events\<close>

datatype 'b event =
    DownstreamData 'b bool
  | DownstreamEvent ConnectionEvent
  | AboveHighWatermark
  | BelowLowWatermark
  | PoolReady nat nat string
  | PoolFailure nat nat PoolFailureReason "string option"
  | UpstreamData nat nat 'b bool
  | UpstreamEvent nat nat ConnectionEvent
  | FilterContinues nat nat
  | DeferredDelete

definition request_of ::
  "nat \<Rightarrow> nat \<Rightarrow> ('c, 'x, 'b, 'h, 'f) proxy \<Rightarrow> upstream_request option" where
  "request_of mid fi px = Option.bind (get_router mid fi px) rt_upstream_request"

definition waits_for_pool :: "nat \<Rightarrow> nat \<Rightarrow> ('c, 'x, 'b, 'h, 'f) proxy \<Rightarrow> bool" where
  "waits_for_pool mid fi px =
     (case request_of mid fi px of Some ur \<Rightarrow> ur_conn_pool_handle ur | None \<Rightarrow> False)"

definition holds_connection :: "nat \<Rightarrow> nat \<Rightarrow> ('c, 'x, 'b, 'h, 'f) proxy \<Rightarrow> bool" where
  "holds_connection mid fi px =
     (case request_of mid fi px of Some ur \<Rightarrow> ur_conn_data ur | None \<Rightarrow> False)"

text \<open>A filter that is not the router may continue the chain it stopped.\<close>

definition stopped_at :: "nat \<Rightarrow> nat \<Rightarrow> ('c, 'x, 'b, 'h, 'f) proxy \<Rightarrow> bool" where
  "stopped_at mid pos px =
     (case st_messages px mid of
        None \<Rightarrow> False
      | Some am \<Rightarrow>
          am_filter_action am \<and> pos < length (am_decoder_filters am) \<and>
          (let fi = fw_handle (am_decoder_filters am ! pos)
           in fi < length (am_filters am) \<and> (\<exists>f. am_filters am ! fi = ExternalFilter f)))"

fun enabled :: "'b event \<Rightarrow> ('c, 'x, 'b, 'h, 'f) proxy \<Rightarrow> bool" where
  "enabled (DownstreamData data end_stream) px = (cx_state px = ConnOpen)"
| "enabled (DownstreamEvent event) px = (cx_state px \<noteq> ConnClosed \<and> event \<noteq> Connected)"
| "enabled AboveHighWatermark px = True"
| "enabled BelowLowWatermark px = True"
| "enabled (PoolReady mid fi host) px = waits_for_pool mid fi px"
| "enabled (PoolFailure mid fi reason host) px =
     (waits_for_pool mid fi px \<and> reason \<noteq> Overflow \<and> host \<noteq> None)"
| "enabled (UpstreamData mid fi data end_stream) px = holds_connection mid fi px"
| "enabled (UpstreamEvent mid fi event) px = (holds_connection mid fi px \<and> event \<noteq> Connected)"
| "enabled (FilterContinues mid pos) px = stopped_at mid pos px"
| "enabled DeferredDelete px = (ev_deferred px \<noteq> [])"

text \<open>
  What an event does. The connection is closed when its \<open>RemoteClose\<close> or \<open>LocalClose\<close> is raised.
\<close>

fun handle ::
  "('c, 'x, 'b, 'h, 'f) env \<Rightarrow> 'b event \<Rightarrow> ('c, 'x, 'b, 'h, 'f) proxy \<Rightarrow>
   (unit, ('c, 'x, 'b, 'h, 'f) proxy) outcome option" where
  "handle E (DownstreamData data end_stream) px = ConnectionManager_onData E data end_stream px"
| "handle E (DownstreamEvent event) px =
     Some (Inr (), ConnectionManager_onEvent event (px\<lparr>cx_state := ConnClosed\<rparr>))"
| "handle E AboveHighWatermark px = Some (Inr (), onAboveWriteBufferHighWatermark px)"
| "handle E BelowLowWatermark px = Some (Inr (), onBelowWriteBufferLowWatermark px)"
| "handle E (PoolReady mid fi host) px = UpstreamRequest_onPoolReady E mid fi host px"
| "handle E (PoolFailure mid fi reason host) px = UpstreamRequest_onPoolFailure E mid fi reason host px"
| "handle E (UpstreamData mid fi data end_stream) px =
     Some (and_then (Router_onUpstreamData E mid fi data end_stream px) (\<lambda>_ px. (Inr (), px)))"
| "handle E (UpstreamEvent mid fi event) px = Some (Router_onEvent E mid fi event px)"
| "handle E (FilterContinues mid pos) px = DecoderFilter_continueDecoding E mid pos px"
| "handle E DeferredDelete px =
     (case ev_deferred px of
        [] \<Rightarrow> Some (Inr (), px)
      | mid # rest \<Rightarrow> Some (ActiveMessage_destroy mid (px\<lparr>ev_deferred := rest\<rparr>)))"

definition ConnectionManager :: "('c, 'x, 'b, 'h, 'f) env \<Rightarrow> ('c, 'x, 'b, 'h, 'f) proxy" where
  "ConnectionManager E =
     \<lparr>cm_request_buffer = buf_new (en_buffer E), cm_active_message_list = [], cm_stopped = False,
      cm_half_closed = False, cm_stats = (\<lambda>_. 0), cm_codec = en_createCodec E,
      cm_decoder = new_decoder, cx_state = ConnOpen, cx_effects = [], ev_deferred = [],
      st_messages = Map.empty, st_next = 0\<rparr>"

inductive reachable ::
  "('c, 'x, 'b, 'h, 'f) env \<Rightarrow> ('c, 'x, 'b, 'h, 'f) proxy \<Rightarrow> bool" for E where
  reachable_init: "reachable E (ConnectionManager E)"
| reachable_step: "reachable E px \<Longrightarrow> enabled ev px \<Longrightarrow> handle E ev px = Some (Inr (), px') \<Longrightarrow>
    reachable E px'"

text \<open>A run over a list of events, for concrete examples; it stops where an event is not enabled.\<close>

fun run_events ::
  "('c, 'x, 'b, 'h, 'f) env \<Rightarrow> 'b event list \<Rightarrow> ('c, 'x, 'b, 'h, 'f) proxy \<Rightarrow>
   ('c, 'x, 'b, 'h, 'f) proxy option" where
  "run_events E [] px = Some px"
| "run_events E (ev # evs) px =
     (if enabled ev px then
        (case handle E ev px of Some (Inr _, px') \<Rightarrow> run_events E evs px' | _ \<Rightarrow> None)
      else None)"

lemma run_events_reachable:
  "reachable E px \<Longrightarrow> run_events E evs px = Some px' \<Longrightarrow> reachable E px'"
proof (induction evs arbitrary: px)
  case Nil
  then show ?case by simp
next
  case (Cons ev evs)
  then show ?case
    by (auto split: if_splits option.splits prod.splits sum.splits intro: reachable_step)
qed

end
