(* ===== verification/Proxy_Frame.thy ===== *)
theory Proxy_Frame
  imports Proxy_System
begin

text \<open>
  What every operation of the proxy keeps: the objects stay consistent (no message in two lists,
  none lost, none counted twice), messages only leave the active list, and the data path of the
  connection manager is not touched by what happens to a message. One relation, \<open>keeps\<close>, and one
  rule per operation; from these, the invariant of every reachable state.
\<close>

subsection \<open>What every operation keeps\<close>

text \<open>
  The invariant of the objects: a message in the store is in exactly one of the two lists, once,
  and the gauge \<open>request_active\<close> counts the messages in the store. While a message is destroyed it
  is in neither list and no longer counted: \<open>X\<close> is the set of such messages.
\<close>

definition objects_inv :: "nat set \<Rightarrow> ('c, 'x, 'b, 'h, 'f) proxy \<Rightarrow> bool" where
  "objects_inv X px =
     (distinct (cm_active_message_list px @ ev_deferred px) \<and>
      X \<inter> set (cm_active_message_list px @ ev_deferred px) = {} \<and>
      dom (st_messages px) = X \<union> set (cm_active_message_list px @ ev_deferred px) \<and>
      cm_stats px request_active = length (cm_active_message_list px @ ev_deferred px) \<and>
      (\<forall>mid \<in> dom (st_messages px). mid < st_next px))"

abbreviation objects_ok :: "('c, 'x, 'b, 'h, 'f) proxy \<Rightarrow> bool" where
  "objects_ok \<equiv> objects_inv {}"

text \<open>
  \<open>keeps\<close> relates the states before and after an operation that neither creates nor destroys a
  message nor reads requests: messages only move from the active list to the deferred one, a
  message that sent its local response keeps the mark, the fields of the data path stay, a
  connection that left the open state does not come back to it, and the codec was only used to
  encode.
\<close>

text \<open>
  Nothing is written to the downstream connection after a close: \<open>silent\<close> of the effects so far, and
  a connection whose close is among them is not open.
\<close>

fun is_write :: "'b effect \<Rightarrow> bool" where
  "is_write (DownstreamWrite b es) = True"
| "is_write _ = False"

fun is_close :: "'b effect \<Rightarrow> bool" where
  "is_close (DownstreamClose t) = True"
| "is_close _ = False"

fun silent :: "'b effect list \<Rightarrow> bool" where
  "silent [] = True"
| "silent (e # es) = ((is_close e \<longrightarrow> (\<forall>e' \<in> set es. \<not> is_write e')) \<and> silent es)"

lemma silent_snoc: "silent (es @ [e]) = (silent es \<and> (is_write e \<longrightarrow> (\<forall>e' \<in> set es. \<not> is_close e')))"
  by (induction es) auto

definition writes_ok :: "('c, 'x, 'b, 'h, 'f) proxy \<Rightarrow> bool" where
  "writes_ok px = (silent (cx_effects px) \<and>
     (cx_state px = ConnOpen \<longrightarrow> (\<forall>e \<in> set (cx_effects px). \<not> is_close e)))"

definition codec_keeps :: "('c, 'x, 'b, 'h, 'f) env \<Rightarrow> ('c \<Rightarrow> bool) \<Rightarrow> bool" where
  "codec_keeps E I =
     (\<forall>c. I c \<longrightarrow>
        (\<forall>m mu b. I (fst (snd (codec_encode (en_codec E) c m mu b)))) \<and>
        (\<forall>m err b. I (fst (snd (codec_onError (en_codec E) c m err b)))))"

text \<open>
  \<open>moves px moved px'\<close>: the messages \<open>moved\<close> went, in this order, from the list of active messages to
  the end of the deferred ones, and nothing else happened to the two lists.
\<close>

definition moves ::
  "('c, 'x, 'b, 'h, 'f) proxy \<Rightarrow> nat list \<Rightarrow> ('c, 'x, 'b, 'h, 'f) proxy \<Rightarrow> bool" where
  "moves px moved px' =
     (ev_deferred px' = ev_deferred px @ moved \<and>
      cm_active_message_list px' = fold remove1 moved (cm_active_message_list px))"

definition only_moves :: "('c, 'x, 'b, 'h, 'f) proxy \<Rightarrow> ('c, 'x, 'b, 'h, 'f) proxy \<Rightarrow> bool" where
  "only_moves px px' = (\<exists>moved. moves px moved px')"

lemma only_moves_same [simp]:
  "ev_deferred px' = ev_deferred px \<Longrightarrow> cm_active_message_list px' = cm_active_message_list px \<Longrightarrow>
   only_moves px px'"
  by (auto simp: only_moves_def moves_def intro: exI [of _ "[]"])

lemma moves_trans: "moves px us py \<Longrightarrow> moves py vs pz \<Longrightarrow> moves px (us @ vs) pz"
  by (simp add: moves_def)

lemma only_moves_trans: "only_moves px py \<Longrightarrow> only_moves py pz \<Longrightarrow> only_moves px pz"
  unfolding only_moves_def by (blast intro: moves_trans)

definition keeps ::
  "('c, 'x, 'b, 'h, 'f) env \<Rightarrow> ('c, 'x, 'b, 'h, 'f) proxy \<Rightarrow> ('c, 'x, 'b, 'h, 'f) proxy \<Rightarrow> bool" where
  "keeps E px px' =
     ((\<forall>I. codec_keeps E I \<longrightarrow> I (cm_codec px) \<longrightarrow> I (cm_codec px')) \<and>
      (cx_state px' = ConnOpen \<longrightarrow> cx_state px = ConnOpen) \<and> (writes_ok px \<longrightarrow> writes_ok px') \<and>
      (\<forall>X. objects_inv X px \<longrightarrow> objects_inv X px') \<and>
      dom (st_messages px') = dom (st_messages px) \<and> st_next px' = st_next px \<and>
      set (cm_active_message_list px') \<subseteq> set (cm_active_message_list px) \<and>
      set (ev_deferred px) \<subseteq> set (ev_deferred px') \<and>
      cm_request_buffer px' = cm_request_buffer px \<and> cm_decoder px' = cm_decoder px \<and>
      cm_stopped px' = cm_stopped px \<and> cm_half_closed px' = cm_half_closed px \<and>
      only_moves px px')"

lemma keeps_refl [simp, intro]: "keeps E px px"
  by (simp add: keeps_def)

lemma keeps_only_moves: "keeps E px py \<Longrightarrow> only_moves px py"
  by (simp add: keeps_def)

lemma keeps_trans [trans]: "keeps E px py \<Longrightarrow> keeps E py pz \<Longrightarrow> keeps E px pz"
  using only_moves_trans [of px py pz] by (auto simp: keeps_def)

named_theorems keeps_intro

lemma keeps_inc [simp]: "s \<noteq> request_active \<Longrightarrow> keeps E px (inc s px)"
  by (simp add: keeps_def inc_def objects_inv_def writes_ok_def)

lemma writes_ok_fields [simp]:
  "writes_ok (inc s px) = writes_ok px"
  "writes_ok (update_message mid f px) = writes_ok px"
  "writes_ok (px\<lparr>cm_codec := c\<rparr>) = writes_ok px"
  by (simp_all add: writes_ok_def inc_def update_message_def)

lemma keeps_emit:
  "\<not> is_write e \<Longrightarrow> \<not> is_close e \<Longrightarrow> keeps E px (emit e px)"
  "cx_state px = ConnOpen \<Longrightarrow> keeps E px (emit (DownstreamWrite b es) px)"
  by (auto simp: keeps_def emit_def objects_inv_def writes_ok_def silent_snoc)

lemma keeps_emits [simp]:
  "keeps E px (emit (DownstreamReadDisable b) px)"
  "keeps E px (emit (UpstreamWrite mid buf) px)"
  "keeps E px (emit (UpstreamClose mid) px)"
  "keeps E px (emit (UpstreamRelease mid) px)"
  "keeps E px (emit (PoolCancel mid) px)"
  "keeps E px (emit (PutResult host res) px)"
  by (simp_all add: keeps_emit)

lemma keeps_close:
  "st \<noteq> ConnOpen \<Longrightarrow> keeps E px (emit (DownstreamClose t) (px\<lparr>cx_state := st\<rparr>))"
  by (auto simp: keeps_def emit_def objects_inv_def writes_ok_def silent_snoc)

lemma keeps_update_message [simp]: "keeps E px (update_message mid f px)"
proof -
  have "dom ((st_messages px)(mid := map_option f (st_messages px mid))) = dom (st_messages px)"
    by (auto split: if_splits)
  then show ?thesis
    by (simp only: keeps_def update_message_def objects_inv_def writes_ok_def proxy.simps) auto
qed

lemma keeps_update_router [simp]: "keeps E px (update_router mid fi f px)"
  by (simp add: update_router_def)

lemma keeps_update_request [simp]: "keeps E px (update_request mid fi f px)"
  by (simp add: update_request_def)

lemma keeps_codec [simp]:
  "keeps E px (px\<lparr>cm_codec := fst (snd (codec_encode (en_codec E) (cm_codec px) m mu b))\<rparr>)"
  "keeps E px (px\<lparr>cm_codec := fst (snd (codec_onError (en_codec E) (cm_codec px) m err b))\<rparr>)"
  by (auto simp: keeps_def objects_inv_def writes_ok_def codec_keeps_def)

lemma keeps_state [simp]: "c \<noteq> ConnOpen \<Longrightarrow> keeps E px (px\<lparr>cx_state := c\<rparr>)"
  by (simp add: keeps_def objects_inv_def writes_ok_def)

lemma objects_inv_deferredMessage:
  assumes "objects_inv X px"
  shows "objects_inv X (deferredMessage mid px)"
proof (cases "mid \<in> set (cm_active_message_list px)")
  case True
  have d: "distinct (cm_active_message_list px)" "mid \<notin> set (ev_deferred px)"
    using assms True by (auto simp: objects_inv_def)
  have "set (remove1 mid (cm_active_message_list px)) = set (cm_active_message_list px) - {mid}"
    using d(1) by (rule set_remove1_eq)
  moreover have "Suc (length (remove1 mid (cm_active_message_list px))) = length (cm_active_message_list px)"
    using True length_pos_if_in_set [OF True] by (simp add: length_remove1)
  ultimately show ?thesis
    using assms True d by (auto simp: objects_inv_def deferredMessage_def)
qed (use assms in \<open>simp add: deferredMessage_def\<close>)

lemma in_set_remove1_sub: "x \<in> set (remove1 y xs) \<Longrightarrow> x \<in> set xs"
  using set_remove1_subset [of y xs] by blast

lemma keeps_deferredMessage [simp]: "keeps E px (deferredMessage mid px)"
proof -
  have "set (cm_active_message_list (deferredMessage mid px)) \<subseteq> set (cm_active_message_list px)"
    "set (ev_deferred px) \<subseteq> set (ev_deferred (deferredMessage mid px))"
    by (auto simp: deferredMessage_def dest: in_set_remove1_sub)
  moreover have "dom (st_messages (deferredMessage mid px)) = dom (st_messages px) \<and>
      st_next (deferredMessage mid px) = st_next px \<and>
      cm_request_buffer (deferredMessage mid px) = cm_request_buffer px \<and>
      cm_decoder (deferredMessage mid px) = cm_decoder px \<and>
      cm_stopped (deferredMessage mid px) = cm_stopped px \<and>
      cm_half_closed (deferredMessage mid px) = cm_half_closed px \<and>
      cm_codec (deferredMessage mid px) = cm_codec px \<and>
      cx_state (deferredMessage mid px) = cx_state px \<and>
      writes_ok (deferredMessage mid px) = writes_ok px"
    by (simp add: deferredMessage_def writes_ok_def)
  moreover have "only_moves px (deferredMessage mid px)"
  proof (cases "mid \<in> set (cm_active_message_list px)")
    case True
    then have "moves px [mid] (deferredMessage mid px)" by (simp add: moves_def deferredMessage_def)
    then show ?thesis unfolding only_moves_def by blast
  qed (simp add: deferredMessage_def)
  ultimately show ?thesis
    unfolding keeps_def by (simp add: objects_inv_deferredMessage)
qed

lemma keeps_resets [simp]:
  "keeps E px (ActiveMessage_onReset mid px)" "keeps E px (ActiveMessage_resetStream mid px)"
  by (simp_all add: ActiveMessage_onReset_def ActiveMessage_resetStream_def)

lemma keeps_resetAllMessages [simp]: "keeps E px (resetAllMessages l px)"
proof (induction l px rule: resetAllMessages.induct)
  case (1 l px)
  show ?case
  proof (cases "cm_active_message_list px")
    case Nil
    then show ?thesis by (simp add: resetAllMessages.simps)
  next
    case (Cons front rest)
    let ?px1 = "inc (if l then cx_destroy_local_with_active_rq
        else cx_destroy_remote_with_active_rq) px"
    have "keeps E px ?px1" by simp
    also have "keeps E ?px1 (ActiveMessage_onReset front ?px1)" by simp
    also note 1 [OF Cons]
    finally show ?thesis
      using Cons by (simp only: resetAllMessages.simps [of l px] list.case)
  qed
qed

lemma keeps_onEvent [simp]: "keeps E px (ConnectionManager_onEvent ev px)"
  by (simp add: ConnectionManager_onEvent_def)

text \<open>
  The operations that change the state, as steps of a longer one; then the rules that follow the
  structure of an action. Every operation gets a rule of the form: what was kept before it is kept
  after it, whether it returns or throws.
\<close>

lemma keeps_step:
  assumes "keeps E px py"
  shows "s \<noteq> request_active \<Longrightarrow> keeps E px (inc s py)"
    and "keeps E px (emit (DownstreamReadDisable b') py)"
    and "keeps E px (emit (UpstreamWrite mid buf) py)"
    and "keeps E px (emit (UpstreamClose mid) py)"
    and "keeps E px (emit (UpstreamRelease mid) py)"
    and "keeps E px (emit (PoolCancel mid) py)"
    and "keeps E px (emit (PutResult host res) py)"
    and "keeps E px (update_message mid f py)"
    and "keeps E px (update_router mid fi g py)"
    and "keeps E px (update_request mid fi h py)"
    and "keeps E px (py\<lparr>cm_codec := fst (snd (codec_encode (en_codec E) (cm_codec py) m mu b))\<rparr>)"
    and "keeps E px (py\<lparr>cm_codec := fst (snd (codec_onError (en_codec E) (cm_codec py) m err b))\<rparr>)"
    and "st \<noteq> ConnOpen \<Longrightarrow> keeps E px (py\<lparr>cx_state := st\<rparr>)"
    and "keeps E px (deferredMessage mid py)"
    and "keeps E px (ActiveMessage_onReset mid py)"
    and "keeps E px (ActiveMessage_resetStream mid py)"
    and "keeps E px (resetAllMessages l py)"
    and "keeps E px (ConnectionManager_onEvent ev py)"
  by (rule keeps_trans [OF assms], simp)+

lemma keeps_connection_close: "keeps E px py \<Longrightarrow> keeps E px (connection_close E t py)"
  unfolding connection_close_def
  by (auto intro!: keeps_step keeps_trans [OF _ keeps_close])

lemma keeps_connection_write:
  "keeps E px py \<Longrightarrow> cx_state py = ConnOpen \<Longrightarrow> keeps E px (snd (connection_write E data es py))"
  by (auto simp: connection_write_def case_prod_beta intro!: keeps_trans [OF _ keeps_emit(2)])

lemma keeps_connection_write_eq:
  "connection_write E data es py = (rest, pz) \<Longrightarrow> keeps E px py \<Longrightarrow> cx_state py = ConnOpen \<Longrightarrow>
   keeps E px pz"
  using keeps_connection_write [of E px py data es] by simp

lemma keeps_count_local_response: "keeps E px py \<Longrightarrow> keeps E px (count_local_response r py)"
  by (cases r) (auto intro!: keeps_step)

lemma keeps_with:
  assumes "keeps E px py"
  shows "keeps E px (snd (panic what py))"
    and "keeps E px (snd (return x py))"
    and "(\<And>am. keeps E px (snd (f am py))) \<Longrightarrow> keeps E px (snd (with_message mid f py))"
    and "(\<And>r. keeps E px (snd (g r py))) \<Longrightarrow> keeps E px (snd (with_router mid fi g py))"
    and "(\<And>ur. keeps E px (snd (h ur py))) \<Longrightarrow> keeps E px (snd (with_request mid fi h py))"
    and "(\<And>m. keeps E px (snd (k m py))) \<Longrightarrow> keeps E px (snd (with_metadata mid k py))"
    and "(\<And>host. keeps E px (snd (l host py))) \<Longrightarrow> keeps E px (snd (with_host ur l py))"
  using assms
  by (simp_all add: panic_def return_def with_message_def with_router_def with_request_def
      with_metadata_def with_host_def split: option.splits)

lemma keeps_pair: "keeps E px s \<Longrightarrow> keeps E px (snd (r, s))"
  by simp

lemma keeps_and_then:
  assumes "keeps E px (snd r)" and "\<And>x s. keeps E px s \<Longrightarrow> keeps E px (snd (f x s))"
  shows "keeps E px (snd (and_then r f))"
  using assms by (cases r; cases "fst r") auto

lemma keeps_if:
  assumes "b \<Longrightarrow> keeps E px (snd (f py))" and "\<not> b \<Longrightarrow> keeps E px (snd (g py))"
  shows "keeps E px (snd ((if b then f else g) py))"
  using assms by simp

lemma keeps_if_value:
  assumes "b \<Longrightarrow> keeps E px (snd x)" and "\<not> b \<Longrightarrow> keeps E px (snd y)"
  shows "keeps E px (snd (if b then x else y))"
  using assms by simp

lemmas keeps_rules [keeps_intro] =
  keeps_step keeps_connection_close keeps_connection_write keeps_count_local_response keeps_with
  keeps_pair keeps_and_then keeps_if keeps_if_value

subsection \<open>Local replies\<close>

lemma keeps_HeartbeatResponse:
  assumes "HeartbeatResponse_encode E m (cm_codec py) b = (r, (c, b'))" and "keeps E px py"
  shows "keeps E px (py\<lparr>cm_codec := c\<rparr>)"
proof -
  have "c = fst (snd (codec_encode (en_codec E) (cm_codec py) (m\<lparr>md_message_type := Heartbeat\<rparr>) MutationImpl b))"
    using assms(1) by (auto simp: HeartbeatResponse_encode_def and_then_def split: prod.splits sum.splits)
  then show ?thesis using keeps_trans [OF assms(2) keeps_codec(1)] by simp
qed

lemma keeps_AppException:
  assumes "AppException_encode E err m (cm_codec py) b = (r, (c, b'))" and "keeps E px py"
  shows "keeps E px (py\<lparr>cm_codec := c\<rparr>)"
proof (cases "buf_length (en_buffer E) b = 0")
  case True
  then have "c = fst (snd (codec_onError (en_codec E) (cm_codec py) m err b))"
    using assms(1) by (auto simp: AppException_encode_def and_then_def split: prod.splits sum.splits)
  then show ?thesis using keeps_trans [OF assms(2) keeps_codec(2)] by simp
next
  case False
  then have "py\<lparr>cm_codec := c\<rparr> = py" using assms(1) by (cases py) (simp add: AppException_encode_def)
  then show ?thesis using assms(2) by simp
qed

lemma keeps_onHeartbeat [keeps_intro]:
  "keeps E px py \<Longrightarrow> keeps E px (snd (ConnectionManager_onHeartbeat E m py))"
  by (auto simp: ConnectionManager_onHeartbeat_def Let_def split: prod.splits sum.splits
      intro!: keeps_intro elim!: keeps_HeartbeatResponse)

lemma keeps_CM_sendLocalReply [keeps_intro]:
  "keeps E px py \<Longrightarrow> keeps E px (snd (ConnectionManager_sendLocalReply E m err es py))"
  by (auto simp: ConnectionManager_sendLocalReply_def Let_def split: prod.splits sum.splits
      intro!: keeps_intro elim!: keeps_AppException)

lemma keeps_AM_sendLocalReply [keeps_intro]:
  "keeps E px py \<Longrightarrow> keeps E px (snd (ActiveMessage_sendLocalReply E mid err es py))"
  unfolding ActiveMessage_sendLocalReply_def by (intro keeps_intro)

lemma keeps_route [keeps_intro]: "keeps E px py \<Longrightarrow> keeps E px (snd (ActiveMessage_route E mid py))"
  unfolding ActiveMessage_route_def Let_def
  by (intro keeps_intro) (auto split: option.splits intro!: keeps_intro)

lemma keeps_onError [keeps_intro]:
  "keeps E px py \<Longrightarrow> keeps E px (snd (ActiveMessage_onError E mid what py))"
  unfolding ActiveMessage_onError_def Let_def by (intro keeps_intro) (auto intro!: keeps_intro)

subsection \<open>The router\<close>

lemma keeps_resetStream [keeps_intro]:
  "keeps E px py \<Longrightarrow> keeps E px (snd (UpstreamRequest_resetStream mid fi py))"
  unfolding UpstreamRequest_resetStream_def Let_def by (intro keeps_intro)

lemma keeps_encodeData [keeps_intro]:
  "keeps E px py \<Longrightarrow> keeps E px (snd (UpstreamRequest_encodeData E mid fi py))"
  unfolding UpstreamRequest_encodeData_def Let_def case_prod_beta by (intro keeps_intro)

lemma keeps_onResponseComplete [keeps_intro]:
  "keeps E px py \<Longrightarrow> keeps E px (snd (UpstreamRequest_onResponseComplete mid fi py))"
  unfolding UpstreamRequest_onResponseComplete_def Let_def
  by (intro keeps_intro) (auto intro!: keeps_intro)

lemma keeps_cleanup [keeps_intro]: "keeps E px py \<Longrightarrow> keeps E px (Router_cleanup mid fi py)"
  unfolding Router_cleanup_def by (intro keeps_intro)

lemma keeps_host_selected [keeps_intro]:
  "keeps E px py \<Longrightarrow> keeps E px (UpstreamRequest_onUpstreamHostSelected mid fi host py)"
  unfolding UpstreamRequest_onUpstreamHostSelected_def by (intro keeps_intro)

lemma keeps_onDestroy [keeps_intro]: "keeps E px py \<Longrightarrow> keeps E px (snd (Router_onDestroy mid fi py))"
  unfolding Router_onDestroy_def by (intro keeps_intro)

lemma keeps_onResetStream [keeps_intro]:
  "keeps E px py \<Longrightarrow> keeps E px (snd (UpstreamRequest_onResetStream E mid fi reason py))"
  unfolding UpstreamRequest_onResetStream_def
  by (intro keeps_intro; (cases reason; simp)?) (auto intro!: keeps_intro)

lemma keeps_pool_connected [keeps_intro]:
  "keeps E px py \<Longrightarrow> keeps E px (snd (UpstreamRequest_pool_connected mid fi host py))"
  unfolding UpstreamRequest_pool_connected_def Let_def by (intro keeps_intro)

lemma keeps_send_request [keeps_intro]:
  "keeps E px py \<Longrightarrow> keeps E px (snd (UpstreamRequest_send_request E mid fi py))"
  unfolding UpstreamRequest_send_request_def by (intro keeps_intro)

lemma keeps_pool_failed [keeps_intro]:
  "keeps E px py \<Longrightarrow> keeps E px (snd (UpstreamRequest_pool_failed E mid fi reason host py))"
  unfolding UpstreamRequest_pool_failed_def Let_def by (intro keeps_intro)

lemma keeps_start [keeps_intro]:
  "keeps E px py \<Longrightarrow> keeps E px (snd (UpstreamRequest_start E mid fi cluster py))"
  unfolding UpstreamRequest_start_def
  by (cases "en_newConnection E cluster (cx_effects py)") (auto intro!: keeps_intro)


lemma keeps_Router_onMessageDecoded [keeps_intro]:
  "keeps E px py \<Longrightarrow> keeps E px (snd (Router_onMessageDecoded E mid fi py))"
  unfolding Router_onMessageDecoded_def Let_def case_prod_beta
  by (intro keeps_intro) (auto split: option.splits intro!: keeps_intro)

lemma keeps_Router_onMessageEncoded [keeps_intro]:
  "keeps E px py \<Longrightarrow> keeps E px (snd (Router_onMessageEncoded mid fi m py))"
  unfolding Router_onMessageEncoded_def
  by (intro keeps_intro) (auto split: option.splits intro!: keeps_intro)

subsection \<open>Active messages\<close>

lemma keeps_call_decoder_filter [keeps_intro]:
  "keeps E px py \<Longrightarrow> keeps E px (snd (call_decoder_filter E mid fi py))"
  unfolding call_decoder_filter_def Let_def case_prod_beta
  by (intro keeps_intro; simp split: filter_object.split option.split)
    (auto intro!: keeps_intro split: option.splits)

lemma keeps_decoder_filter_loop [keeps_intro]:
  "keeps E px py \<Longrightarrow> keeps E px (snd (decoder_filter_loop E mid ws py))"
proof (induction ws arbitrary: py)
  case Nil
  then show ?case by simp
next
  case (Cons w ws)
  then show ?case
    unfolding decoder_filter_loop.simps by (intro keeps_intro Cons.IH)
qed

lemma keeps_applyDecoderFilters [keeps_intro]:
  "keeps E px py \<Longrightarrow> keeps E px (snd (applyDecoderFilters E mid pos st py))"
  unfolding applyDecoderFilters_def
  by (intro keeps_intro) (auto split: option.splits intro!: keeps_intro)

lemma keeps_finalizeRequest [keeps_intro]:
  "keeps E px py \<Longrightarrow> keeps E px (snd (ActiveMessage_finalizeRequest mid py))"
  unfolding ActiveMessage_finalizeRequest_def Let_def
  by (intro keeps_intro) (auto split: MessageType.splits intro!: keeps_intro)

lemma keeps_onStreamDecoded [keeps_intro]:
  "keeps E px py \<Longrightarrow> keeps E px (snd (ActiveMessage_onStreamDecoded E mid m mu py))"
  unfolding ActiveMessage_onStreamDecoded_def Let_def by (intro keeps_intro) simp_all

lemma keeps_call_encoder_filter [keeps_intro]:
  "keeps E px py \<Longrightarrow> keeps E px (snd (call_encoder_filter E mid fi response py))"
  unfolding call_encoder_filter_def Let_def case_prod_beta
  by (intro keeps_intro) (auto split: filter_object.split intro!: keeps_intro)

lemma keeps_encoder_filter_loop [keeps_intro]:
  "keeps E px py \<Longrightarrow> keeps E px (snd (encoder_filter_loop E mid ws response py))"
proof (induction ws arbitrary: py response)
  case Nil
  then show ?case by simp
next
  case (Cons w ws)
  then show ?case
    unfolding encoder_filter_loop.simps case_prod_beta by (intro keeps_intro Cons.IH)
qed

lemma keeps_applyEncoderFilters [keeps_intro]:
  "keeps E px py \<Longrightarrow> keeps E px (snd (applyEncoderFilters E mid pos st response py))"
  unfolding applyEncoderFilters_def
  by (intro keeps_intro) (auto split: option.splits intro!: keeps_intro)

subsection \<open>Responses\<close>

lemma keeps_resume_filters [keeps_intro]:
  "keeps E px py \<Longrightarrow> keeps E px (snd (resume_filters E mid pos py))"
  unfolding resume_filters_def Let_def by (intro keeps_intro)

text \<open>A response decoder works on the proxy behind itself and its data.\<close>

abbreviation proxy_of :: "('c, 'x, 'b, 'h, 'f) response_state \<Rightarrow> ('c, 'x, 'b, 'h, 'f) proxy" where
  "proxy_of s \<equiv> snd (snd s)"

lemma keeps_applyMessageEncodedFilters:
  assumes "keeps E px (proxy_of s)"
  shows "keeps E px (proxy_of (snd (applyMessageEncodedFilters E mid m mu s)))"
proof -
  obtain rd data py where s: "s = (rd, data, py)" by (cases s)
  let ?r = "applyEncoderFilters E mid None CanStartFromCurrent (m, mu)
    (update_message mid (\<lambda>am. am\<lparr>am_encoder_filter_action := True\<rparr>) py)"
  have "keeps E px (snd ?r)" using assms s by (auto intro!: keeps_intro)
  then show ?thesis
    unfolding applyMessageEncodedFilters_def s
    by (cases ?r; cases "fst ?r") (auto simp: Let_def split: prod.splits FilterStatus.splits)
qed

lemma keeps_count_response [keeps_intro]: "keeps E px py \<Longrightarrow> keeps E px (count_response m py)"
  unfolding count_response_def Let_def by (auto split: ResponseStatus.splits intro!: keeps_intro)

lemma keeps_ARD_onStreamDecoded:
  assumes "keeps E px (proxy_of s)"
  shows "keeps E px (proxy_of (snd (ActiveResponseDecoder_onStreamDecoded E mid m mu s)))"
proof -
  obtain rd data py where s: "s = (rd, data, py)" by (cases s)
  let ?a = "applyMessageEncodedFilters E mid m mu (rd\<lparr>rd_metadata := Some m\<rparr>, data, py)"
  have a: "keeps E px (proxy_of (snd ?a))"
    using assms s by (intro keeps_applyMessageEncodedFilters) simp
  show ?thesis
    unfolding ActiveResponseDecoder_onStreamDecoded_def s prod.case
  proof (split if_split, intro conjI impI)
    show "keeps E px (proxy_of (snd (and_then ?a (\<lambda>status (rd, data, px).
            if status \<noteq> Continue then (Inr (), (rd\<lparr>rd_response_status := Complete\<rparr>, data, px))
            else if cx_state px \<noteq> ConnOpen then
              (Inl (DownstreamConnectionCloseException ''Downstream has closed or closing''), (rd, data, px))
            else (case rd_metadata rd of
                 None \<Rightarrow> (Inl (Panic ''null metadata''), (rd, data, px))
               | Some metadata \<Rightarrow>
                   (let (rest, px) = connection_write E (md_origin_message metadata) False px;
                        metadata = metadata\<lparr>md_origin_message := rest\<rparr>;
                        px = count_response metadata px
                    in (Inr (), (rd\<lparr>rd_metadata := Some metadata, rd_complete := True,
                                   rd_response_status := Complete\<rparr>, data, px))))))))"
      by (rule and_then_keeps [where P = "\<lambda>s. keeps E px (proxy_of s)"])
        (use a in \<open>auto simp: Let_def split: prod.splits option.splits intro!: keeps_intro
          elim!: keeps_connection_write_eq\<close>)
  qed (use assms s in simp)
qed

lemma keeps_ARD_onData:
  assumes "keeps E px (proxy_of s)"
  shows "keeps E px (proxy_of (snd (ActiveResponseDecoder_onData E mid s)))"
proof -
  have "keeps E px (proxy_of (snd (Decoder_onData (response_ops E mid) s)))"
    by (rule Decoder_onData_keeps [where P = "\<lambda>s. keeps E px (proxy_of s)"])
      (use assms in \<open>auto simp: response_ops_def response_decode_def ActiveResponseDecoder_onHeartbeat_def
        Let_def and_then_def split: prod.splits sum.splits
        intro: keeps_ARD_onStreamDecoded\<close>)
  then show ?thesis
    unfolding ActiveResponseDecoder_onData_def
    by (rule and_then_keeps [where P = "\<lambda>s. keeps E px (proxy_of s)"])
      (auto split: prod.splits)
qed

lemma keeps_startUpstreamResponse [keeps_intro]:
  "keeps E px py \<Longrightarrow> keeps E px (snd (ActiveMessage_startUpstreamResponse E mid py))"
  unfolding ActiveMessage_startUpstreamResponse_def by (intro keeps_intro)

lemma keeps_upstreamData_try [keeps_intro]:
  assumes "keeps E px py"
  shows "keeps E px (snd (ActiveMessage_upstreamData_try E mid buffer py))"
  unfolding ActiveMessage_upstreamData_try_def
proof (rule keeps_with(3) [OF assms], goal_cases)
  case (1 am)
  show ?case
  proof (cases "am_response_decoder am")
    case None
    then show ?thesis using assms by (simp add: keeps_with)
  next
    case (Some rd)
    have "keeps E px (proxy_of (snd (ActiveResponseDecoder_onData E mid (rd, buffer, py))))"
      using assms by (intro keeps_ARD_onData) simp
    then show ?thesis
      using Some by (cases "ActiveResponseDecoder_onData E mid (rd, buffer, py)")
        (auto simp: Let_def intro!: keeps_intro)
  qed
qed

lemma keeps_upstreamData [keeps_intro]:
  assumes "keeps E px py"
  shows "keeps E px (snd (ActiveMessage_upstreamData E mid buffer py))"
proof -
  have "keeps E px (snd (ActiveMessage_upstreamData_try E mid buffer py))"
    using assms by (intro keeps_intro)
  then show ?thesis
    unfolding ActiveMessage_upstreamData_def
    by (auto split: prod.splits sum.splits exn.splits intro!: keeps_intro)
qed

lemma keeps_Router_onUpstreamData [keeps_intro]:
  "keeps E px py \<Longrightarrow> keeps E px (snd (Router_onUpstreamData E mid fi data es py))"
  unfolding Router_onUpstreamData_def case_prod_beta by (intro keeps_intro)

lemma keeps_Router_onEvent [keeps_intro]:
  "keeps E px py \<Longrightarrow> keeps E px (snd (Router_onEvent E mid fi event py))"
  unfolding Router_onEvent_def
  by (intro keeps_intro) (auto split: option.split ConnectionEvent.split intro!: keeps_intro)

lemma keeps_report_pool_failure [keeps_intro]:
  "keeps E px py \<Longrightarrow> keeps E px (snd (report_pool_failure reason host py))"
  unfolding report_pool_failure_def
  by (auto split: PoolFailureReason.split option.split intro!: keeps_intro)

subsection \<open>Destruction\<close>

lemma keeps_call_onDestroy [keeps_intro]:
  "keeps E px py \<Longrightarrow> keeps E px (snd (call_onDestroy mid fi py))"
  unfolding call_onDestroy_def
  by (intro keeps_intro) (auto split: filter_object.split intro!: keeps_intro)

lemma keeps_destroy_filters [keeps_intro]:
  "keeps E px py \<Longrightarrow> keeps E px (snd (destroy_filters mid fis py))"
proof (induction fis arbitrary: py)
  case Nil
  then show ?case by simp
next
  case (Cons fi fis)
  then show ?case unfolding destroy_filters.simps by (intro keeps_intro Cons.IH)
qed

lemma destroy_keeps:
  assumes "ActiveMessage_destroy mid (px\<lparr>ev_deferred := rest\<rparr>) = (Inr (), px')"
  obtains am s where "st_messages px mid = Some am"
    "keeps E (dec request_active (px\<lparr>ev_deferred := rest\<rparr>)) s"
    "px' = s\<lparr>st_messages := (st_messages s)(mid := None)\<rparr>"
proof -
  let ?px = "dec request_active (px\<lparr>ev_deferred := rest\<rparr>)"
  obtain am s where am: "st_messages px mid = Some am"
    and d: "destroy_filters mid (map fw_handle (am_decoder_filters am) @
        map fw_handle (filter (\<lambda>w. \<not> fw_dual_filter w) (am_encoder_filters am))) ?px = (Inr (), s)"
    and px': "px' = s\<lparr>st_messages := (st_messages s)(mid := None)\<rparr>"
    using assms
    by (auto simp: ActiveMessage_destroy_def with_message_def panic_def and_then_def
        split: option.splits prod.splits sum.splits)
  have "keeps E ?px s"
    using keeps_destroy_filters [OF keeps_refl [of E ?px]] d by (metis snd_conv)
  then show thesis using am px' that by blast
qed

end
