(* ===== verification/Proxy_Invariant.thy ===== *)
theory Proxy_Invariant
  imports Proxy_Frame
begin

text \<open>
  Invariants of the proxy. The locale \<open>proxy_invariant\<close> is what a property of the state has to meet
  to hold in every reachable state; its lemmas carry the property through the loop of \<open>dispatch\<close>,
  the data path and every event. It is interpreted on the consistency of the objects (\<open>proxy_ok\<close>)
  and on the fact that a connection that left the open state does not come back.
\<close>

subsection \<open>The loop of dispatch\<close>

lemma dispatch_loop_keeps:
  assumes step: "\<And>px. P px \<Longrightarrow> P (snd (Decoder_onData (request_ops E) px))"
    and "dispatch_loop E px = Some r" and "P px"
  shows "P (snd r)"
proof -
  have "E' = E \<longrightarrow> P px \<longrightarrow> P (snd r)" if "dispatch_loop E' px = Some r" for E' px r
  proof (rule dispatch_loop.raw_induct [where P = "\<lambda>E' px r. E' = E \<longrightarrow> P px \<longrightarrow> P (snd r)",
        OF _ that], goal_cases)
    case (1 loop E' px r)
    show ?case
    proof (intro impI)
      assume E': "E' = E" and P: "P px"
      obtain x px' where d: "Decoder_onData (request_ops E) px = (x, px')" by fastforce
      have P': "P px'" using step [OF P] d by simp
      show "P (snd r)"
      proof (cases x)
        case (Inl e)
        then show ?thesis using 1(2) E' d P' by auto
      next
        case (Inr y)
        show ?thesis
        proof (cases "snd y")
          case True
          then show ?thesis using 1(2) Inr E' d P' by auto
        next
          case False
          then have "loop E px' = Some r" using 1(2) Inr E' d by simp
          then show ?thesis using 1(1) P' by blast
        qed
      qed
    qed
  qed
  then show ?thesis using assms(2,3) by blast
qed

subsection \<open>Events that read no requests\<close>

text \<open>The events that can run \<open>dispatch\<close>: data, and what continues a chain of filters.\<close>

fun reads_requests :: "'b event \<Rightarrow> bool" where
  "reads_requests (DownstreamData data end_stream) = True"
| "reads_requests (PoolReady mid fi host) = True"
| "reads_requests (PoolFailure mid fi reason host) = True"
| "reads_requests (FilterContinues mid pos) = True"
| "reads_requests _ = False"

lemma handle_keeps:
  assumes "handle E ev px = Some (Inr (), px')" and "\<not> reads_requests ev" and "ev \<noteq> DeferredDelete"
  shows "keeps E px px'"
proof (cases ev)
  case (DownstreamEvent event)
  have "keeps E px (ConnectionManager_onEvent event (px\<lparr>cx_state := ConnClosed\<rparr>))"
    by (intro keeps_intro keeps_refl) simp
  then show ?thesis using assms(1) DownstreamEvent by simp
next
  case (UpstreamData mid fi data es)
  have "keeps E px (snd (and_then (Router_onUpstreamData E mid fi data es px) (\<lambda>_ px. (Inr (), px))))"
    by (intro keeps_intro keeps_refl)
  then show ?thesis using assms UpstreamData by auto
next
  case (UpstreamEvent mid fi event)
  have "keeps E px (snd (Router_onEvent E mid fi event px))" by (intro keeps_intro keeps_refl)
  then show ?thesis using assms UpstreamEvent by auto
qed (use assms in \<open>auto simp: onAboveWriteBufferHighWatermark_def onBelowWriteBufferLowWatermark_def\<close>)

subsection \<open>What an invariant has to meet\<close>

text \<open>
  It is kept by what keeps the objects, by reading a request and by a new message, and does not depend
  on the data path; then every event keeps it but the destruction of a message. An invariant of the
  proxy is kept by that as well.
\<close>

locale proxy_kept =
  fixes E :: "('c, 'x, 'b, 'h, 'f) env" and P :: "('c, 'x, 'b, 'h, 'f) proxy \<Rightarrow> bool"
  assumes keeps_P: "P px \<Longrightarrow> keeps E px py \<Longrightarrow> P py"
    and newStream_P: "P px \<Longrightarrow> P (snd (ConnectionManager_newStream E px))"
    and P_fields [simp]:
      "P (px\<lparr>cm_request_buffer := b\<rparr>) = P px" "P (px\<lparr>cm_decoder := d\<rparr>) = P px" "P (px\<lparr>cm_codec := c\<rparr>) = P px"
    and resumes: "P px \<Longrightarrow> P (px\<lparr>cm_stopped := False\<rparr>)"
    and half_closes: "P px \<Longrightarrow> cm_stopped px \<Longrightarrow> P (px\<lparr>cm_half_closed := True\<rparr>)"
begin

lemma P_request_decode: "P px \<Longrightarrow> P (snd (request_decode E m px))"
  by (auto simp: request_decode_def Let_def and_then_def split: prod.splits sum.splits)

lemma P_Decoder_onData: "P px \<Longrightarrow> P (snd (Decoder_onData (request_ops E) px))"
  by (rule Decoder_onData_keeps [where P = P])
    (auto simp: request_ops_def intro: P_request_decode newStream_P keeps_P keeps_intro)

lemma P_closes:
  assumes "P px"
  shows "P (connection_close E t (resetAllMessages l px))"
    and "P (resetAllMessages l (inc request_decoding_error (connection_close E t px)))"
    and "P (ConnectionManager_onEvent ev (px\<lparr>cx_state := ConnClosed\<rparr>))"
  by (rule keeps_P [OF assms], intro keeps_intro keeps_refl; simp)+

lemma P_dispatch:
  assumes "dispatch E px = Some r" and "P px"
  shows "P (snd r)"
proof -
  have "P (snd (dispatch_catch E r'))" if "dispatch_loop E px = Some r'" for r'
    using dispatch_loop_keeps [OF P_Decoder_onData that assms(2)]
    by (auto simp: dispatch_catch_def P_closes split: prod.splits sum.splits)
  then show ?thesis
    using assms by (auto simp: dispatch_def split: if_splits)
qed

lemma P_and_then:
  assumes "P (snd r)" and "\<And>x s. P s \<Longrightarrow> P (snd (f x s))"
  shows "P (snd (and_then r f))"
  using assms by (rule and_then_keeps)

lemma P_continueDecoding:
  assumes "ConnectionManager_continueDecoding E px = Some r" and "P px"
  shows "P (snd r)"
proof -
  have "P (px\<lparr>cm_stopped := False\<rparr>)"
    using assms(2) by (rule resumes)
  then show ?thesis
    using assms(1) P_dispatch
    by (auto simp: ConnectionManager_continueDecoding_def P_closes intro!: P_and_then)
qed

lemma P_DecoderFilter_continueDecoding:
  assumes "DecoderFilter_continueDecoding E mid pos px = Some r" and "P px"
  shows "P (snd r)"
proof -
  have "P (snd (resume_filters E mid pos px))"
    using keeps_P [OF assms(2)] by (blast intro: keeps_intro keeps_refl)
  then show ?thesis
    using assms(1)
    by (auto simp: DecoderFilter_continueDecoding_def split: prod.splits sum.splits if_splits
        intro: P_continueDecoding)
qed

lemma P_Router_continueDecoding:
  "Router_continueDecoding E mid fi px = Some r \<Longrightarrow> P px \<Longrightarrow> P (snd r)"
  by (auto simp: Router_continueDecoding_def panic_def split: option.splits
      intro: P_DecoderFilter_continueDecoding)

lemma P_onData:
  assumes "ConnectionManager_onData E data es px = Some r" and "P px"
  shows "P (snd r)"
proof -
  obtain b rest where b: "buf_move_all (en_buffer E) (cm_request_buffer px) data = (b, rest)"
    by fastforce
  obtain d where d: "dispatch E (px\<lparr>cm_request_buffer := b\<rparr>) = Some d"
    and r: "r = and_then d (\<lambda>_ px.
           if \<not> es then (Inr (), px)
           else
             and_then
               (if cm_stopped px then
                  (case cm_active_message_list px of
                     [] \<Rightarrow> panic ''ASSERT(!active_message_list_.empty())'' px
                   | mid # _ \<Rightarrow>
                       with_message mid (\<lambda>am px.
                         (Inr (case am_metadata am of
                                 Some m \<Rightarrow> md_message_type m = Oneway | None \<Rightarrow> False), px)) px)
                else (Inr False, px))
               (\<lambda>wait px.
                  if wait then (Inr (), px\<lparr>cm_half_closed := True\<rparr>)
                  else (Inr (), connection_close E FlushWrite (resetAllMessages False px))))"
    using assms(1) b by (auto simp: ConnectionManager_onData_def)
  have "P (snd d)" using P_dispatch [OF d] assms(2) by simp
  then show ?thesis
    unfolding r
  proof (rule P_and_then, goal_cases)
    case (1 x s)
    have wait: "P (snd (and_then
               (case cm_active_message_list s of
                     [] \<Rightarrow> panic ''ASSERT(!active_message_list_.empty())'' s
                   | mid # _ \<Rightarrow>
                       with_message mid (\<lambda>am px.
                         (Inr (case am_metadata am of
                                 Some m \<Rightarrow> md_message_type m = Oneway | None \<Rightarrow> False), px)) s)
               (\<lambda>wait px.
                  if wait then (Inr (), px\<lparr>cm_half_closed := True\<rparr>)
                  else (Inr (), connection_close E FlushWrite (resetAllMessages False px)))))"
      if "cm_stopped s"
      using 1 that half_closes [of s]
      by (auto simp: with_message_def panic_def P_closes split: list.split option.split)
    show ?case using 1 wait by (auto simp: P_closes)
  qed
qed

lemma P_onPoolReady:
  assumes "UpstreamRequest_onPoolReady E mid fi host px = Some r" and "P px"
  shows "P (snd r)"
proof -
  have "P (snd (UpstreamRequest_pool_connected mid fi host px))"
    using keeps_P [OF assms(2)] by (blast intro: keeps_intro keeps_refl)
  moreover have "P (snd (UpstreamRequest_send_request E mid fi s))" if "P s" for s
    using keeps_P [OF that] by (blast intro: keeps_intro keeps_refl)
  ultimately show ?thesis
    using assms(1)
    by (auto simp: UpstreamRequest_onPoolReady_def split: prod.splits sum.splits if_splits
        intro!: P_and_then dest: P_Router_continueDecoding)
qed

lemma P_onPoolFailure:
  assumes "UpstreamRequest_onPoolFailure E mid fi reason host px = Some r" and "P px"
  shows "P (snd r)"
proof -
  have "P (snd (UpstreamRequest_pool_failed E mid fi reason host px))"
    using keeps_P [OF assms(2)] by (blast intro: keeps_intro keeps_refl)
  moreover have "P (snd (report_pool_failure reason host s))" if "P s" for s
    using keeps_P [OF that] by (blast intro: keeps_intro keeps_refl)
  ultimately show ?thesis
    using assms(1)
    by (auto simp: UpstreamRequest_onPoolFailure_def split: prod.splits sum.splits if_splits
        intro: P_Router_continueDecoding) (metis snd_conv P_Router_continueDecoding)+
qed

lemma P_event:
  assumes "P px" and "handle E ev px = Some (Inr (), px')" and "ev \<noteq> DeferredDelete"
  shows "P px'"
proof (cases "reads_requests ev")
  case False
  then show ?thesis using handle_keeps assms keeps_P by blast
next
  case True
  then show ?thesis
  proof (cases ev)
    case (DownstreamData data es)
    then show ?thesis using assms P_onData [of data es px] by force
  next
    case (PoolReady mid fi host)
    then show ?thesis using assms P_onPoolReady [of mid fi host px] by force
  next
    case (PoolFailure mid fi reason host)
    then show ?thesis using assms P_onPoolFailure [of mid fi reason host px] by force
  next
    case (FilterContinues mid pos)
    then show ?thesis using assms P_DecoderFilter_continueDecoding [of mid pos px] by force
  qed simp_all
qed

end

locale proxy_invariant = proxy_kept E P
  for E :: "('c, 'x, 'b, 'h, 'f) env" and P :: "('c, 'x, 'b, 'h, 'f) proxy \<Rightarrow> bool" +
  assumes destroys: "P px \<Longrightarrow> ev_deferred px = mid # rest \<Longrightarrow>
      ActiveMessage_destroy mid (px\<lparr>ev_deferred := rest\<rparr>) = (Inr (), px') \<Longrightarrow> P px'"
begin

lemma P_handle:
  assumes "P px" and "handle E ev px = Some (Inr (), px')"
  shows "P px'"
proof (cases "ev = DeferredDelete")
  case True
  then show ?thesis using assms destroys [of px] by (auto split: list.splits)
next
  case False
  then show ?thesis using P_event [OF assms] by simp
qed

end

subsection \<open>The objects\<close>

text \<open>
  What holds between two events: the objects are consistent, and the manager never is in the
  stopped or in the half-closed state. No code sets \<open>stopped_\<close>, and \<open>half_closed_\<close> only where it
  is set.
\<close>

definition proxy_ok :: "('c, 'x, 'b, 'h, 'f) proxy \<Rightarrow> bool" where
  "proxy_ok px = (objects_ok px \<and> \<not> cm_stopped px \<and> \<not> cm_half_closed px)"

lemma proxy_ok_destroy:
  assumes "proxy_ok px" and "ev_deferred px = mid # rest"
    and "ActiveMessage_destroy mid (px\<lparr>ev_deferred := rest\<rparr>) = (Inr (), px')"
  shows "proxy_ok px'"
proof -
  let ?px = "dec request_active (px\<lparr>ev_deferred := rest\<rparr>)"
  have inv: "objects_inv {mid} ?px" "\<not> cm_stopped ?px" "\<not> cm_half_closed ?px"
    using assms(1,2) by (auto simp: proxy_ok_def objects_inv_def dec_def)
  obtain am s where s: "keeps E ?px s"
    and px': "px' = s\<lparr>st_messages := (st_messages s)(mid := None)\<rparr>"
    using destroy_keeps [OF assms(3)] by blast
  have "objects_inv {mid} s" "\<not> cm_stopped s" "\<not> cm_half_closed s"
    using inv s by (simp_all add: keeps_def)
  then show ?thesis by (auto simp: proxy_ok_def objects_inv_def px')
qed

interpretation objects: proxy_invariant E proxy_ok for E
proof (unfold_locales, goal_cases)
  case (1 px py)
  then show ?case unfolding proxy_ok_def keeps_def by metis
next
  case (2 px)
  then show ?case
    by (auto simp: ConnectionManager_newStream_def Let_def proxy_ok_def objects_inv_def inc_def
        less_Suc_eq split: if_splits)
next
  case (8 px mid rest px')
  then show ?case by (rule proxy_ok_destroy)
qed (simp_all add: proxy_ok_def keeps_def objects_inv_def)

lemma proxy_ok_init: "proxy_ok (ConnectionManager E)"
  by (simp add: proxy_ok_def objects_inv_def ConnectionManager_def)

lemma reachable_proxy_ok: "reachable E px \<Longrightarrow> proxy_ok px"
  by (induction rule: reachable.induct) (auto intro: proxy_ok_init dest: objects.P_handle)

subsection \<open>The connection\<close>

interpretation not_open: proxy_invariant E "\<lambda>px. cx_state px \<noteq> ConnOpen" for E
proof (unfold_locales, goal_cases)
  case (8 px mid rest px')
  obtain s where "keeps E (dec request_active (px\<lparr>ev_deferred := rest\<rparr>)) s"
    and px': "cx_state px' = cx_state s"
    by (rule destroy_keeps [where E = E, OF 8(3)]) simp
  then show ?case using 8(1) px' by (auto simp: keeps_def dec_def)
qed (auto simp: keeps_def ConnectionManager_newStream_def Let_def inc_def)

text \<open>Nothing is written to the downstream connection after its close.\<close>

interpretation writes: proxy_invariant E writes_ok for E
proof (unfold_locales, goal_cases)
  case (8 px mid rest px')
  obtain s where s: "keeps E (dec request_active (px\<lparr>ev_deferred := rest\<rparr>)) s"
    and px': "px' = s\<lparr>st_messages := (st_messages s)(mid := None)\<rparr>"
    by (rule destroy_keeps [where E = E, OF 8(3)]) simp
  have "writes_ok (dec request_active (px\<lparr>ev_deferred := rest\<rparr>))"
    using 8(1) by (simp add: writes_ok_def dec_def)
  then have "writes_ok s" using s by (simp add: keeps_def)
  then show ?case by (simp add: px' writes_ok_def)
qed (auto simp: keeps_def writes_ok_def ConnectionManager_newStream_def Let_def inc_def)

lemma reachable_writes_ok: "reachable E px \<Longrightarrow> writes_ok px"
proof (induction rule: reachable.induct)
  case reachable_init
  then show ?case by (simp add: writes_ok_def ConnectionManager_def)
next
  case (reachable_step px ev px')
  then show ?case using writes.P_handle by blast
qed

end
