(* ===== verification/Proxy_Requests.thy ===== *)
theory Proxy_Requests
  imports Proxy_Invariant
begin

text \<open>
  What becomes of a request, for a proxy with the default filter chain (the router alone, as
  \<open>ConfigImpl\<close> installs it when no filters are configured): the specification \<open>rejection\<close> says
  which requests are answered locally and with which error; the lemmas run the model of the code
  to the end of a request in each case.
\<close>

subsection \<open>A message with the router alone\<close>

definition default_chain :: "('c, 'x, 'b, 'h, 'f) env \<Rightarrow> bool" where
  "default_chain E = (en_filter_factories E = [AddRouter])"

text \<open>\<open>put_message\<close> is the normal form of updates of one message.\<close>

definition put_message ::
  "nat \<Rightarrow> ('c, 'x, 'b, 'h, 'f) active_message \<Rightarrow> ('c, 'x, 'b, 'h, 'f) proxy \<Rightarrow> ('c, 'x, 'b, 'h, 'f) proxy" where
  "put_message mid am px = px\<lparr>st_messages := (st_messages px)(mid \<mapsto> am)\<rparr>"

lemma put_message_fields [simp]:
  "st_messages (put_message mid am px) mid = Some am"
  "cm_active_message_list (put_message mid am px) = cm_active_message_list px"
  "ev_deferred (put_message mid am px) = ev_deferred px"
  "cx_effects (put_message mid am px) = cx_effects px"
  "cx_state (put_message mid am px) = cx_state px"
  "cm_codec (put_message mid am px) = cm_codec px"
  "cm_stats (put_message mid am px) = cm_stats px"
  "put_message mid am (put_message mid am' px) = put_message mid am px"
  by (simp_all add: put_message_def)

lemma put_message_out [simp]:
  "inc s (put_message mid am px) = put_message mid am (inc s px)"
  "emit e (put_message mid am px) = put_message mid am (emit e px)"
  "(put_message mid am px)\<lparr>cm_codec := c\<rparr> = put_message mid am (px\<lparr>cm_codec := c\<rparr>)"
  "deferredMessage mid' (put_message mid am px) = put_message mid am (deferredMessage mid' px)"
  by (simp_all add: put_message_def inc_def emit_def deferredMessage_def)

lemma update_put_message [simp]:
  "update_message mid f (put_message mid am px) = put_message mid (f am) px"
  by (simp add: update_message_def put_message_def)

lemma with_put_message [simp]: "with_message mid f (put_message mid am px) = f am (put_message mid am px)"
  by (simp add: with_message_def)

lemma put_message_same: "st_messages px mid = Some am \<Longrightarrow> put_message mid am px = px"
  by (cases px) (simp add: put_message_def fun_upd_idem)

lemma emit_inc_fields [simp]:
  "cx_effects (emit e px) = cx_effects px @ [e]"
  "cx_effects (inc s px) = cx_effects px"
  "cx_state (emit e px) = cx_state px" "cx_state (inc s px) = cx_state px"
  "cm_codec (emit e px) = cm_codec px" "cm_codec (inc s px) = cm_codec px"
  "cm_active_message_list (emit e px) = cm_active_message_list px"
  "ev_deferred (emit e px) = ev_deferred px"
  "cm_stats (emit e px) = cm_stats px"
  "st_messages (emit e px) = st_messages px" "st_messages (inc s px) = st_messages px"
  by (simp_all add: emit_def inc_def)

lemma deferredMessage_fields [simp]:
  "cx_effects (deferredMessage mid px) = cx_effects px"
  "cx_state (deferredMessage mid px) = cx_state px"
  "cm_stats (deferredMessage mid px) = cm_stats px"
  "st_messages (deferredMessage mid px) = st_messages px"
  "cm_codec (deferredMessage mid px) = cm_codec px"
  by (simp_all add: deferredMessage_def)

definition router_message ::
  "u64 \<Rightarrow> 'b router \<Rightarrow> ('c, 'x, 'b, 'h, 'f) active_message" where
  "router_message stream_id r =
     (ActiveMessage stream_id)\<lparr>am_filters := [RouterFilter r],
       am_decoder_filters := [\<lparr>fw_handle = 0, fw_dual_filter = True\<rparr>],
       am_encoder_filters := [\<lparr>fw_handle = 0, fw_dual_filter = True\<rparr>]\<rparr>"

lemma createFilterChain_default:
  "default_chain E \<Longrightarrow>
   createFilterChain E (ActiveMessage stream_id) = router_message stream_id (Router (en_buffer E))"
  by (simp add: createFilterChain_def default_chain_def addFilter_def add_filter_object_def
      router_message_def ActiveMessage_def Let_def)

lemma router_message_fields [simp]:
  "am_filters (router_message sid r) = [RouterFilter r]"
  "am_decoder_filters (router_message sid r) = [\<lparr>fw_handle = 0, fw_dual_filter = True\<rparr>]"
  "am_encoder_filters (router_message sid r) = [\<lparr>fw_handle = 0, fw_dual_filter = True\<rparr>]"
  "am_stream_id (router_message sid r) = sid"
  "am_local_response_sent (router_message sid r) = False"
  "am_cached_route (router_message sid r) = None"
  "am_response_decoder (router_message sid r) = None"
  by (simp_all add: router_message_def ActiveMessage_def)

lemma router_of_put [simp]:
  "am_filters am = [RouterFilter r] \<Longrightarrow> get_router mid 0 (put_message mid am px) = Some r"
  by (simp add: get_router_def)

lemma with_router_put [simp]:
  "am_filters am = [RouterFilter r] \<Longrightarrow>
   with_router mid 0 f (put_message mid am px) = f r (put_message mid am px)"
  by (simp add: with_router_def)

lemma update_router_put [simp]:
  "am_filters am = [RouterFilter r] \<Longrightarrow>
   update_router mid 0 g (put_message mid am px) =
     put_message mid (am\<lparr>am_filters := [RouterFilter (g r)]\<rparr>) px"
  by (simp add: update_router_def)

lemma with_metadata_put [simp]:
  "am_metadata am = Some m \<Longrightarrow>
   with_metadata mid f (put_message mid am px) = f m (put_message mid am px)"
  by (simp add: with_metadata_def)

lemma with_request_put [simp]:
  "am_filters am = [RouterFilter r] \<Longrightarrow> rt_upstream_request r = Some ur \<Longrightarrow>
   with_request mid 0 f (put_message mid am px) = f ur (put_message mid am px)"
  by (simp add: with_request_def)

lemma update_request_put [simp]:
  "am_filters am = [RouterFilter r] \<Longrightarrow> rt_upstream_request r = Some ur \<Longrightarrow>
   update_request mid 0 g (put_message mid am px) =
     put_message mid (am\<lparr>am_filters := [RouterFilter (r\<lparr>rt_upstream_request := Some (g ur)\<rparr>)]\<rparr>) px"
  by (simp add: update_request_def)

subsection \<open>Local replies\<close>

text \<open>The state after a local reply: the bytes the codec made of the error, or nothing.\<close>

definition replied ::
  "('c, 'x, 'b, 'h, 'f) env \<Rightarrow> ('x, 'b, 'h) metadata \<Rightarrow> error \<Rightarrow>
   ('c, 'x, 'b, 'h, 'f) proxy \<Rightarrow> ('c, 'x, 'b, 'h, 'f) proxy" where
  "replied E m err px =
     (let (_, (c, b)) = codec_onError (en_codec E) (cm_codec px) m err (buf_new (en_buffer E))
      in inc local_response_business_exception
           (emit (DownstreamWrite (fst (buf_move_all (en_buffer E) (buf_new (en_buffer E)) b)) False)
              (px\<lparr>cm_codec := c\<rparr>)))"

text \<open>The codec can make a reply of the error: \<open>onError\<close> returns, on an empty buffer.\<close>

definition replies ::
  "('c, 'x, 'b, 'h, 'f) env \<Rightarrow> ('x, 'b, 'h) metadata \<Rightarrow> error \<Rightarrow> ('c, 'x, 'b, 'h, 'f) proxy \<Rightarrow> bool" where
  "replies E m err px =
     (cx_state px = ConnOpen \<and> buf_length (en_buffer E) (buf_new (en_buffer E)) = 0 \<and>
      (\<exists>s. codec_onError (en_codec E) (cm_codec px) m err (buf_new (en_buffer E)) = (Inr (), s)))"

lemma replies_fields [simp]:
  "replies E m err (put_message mid am px) = replies E m err px"
  "replies E m err (inc s px) = replies E m err px"
  "replies E m err (emit e px) = replies E m err px"
  by (simp_all add: replies_def)

lemma replied_put [simp]:
  "replied E m err (put_message mid am px) = put_message mid am (replied E m err px)"
  by (simp add: replied_def case_prod_beta Let_def)

lemma CM_sendLocalReply_replied:
  assumes "replies E m err px"
  shows "ConnectionManager_sendLocalReply E m err False px = (Inr (), replied E m err px)"
  using assms
  by (auto simp: replies_def ConnectionManager_sendLocalReply_def AppException_encode_def
      connection_write_def replied_def Let_def case_prod_beta)

lemma AM_sendLocalReply_replied:
  assumes "replies E m err px" and "am_metadata am = Some m"
  shows "ActiveMessage_sendLocalReply E mid err False (put_message mid am px) =
    (Inr (), put_message mid (am\<lparr>am_local_response_sent := True\<rparr>) (replied E m err px))"
  using CM_sendLocalReply_replied [of E m err "put_message mid am px"] assms
  by (simp add: ActiveMessage_sendLocalReply_def)

subsection \<open>Which requests are answered locally\<close>

definition no_route_error :: "u64 \<Rightarrow> error" where
  "no_route_error i = mk_error RouteNotFound
     (''meta protocol router: no cluster match for request '' @ quoted (dec_nat (unat i)))"

definition unknown_cluster_error :: "string \<Rightarrow> error" where
  "unknown_cluster_error cluster =
     mk_error ClusterNotFound (''meta protocol router: unknown cluster '' @ quoted cluster)"

definition maintenance_error :: "string \<Rightarrow> error" where
  "maintenance_error cluster =
     mk_error Unspecified (''meta protocol router: maintenance mode for cluster '' @ quoted cluster)"

definition no_upstream_error :: "string \<Rightarrow> error" where
  "no_upstream_error cluster =
     mk_error NoHealthyUpstream (''meta protocol router: no healthy upstream for '' @ quoted cluster)"

text \<open>The error a request is answered with, or the cluster it goes to.\<close>

definition routing ::
  "('c, 'x, 'b, 'h, 'f) env \<Rightarrow> ('x, 'b, 'h) metadata \<Rightarrow> u64 \<Rightarrow> error + string" where
  "routing E m stream_id =
     (case en_route E m stream_id of
        None \<Rightarrow> Inl (no_route_error (md_request_id m))
      | Some name \<Rightarrow>
          (case en_getThreadLocalCluster E name of
             None \<Rightarrow> Inl (unknown_cluster_error name)
           | Some cluster \<Rightarrow>
               if cl_maintenanceMode cluster then Inl (maintenance_error name)
               else if \<not> cl_tcpConnPool cluster then Inl (no_upstream_error name)
               else Inr name))"

lemmas routing_errors =
  no_route_error_def unknown_cluster_error_def maintenance_error_def no_upstream_error_def

text \<open>A rejected request: one local reply, and the filter stops.\<close>

lemma Router_rejects_reply:
  assumes "routing E m (am_stream_id am) = Inl err"
    and "am_filters am = [RouterFilter r]" and "am_metadata am = Some m" and "am_cached_route am = None"
  obtains am1 where
    "Router_onMessageDecoded E mid 0 (put_message mid am px) =
       and_then (ActiveMessage_sendLocalReply E mid err False (put_message mid am1 px))
         (\<lambda>_ px. (Inr StopIteration, px))"
    "am_metadata am1 = Some m" "am_filter_action am1 = am_filter_action am"
proof -
  let ?am = "\<lambda>route. am\<lparr>am_cached_route := Some route,
    am_filters := [RouterFilter (r\<lparr>rt_route := route\<rparr>)]\<rparr>"
  note code = Router_onMessageDecoded_def [folded routing_errors] ActiveMessage_route_def Let_def
  show thesis
  proof (cases "en_route E m (am_stream_id am)")
    case None
    have "err = no_route_error (md_request_id m)" using assms(1) None by (simp add: routing_def)
    then show thesis
      using assms(2-4) None
      by (intro that [of "?am None"]) (simp_all add: code)
  next
    case (Some name)
    show thesis
    proof (cases "en_getThreadLocalCluster E name")
      case None
      have "err = unknown_cluster_error name" using assms(1) None Some by (simp add: routing_def)
      then show thesis
        using assms(2-4) None Some
        by (intro that [of "?am (Some name)"]) (simp_all add: code)
    next
      case cl: (Some cluster)
      let ?am' = "?am (Some name)\<lparr>am_filters :=
        [RouterFilter (r\<lparr>rt_route := Some name, rt_cluster := Some name\<rparr>)]\<rparr>"
      consider "cl_maintenanceMode cluster" "err = maintenance_error name"
        | "\<not> cl_maintenanceMode cluster" "\<not> cl_tcpConnPool cluster" "err = no_upstream_error name"
        using assms(1) cl Some by (auto simp: routing_def split: if_splits)
      then show thesis
        using assms(2-4) cl Some
        by cases (rule that [of ?am']; simp add: code)+
    qed
  qed
qed

lemma Router_rejects:
  assumes "routing E m (am_stream_id am) = Inl err" and "replies E m err px"
    and "am_filters am = [RouterFilter r]" and "am_metadata am = Some m" and "am_cached_route am = None"
  obtains am' where
    "Router_onMessageDecoded E mid 0 (put_message mid am px) =
       (Inr StopIteration, put_message mid am' (replied E m err px))"
    "am_local_response_sent am'" "am_metadata am' = Some m" "am_filter_action am' = am_filter_action am"
proof -
  obtain am1 where 1: "Router_onMessageDecoded E mid 0 (put_message mid am px) =
       and_then (ActiveMessage_sendLocalReply E mid err False (put_message mid am1 px))
         (\<lambda>_ px. (Inr StopIteration, px))"
    "am_metadata am1 = Some m" "am_filter_action am1 = am_filter_action am"
    using Router_rejects_reply [OF assms(1,3-5)] .
  show thesis
    by (rule that [of "am1\<lparr>am_local_response_sent := True\<rparr>"])
      (use 1 AM_sendLocalReply_replied [OF assms(2) 1(2)] in simp_all)
qed

text \<open>The end of a rejected request: it is answered, counted and handed to the dispatcher.\<close>

definition count_request ::
  "('x, 'b, 'h) metadata \<Rightarrow> ('c, 'x, 'b, 'h, 'f) proxy \<Rightarrow> ('c, 'x, 'b, 'h, 'f) proxy" where
  "count_request m px =
     (case md_message_type m of
        Request \<Rightarrow> inc request_twoway px
      | Oneway \<Rightarrow> inc request_oneway px
      | _ \<Rightarrow> px)"

lemma count_request_put [simp]:
  "count_request m (put_message mid am px) = put_message mid am (count_request m px)"
  by (simp add: count_request_def split: MessageType.splits)

lemma finalizeRequest_put:
  assumes "am_metadata am = Some m"
  shows "ActiveMessage_finalizeRequest mid (put_message mid am px) =
    (Inr (), put_message mid (am\<lparr>am_pending_stream_decoded := False\<rparr>)
       (if am_local_response_sent am \<or> md_message_type m = Oneway
        then deferredMessage mid (count_request m (inc stat_request px))
        else count_request m (inc stat_request px)))"
  using assms
  by (cases "md_message_type m")
    (simp_all add: ActiveMessage_finalizeRequest_def count_request_def Let_def)

lemma rejected_request:
  assumes "routing E m sid = Inl err" and "replies E m err px"
  obtains am' where
    "ActiveMessage_onStreamDecoded E mid m mu (put_message mid (router_message sid r) px) =
       (Inr (), put_message mid am'
          (deferredMessage mid (count_request m (inc stat_request
             (replied E m err (inc request_decoding_success px))))))"
    "am_local_response_sent am'"
proof -
  let ?am = "(router_message sid r)\<lparr>am_metadata := Some m, am_mutation := mu, am_filter_action := True\<rparr>"
  let ?px = "inc request_decoding_success px"
  obtain am' where r: "Router_onMessageDecoded E mid 0 (put_message mid ?am ?px) =
       (Inr StopIteration, put_message mid am' (replied E m err ?px))"
    "am_local_response_sent am'" "am_metadata am' = Some m"
    by (rule Router_rejects [where am = ?am and E = E and m = m and err = err and px = ?px])
      (use assms in simp_all)
  have "applyDecoderFilters E mid None CanStartFromCurrent (put_message mid ?am ?px) =
      (Inr Continue, put_message mid (am'\<lparr>am_filter_action := False\<rparr>) (replied E m err ?px))"
    using r by (simp add: applyDecoderFilters_def call_decoder_filter_def)
  then show thesis
    using r
    by (intro that [of "am'\<lparr>am_filter_action := False, am_pending_stream_decoded := False\<rparr>"])
      (simp_all add: ActiveMessage_onStreamDecoded_def Let_def finalizeRequest_put)
qed

subsection \<open>Requests that go upstream\<close>

text \<open>The message after the router took it over: its bytes are in the router's buffer.\<close>

definition taken_message ::
  "('c, 'x, 'b, 'h, 'f) env \<Rightarrow> string \<Rightarrow> ('x, 'b, 'h) metadata \<Rightarrow> 'b router \<Rightarrow> upstream_request \<Rightarrow>
   ('c, 'x, 'b, 'h, 'f) active_message \<Rightarrow> ('c, 'x, 'b, 'h, 'f) active_message" where
  "taken_message E name m r ur am =
     (let (b, rest) = buf_move (en_buffer E) (rt_upstream_request_buffer r) (md_origin_message m)
            (buf_length (en_buffer E) (md_origin_message m))
      in am\<lparr>am_cached_route := Some (Some name),
            am_metadata := Some (m\<lparr>md_origin_message := rest\<rparr>),
            am_filters := [RouterFilter (r\<lparr>rt_route := Some name, rt_cluster := Some name,
              rt_upstream_request_buffer := b, rt_upstream_request := Some ur\<rparr>)]\<rparr>)"

lemma taken_message_fields [simp]:
  "am_local_response_sent (taken_message E name m r ur am) = am_local_response_sent am"
  "am_filter_action (taken_message E name m r ur am) = am_filter_action am"
  "am_decoder_filters (taken_message E name m r ur am) = am_decoder_filters am"
  "am_encoder_filters (taken_message E name m r ur am) = am_encoder_filters am"
  "am_response_decoder (taken_message E name m r ur am) = am_response_decoder am"
  "am_pending_stream_decoded (taken_message E name m r ur am) = am_pending_stream_decoded am"
  by (simp_all add: taken_message_def case_prod_beta)

lemma taken_message_metadata:
  obtains rest where "am_metadata (taken_message E name m r ur am) = Some (m\<lparr>md_origin_message := rest\<rparr>)"
  by (rule that [of "snd (buf_move (en_buffer E) (rt_upstream_request_buffer r) (md_origin_message m)
            (buf_length (en_buffer E) (md_origin_message m)))"])
    (simp add: taken_message_def case_prod_beta)

lemma Router_takes:
  assumes "routing E m (am_stream_id am) = Inr name"
    and "am_filters am = [RouterFilter r]" and "am_metadata am = Some m" and "am_cached_route am = None"
  shows "Router_onMessageDecoded E mid 0 (put_message mid am px) =
    UpstreamRequest_start E mid 0 name
      (put_message mid (taken_message E name m r UpstreamRequest am) px)"
proof -
  obtain cluster where c: "en_route E m (am_stream_id am) = Some name"
      "en_getThreadLocalCluster E name = Some cluster" "\<not> cl_maintenanceMode cluster"
      "cl_tcpConnPool cluster"
    using assms(1) by (auto simp: routing_def split: option.splits if_splits)
  show ?thesis
    using assms(2-4) c
    by (simp add: Router_onMessageDecoded_def ActiveMessage_route_def taken_message_def Let_def
        case_prod_beta)
qed

text \<open>The router and its request inside a message that was taken over.\<close>

lemma taken_message_router:
  obtains r' where "am_filters (taken_message E name m r ur am) = [RouterFilter r']"
    "rt_upstream_request r' = Some ur" "rt_filter_complete r' = rt_filter_complete r"
    "rt_upstream_request_buffer r' = fst (buf_move (en_buffer E) (rt_upstream_request_buffer r)
       (md_origin_message m) (buf_length (en_buffer E) (md_origin_message m)))"
  by (rule that [of "r\<lparr>rt_route := Some name, rt_cluster := Some name,
       rt_upstream_request_buffer := fst (buf_move (en_buffer E) (rt_upstream_request_buffer r)
         (md_origin_message m) (buf_length (en_buffer E) (md_origin_message m))),
       rt_upstream_request := Some ur\<rparr>"])
    (simp_all add: taken_message_def case_prod_beta)

text \<open>The buffer an upstream write carries.\<close>

definition written :: "('c, 'x, 'b, 'h, 'f) env \<Rightarrow> 'b \<Rightarrow> 'b" where
  "written E b = fst (buf_move_all (en_buffer E) (buf_new (en_buffer E)) b)"

lemma send_request_put:
  assumes "am_filters am = [RouterFilter r]" and "rt_upstream_request r = Some ur"
    and "ur_conn_data ur" and "\<not> ur_conn_pool_handle ur"
  shows "UpstreamRequest_send_request E mid 0 (put_message mid am px) =
    (Inr (), put_message mid
       (am\<lparr>am_filters := [RouterFilter (r\<lparr>rt_upstream_request := Some (ur\<lparr>ur_request_complete := True\<rparr>),
          rt_upstream_request_buffer := snd (buf_move_all (en_buffer E) (buf_new (en_buffer E))
            (rt_upstream_request_buffer r))\<rparr>)]\<rparr>)
       (emit (UpstreamWrite mid (written E (rt_upstream_request_buffer r))) px))"
  using assms
  by (simp add: UpstreamRequest_send_request_def UpstreamRequest_encodeData_def written_def
      case_prod_beta Let_def)

lemma pool_connected_put:
  assumes "am_filters am = [RouterFilter r]" and "rt_upstream_request r = Some ur"
  shows "UpstreamRequest_pool_connected mid 0 host (put_message mid am px) =
    (Inr (ur_conn_pool_handle ur), put_message mid
       (am\<lparr>am_filters := [RouterFilter (r\<lparr>rt_upstream_request :=
          Some (ur\<lparr>ur_upstream_host := Some host, ur_conn_data := True, ur_conn_pool_handle := False\<rparr>)\<rparr>)]\<rparr>)
       (emit (PutResult host LocalOriginConnectSuccess) px))"
  using assms
  by (simp add: UpstreamRequest_pool_connected_def UpstreamRequest_onUpstreamHostSelected_def Let_def)

text \<open>The pool is ready at once: the request is written and the filter chain goes on.\<close>

lemma start_ready:
  assumes "en_newConnection E name (cx_effects px) = ConnectionReady host"
    and "am_filters am = [RouterFilter r]" and "rt_upstream_request r = Some UpstreamRequest"
  obtains am' r' where
    "UpstreamRequest_start E mid 0 name (put_message mid am px) =
       (Inr Continue, put_message mid am'
          (emit (UpstreamWrite mid (written E (rt_upstream_request_buffer r)))
             (emit (PutResult host LocalOriginConnectSuccess) px)))"
    "am' = am\<lparr>am_filters := [RouterFilter r']\<rparr>"
    "rt_upstream_request r' = Some (UpstreamRequest\<lparr>ur_upstream_host := Some host,
       ur_conn_data := True, ur_request_complete := True\<rparr>)"
    "rt_filter_complete r' = rt_filter_complete r"
proof -
  let ?ur = "UpstreamRequest\<lparr>ur_upstream_host := Some host, ur_conn_data := True,
    ur_conn_pool_handle := False\<rparr>"
  let ?r = "r\<lparr>rt_upstream_request := Some ?ur\<rparr>"
  have c: "UpstreamRequest_pool_connected mid 0 host (put_message mid am px) =
      (Inr False, put_message mid (am\<lparr>am_filters := [RouterFilter ?r]\<rparr>)
         (emit (PutResult host LocalOriginConnectSuccess) px))"
    using pool_connected_put [OF assms(2,3), of mid host px] by (simp add: UpstreamRequest_def)
  have s: "UpstreamRequest_send_request E mid 0 (put_message mid (am\<lparr>am_filters := [RouterFilter ?r]\<rparr>)
         (emit (PutResult host LocalOriginConnectSuccess) px)) =
      (Inr (), put_message mid (am\<lparr>am_filters := [RouterFilter (?r\<lparr>
          rt_upstream_request := Some (?ur\<lparr>ur_request_complete := True\<rparr>),
          rt_upstream_request_buffer := snd (buf_move_all (en_buffer E) (buf_new (en_buffer E))
            (rt_upstream_request_buffer r))\<rparr>)]\<rparr>)
         (emit (UpstreamWrite mid (written E (rt_upstream_request_buffer r)))
            (emit (PutResult host LocalOriginConnectSuccess) px)))"
    using send_request_put [of "am\<lparr>am_filters := [RouterFilter ?r]\<rparr>" ?r ?ur] by simp
  show thesis
    by (rule that [OF _ refl, where r' = "?r\<lparr>
          rt_upstream_request := Some (?ur\<lparr>ur_request_complete := True\<rparr>),
          rt_upstream_request_buffer := snd (buf_move_all (en_buffer E) (buf_new (en_buffer E))
            (rt_upstream_request_buffer r))\<rparr>"])
      (use assms(1) c s in \<open>simp_all add: UpstreamRequest_start_def UpstreamRequest_def\<close>)
qed

text \<open>The pool makes the request wait.\<close>

lemma start_pending:
  assumes "en_newConnection E name (cx_effects px) = ConnectionPending"
    and "am_filters am = [RouterFilter r]" and "rt_upstream_request r = Some ur"
  shows "UpstreamRequest_start E mid 0 name (put_message mid am px) =
    (Inr StopIteration, put_message mid (am\<lparr>am_filters := [RouterFilter (r\<lparr>rt_upstream_request :=
       Some (ur\<lparr>ur_conn_pool_handle := True\<rparr>)\<rparr>)]\<rparr>) px)"
  using assms by (simp add: UpstreamRequest_start_def)

text \<open>
  A message with the router alone whose upstream request is \<open>ur\<close> and whose request is still to be
  written from the buffer \<open>b\<close>.
\<close>

definition routed ::
  "('c, 'x, 'b, 'h, 'f) active_message \<Rightarrow> upstream_request \<Rightarrow> 'b \<Rightarrow> ('x, 'b, 'h) metadata \<Rightarrow> bool" where
  "routed am ur b m =
     ((\<exists>r. am_filters am = [RouterFilter r] \<and> rt_upstream_request r = Some ur \<and>
         rt_upstream_request_buffer r = b \<and> \<not> rt_filter_complete r) \<and>
      am_decoder_filters am = [\<lparr>fw_handle = 0, fw_dual_filter = True\<rparr>] \<and>
      am_encoder_filters am = [\<lparr>fw_handle = 0, fw_dual_filter = True\<rparr>] \<and>
      am_metadata am = Some m \<and> \<not> am_local_response_sent am)"

lemma routedE:
  assumes "routed am ur b m"
  obtains r where "am_filters am = [RouterFilter r]" "rt_upstream_request r = Some ur"
    "rt_upstream_request_buffer r = b" "\<not> rt_filter_complete r"
    "am_decoder_filters am = [\<lparr>fw_handle = 0, fw_dual_filter = True\<rparr>]"
    "am_encoder_filters am = [\<lparr>fw_handle = 0, fw_dual_filter = True\<rparr>]"
    "am_metadata am = Some m" "\<not> am_local_response_sent am"
  using assms by (auto simp: routed_def)

text \<open>The request buffer, and what is left of the message, when the router took it over.\<close>

definition taken_buffer :: "('c, 'x, 'b, 'h, 'f) env \<Rightarrow> ('x, 'b, 'h) metadata \<Rightarrow> 'b" where
  "taken_buffer E m = fst (buf_move (en_buffer E) (buf_new (en_buffer E)) (md_origin_message m)
     (buf_length (en_buffer E) (md_origin_message m)))"

definition taken_metadata ::
  "('c, 'x, 'b, 'h, 'f) env \<Rightarrow> ('x, 'b, 'h) metadata \<Rightarrow> ('x, 'b, 'h) metadata" where
  "taken_metadata E m = m\<lparr>md_origin_message :=
     snd (buf_move (en_buffer E) (buf_new (en_buffer E)) (md_origin_message m)
       (buf_length (en_buffer E) (md_origin_message m)))\<rparr>"

lemma taken_metadata_fields [simp]:
  "md_message_type (taken_metadata E m) = md_message_type m"
  "md_request_id (taken_metadata E m) = md_request_id m"
  by (simp_all add: taken_metadata_def)

lemma taken_contents:
  assumes "envoy_buffer (en_buffer E) content"
  shows "content (taken_buffer E m) = content (md_origin_message m)"
    and "content (md_origin_message (taken_metadata E m)) = []"
    and "content (written E b) = content b"
  using envoy_buffer.content_simps [OF assms]
  by (simp_all add: taken_buffer_def taken_metadata_def written_def)

lemma taken_routed:
  "routed (taken_message E name m (Router (en_buffer E)) ur
     ((router_message sid r)\<lparr>am_metadata := Some m', am_mutation := mu, am_filter_action := True\<rparr>))
     ur (taken_buffer E m) (taken_metadata E m)"
  by (simp add: routed_def taken_message_def taken_buffer_def taken_metadata_def Router_def
      case_prod_beta)

text \<open>A request that is written at once.\<close>

lemma forwarded_request:
  assumes "routing E m sid = Inr name"
    and "en_newConnection E name (cx_effects px) = ConnectionReady host"
  obtains am' r' where
    "ActiveMessage_onStreamDecoded E mid m mu (put_message mid (router_message sid (Router (en_buffer E))) px) =
       (Inr (), put_message mid am'
          ((if md_message_type m = Oneway then deferredMessage mid else id)
             (count_request m (inc stat_request
               (emit (UpstreamWrite mid (written E (taken_buffer E m)))
                 (emit (PutResult host LocalOriginConnectSuccess) (inc request_decoding_success px)))))))"
    "routed am' (UpstreamRequest\<lparr>ur_upstream_host := Some host, ur_conn_data := True,
       ur_request_complete := True\<rparr>) r' (taken_metadata E m)"
    "am_response_decoder am' = None"
proof -
  let ?am = "(router_message sid (Router (en_buffer E)))\<lparr>am_metadata := Some m, am_mutation := mu,
    am_filter_action := True\<rparr>"
  let ?px = "inc request_decoding_success px"
  let ?taken = "taken_message E name m (Router (en_buffer E)) UpstreamRequest ?am"
  obtain r where r: "am_filters ?taken = [RouterFilter r]"
    "rt_upstream_request r = Some UpstreamRequest" "rt_upstream_request_buffer r = taken_buffer E m"
    "\<not> rt_filter_complete r"
    using routedE [OF taken_routed] by metis
  let ?px' = "emit (UpstreamWrite mid (written E (taken_buffer E m)))
             (emit (PutResult host LocalOriginConnectSuccess) ?px)"
  obtain am1 r1 where s: "UpstreamRequest_start E mid 0 name (put_message mid ?taken ?px) =
       (Inr Continue, put_message mid am1 ?px')"
    "am1 = ?taken\<lparr>am_filters := [RouterFilter r1]\<rparr>"
    "rt_upstream_request r1 = Some (UpstreamRequest\<lparr>ur_upstream_host := Some host,
       ur_conn_data := True, ur_request_complete := True\<rparr>)"
    "rt_filter_complete r1 = rt_filter_complete r"
    using start_ready [OF _ r(1,2), where E = E and name = name and px = ?px and mid = mid and host = host]
      assms(2) r(3) by auto
  have d: "Router_onMessageDecoded E mid 0 (put_message mid ?am ?px) =
      (Inr Continue, put_message mid am1 ?px')"
    using Router_takes [of E m ?am name "Router (en_buffer E)" mid ?px] assms(1) s(1) by simp
  have m1: "am_metadata am1 = Some (taken_metadata E m)"
    using s(2) by (simp add: taken_message_def taken_metadata_def Router_def case_prod_beta)
  have a: "applyDecoderFilters E mid None CanStartFromCurrent (put_message mid ?am ?px) =
      (Inr Continue, put_message mid (am1\<lparr>am_filter_action := False\<rparr>) ?px')"
    using d s(2) by (simp add: applyDecoderFilters_def call_decoder_filter_def)
  show thesis
  proof (rule that)
    show "ActiveMessage_onStreamDecoded E mid m mu (put_message mid (router_message sid (Router (en_buffer E))) px) =
       (Inr (), put_message mid (am1\<lparr>am_filter_action := False, am_pending_stream_decoded := False\<rparr>)
          ((if md_message_type m = Oneway then deferredMessage mid else id)
             (count_request m (inc stat_request ?px'))))"
      using a m1 s(2)
      by (simp add: ActiveMessage_onStreamDecoded_def Let_def finalizeRequest_put count_request_def)
    show "routed (am1\<lparr>am_filter_action := False, am_pending_stream_decoded := False\<rparr>)
        (UpstreamRequest\<lparr>ur_upstream_host := Some host, ur_conn_data := True,
          ur_request_complete := True\<rparr>) (rt_upstream_request_buffer r1) (taken_metadata E m)"
      using m1 s(2-4) r(4) by (simp add: routed_def)
    show "am_response_decoder (am1\<lparr>am_filter_action := False, am_pending_stream_decoded := False\<rparr>) = None"
      using s(2) by simp
  qed
qed

text \<open>A request that waits for a connection: nothing is written yet.\<close>

lemma waiting_request:
  assumes "routing E m sid = Inr name"
    and "en_newConnection E name (cx_effects px) = ConnectionPending"
  obtains am' where
    "ActiveMessage_onStreamDecoded E mid m mu (put_message mid (router_message sid (Router (en_buffer E))) px) =
       (Inr (), put_message mid am' (inc request_decoding_success px))"
    "routed am' (UpstreamRequest\<lparr>ur_conn_pool_handle := True\<rparr>) (taken_buffer E m) (taken_metadata E m)"
    "am_filter_action am'" "am_pending_stream_decoded am'" "am_response_decoder am' = None"
proof -
  let ?am = "(router_message sid (Router (en_buffer E)))\<lparr>am_metadata := Some m, am_mutation := mu,
    am_filter_action := True\<rparr>"
  let ?px = "inc request_decoding_success px"
  let ?taken = "taken_message E name m (Router (en_buffer E)) UpstreamRequest ?am"
  obtain r where r: "am_filters ?taken = [RouterFilter r]"
    "rt_upstream_request r = Some UpstreamRequest" "rt_upstream_request_buffer r = taken_buffer E m"
    "\<not> rt_filter_complete r"
    using routedE [OF taken_routed] by metis
  let ?am1 = "?taken\<lparr>am_filters := [RouterFilter (r\<lparr>rt_upstream_request :=
       Some (UpstreamRequest\<lparr>ur_conn_pool_handle := True\<rparr>)\<rparr>)]\<rparr>"
  have d: "Router_onMessageDecoded E mid 0 (put_message mid ?am ?px) =
      (Inr StopIteration, put_message mid ?am1 ?px)"
    using Router_takes [of E m ?am name "Router (en_buffer E)" mid ?px] assms
      start_pending [OF _ r(1,2), where E = E and name = name and px = ?px] by simp
  have a: "applyDecoderFilters E mid None CanStartFromCurrent (put_message mid ?am ?px) =
      (Inr StopIteration, put_message mid ?am1 ?px)"
    using d by (simp add: applyDecoderFilters_def call_decoder_filter_def)
  have m1: "am_metadata ?am1 = Some (taken_metadata E m)"
    by (simp add: taken_message_def taken_metadata_def Router_def case_prod_beta)
  show thesis
    by (rule that [of "?am1\<lparr>am_pending_stream_decoded := True\<rparr>"])
      (use a m1 r in \<open>simp_all add: ActiveMessage_onStreamDecoded_def Let_def routed_def\<close>)
qed

end
