(* ===== verification/Proxy_Responses.thy ===== *)
theory Proxy_Responses
  imports Proxy_Requests
begin

text \<open>
  What becomes of a request that went upstream, again for the default filter chain: the pool
  answers later, the upstream answers, the answer does not belong to the request, or the upstream
  connection fails.
\<close>

subsection \<open>The pool answers later\<close>

text \<open>With nothing left to read, \<open>continueDecoding\<close> of the manager returns at once.\<close>

definition nothing_to_read :: "('c, 'x, 'b, 'h, 'f) env \<Rightarrow> ('c, 'x, 'b, 'h, 'f) proxy \<Rightarrow> bool" where
  "nothing_to_read E px =
     (buf_length (en_buffer E) (cm_request_buffer px) = 0 \<and> \<not> cm_stopped px \<and> \<not> cm_half_closed px)"

lemma nothing_to_read_simps [simp]:
  "nothing_to_read E (put_message mid am px) = nothing_to_read E px"
  "nothing_to_read E (inc s px) = nothing_to_read E px"
  "nothing_to_read E (emit e px) = nothing_to_read E px"
  "nothing_to_read E (deferredMessage mid px) = nothing_to_read E px"
  "nothing_to_read E (px\<lparr>cm_codec := c\<rparr>) = nothing_to_read E px"
  by (simp_all add: nothing_to_read_def put_message_def inc_def emit_def deferredMessage_def)

lemma nothing_to_read_count [simp]:
  "nothing_to_read E (count_request m px) = nothing_to_read E px"
  by (simp add: count_request_def split: MessageType.splits)

lemma nothing_to_read_replied [simp]:
  "nothing_to_read E (replied E' m err px) = nothing_to_read E px"
  by (simp add: replied_def case_prod_beta Let_def)

lemma continueDecoding_idle:
  assumes "nothing_to_read E px"
  shows "ConnectionManager_continueDecoding E px = Some (Inr (), px)"
proof -
  have "px\<lparr>cm_stopped := False\<rparr> = px" using assms by (simp add: nothing_to_read_def)
  then show ?thesis
    using assms by (simp add: ConnectionManager_continueDecoding_def dispatch_def nothing_to_read_def)
qed

lemma decoder_position_router:
  "am_decoder_filters am = [\<lparr>fw_handle = 0, fw_dual_filter = True\<rparr>] \<Longrightarrow> decoder_position am 0 = Some 0"
  by (simp add: decoder_position_def)

text \<open>
  The chain of a waiting message is resumed after the router: there is no further filter, and the
  request ends.
\<close>

lemma resume_router:
  assumes "am_metadata am = Some m" and "buf_length (en_buffer E) (md_origin_message m) = 0"
    and "am_filter_action am" and "am_pending_stream_decoded am"
    and "am_decoder_filters am = [\<lparr>fw_handle = 0, fw_dual_filter = True\<rparr>]"
  shows "resume_filters E mid 0 (put_message mid am px) =
    (Inr True, put_message mid (am\<lparr>am_filter_action := False, am_pending_stream_decoded := False\<rparr>)
       (if am_local_response_sent am \<or> md_message_type m = Oneway
        then deferredMessage mid (count_request m (inc stat_request px))
        else count_request m (inc stat_request px)))"
  using assms by (simp add: resume_filters_def applyDecoderFilters_def finalizeRequest_put)

lemma Router_resumes:
  assumes "am_metadata am = Some m" and "buf_length (en_buffer E) (md_origin_message m) = 0"
    and "am_filter_action am" and "am_pending_stream_decoded am"
    and "am_decoder_filters am = [\<lparr>fw_handle = 0, fw_dual_filter = True\<rparr>]"
    and "nothing_to_read E px"
  shows "Router_continueDecoding E mid 0 (put_message mid am px) =
    Some (Inr (), put_message mid (am\<lparr>am_filter_action := False, am_pending_stream_decoded := False\<rparr>)
       (if am_local_response_sent am \<or> md_message_type m = Oneway
        then deferredMessage mid (count_request m (inc stat_request px))
        else count_request m (inc stat_request px)))"
  using resume_router [OF assms(1-5)] assms(5,6)
  by (simp add: Router_continueDecoding_def decoder_position_router DecoderFilter_continueDecoding_def
      continueDecoding_idle)

text \<open>The connection is there: the request ends for the filters and its bytes are written.\<close>

lemma pool_ready:
  assumes "routed am (UpstreamRequest\<lparr>ur_conn_pool_handle := True\<rparr>) b m"
    and "am_filter_action am" and "am_pending_stream_decoded am"
    and "buf_length (en_buffer E) (md_origin_message m) = 0" and "nothing_to_read E px"
  obtains am' b' where
    "UpstreamRequest_onPoolReady E mid 0 host (put_message mid am px) =
       Some (Inr (), put_message mid am' (emit (UpstreamWrite mid (written E b))
         ((if md_message_type m = Oneway then deferredMessage mid else id)
            (count_request m (inc stat_request
              (emit (PutResult host LocalOriginConnectSuccess) px))))))"
    "routed am' (UpstreamRequest\<lparr>ur_upstream_host := Some host, ur_conn_data := True,
       ur_request_complete := True\<rparr>) b' m"
    "am_response_decoder am' = am_response_decoder am"
  using assms(1)
proof (rule routedE)
  fix r
  assume r: "am_filters am = [RouterFilter r]"
    "rt_upstream_request r = Some (UpstreamRequest\<lparr>ur_conn_pool_handle := True\<rparr>)"
    "rt_upstream_request_buffer r = b" "\<not> rt_filter_complete r"
    "am_decoder_filters am = [\<lparr>fw_handle = 0, fw_dual_filter = True\<rparr>]"
    "am_encoder_filters am = [\<lparr>fw_handle = 0, fw_dual_filter = True\<rparr>]"
    "am_metadata am = Some m" "\<not> am_local_response_sent am"
  let ?ur = "UpstreamRequest\<lparr>ur_upstream_host := Some host, ur_conn_data := True,
    ur_conn_pool_handle := False\<rparr>"
  let ?r = "r\<lparr>rt_upstream_request := Some ?ur\<rparr>"
  let ?am1 = "am\<lparr>am_filters := [RouterFilter ?r]\<rparr>"
  let ?am2 = "?am1\<lparr>am_filter_action := False, am_pending_stream_decoded := False\<rparr>"
  let ?px1 = "emit (PutResult host LocalOriginConnectSuccess) px"
  let ?px2 = "(if md_message_type m = Oneway then deferredMessage mid else id)
            (count_request m (inc stat_request ?px1))"
  have c: "UpstreamRequest_pool_connected mid 0 host (put_message mid am px) =
      (Inr True, put_message mid ?am1 ?px1)"
    using pool_connected_put [OF r(1,2)] by simp
  have k: "Router_continueDecoding E mid 0 (put_message mid ?am1 ?px1) =
      Some (Inr (), put_message mid ?am2 ?px2)"
    using Router_resumes [of ?am1 m E ?px1 mid] assms r by simp
  let ?r' = "?r\<lparr>rt_upstream_request := Some (?ur\<lparr>ur_request_complete := True\<rparr>),
     rt_upstream_request_buffer := snd (buf_move_all (en_buffer E) (buf_new (en_buffer E)) b)\<rparr>"
  have s: "UpstreamRequest_send_request E mid 0 (put_message mid ?am2 ?px2) =
      (Inr (), put_message mid (?am2\<lparr>am_filters := [RouterFilter ?r']\<rparr>)
         (emit (UpstreamWrite mid (written E b)) ?px2))"
    using send_request_put [of ?am2 ?r ?ur] r(3) by simp
  have "UpstreamRequest_onPoolReady E mid 0 host (put_message mid am px) =
       Some (Inr (), put_message mid (?am2\<lparr>am_filters := [RouterFilter ?r']\<rparr>)
         (emit (UpstreamWrite mid (written E b)) ?px2))"
    unfolding UpstreamRequest_onPoolReady_def c prod.case sum.case using k s by simp
  moreover have "routed (?am2\<lparr>am_filters := [RouterFilter ?r']\<rparr>)
      (UpstreamRequest\<lparr>ur_upstream_host := Some host, ur_conn_data := True, ur_request_complete := True\<rparr>)
      (snd (buf_move_all (en_buffer E) (buf_new (en_buffer E)) b)) m"
    using r by (simp add: routed_def UpstreamRequest_def)
  ultimately show thesis
    by (intro that [of "?am2\<lparr>am_filters := [RouterFilter ?r']\<rparr>"]) simp_all
qed

text \<open>The connection fails: a two-way request is answered, and the message is handed over.\<close>

fun pool_failure_error :: "PoolFailureReason \<Rightarrow> string \<Rightarrow> error" where
  "pool_failure_error Overflow host =
     mk_error Unspecified ''meta protocol upstream request: too many connections''"
| "pool_failure_error LocalConnectionFailure host =
     mk_error Unspecified (''meta protocol upstream request: local connection failure '' @ quoted host)"
| "pool_failure_error RemoteConnectionFailure host =
     mk_error Unspecified (''meta protocol upstream request: remote connection failure '' @ quoted host)"
| "pool_failure_error Timeout host =
     mk_error Unspecified (''meta protocol upstream request: connection failure '' @ quoted host @
       '' due to timeout'')"

lemma onResetStream_twoway:
  assumes "am_filters am = [RouterFilter r]" and "rt_upstream_request r = Some ur"
    and "ur_upstream_host ur = Some host" and "\<not> rt_filter_complete r"
    and "am_metadata am = Some m" and "md_message_type m \<noteq> Oneway"
    and "replies E m (pool_failure_error reason host) px"
  shows "UpstreamRequest_onResetStream E mid 0 reason (put_message mid am px) =
    (Inr (), put_message mid (am\<lparr>am_local_response_sent := True\<rparr>)
       (replied E m (pool_failure_error reason host) px))"
  using assms
  by (cases reason)
    (simp_all add: UpstreamRequest_onResetStream_def with_host_def AM_sendLocalReply_replied)

lemma onResetStream_oneway:
  assumes "am_filters am = [RouterFilter r]" and "rt_upstream_request r = Some ur"
    and "am_metadata am = Some m" and "md_message_type m = Oneway"
  shows "UpstreamRequest_onResetStream E mid 0 reason (put_message mid am px) =
    (Inr (), put_message mid am (deferredMessage mid px))"
  using assms by (simp add: UpstreamRequest_onResetStream_def ActiveMessage_resetStream_def)

definition failure_report ::
  "PoolFailureReason \<Rightarrow> string \<Rightarrow> ('c, 'x, 'b, 'h, 'f) proxy \<Rightarrow> ('c, 'x, 'b, 'h, 'f) proxy" where
  "failure_report reason host px =
     (if reason = Timeout then emit (PutResult host LocalOriginTimeout) px
      else if reason = RemoteConnectionFailure then emit (PutResult host LocalOriginConnectFailed) px
      else px)"

lemma report_pool_failure_host:
  "report_pool_failure reason (Some host) px = (Inr (), failure_report reason host px)"
  by (cases reason) (simp_all add: report_pool_failure_def failure_report_def)

lemma failure_report_simps [simp]:
  "failure_report reason host (put_message mid am px) = put_message mid am (failure_report reason host px)"
  "nothing_to_read E (failure_report reason host px) = nothing_to_read E px"
  "cm_active_message_list (failure_report reason host px) = cm_active_message_list px"
  "ev_deferred (failure_report reason host px) = ev_deferred px"
  by (simp_all add: failure_report_def)

lemma pool_failure:
  assumes "routed am (UpstreamRequest\<lparr>ur_conn_pool_handle := True\<rparr>) b m"
    and "am_filter_action am" and "am_pending_stream_decoded am"
    and "buf_length (en_buffer E) (md_origin_message m) = 0" and "nothing_to_read E px"
    and "md_message_type m \<noteq> Oneway" and "reason \<noteq> Overflow"
    and "replies E m (pool_failure_error reason host) px"
  obtains am' where
    "UpstreamRequest_onPoolFailure E mid 0 reason (Some host) (put_message mid am px) =
       Some (Inr (), put_message mid am' (deferredMessage mid (count_request m (inc stat_request
         (failure_report reason host (replied E m (pool_failure_error reason host) px))))))"
    "am_local_response_sent am'"
  using assms(1)
proof (rule routedE)
  fix r
  assume r: "am_filters am = [RouterFilter r]"
    "rt_upstream_request r = Some (UpstreamRequest\<lparr>ur_conn_pool_handle := True\<rparr>)"
    "rt_upstream_request_buffer r = b" "\<not> rt_filter_complete r"
    "am_decoder_filters am = [\<lparr>fw_handle = 0, fw_dual_filter = True\<rparr>]"
    "am_encoder_filters am = [\<lparr>fw_handle = 0, fw_dual_filter = True\<rparr>]"
    "am_metadata am = Some m" "\<not> am_local_response_sent am"
  let ?ur = "UpstreamRequest\<lparr>ur_upstream_host := Some host, ur_conn_pool_handle := False\<rparr>"
  let ?r = "r\<lparr>rt_upstream_request := Some ?ur\<rparr>"
  let ?am1 = "am\<lparr>am_filters := [RouterFilter ?r]\<rparr>"
  let ?am2 = "?am1\<lparr>am_local_response_sent := True\<rparr>"
  let ?r3 = "?r\<lparr>rt_upstream_request_buffer :=
    buf_drain (en_buffer E) b (buf_length (en_buffer E) b)\<rparr>"
  let ?am3 = "?am2\<lparr>am_filters := [RouterFilter ?r3]\<rparr>"
  let ?px1 = "replied E m (pool_failure_error reason host) px"
  let ?px2 = "failure_report reason host ?px1"
  have reset: "UpstreamRequest_onResetStream E mid 0 reason (put_message mid ?am1 px) =
      (Inr (), put_message mid ?am2 ?px1)"
    by (rule onResetStream_twoway [where r = ?r and ur = ?ur]) (use assms r in simp_all)
  have f: "UpstreamRequest_pool_failed E mid 0 reason (Some host) (put_message mid am px) =
      (Inr (), put_message mid ?am3 ?px1)"
    using r reset
    by (simp add: UpstreamRequest_pool_failed_def UpstreamRequest_onUpstreamHostSelected_def Let_def
        UpstreamRequest_def)
  have k: "Router_continueDecoding E mid 0 (put_message mid ?am3 ?px2) =
      Some (Inr (), put_message mid (?am3\<lparr>am_filter_action := False, am_pending_stream_decoded := False\<rparr>)
         (deferredMessage mid (count_request m (inc stat_request ?px2))))"
    using Router_resumes [of ?am3 m E ?px2 mid] assms r by simp
  have "UpstreamRequest_onPoolFailure E mid 0 reason (Some host) (put_message mid am px) =
       Some (Inr (), put_message mid (?am3\<lparr>am_filter_action := False, am_pending_stream_decoded := False\<rparr>)
         (deferredMessage mid (count_request m (inc stat_request ?px2))))"
    unfolding UpstreamRequest_onPoolFailure_def f prod.case sum.case report_pool_failure_host
    using k assms(7) by (cases reason) simp_all
  then show thesis by (rule that) simp
qed

subsection \<open>The upstream answers\<close>

text \<open>The response decoder after a message of the upstream was handed over.\<close>

definition response_codec_done ::
  "('c, 'x, 'b, 'h, 'f) env \<Rightarrow> 'c \<Rightarrow> 'b \<Rightarrow> 'c \<Rightarrow> 'b \<Rightarrow> ('x, 'b, 'h) metadata \<Rightarrow> bool" where
  "response_codec_done E c data c' rest m =
     (codec_decode (en_codec E) c data (MetadataImpl (en_buffer E) (en_headers E)) =
        (Inr DecodeDone, (c', rest, m)) \<and>
      md_message_type m \<in> {Response, MsgError})"

text \<open>What the router reports of a response to the outlier detector.\<close>

definition response_result :: "('x, 'b, 'h) metadata \<Rightarrow> OutlierResult" where
  "response_result m =
     (if md_response_status m = StatusOk \<and> md_message_type m \<noteq> MsgError
      then ExtOriginRequestSuccess else ExtOriginRequestFailed)"

lemma encoder_chain:
  assumes "am_filters am = [RouterFilter r]" and "rt_upstream_request r = Some ur"
    and "ur_upstream_host ur = Some host"
    and "am_encoder_filters am = [\<lparr>fw_handle = 0, fw_dual_filter = True\<rparr>]"
    and "\<not> am_local_response_sent am"
  shows "applyEncoderFilters E mid None CanStartFromCurrent (m, mu)
      (update_message mid (\<lambda>am. am\<lparr>am_encoder_filter_action := True\<rparr>) (put_message mid am px)) =
    (Inr (Continue, (m, mu)), put_message mid (am\<lparr>am_encoder_filter_action := False\<rparr>)
       (emit (PutResult host (response_result m)) px))"
proof -
  have "(case md_response_status m of
           StatusOk \<Rightarrow> if md_message_type m = MsgError then ExtOriginRequestFailed
                       else ExtOriginRequestSuccess
         | StatusError \<Rightarrow> ExtOriginRequestFailed) = response_result m"
    by (simp add: response_result_def split: ResponseStatus.splits)
  then show ?thesis
    using assms
    by (simp add: applyEncoderFilters_def call_encoder_filter_def Router_onMessageEncoded_def with_host_def)
qed

lemma count_response_origin [simp]:
  "count_response (m\<lparr>md_origin_message := b\<rparr>) px = count_response m px"
  by (simp add: count_response_def)

lemma count_response_put [simp]:
  "count_response m (put_message mid am px) = put_message mid am (count_response m px)"
  by (simp add: count_response_def Let_def split: ResponseStatus.splits)

lemma response_handed_over:
  assumes "md_message_type m \<in> {Response, MsgError}"
    and "am_filters am = [RouterFilter r]" and "rt_upstream_request r = Some ur"
    and "ur_upstream_host ur = Some host"
    and "am_encoder_filters am = [\<lparr>fw_handle = 0, fw_dual_filter = True\<rparr>]"
    and "\<not> am_local_response_sent am" and "cx_state px = ConnOpen"
  shows "ActiveResponseDecoder_onStreamDecoded E mid m mu (rd, data, put_message mid am px) =
    (Inr (), (rd\<lparr>rd_metadata := Some (m\<lparr>md_origin_message :=
          snd (buf_move_all (en_buffer E) (buf_new (en_buffer E)) (md_origin_message m))\<rparr>),
        rd_mutation := mu, rd_complete := True, rd_response_status := Complete\<rparr>, data,
      put_message mid (am\<lparr>am_encoder_filter_action := False\<rparr>)
          (count_response m (emit (DownstreamWrite (written E (md_origin_message m)) False)
             (emit (PutResult host (response_result m)) px)))))"
  using assms(1,7) encoder_chain [OF assms(2-6), of E mid m mu px]
  by (auto simp: ActiveResponseDecoder_onStreamDecoded_def applyMessageEncodedFilters_def
      connection_write_def written_def case_prod_beta Let_def)

text \<open>A response decoder between two reads of its response.\<close>

definition ready_decoder :: "('c, 'x, 'b, 'h) response_decoder \<Rightarrow> bool" where
  "ready_decoder rd \<longleftrightarrow> decoder_idle (rd_decoder rd) \<and> \<not> rd_complete rd \<and> rd_response_status rd = MoreData"

lemma ready_new [simp]: "ready_decoder (ActiveResponseDecoder E)" "rd_codec (ActiveResponseDecoder E) = en_createCodec E"
  by (simp_all add: ready_decoder_def ActiveResponseDecoder_def decoder_idle_def)

lemmas response_decoder_code =
  Decoder_onData_def DecoderStateMachine_run_def onDecodeStream_def Decoder_newStream_def
  Decoder_start_def Decoder_complete_def modify_decoder_def response_ops_def response_decode_def
  new_decoder_def decoder_idle_def ready_decoder_def Let_def

text \<open>\<open>onData\<close> of such a decoder on data that holds a response.\<close>

lemma response_decoded:
  assumes "ready_decoder rd0" and "response_codec_done E (rd_codec rd0) data c' rest m"
    and "am_filters am = [RouterFilter r]" and "rt_upstream_request r = Some ur"
    and "ur_upstream_host ur = Some host"
    and "am_encoder_filters am = [\<lparr>fw_handle = 0, fw_dual_filter = True\<rparr>]"
    and "\<not> am_local_response_sent am" and "cx_state px = ConnOpen"
  obtains rd where
    "ActiveResponseDecoder_onData E mid (rd0, data, put_message mid am px) =
       (Inr Complete, (rd, rest, put_message mid (am\<lparr>am_encoder_filter_action := False\<rparr>)
          (count_response m (emit (DownstreamWrite (written E (md_origin_message m)) False)
             (emit (PutResult host (response_result m)) px)))))"
    "ActiveResponseDecoder_requestId rd = md_request_id m"
proof -
  have dec: "codec_decode (en_codec E) (rd_codec rd0) data (MetadataImpl (en_buffer E) (en_headers E)) =
        (Inr DecodeDone, (c', rest, m))" and ty: "md_message_type m \<in> {Response, MsgError}"
    using assms(2) by (simp_all add: response_codec_done_def)
  let ?rd = "rd0\<lparr>rd_codec := c', rd_decoder := new_decoder,
    rd_metadata := Some (m\<lparr>md_origin_message :=
          snd (buf_move_all (en_buffer E) (buf_new (en_buffer E)) (md_origin_message m))\<rparr>),
        rd_mutation := MutationImpl, rd_complete := True, rd_response_status := Complete\<rparr>"
  have "Decoder_onData (response_ops E mid) (rd0, data, put_message mid am px) =
      (Inr (Continue, buf_length (en_buffer E) rest = 0),
       (?rd, rest, put_message mid (am\<lparr>am_encoder_filter_action := False\<rparr>)
          (count_response m (emit (DownstreamWrite (written E (md_origin_message m)) False)
             (emit (PutResult host (response_result m)) px)))))"
    using dec ty response_handed_over [OF ty assms(3-8)] assms(1)
    by (auto simp: response_decoder_code)
  then show thesis
    by (intro that [of ?rd])
      (simp_all add: ActiveResponseDecoder_onData_def ActiveResponseDecoder_requestId_def)
qed

text \<open>\<open>onData\<close> where the response is not complete.\<close>

lemma response_incomplete:
  assumes "ready_decoder rd0"
    and "codec_decode (en_codec E) (rd_codec rd0) data (MetadataImpl (en_buffer E) (en_headers E)) =
      (Inr DecodeWaitForData, (c', rest, m))"
  obtains rd where
    "ActiveResponseDecoder_onData E mid (rd0, data, px) = (Inr MoreData, (rd, rest, px))"
    "ready_decoder rd" "rd_codec rd = c'"
proof -
  let ?rd = "rd0\<lparr>rd_codec := c', rd_decoder :=
    \<lparr>md_state_machine = Some WaitForData, md_stream = False, md_decode_started = True\<rparr>\<rparr>"
  have "Decoder_onData (response_ops E mid) (rd0, data, px) = (Inr (Continue, True), (?rd, rest, px))"
    using assms by (auto simp: response_decoder_code)
  then show thesis
    using assms(1) by (intro that [of ?rd])
      (simp_all add: ActiveResponseDecoder_onData_def ready_decoder_def decoder_idle_def)
qed

text \<open>\<open>upstreamData\<close> on the data that completes a response.\<close>

lemma upstreamData_response:
  assumes "ready_decoder rd0" and "response_codec_done E (rd_codec rd0) data c' rest m"
    and "routed am ur b rm" and "ur_upstream_host ur = Some host"
    and "am_response_decoder am = Some rd0" and "cx_state px = ConnOpen"
  obtains am' where
    "ActiveMessage_upstreamData_try E mid data (put_message mid am px) =
       (let px' = put_message mid am'
              (count_response m (emit (DownstreamWrite (written E (md_origin_message m)) False)
                 (emit (PutResult host (response_result m)) px)))
        in if md_request_id rm \<noteq> md_request_id m then
             (Inl (request_id_mismatch (en_applicationProtocol E) (md_request_id rm) (md_request_id m)), px')
           else (Inr (Complete, rest), deferredMessage mid px'))"
    "routed am' ur b rm"
  using assms(3)
proof (rule routedE)
  fix r
  assume r: "am_filters am = [RouterFilter r]" "rt_upstream_request r = Some ur"
    "rt_upstream_request_buffer r = b" "\<not> rt_filter_complete r"
    "am_decoder_filters am = [\<lparr>fw_handle = 0, fw_dual_filter = True\<rparr>]"
    "am_encoder_filters am = [\<lparr>fw_handle = 0, fw_dual_filter = True\<rparr>]"
    "am_metadata am = Some rm" "\<not> am_local_response_sent am"
  obtain rd where rd: "ActiveResponseDecoder_onData E mid (rd0, data, put_message mid am px) =
       (Inr Complete, (rd, rest, put_message mid (am\<lparr>am_encoder_filter_action := False\<rparr>)
          (count_response m (emit (DownstreamWrite (written E (md_origin_message m)) False)
             (emit (PutResult host (response_result m)) px)))))"
    "ActiveResponseDecoder_requestId rd = md_request_id m"
    using response_decoded [OF assms(1,2) r(1,2) assms(4) r(6,8) assms(6)] .
  show thesis
    by (rule that [of "am\<lparr>am_encoder_filter_action := False, am_response_decoder := Some rd\<rparr>"])
      (use rd r assms(5) in \<open>simp_all add: ActiveMessage_upstreamData_try_def
        ActiveMessage_requestId_def routed_def Let_def\<close>)
qed

text \<open>An upstream request that was written and has no answer yet.\<close>

definition sent_request :: "upstream_request \<Rightarrow> string \<Rightarrow> bool" where
  "sent_request ur host =
     (ur_conn_data ur \<and> \<not> ur_conn_pool_handle ur \<and> ur_upstream_host ur = Some host \<and>
      \<not> ur_response_started ur \<and> \<not> ur_response_complete ur)"

lemma sent_request_ready [simp]:
  "sent_request (UpstreamRequest\<lparr>ur_upstream_host := Some host, ur_conn_data := True,
     ur_request_complete := True\<rparr>) host"
  by (simp add: sent_request_def UpstreamRequest_def)

text \<open>What \<open>onUpstreamData\<close> does after \<open>upstreamData\<close>.\<close>

definition after_upstream_data ::
  "('c, 'x, 'b, 'h, 'f) env \<Rightarrow> nat \<Rightarrow> bool \<Rightarrow> UpstreamResponseStatus \<times> 'b \<Rightarrow>
   ('b, 'c, 'x, 'b, 'h, 'f) action" where
  "after_upstream_data E mid es = (\<lambda>(status, data) px.
     if status = Complete then
       and_then (UpstreamRequest_onResponseComplete mid 0 px) (\<lambda>_ px. (Inr data, Router_cleanup mid 0 px))
     else if status = Reset then
       and_then (UpstreamRequest_resetStream mid 0 px) (\<lambda>_ px. (Inr data, px))
     else if es then
       and_then (UpstreamRequest_onResetStream E mid 0 RemoteConnectionFailure px) (\<lambda>_ px.
       and_then (UpstreamRequest_onResponseComplete mid 0 px) (\<lambda>_ px. (Inr data, Router_cleanup mid 0 px)))
     else (Inr data, px))"

text \<open>
  A request that is written and not answered, and the codec that will read the next bytes of its
  response: that of the response decoder, or a new one before the first bytes.
\<close>

definition open_request :: "upstream_request \<Rightarrow> string \<Rightarrow> bool" where
  "open_request ur host \<longleftrightarrow>
     ur_conn_data ur \<and> \<not> ur_conn_pool_handle ur \<and> ur_upstream_host ur = Some host \<and> \<not> ur_response_complete ur"

definition reads_response ::
  "('c, 'x, 'b, 'h, 'f) env \<Rightarrow> ('c, 'x, 'b, 'h, 'f) active_message \<Rightarrow> upstream_request \<Rightarrow> 'c \<Rightarrow> bool" where
  "reads_response E am ur c \<longleftrightarrow>
     (if ur_response_started ur then
        \<exists>rd. am_response_decoder am = Some rd \<and> ready_decoder rd \<and> rd_codec rd = c
      else am_response_decoder am = None \<and> c = en_createCodec E)"

lemma sent_reads:
  "sent_request ur host \<Longrightarrow> am_response_decoder am = None \<Longrightarrow>
   open_request ur host \<and> reads_response E am ur (en_createCodec E)"
  by (simp add: sent_request_def open_request_def reads_response_def)

text \<open>The next data of a response, up to \<open>upstreamData\<close>.\<close>

lemma response_started:
  assumes "routed am ur b rm" and "open_request ur host" and "reads_response E am ur c"
  obtains am' rd where
    "Router_onUpstreamData E mid 0 data es (put_message mid am px) =
       and_then (ActiveMessage_upstreamData E mid data (put_message mid am' px)) (after_upstream_data E mid es)"
    "routed am' (ur\<lparr>ur_response_started := True\<rparr>) b rm"
    "am_response_decoder am' = Some rd" "ready_decoder rd" "rd_codec rd = c"
  using assms(1)
proof (rule routedE)
  fix r
  assume r: "am_filters am = [RouterFilter r]" "rt_upstream_request r = Some ur"
    "rt_upstream_request_buffer r = b" "\<not> rt_filter_complete r"
    "am_decoder_filters am = [\<lparr>fw_handle = 0, fw_dual_filter = True\<rparr>]"
    "am_encoder_filters am = [\<lparr>fw_handle = 0, fw_dual_filter = True\<rparr>]"
    "am_metadata am = Some rm" "\<not> am_local_response_sent am"
  show thesis
  proof (cases "ur_response_started ur")
    case True
    then obtain rd where rd: "am_response_decoder am = Some rd" "ready_decoder rd" "rd_codec rd = c"
      using assms(3) by (auto simp: reads_response_def)
    have ur: "ur\<lparr>ur_response_started := True\<rparr> = ur" using True by simp
    show thesis
      by (rule that [of am rd])
        (use r rd assms True ur in \<open>simp_all add: Router_onUpstreamData_def open_request_def
          after_upstream_data_def routed_def\<close>)
  next
    case False
    then have "am_response_decoder am = None" "c = en_createCodec E"
      using assms(3) by (simp_all add: reads_response_def)
    then show thesis
      by (intro that [of "am\<lparr>am_response_decoder := Some (ActiveResponseDecoder E),
            am_filters := [RouterFilter (r\<lparr>rt_upstream_request := Some (ur\<lparr>ur_response_started := True\<rparr>)\<rparr>)]\<rparr>"
            "ActiveResponseDecoder E"])
        (use r assms False in \<open>simp_all add: Router_onUpstreamData_def open_request_def
          after_upstream_data_def ActiveMessage_startUpstreamResponse_def routed_def\<close>)
  qed
qed

text \<open>Data that does not complete the response: it is kept, and nothing else happens.\<close>

lemma response_awaited:
  assumes "routed am ur b rm" and "open_request ur host" and "reads_response E am ur c"
    and "codec_decode (en_codec E) c data (MetadataImpl (en_buffer E) (en_headers E)) =
      (Inr DecodeWaitForData, (c', rest, m))"
  obtains am' ur' where
    "Router_onUpstreamData E mid 0 data False (put_message mid am px) = (Inr rest, put_message mid am' px)"
    "routed am' ur' b rm" "open_request ur' host" "reads_response E am' ur' c'"
proof -
  obtain am1 rd where s: "Router_onUpstreamData E mid 0 data False (put_message mid am px) =
       and_then (ActiveMessage_upstreamData E mid data (put_message mid am1 px)) (after_upstream_data E mid False)"
    "routed am1 (ur\<lparr>ur_response_started := True\<rparr>) b rm"
    "am_response_decoder am1 = Some rd" "ready_decoder rd" "rd_codec rd = c"
    using response_started [OF assms(1-3)] .
  obtain rd' where rd': "ActiveResponseDecoder_onData E mid (rd, data, put_message mid am1 px) =
      (Inr MoreData, (rd', rest, put_message mid am1 px))" "ready_decoder rd'" "rd_codec rd' = c'"
    using response_incomplete [OF s(4)] assms(4) s(5) by metis
  have "ActiveMessage_upstreamData E mid data (put_message mid am1 px) =
      (Inr (MoreData, rest), put_message mid (am1\<lparr>am_response_decoder := Some rd'\<rparr>) px)"
    using rd'(1) s(3) by (simp add: ActiveMessage_upstreamData_def ActiveMessage_upstreamData_try_def)
  then show thesis
    using s(1,2) rd'(2,3) assms(2)
    by (intro that [of "am1\<lparr>am_response_decoder := Some rd'\<rparr>" "ur\<lparr>ur_response_started := True\<rparr>"])
      (simp_all add: after_upstream_data_def routed_def open_request_def reads_response_def)
qed

lemma response_forwarded:
  assumes "response_codec_done E c data c' rest m"
    and "routed am ur b rm" and "open_request ur host" and "reads_response E am ur c"
    and "cx_state px = ConnOpen" and "md_request_id rm = md_request_id m"
  obtains am' r' where
    "Router_onUpstreamData E mid 0 data es (put_message mid am px) =
       (Inr rest, put_message mid am' (emit (UpstreamRelease mid) (deferredMessage mid
         (count_response m (emit (DownstreamWrite (written E (md_origin_message m)) False)
            (emit (PutResult host (response_result m)) px))))))"
    "am_filters am' = [RouterFilter r']" "rt_upstream_request r' = None"
    "am_decoder_filters am' = [\<lparr>fw_handle = 0, fw_dual_filter = True\<rparr>]"
    "am_encoder_filters am' = [\<lparr>fw_handle = 0, fw_dual_filter = True\<rparr>]"
proof -
  obtain am1 rd where s: "Router_onUpstreamData E mid 0 data es (put_message mid am px) =
       and_then (ActiveMessage_upstreamData E mid data (put_message mid am1 px)) (after_upstream_data E mid es)"
    "routed am1 (ur\<lparr>ur_response_started := True\<rparr>) b rm"
    "am_response_decoder am1 = Some rd" "ready_decoder rd" "rd_codec rd = c"
    using response_started [OF assms(2-4)] .
  note completes = assms(1) [folded s(5)]
  have host: "ur_upstream_host (ur\<lparr>ur_response_started := True\<rparr>) = Some host"
    "ur_conn_data ur"
    using assms(3) by (simp_all add: open_request_def)
  let ?px = "count_response m (emit (DownstreamWrite (written E (md_origin_message m)) False)
                 (emit (PutResult host (response_result m)) px))"
  obtain am2 where t: "ActiveMessage_upstreamData_try E mid data (put_message mid am1 px) =
        (let px' = put_message mid am2 ?px
        in if md_request_id rm \<noteq> md_request_id m then
             (Inl (request_id_mismatch (en_applicationProtocol E) (md_request_id rm) (md_request_id m)), px')
           else (Inr (Complete, rest), deferredMessage mid px'))"
    "routed am2 (ur\<lparr>ur_response_started := True\<rparr>) b rm"
    using upstreamData_response [OF s(4) completes s(2) host(1) s(3) assms(5)] .
  have u: "ActiveMessage_upstreamData E mid data (put_message mid am1 px) =
      (Inr (Complete, rest), put_message mid am2 (deferredMessage mid ?px))"
    using t(1) assms(6) by (simp add: ActiveMessage_upstreamData_def)
  obtain r2 where r2: "am_filters am2 = [RouterFilter r2]"
    "rt_upstream_request r2 = Some (ur\<lparr>ur_response_started := True\<rparr>)"
    "am_decoder_filters am2 = [\<lparr>fw_handle = 0, fw_dual_filter = True\<rparr>]"
    "am_encoder_filters am2 = [\<lparr>fw_handle = 0, fw_dual_filter = True\<rparr>]"
    using t(2) by (rule routedE)
  show thesis
    by (rule that [of "am2\<lparr>am_filters := [RouterFilter (r2\<lparr>rt_upstream_request := None\<rparr>)]\<rparr>"
          "r2\<lparr>rt_upstream_request := None\<rparr>"])
      (use s(1) u r2 host(2) in \<open>simp_all add: after_upstream_data_def UpstreamRequest_onResponseComplete_def Router_cleanup_def
        Let_def\<close>)
qed

text \<open>
  A response whose id is not the request's: it was already forwarded when the ids are compared;
  then the client gets an error as well.
\<close>

definition mismatch_text :: "('c, 'x, 'b, 'h, 'f) env \<Rightarrow> u64 \<Rightarrow> u64 \<Rightarrow> string" where
  "mismatch_text E own other =
     ''meta protocol '' @ en_applicationProtocol E @ '' response: request ID is not equal, '' @
     dec_nat (unat own) @ '':'' @ dec_nat (unat other)"

lemma response_mismatch:
  assumes "response_codec_done E c data c' rest m"
    and "routed am ur b rm" and "open_request ur host" and "reads_response E am ur c"
    and "cx_state px = ConnOpen" and "md_request_id rm \<noteq> md_request_id m"
    and "replies E rm (mk_error BadResponse (mismatch_text E (md_request_id rm) (md_request_id m))) px"
  obtains am' left where
    "Router_onUpstreamData E mid 0 data es (put_message mid am px) =
       (Inr left, put_message mid am' (emit (UpstreamClose mid) (deferredMessage mid
         (replied E rm (mk_error BadResponse (mismatch_text E (md_request_id rm) (md_request_id m)))
           (inc response_decoding_error
             (count_response m (emit (DownstreamWrite (written E (md_origin_message m)) False)
               (emit (PutResult host (response_result m)) px))))))))"
proof -
  obtain am1 rd where s: "Router_onUpstreamData E mid 0 data es (put_message mid am px) =
       and_then (ActiveMessage_upstreamData E mid data (put_message mid am1 px)) (after_upstream_data E mid es)"
    "routed am1 (ur\<lparr>ur_response_started := True\<rparr>) b rm"
    "am_response_decoder am1 = Some rd" "ready_decoder rd" "rd_codec rd = c"
    using response_started [OF assms(2-4)] .
  note completes = assms(1) [folded s(5)]
  have host: "ur_upstream_host (ur\<lparr>ur_response_started := True\<rparr>) = Some host"
    "ur_conn_data ur" "\<not> ur_conn_pool_handle ur"
    using assms(3) by (simp_all add: open_request_def)
  let ?px = "count_response m (emit (DownstreamWrite (written E (md_origin_message m)) False)
                 (emit (PutResult host (response_result m)) px))"
  let ?err = "mk_error BadResponse (mismatch_text E (md_request_id rm) (md_request_id m))"
  obtain am2 where t: "ActiveMessage_upstreamData_try E mid data (put_message mid am1 px) =
        (let px' = put_message mid am2 ?px
        in if md_request_id rm \<noteq> md_request_id m then
             (Inl (request_id_mismatch (en_applicationProtocol E) (md_request_id rm) (md_request_id m)), px')
           else (Inr (Complete, rest), deferredMessage mid px'))"
    "routed am2 (ur\<lparr>ur_response_started := True\<rparr>) b rm"
    using upstreamData_response [OF s(4) completes s(2) host(1) s(3) assms(5)] .
  obtain r2 where r2: "am_filters am2 = [RouterFilter r2]"
    "rt_upstream_request r2 = Some (ur\<lparr>ur_response_started := True\<rparr>)" "am_metadata am2 = Some rm"
    using t(2) by (rule routedE)
  let ?px3 = "replied E rm ?err (inc response_decoding_error ?px)"
  have codec: "cm_codec (count_response m q) = cm_codec q" "cx_state (count_response m q) = cx_state q" for q
    by (simp_all add: count_response_def Let_def split: ResponseStatus.splits)
  have reply: "replies E rm ?err (inc response_decoding_error ?px)"
    using assms(7) by (simp add: replies_def codec)
  have e: "ActiveMessage_onError E mid (mismatch_text E (md_request_id rm) (md_request_id m))
      (inc response_decoding_error (put_message mid am2 ?px)) =
      (Inr (), put_message mid (am2\<lparr>am_local_response_sent := True\<rparr>) (deferredMessage mid ?px3))"
    using AM_sendLocalReply_replied [OF reply r2(3), of mid] r2(3)
    by (simp add: ActiveMessage_onError_def Let_def)
  have u: "ActiveMessage_upstreamData E mid data (put_message mid am1 px) =
      (Inr (Reset, data), put_message mid (am2\<lparr>am_local_response_sent := True\<rparr>) (deferredMessage mid ?px3))"
    using t(1) assms(6) e
    by (simp add: ActiveMessage_upstreamData_def request_id_mismatch_def mismatch_text_def)
  show thesis
    by (rule that)
      (use s(1) u r2 host in \<open>simp add: after_upstream_data_def UpstreamRequest_resetStream_def Let_def\<close>)
qed

subsection \<open>The upstream connection closes\<close>

text \<open>
  The upstream closes before it answered: the client gets a local reply, and nothing else happens:
  the message stays in the list of the connection manager.
\<close>

lemma upstream_closes:
  assumes "routed am ur b rm" and "sent_request ur host" and "\<not> ur_stream_reset ur"
    and "md_message_type rm \<noteq> Oneway"
    and "replies E rm (pool_failure_error RemoteConnectionFailure host) px"
  obtains am' where
    "Router_onEvent E mid 0 RemoteClose (put_message mid am px) =
       (Inr (), put_message mid am' (emit (PutResult host LocalOriginConnectFailed)
         (replied E rm (pool_failure_error RemoteConnectionFailure host) px)))"
    "am_local_response_sent am'"
  using assms(1)
proof (rule routedE)
  fix r
  assume r: "am_filters am = [RouterFilter r]" "rt_upstream_request r = Some ur"
    "rt_upstream_request_buffer r = b" "\<not> rt_filter_complete r"
    "am_metadata am = Some rm" "\<not> am_local_response_sent am"
  have ur: "ur_upstream_host ur = Some host" "\<not> ur_response_complete ur"
    using assms(2) by (simp_all add: sent_request_def)
  have "UpstreamRequest_onResetStream E mid 0 RemoteConnectionFailure (put_message mid am px) =
    (Inr (), put_message mid (am\<lparr>am_local_response_sent := True\<rparr>)
       (replied E rm (pool_failure_error RemoteConnectionFailure host) px))"
    using onResetStream_twoway [OF r(1,2) ur(1) r(4,5) assms(4,5)] .
  then show thesis
    using r ur assms(3)
    by (intro that [of "am\<lparr>am_local_response_sent := True\<rparr>"])
      (simp_all add: Router_onEvent_def with_host_def)
qed

end
