(* ===== verification/Proxy_Dispatch.thy ===== *)
theory Proxy_Dispatch
  imports Proxy_Invariant
begin

text \<open>
  The loop of \<open>dispatch\<close> ends. The locale \<open>proxy_env\<close> says what the proxy relies on: the codec's
  contract, kept by encoding as well. The connection manager meets the contract of a decoder's
  owner, so every turn of the loop takes a byte off the request buffer or reports underflow, and
  between two events an open connection is always ready for the next byte.
\<close>

subsection \<open>The interface the proxy relies on\<close>

locale proxy_env = codec_contract "en_buffer E" content "en_codec E" codec_inv
  for E :: "('c, 'x, 'b, 'h, 'f) env" and content :: "'b \<Rightarrow> u8 list" and codec_inv :: "'c \<Rightarrow> bool" +
  assumes create_inv: "codec_inv (en_createCodec E)"
    and encode_inv: "codec_keeps E codec_inv"
begin

lemma keeps_codec_inv: "keeps E px py \<Longrightarrow> codec_inv (cm_codec px) \<Longrightarrow> codec_inv (cm_codec py)"
  using encode_inv unfolding keeps_def by blast

lemma request_decode_eq:
  assumes "request_decode E m px = (r, px')"
  obtains c b m' r' where
    "codec_decode (en_codec E) (cm_codec px) (cm_request_buffer px) m = (r', (c, b, m'))"
    "px' = px\<lparr>cm_codec := c, cm_request_buffer := b\<rparr>"
    "r = (case r' of Inl e \<Rightarrow> Inl e | Inr st \<Rightarrow> Inr (st, m'))"
proof -
  obtain r' c b m' where d:
    "codec_decode (en_codec E) (cm_codec px) (cm_request_buffer px) m = (r', (c, b, m'))"
    by (cases "codec_decode (en_codec E) (cm_codec px) (cm_request_buffer px) m") auto
  show thesis
    by (rule that [OF d]; cases r') (use assms d in \<open>auto simp: request_decode_def Let_def\<close>)
qed

end

lemma newStream_fields:
  assumes "ConnectionManager_newStream E px = (r, px')"
  shows "cm_decoder px' = cm_decoder px" "cm_codec px' = cm_codec px"
    "cm_request_buffer px' = cm_request_buffer px" "cx_state px' = cx_state px"
  using assms by (auto simp: ConnectionManager_newStream_def Let_def inc_def)

lemma keeps_handed:
  "ActiveMessage_onStreamDecoded E mid m mu px = (r, px') \<Longrightarrow> keeps E px px'"
  "ConnectionManager_onHeartbeat E m px = (r, px') \<Longrightarrow> keeps E px px'"
  using keeps_onStreamDecoded [OF keeps_refl, of E px mid m mu]
    keeps_onHeartbeat [OF keeps_refl, of E px m] by simp_all

sublocale proxy_env \<subseteq> requests: decoder_owner "request_ops E" "\<lambda>px. codec_inv (cm_codec px)"
proof (unfold_locales, goal_cases)
  case (4 m s)
  then show ?case
    by (cases "request_decode E m s") (auto simp: request_ops_def elim: request_decode_eq)
next
  case (5 s m r s')
  then show ?case
    by (auto simp: request_ops_def elim!: request_decode_eq split: sum.splits dest: decode_inv)
next
  case (6 s m m' s')
  then show ?case
    by (auto simp: request_ops_def length_content elim!: request_decode_eq split: sum.splits
        dest: decode_progress)
qed (auto simp: request_ops_def dest: newStream_fields keeps_handed keeps_codec_inv
      intro: keeps_codec_inv simp: keeps_def)


subsection \<open>Between two events\<close>

text \<open>
  \<open>awaits\<close>: the decoder is between two messages or waits inside one, and the codec is in a state it
  can go on from. An open connection always is.
\<close>

context proxy_env
begin

definition awaits :: "('c, 'x, 'b, 'h, 'f) proxy \<Rightarrow> bool" where
  "awaits px = (codec_inv (cm_codec px) \<and> requests.idle px)"

definition open_awaits :: "('c, 'x, 'b, 'h, 'f) proxy \<Rightarrow> bool" where
  "open_awaits px = (cx_state px = ConnOpen \<longrightarrow> awaits px)"

lemma awaits_eq:
  "awaits px = (codec_inv (cm_codec px) \<and> (cm_decoder px = new_decoder \<or>
     cm_decoder px = \<lparr>md_state_machine = Some WaitForData, md_stream = False, md_decode_started = True\<rparr>))"
  by (simp only: awaits_def requests.idle_def) (simp add: request_ops_def)

lemma awaits_keeps: "awaits px \<Longrightarrow> keeps E px py \<Longrightarrow> awaits py"
  using keeps_codec_inv by (auto simp: awaits_eq keeps_def)

lemma open_awaits_keeps: "open_awaits px \<Longrightarrow> keeps E px py \<Longrightarrow> open_awaits py"
  using awaits_keeps by (auto simp: open_awaits_def keeps_def)

lemma awaits_init: "awaits (ConnectionManager E)"
  by (simp add: awaits_eq ConnectionManager_def create_inv)

lemma awaits_buffer [simp]: "awaits (px\<lparr>cm_request_buffer := b\<rparr>) = awaits px"
  by (simp add: awaits_eq)

lemma awaits_stopped [simp]: "awaits (px\<lparr>cm_stopped := b\<rparr>) = awaits px"
  by (simp add: awaits_eq)

lemma open_awaits_fields [simp]:
  "open_awaits (px\<lparr>cm_request_buffer := b\<rparr>) = open_awaits px"
  "open_awaits (px\<lparr>cm_stopped := b'\<rparr>) = open_awaits px"
  "open_awaits (px\<lparr>cm_half_closed := b'\<rparr>) = open_awaits px"
  by (simp_all add: open_awaits_def awaits_eq)

subsection \<open>The loop\<close>

lemma dispatch_loop_returns:
  "awaits px \<Longrightarrow> \<exists>r. dispatch_loop E px = Some r \<and> (\<forall>px'. r = (Inr (), px') \<longrightarrow> awaits px')"
proof (induction "length (content (cm_request_buffer px))" arbitrary: px rule: less_induct)
  case less
  show ?case
  proof (cases "Decoder_onData (request_ops E) px")
    case (Pair x px')
    show ?thesis
    proof (cases x)
      case (Inl e)
      then show ?thesis using Pair by (simp add: dispatch_loop.simps)
    next
      case (Inr y)
      obtain fs underflow where y: "y = (fs, underflow)" by fastforce
      have px': "awaits px'" "underflow \<or> length (content (cm_request_buffer px')) < length (content (cm_request_buffer px))"
        using requests.onData_returns [of px fs underflow px'] less.prems Pair Inr y
        by (simp_all add: awaits_def request_ops_def length_content)
      show ?thesis
      proof (cases underflow)
        case True
        then show ?thesis using Pair Inr y px' by (simp add: dispatch_loop.simps)
      next
        case False
        then have "dispatch_loop E px = dispatch_loop E px'"
          using Pair Inr y by (simp add: dispatch_loop.simps [of E px])
        then show ?thesis using less.hyps [of px'] px' False by simp
      qed
    qed
  qed
qed

text \<open>An error that leaves the loop closes the connection.\<close>

lemma closed_after_error:
  "cx_state (resetAllMessages l (inc request_decoding_error (connection_close E NoFlush px))) \<noteq> ConnOpen"
proof -
  let ?px = "connection_close E NoFlush px"
  have "cx_state ?px \<noteq> ConnOpen"
  proof (cases "cx_state px = ConnClosed")
    case False
    let ?py = "emit (DownstreamClose NoFlush) (px\<lparr>cx_state := ConnClosed\<rparr>)"
    have "keeps E ?py (ConnectionManager_onEvent LocalClose ?py)" by simp
    then show ?thesis using False by (auto simp: connection_close_def keeps_def emit_def)
  qed (simp add: connection_close_def)
  moreover have "keeps E ?px (resetAllMessages l (inc request_decoding_error ?px))"
    by (intro keeps_intro keeps_refl) simp
  ultimately show ?thesis by (auto simp: keeps_def)
qed

subsection \<open>Every call returns\<close>

text \<open>What a call that may not return does: it returns, and where it does not throw, \<open>P\<close> holds.\<close>

definition ends_with ::
  "(('c, 'x, 'b, 'h, 'f) proxy \<Rightarrow> bool) \<Rightarrow> ('a, ('c, 'x, 'b, 'h, 'f) proxy) outcome option \<Rightarrow> bool" where
  "ends_with P r = (\<exists>r'. r = Some r' \<and> (\<forall>x px. r' = (Inr x, px) \<longrightarrow> P px))"

lemma ends_with_and_then:
  assumes "ends_with P r" and "\<And>x px y py. P px \<Longrightarrow> f x px = (Inr y, py) \<Longrightarrow> Q py"
  shows "ends_with Q (map_option (\<lambda>r. and_then r f) r)"
proof -
  obtain x px where r: "r = Some (x, px)" and P: "\<And>y. x = Inr y \<Longrightarrow> P px"
    using assms(1) by (auto simp: ends_with_def)
  show ?thesis
  proof (cases x)
    case (Inr y)
    then show ?thesis using r P assms(2) by (auto simp: ends_with_def)
  qed (simp add: ends_with_def r)
qed

lemma ends_with_Some: "(\<And>x py. r = (Inr x, py) \<Longrightarrow> P py) \<Longrightarrow> ends_with P (Some r)"
  by (auto simp: ends_with_def)

lemma dispatch_ends:
  assumes "awaits px"
  shows "ends_with open_awaits (dispatch E px)"
proof (cases "buf_length (en_buffer E) (cm_request_buffer px) = 0 \<or> cm_stopped px")
  case True
  then show ?thesis using assms by (auto simp: dispatch_def ends_with_def open_awaits_def)
next
  case False
  obtain r where r: "dispatch_loop E px = Some r" "\<forall>px'. r = (Inr (), px') \<longrightarrow> awaits px'"
    using dispatch_loop_returns [OF assms] by blast
  have "open_awaits px'" if "dispatch_catch E r = (Inr x, px')" for x px'
    using that r(2) closed_after_error
    by (auto simp: dispatch_catch_def open_awaits_def split: prod.splits sum.splits if_splits)
  then show ?thesis
    using r(1) False by (auto simp: dispatch_def intro!: ends_with_Some)
qed

lemma open_awaits_closes:
  assumes "open_awaits px"
  shows "open_awaits (connection_close E FlushWrite (resetAllMessages False px))"
proof -
  have "keeps E px (connection_close E FlushWrite (resetAllMessages False px))"
    by (intro keeps_intro) simp
  then show ?thesis by (rule open_awaits_keeps [OF assms])
qed

lemma continueDecoding_ends:
  assumes "awaits px"
  shows "ends_with open_awaits (ConnectionManager_continueDecoding E px)"
  unfolding ConnectionManager_continueDecoding_def
  by (rule ends_with_and_then [OF dispatch_ends])
    (use assms open_awaits_closes in \<open>auto split: if_splits\<close>)

lemma onData_ends:
  assumes "awaits px"
  shows "ends_with open_awaits (ConnectionManager_onData E data es px)"
  unfolding ConnectionManager_onData_def Let_def case_prod_beta
proof (rule ends_with_and_then [OF dispatch_ends], goal_cases)
  case (2 u s y py)
  then have "py = s \<or> py = s\<lparr>cm_half_closed := True\<rparr> \<or>
      py = connection_close E FlushWrite (resetAllMessages False s)"
    by (auto simp: with_message_def panic_def and_then_def
        split: if_splits list.splits option.splits prod.splits sum.splits)
  then show ?case
    using 2(1) open_awaits_closes [OF 2(1)] by auto
qed (use assms in simp)

lemma DecoderFilter_ends:
  assumes "awaits px"
  shows "ends_with open_awaits (DecoderFilter_continueDecoding E mid pos px)"
proof -
  obtain r s where r: "resume_filters E mid pos px = (r, s)" by fastforce
  have "keeps E px s" using keeps_resume_filters [OF keeps_refl, of E px mid pos] r by simp
  then have s: "awaits s" "open_awaits s"
    using awaits_keeps [OF assms] by (simp_all add: open_awaits_def)
  then show ?thesis
    using r continueDecoding_ends [OF s(1)]
    by (auto simp: DecoderFilter_continueDecoding_def ends_with_def split: sum.split)
qed

lemma Router_ends:
  assumes "awaits px"
  shows "ends_with open_awaits (Router_continueDecoding E mid fi px)"
  using DecoderFilter_ends [OF assms]
  by (auto simp: Router_continueDecoding_def ends_with_def panic_def split: option.split)

lemma onPoolReady_ends:
  assumes "awaits px"
  shows "ends_with open_awaits (UpstreamRequest_onPoolReady E mid fi host px)"
proof -
  obtain r s where r: "UpstreamRequest_pool_connected mid fi host px = (r, s)" by fastforce
  have "keeps E px s" using keeps_pool_connected [OF keeps_refl, of E px mid fi host] r by simp
  then have s: "awaits s" "open_awaits s"
    using awaits_keeps [OF assms] by (simp_all add: open_awaits_def)
  show ?thesis
  proof (cases r)
    case (Inl e)
    then show ?thesis using r by (simp add: UpstreamRequest_onPoolReady_def ends_with_def)
  next
    case (Inr b)
    have "ends_with open_awaits (if b then Router_continueDecoding E mid fi s else Some (Inr (), s))"
      using Router_ends [OF s(1)] s(2) by (auto intro: ends_with_Some)
    then show ?thesis
      unfolding UpstreamRequest_onPoolReady_def r Inr prod.case sum.case
    proof (rule ends_with_and_then)
      fix x t y t'
      assume t: "open_awaits t" "UpstreamRequest_send_request E mid fi t = (Inr y, t')"
      have "keeps E t (snd (UpstreamRequest_send_request E mid fi t))" by (intro keeps_intro) simp
      then show "open_awaits t'" using open_awaits_keeps t by fastforce
    qed
  qed
qed

lemma onPoolFailure_ends:
  assumes "awaits px"
  shows "ends_with open_awaits (UpstreamRequest_onPoolFailure E mid fi reason host px)"
proof -
  obtain r s where r: "UpstreamRequest_pool_failed E mid fi reason host px = (r, s)" by fastforce
  have k: "keeps E px s" using keeps_pool_failed [OF keeps_refl, of E px mid fi reason host] r by simp
  obtain r' s' where r': "report_pool_failure reason host s = (r', s')" by fastforce
  have "keeps E px s'" using keeps_report_pool_failure [OF k, of reason host] r' by simp
  then have s: "awaits s" "awaits s'" "open_awaits s"
    using awaits_keeps [OF assms] k by (simp_all add: open_awaits_def)
  then show ?thesis
    using r r' Router_ends [OF s(2)]
    by (auto simp: UpstreamRequest_onPoolFailure_def split: sum.split intro!: ends_with_Some)
qed

lemma open_awaits_destroy:
  assumes "open_awaits px" and "ActiveMessage_destroy mid (px\<lparr>ev_deferred := rest\<rparr>) = (Inr (), px')"
  shows "open_awaits px'"
proof -
  let ?px = "dec request_active (px\<lparr>ev_deferred := rest\<rparr>)"
  obtain s where "keeps E ?px s" and px': "px' = s\<lparr>st_messages := (st_messages s)(mid := None)\<rparr>"
    by (rule destroy_keeps [OF assms(2)]) (rule that)
  moreover have "open_awaits ?px" using assms(1) by (simp add: open_awaits_def awaits_eq dec_def)
  ultimately show ?thesis
    using open_awaits_keeps [of ?px s] by (simp add: px' open_awaits_def awaits_eq)
qed

text \<open>
  Every event on an open connection is handled to the end, and leaves the connection, where it is
  still open, ready for the next.
\<close>

lemma handle_ends:
  assumes "cx_state px = ConnOpen" and "open_awaits px"
  shows "ends_with open_awaits (handle E ev px)"
proof -
  have a: "awaits px" using assms by (simp add: open_awaits_def)
  have k: "ends_with open_awaits (Some r)" if "keeps E px (snd r)" for r :: "(unit, _) outcome"
    using that open_awaits_keeps [OF assms(2)] by (auto intro!: ends_with_Some)
  show ?thesis
  proof (cases ev)
    case (DownstreamEvent event)
    have "keeps E px (ConnectionManager_onEvent event (px\<lparr>cx_state := ConnClosed\<rparr>))"
      by (intro keeps_intro) simp_all
    then show ?thesis using DownstreamEvent k by simp
  next
    case AboveHighWatermark
    then show ?thesis using k by (simp add: onAboveWriteBufferHighWatermark_def)
  next
    case BelowLowWatermark
    then show ?thesis using k by (simp add: onBelowWriteBufferLowWatermark_def)
  next
    case (UpstreamData mid fi data es)
    have "keeps E px (snd (and_then (Router_onUpstreamData E mid fi data es px) (\<lambda>_ px. (Inr (), px))))"
      by (intro keeps_intro keeps_refl)
    then show ?thesis using UpstreamData k by simp
  next
    case (UpstreamEvent mid fi event)
    have "keeps E px (snd (Router_onEvent E mid fi event px))" by (intro keeps_intro keeps_refl)
    then show ?thesis using UpstreamEvent k by simp
  next
    case DeferredDelete
    then show ?thesis
      using assms(2) open_awaits_destroy
      by (auto split: list.split intro!: ends_with_Some)
  qed (use a in \<open>simp_all add: onData_ends DecoderFilter_ends onPoolReady_ends onPoolFailure_ends\<close>)
qed

text \<open>In every reachable state.\<close>

lemma reachable_open_awaits: "reachable E px \<Longrightarrow> open_awaits px"
proof (induction rule: reachable.induct)
  case reachable_init
  then show ?case using awaits_init by (simp add: open_awaits_def)
next
  case (reachable_step px ev px')
  show ?case
  proof (cases "cx_state px = ConnOpen")
    case True
    then show ?thesis
      using handle_ends [OF True reachable_step.IH, of ev] reachable_step.hyps(3)
      by (auto simp: ends_with_def)
  next
    case False
    then have "cx_state px' \<noteq> ConnOpen"
      using not_open.P_handle [OF _ reachable_step.hyps(3)] by simp
    then show ?thesis by (simp add: open_awaits_def)
  qed
qed

lemma reachable_handle_returns:
  assumes "reachable E px" and "cx_state px = ConnOpen"
  shows "\<exists>r. handle E ev px = Some r"
  using handle_ends [OF assms(2) reachable_open_awaits [OF assms(1)], of ev]
  by (auto simp: ends_with_def)

end

end
