(* ===== verification/Proxy_Streams.thy ===== *)
theory Proxy_Streams
  imports Proxy_Responses Proxy_Dispatch
begin

text \<open>
  What a piece of data from the client does, as an event: it completes a request, completes a
  heartbeat, leaves the codec waiting, or is not the protocol's. Each lemma runs \<open>onData\<close>,
  \<open>dispatch\<close>, the loop, the decoder and its state machine, and leaves what the callback does.
\<close>

subsection \<open>The decoder at the start of a read\<close>

definition started :: "msg_decoder \<Rightarrow> msg_decoder" where
  "started d = (if md_decode_started d then d
     else \<lparr>md_state_machine = Some OnDecodeStreamData, md_stream = False, md_decode_started = True\<rparr>)"

text \<open>The state in which a callback runs, and the codec's answer on the bytes that are there.\<close>

definition in_decode ::
  "'c \<Rightarrow> 'b \<Rightarrow> ('c, 'x, 'b, 'h, 'f) proxy \<Rightarrow> ('c, 'x, 'b, 'h, 'f) proxy" where
  "in_decode c rest px = px\<lparr>cm_decoder := started (cm_decoder px), cm_codec := c, cm_request_buffer := rest\<rparr>"

definition in_stream ::
  "('c, 'x, 'b, 'h, 'f) env \<Rightarrow> 'c \<Rightarrow> 'b \<Rightarrow> ('c, 'x, 'b, 'h, 'f) proxy \<Rightarrow> ('c, 'x, 'b, 'h, 'f) proxy" where
  "in_stream E c rest px =
     (let px = inc request_active (in_decode c rest px)
      in px\<lparr>cm_decoder := (cm_decoder px)\<lparr>md_stream := True\<rparr>, st_next := st_next px + 1,
            cm_active_message_list := st_next px # cm_active_message_list px\<rparr>)"

definition decodes ::
  "('c, 'x, 'b, 'h, 'f) env \<Rightarrow> ('c, 'x, 'b, 'h, 'f) proxy \<Rightarrow> 'b \<Rightarrow> exn + DecodeStatus \<Rightarrow>
   'c \<Rightarrow> 'b \<Rightarrow> ('x, 'b, 'h) metadata \<Rightarrow> bool" where
  "decodes E px data result c rest m =
     (let b = fst (buf_move_all (en_buffer E) (cm_request_buffer px) data)
      in buf_length (en_buffer E) b \<noteq> 0 \<and>
         codec_decode (en_codec E) (cm_codec px) b (MetadataImpl (en_buffer E) (en_headers E)) =
           (result, (c, rest, m)))"

definition listens :: "('c, 'x, 'b, 'h, 'f) proxy \<Rightarrow> bool" where
  "listens px = (decoder_idle (cm_decoder px) \<and> \<not> cm_stopped px)"

lemma started_fields [simp]:
  "decoder_idle d \<Longrightarrow> md_decode_started (started d)"
  "decoder_idle d \<Longrightarrow> md_state_machine (started d) \<noteq> None"
  "decoder_idle d \<Longrightarrow> md_state_machine (started d) \<noteq> Some Done"
  "decoder_idle d \<Longrightarrow> \<not> md_stream (started d)"
  by (auto simp: decoder_idle_def started_def new_decoder_def)

subsection \<open>One turn of the loop\<close>

lemma request_ops_simps [simp]:
  "do_get (request_ops E) = cm_decoder"
  "do_put (request_ops E) d px = px\<lparr>cm_decoder := d\<rparr>"
  "do_new_metadata (request_ops E) = MetadataImpl (en_buffer E) (en_headers E)"
  "do_decode (request_ops E) = request_decode E"
  "do_data_length (request_ops E) px = buf_length (en_buffer E) (cm_request_buffer px)"
  "do_newStream (request_ops E) = ConnectionManager_newStream E"
  "do_onStreamDecoded (request_ops E) = ActiveMessage_onStreamDecoded E"
  "do_onHeartbeat (request_ops E) = ConnectionManager_onHeartbeat E"
  by (simp_all add: request_ops_def)

lemma request_start:
  assumes "decoder_idle (cm_decoder px)"
  shows "(if \<not> md_decode_started (cm_decoder px) then Decoder_start (request_ops E) px else px) =
      px\<lparr>cm_decoder := started (cm_decoder px)\<rparr>"
  using assms
  by (cases px) (auto simp: decoder_idle_def started_def Decoder_start_def modify_decoder_def
      new_decoder_def)

text \<open>The turn that hands a message over to \<open>onStreamDecoded\<close>, in the state \<open>in_stream\<close>.\<close>

lemma turn_done:
  assumes idle: "decoder_idle (cm_decoder px)"
    and dec: "codec_decode (en_codec E) (cm_codec px) (cm_request_buffer px)
      (MetadataImpl (en_buffer E) (en_headers E)) = (Inr DecodeDone, (c, rest, m))"
    and ty: "md_message_type m \<noteq> Heartbeat"
    and decoded: "ActiveMessage_onStreamDecoded E (st_next px) m MutationImpl
      (put_message (st_next px) (createFilterChain E (ActiveMessage (en_random E (st_next px))))
        (in_stream E c rest px)) = (Inr (), px')"
  shows "Decoder_onData (request_ops E) px =
    (Inr (Continue, buf_length (en_buffer E) rest = 0), px'\<lparr>cm_decoder := new_decoder\<rparr>)"
proof -
  let ?in = "put_message (st_next px) (createFilterChain E (ActiveMessage (en_random E (st_next px))))
        (in_stream E c rest px)"
  have k: "cm_decoder px' = (started (cm_decoder px))\<lparr>md_stream := True\<rparr>" "cm_request_buffer px' = rest"
    using keeps_handed(1) [OF decoded]
    by (simp_all add: keeps_def put_message_def in_stream_def in_decode_def inc_def Let_def)
  have new: "Decoder_newStream (request_ops E) (in_decode c rest px) = (Inr (st_next px), ?in)"
    using idle
    by (simp add: Decoder_newStream_def ConnectionManager_newStream_def modify_decoder_def in_decode_def
        in_stream_def put_message_def inc_def Let_def)
  have "request_decode E (MetadataImpl (en_buffer E) (en_headers E)) (px\<lparr>cm_decoder := started (cm_decoder px)\<rparr>) =
      (Inr (DecodeDone, m), in_decode c rest px)"
    using dec by (simp add: request_decode_def in_decode_def Let_def)
  then have "onDecodeStream (request_ops E) (px\<lparr>cm_decoder := started (cm_decoder px)\<rparr>) = (Inr Done, px')"
    using ty new decoded by (simp add: onDecodeStream_def)
  then show ?thesis
    using idle k
    by (auto simp: Decoder_onData_def request_start DecoderStateMachine_run_def modify_decoder_def
        Decoder_complete_def new_decoder_def Let_def)
qed

lemma turn_heartbeat:
  assumes idle: "decoder_idle (cm_decoder px)"
    and dec: "codec_decode (en_codec E) (cm_codec px) (cm_request_buffer px)
      (MetadataImpl (en_buffer E) (en_headers E)) = (Inr DecodeDone, (c, rest, m))"
    and ty: "md_message_type m = Heartbeat"
    and beat: "ConnectionManager_onHeartbeat E m (in_decode c rest px) = (Inr (), px')"
  shows "Decoder_onData (request_ops E) px =
    (Inr (Continue, buf_length (en_buffer E) rest = 0), px'\<lparr>cm_decoder := new_decoder\<rparr>)"
proof -
  have k: "cm_decoder px' = started (cm_decoder px)" "cm_request_buffer px' = rest"
    using keeps_handed(2) [OF beat] by (simp_all add: keeps_def in_decode_def)
  have "request_decode E (MetadataImpl (en_buffer E) (en_headers E)) (px\<lparr>cm_decoder := started (cm_decoder px)\<rparr>) =
      (Inr (DecodeDone, m), in_decode c rest px)"
    using dec by (simp add: request_decode_def in_decode_def Let_def)
  then have "onDecodeStream (request_ops E) (px\<lparr>cm_decoder := started (cm_decoder px)\<rparr>) = (Inr Done, px')"
    using ty beat by (simp add: onDecodeStream_def)
  then show ?thesis
    using idle k started_fields(4) [OF idle]
    by (auto simp: Decoder_onData_def request_start DecoderStateMachine_run_def modify_decoder_def
        Decoder_complete_def new_decoder_def Let_def)
qed

lemma turn_throws:
  assumes idle: "decoder_idle (cm_decoder px)"
    and dec: "codec_decode (en_codec E) (cm_codec px) (cm_request_buffer px)
      (MetadataImpl (en_buffer E) (en_headers E)) = (Inl e, (c, rest, m))"
  shows "Decoder_onData (request_ops E) px = (Inl e, in_decode c rest px)"
proof -
  have "request_decode E (MetadataImpl (en_buffer E) (en_headers E)) (px\<lparr>cm_decoder := started (cm_decoder px)\<rparr>) =
      (Inl e, in_decode c rest px)"
    using dec by (simp add: request_decode_def in_decode_def Let_def)
  then show ?thesis
    using idle
    by (auto simp: Decoder_onData_def request_start DecoderStateMachine_run_def onDecodeStream_def
        Let_def)
qed

lemma turn_waits:
  assumes idle: "decoder_idle (cm_decoder px)"
    and dec: "codec_decode (en_codec E) (cm_codec px) (cm_request_buffer px)
      (MetadataImpl (en_buffer E) (en_headers E)) = (Inr DecodeWaitForData, (c, rest, m))"
  shows "Decoder_onData (request_ops E) px =
    (Inr (Continue, True), px\<lparr>cm_codec := c, cm_request_buffer := rest,
       cm_decoder := \<lparr>md_state_machine = Some WaitForData, md_stream = False, md_decode_started = True\<rparr>\<rparr>)"
proof -
  have "request_decode E (MetadataImpl (en_buffer E) (en_headers E)) (px\<lparr>cm_decoder := started (cm_decoder px)\<rparr>) =
      (Inr (DecodeWaitForData, m), in_decode c rest px)"
    using dec by (simp add: request_decode_def in_decode_def Let_def)
  then show ?thesis
    using idle started_fields [OF idle]
    by (cases "started (cm_decoder px)")
      (auto simp: Decoder_onData_def request_start DecoderStateMachine_run_def onDecodeStream_def
        modify_decoder_def in_decode_def Let_def)
qed

subsection \<open>The event\<close>

definition with_data :: "('c, 'x, 'b, 'h, 'f) env \<Rightarrow> 'b \<Rightarrow> ('c, 'x, 'b, 'h, 'f) proxy \<Rightarrow> ('c, 'x, 'b, 'h, 'f) proxy" where
  "with_data E data px =
     px\<lparr>cm_request_buffer := fst (buf_move_all (en_buffer E) (cm_request_buffer px) data)\<rparr>"

lemma with_data_fields [simp]:
  "cm_decoder (with_data E data px) = cm_decoder px" "cm_stopped (with_data E data px) = cm_stopped px"
  "cm_codec (with_data E data px) = cm_codec px" "st_next (with_data E data px) = st_next px"
  "in_decode c rest (with_data E data px) = in_decode c rest px"
  "in_stream E c rest (with_data E data px) = in_stream E c rest px"
  by (simp_all add: with_data_def in_stream_def in_decode_def)

lemma decodesD:
  assumes "decodes E px data result c rest m"
  shows "codec_decode (en_codec E) (cm_codec px) (cm_request_buffer (with_data E data px))
      (MetadataImpl (en_buffer E) (en_headers E)) = (result, (c, rest, m))"
    and "buf_length (en_buffer E) (cm_request_buffer (with_data E data px)) \<noteq> 0"
  using assms by (simp_all add: decodes_def with_data_def Let_def)

lemma handle_data:
  assumes "listens px" and "buf_length (en_buffer E) (cm_request_buffer (with_data E data px)) \<noteq> 0"
    and "Decoder_onData (request_ops E) (with_data E data px) = (r, px')"
    and "r = Inr (Continue, True) \<or> (\<exists>e. r = Inl e)"
  shows "handle E (DownstreamData data False) px =
    Some (dispatch_catch E (case r of Inl e \<Rightarrow> Inl e | Inr _ \<Rightarrow> Inr (), px'))"
proof -
  have "dispatch E (with_data E data px) = Some (dispatch_catch E (case r of Inl e \<Rightarrow> Inl e | Inr _ \<Rightarrow> Inr (), px'))"
    using assms by (auto simp: dispatch_def listens_def dispatch_loop.simps [of E "with_data E data px"])
  then show ?thesis
    by (cases "dispatch_catch E (case r of Inl e \<Rightarrow> Inl e | Inr _ \<Rightarrow> Inr (), px')"; cases "fst (dispatch_catch E (case r of Inl e \<Rightarrow> Inl e | Inr _ \<Rightarrow> Inr (), px'))")
      (simp_all add: ConnectionManager_onData_def with_data_def case_prod_beta Let_def)
qed

text \<open>
  The data completes a message and nothing is left: \<open>completes\<close>. A reachable open connection
  listens.
\<close>

definition completes ::
  "('c, 'x, 'b, 'h, 'f) env \<Rightarrow> ('c, 'x, 'b, 'h, 'f) proxy \<Rightarrow> 'b \<Rightarrow> 'c \<Rightarrow> ('x, 'b, 'h) metadata \<Rightarrow> bool" where
  "completes E px data c m =
     (\<exists>rest. decodes E px data (Inr DecodeDone) c rest m \<and> buf_length (en_buffer E) rest = 0)"

lemma reachable_listens:
  assumes "proxy_env E content codec_inv" and "reachable E px" and "cx_state px = ConnOpen"
  shows "listens px"
proof -
  have "proxy_env.awaits E codec_inv px"
    using proxy_env.reachable_open_awaits [OF assms(1,2)] assms(3)
    by (simp add: proxy_env.open_awaits_def [OF assms(1)])
  then show ?thesis
    using reachable_proxy_ok [OF assms(2)]
    by (auto simp: proxy_env.awaits_eq [OF assms(1)] listens_def decoder_idle_def proxy_ok_def)
qed

text \<open>What a request does when it is complete is what \<open>onStreamDecoded\<close> does with a fresh message.\<close>

lemma data_request:
  assumes "listens px" and "completes E px data c m" and "md_message_type m \<noteq> Heartbeat"
  obtains rest where "buf_length (en_buffer E) rest = 0"
    "\<And>px'. ActiveMessage_onStreamDecoded E (st_next px) m MutationImpl
       (put_message (st_next px) (createFilterChain E (ActiveMessage (en_random E (st_next px))))
          (in_stream E c rest px)) = (Inr (), px') \<Longrightarrow>
     handle E (DownstreamData data False) px = Some (Inr (), px'\<lparr>cm_decoder := new_decoder\<rparr>)"
proof -
  obtain rest where rest: "decodes E px data (Inr DecodeDone) c rest m" "buf_length (en_buffer E) rest = 0"
    using assms(2) by (auto simp: completes_def)
  show thesis
  proof (rule that [OF rest(2)])
    fix px'
    assume "ActiveMessage_onStreamDecoded E (st_next px) m MutationImpl
       (put_message (st_next px) (createFilterChain E (ActiveMessage (en_random E (st_next px))))
          (in_stream E c rest px)) = (Inr (), px')"
    then have "Decoder_onData (request_ops E) (with_data E data px) =
        (Inr (Continue, buf_length (en_buffer E) rest = 0), px'\<lparr>cm_decoder := new_decoder\<rparr>)"
      using assms decodesD [OF rest(1)] by (intro turn_done) (simp_all add: listens_def)
    then show "handle E (DownstreamData data False) px = Some (Inr (), px'\<lparr>cm_decoder := new_decoder\<rparr>)"
      using handle_data [OF assms(1) decodesD(2) [OF rest(1)]] rest(2) by (simp add: dispatch_catch_def)
  qed
qed

lemma data_heartbeat:
  assumes "listens px" and "completes E px data c m" and "md_message_type m = Heartbeat"
  obtains rest where "buf_length (en_buffer E) rest = 0"
    "\<And>px'. ConnectionManager_onHeartbeat E m (in_decode c rest px) = (Inr (), px') \<Longrightarrow>
     handle E (DownstreamData data False) px = Some (Inr (), px'\<lparr>cm_decoder := new_decoder\<rparr>)"
proof -
  obtain rest where rest: "decodes E px data (Inr DecodeDone) c rest m" "buf_length (en_buffer E) rest = 0"
    using assms(2) by (auto simp: completes_def)
  show thesis
  proof (rule that [OF rest(2)])
    fix px'
    assume "ConnectionManager_onHeartbeat E m (in_decode c rest px) = (Inr (), px')"
    then have "Decoder_onData (request_ops E) (with_data E data px) =
        (Inr (Continue, buf_length (en_buffer E) rest = 0), px'\<lparr>cm_decoder := new_decoder\<rparr>)"
      using assms decodesD [OF rest(1)] by (intro turn_heartbeat) (simp_all add: listens_def)
    then show "handle E (DownstreamData data False) px = Some (Inr (), px'\<lparr>cm_decoder := new_decoder\<rparr>)"
      using handle_data [OF assms(1) decodesD(2) [OF rest(1)]] rest(2) by (simp add: dispatch_catch_def)
  qed
qed

text \<open>Data the codec refuses: the connection is closed and every message in the list is given up.\<close>

lemma data_refused:
  assumes "listens px" and "decodes E px data (Inl e) c rest m" and "is_envoy_exception e"
  shows "handle E (DownstreamData data False) px = Some (Inr (),
    resetAllMessages True (inc request_decoding_error (connection_close E NoFlush (in_decode c rest px))))"
proof -
  have "Decoder_onData (request_ops E) (with_data E data px) = (Inl e, in_decode c rest (with_data E data px))"
    using assms(1) decodesD [OF assms(2)] by (intro turn_throws) (simp_all add: listens_def)
  then show ?thesis
    using handle_data [OF assms(1) decodesD(2) [OF assms(2)]] assms(3) by (simp add: dispatch_catch_def)
qed

text \<open>Data that does not complete a message is kept, and nothing else happens.\<close>

lemma data_waits:
  assumes "listens px" and "decodes E px data (Inr DecodeWaitForData) c rest m"
  shows "handle E (DownstreamData data False) px = Some (Inr (), px\<lparr>cm_codec := c, cm_request_buffer := rest,
    cm_decoder := \<lparr>md_state_machine = Some WaitForData, md_stream = False, md_decode_started = True\<rparr>\<rparr>)"
proof -
  have "Decoder_onData (request_ops E) (with_data E data px) = (Inr (Continue, True),
      (with_data E data px)\<lparr>cm_codec := c, cm_request_buffer := rest,
    cm_decoder := \<lparr>md_state_machine = Some WaitForData, md_stream = False, md_decode_started = True\<rparr>\<rparr>)"
    using assms(1) decodesD [OF assms(2)] by (intro turn_waits) (simp_all add: listens_def)
  then show ?thesis
    using handle_data [OF assms(1) decodesD(2) [OF assms(2)]]
    by (simp add: dispatch_catch_def with_data_def)
qed

subsection \<open>The state of a request\<close>

lemma in_stream_fields [simp]:
  "cx_effects (in_stream E c rest px) = cx_effects px" "cx_state (in_stream E c rest px) = cx_state px"
  "cm_codec (in_stream E c rest px) = c" "ev_deferred (in_stream E c rest px) = ev_deferred px"
  "cm_active_message_list (in_stream E c rest px) = st_next px # cm_active_message_list px"
  "st_messages (in_stream E c rest px) = st_messages px" "st_next (in_stream E c rest px) = st_next px + 1"
  "cm_request_buffer (in_stream E c rest px) = rest" "cm_stopped (in_stream E c rest px) = cm_stopped px"
  "cm_half_closed (in_stream E c rest px) = cm_half_closed px"
  by (simp_all add: in_stream_def in_decode_def inc_def Let_def)

lemma in_decode_fields [simp]:
  "cx_effects (in_decode c rest px) = cx_effects px" "cx_state (in_decode c rest px) = cx_state px"
  "cm_codec (in_decode c rest px) = c" "ev_deferred (in_decode c rest px) = ev_deferred px"
  "cm_active_message_list (in_decode c rest px) = cm_active_message_list px"
  "st_messages (in_decode c rest px) = st_messages px" "st_next (in_decode c rest px) = st_next px"
  by (simp_all add: in_decode_def)

lemma put_decoder [simp]:
  "(put_message mid am px)\<lparr>cm_decoder := d\<rparr> = put_message mid am (px\<lparr>cm_decoder := d\<rparr>)"
  by (simp add: put_message_def)

lemma count_fields [simp]:
  "cx_effects (count_request m px) = cx_effects px" "cx_state (count_request m px) = cx_state px"
  "cm_codec (count_request m px) = cm_codec px" "ev_deferred (count_request m px) = ev_deferred px"
  "cm_active_message_list (count_request m px) = cm_active_message_list px"
  "st_messages (count_request m px) = st_messages px"
  "cx_effects (count_response m' px) = cx_effects px" "cx_state (count_response m' px) = cx_state px"
  "cm_codec (count_response m' px) = cm_codec px" "ev_deferred (count_response m' px) = ev_deferred px"
  "cm_active_message_list (count_response m' px) = cm_active_message_list px"
  "st_messages (count_response m' px) = st_messages px"
  by (simp_all add: count_request_def count_response_def Let_def split: MessageType.split ResponseStatus.split)

lemma replied_fields [simp]:
  "cx_state (replied E m err px) = cx_state px" "ev_deferred (replied E m err px) = ev_deferred px"
  "cm_active_message_list (replied E m err px) = cm_active_message_list px"
  "st_messages (replied E m err px) = st_messages px"
  by (simp_all add: replied_def Let_def case_prod_beta)

lemma deferred_front [simp]:
  "cm_active_message_list px = mid # l \<Longrightarrow> cm_active_message_list (deferredMessage mid px) = l"
  "cm_active_message_list px = mid # l \<Longrightarrow> ev_deferred (deferredMessage mid px) = ev_deferred px @ [mid]"
  by (simp_all add: deferredMessage_def)

text \<open>The bytes of a local reply.\<close>

definition reply_to ::
  "('c, 'x, 'b, 'h, 'f) env \<Rightarrow> ('b \<Rightarrow> u8 list) \<Rightarrow> 'c \<Rightarrow> ('x, 'b, 'h) metadata \<Rightarrow> error \<Rightarrow> u8 list" where
  "reply_to E content c m err = content (snd (snd (codec_onError (en_codec E) c m err (buf_new (en_buffer E)))))"

lemma replied_write:
  assumes "envoy_buffer (en_buffer E) content"
  obtains reply where "cx_effects (replied E m err px) = cx_effects px @ [DownstreamWrite reply False]"
    "content reply = reply_to E content (cm_codec px) m err"
  by (rule that [of "fst (buf_move_all (en_buffer E) (buf_new (en_buffer E))
        (snd (snd (codec_onError (en_codec E) (cm_codec px) m err (buf_new (en_buffer E))))))"])
    (simp_all add: replied_def reply_to_def Let_def case_prod_beta envoy_buffer.content_simps [OF assms])

text \<open>A message with the router alone that has no upstream request any more is only removed.\<close>

lemma dec_put [simp]: "dec s (put_message mid am px) = put_message mid am (dec s px)"
  by (simp add: dec_def put_message_def)

lemma dec_fields [simp]:
  "st_messages (dec s px) = st_messages px" "cx_effects (dec s px) = cx_effects px"
  "cx_state (dec s px) = cx_state px" "ev_deferred (dec s px) = ev_deferred px"
  "cm_active_message_list (dec s px) = cm_active_message_list px"
  by (simp_all add: dec_def)

lemma remove_put [simp]:
  "(put_message mid am px)\<lparr>st_messages := (st_messages (put_message mid am px))(mid := None)\<rparr> =
   px\<lparr>st_messages := (st_messages px)(mid := None)\<rparr>"
  by (simp add: put_message_def)

lemma destroy_done:
  assumes "am_filters am = [RouterFilter r]" and "rt_upstream_request r = None"
    and "am_decoder_filters am = [\<lparr>fw_handle = 0, fw_dual_filter = True\<rparr>]"
    and "am_encoder_filters am = [\<lparr>fw_handle = 0, fw_dual_filter = True\<rparr>]"
  shows "ActiveMessage_destroy mid (put_message mid am px) =
    (Inr (), (dec request_active px)\<lparr>st_messages := (st_messages px)(mid := None)\<rparr>)"
  using assms
  by (simp add: ActiveMessage_destroy_def call_onDestroy_def Router_onDestroy_def Router_cleanup_def)

lemma put_deferred [simp]:
  "(put_message mid am px)\<lparr>ev_deferred := d\<rparr> = put_message mid am (px\<lparr>ev_deferred := d\<rparr>)"
  by (simp add: put_message_def)

end
