(* ===== verification/Proxy_Exchange.thy ===== *)
theory Proxy_Exchange
  imports Proxy_Streams
begin

text \<open>
  A whole exchange as a run of events: the request arrives and is sent upstream, the response
  arrives and is sent downstream, the message is destroyed. Each lemma is one event, for the default
  filter chain, from any state that listens.
\<close>

subsection \<open>The request is sent\<close>

lemma decoder_update_fields [simp]:
  "cx_effects (px\<lparr>cm_decoder := d\<rparr>) = cx_effects px"
  "nothing_to_read E (px\<lparr>cm_decoder := d\<rparr>) = nothing_to_read E px"
  by (simp_all add: nothing_to_read_def)

lemma nothing_in_stream:
  assumes "buf_length (en_buffer E) rest = 0" and "\<not> cm_stopped px" and "\<not> cm_half_closed px"
  shows "nothing_to_read E (in_stream E c rest px)"
  using assms by (simp add: nothing_to_read_def)

lemma data_forwarded:
  assumes "listens px" and "completes E px data c m" and "md_message_type m \<noteq> Heartbeat"
    and "default_chain E" and "routing E m (en_random E (st_next px)) = Inr name"
    and "en_newConnection E name (cx_effects px) = ConnectionReady host"
  obtains am' b px1 where
    "handle E (DownstreamData data False) px = Some (Inr (), put_message (st_next px) am' px1)"
    "cx_effects px1 = cx_effects px @
       [PutResult host LocalOriginConnectSuccess, UpstreamWrite (st_next px) (written E (taken_buffer E m))]"
    "cm_active_message_list px1 =
       (if md_message_type m = Oneway then cm_active_message_list px else st_next px # cm_active_message_list px)"
    "ev_deferred px1 = (if md_message_type m = Oneway then ev_deferred px @ [st_next px] else ev_deferred px)"
    "st_messages px1 = st_messages px" "cx_state px1 = cx_state px" "cm_codec px1 = c"
    "routed am' (UpstreamRequest\<lparr>ur_upstream_host := Some host, ur_conn_data := True,
       ur_request_complete := True\<rparr>) b (taken_metadata E m)"
    "am_response_decoder am' = None"
proof -
  let ?mid = "st_next px" and ?sid = "en_random E (st_next px)"
  obtain rest where rest: "buf_length (en_buffer E) rest = 0"
    "\<And>px'. ActiveMessage_onStreamDecoded E ?mid m MutationImpl
       (put_message ?mid (createFilterChain E (ActiveMessage ?sid)) (in_stream E c rest px)) = (Inr (), px') \<Longrightarrow>
     handle E (DownstreamData data False) px = Some (Inr (), px'\<lparr>cm_decoder := new_decoder\<rparr>)"
    using data_request [OF assms(1-3)] by metis
  obtain am' b where d: "ActiveMessage_onStreamDecoded E ?mid m MutationImpl
      (put_message ?mid (router_message ?sid (Router (en_buffer E))) (in_stream E c rest px)) =
       (Inr (), put_message ?mid am'
          ((if md_message_type m = Oneway then deferredMessage ?mid else id)
             (count_request m (inc stat_request
               (emit (UpstreamWrite ?mid (written E (taken_buffer E m)))
                 (emit (PutResult host LocalOriginConnectSuccess)
                   (inc request_decoding_success (in_stream E c rest px))))))))"
    "routed am' (UpstreamRequest\<lparr>ur_upstream_host := Some host, ur_conn_data := True,
       ur_request_complete := True\<rparr>) b (taken_metadata E m)" "am_response_decoder am' = None"
    by (rule forwarded_request [OF assms(5), where px = "in_stream E c rest px" and host = host and
          mid = ?mid and mu = MutationImpl]) (use assms(6) in simp_all)
  have "handle E (DownstreamData data False) px = Some (Inr (), put_message ?mid am'
      (((if md_message_type m = Oneway then deferredMessage ?mid else id)
             (count_request m (inc stat_request
               (emit (UpstreamWrite ?mid (written E (taken_buffer E m)))
                 (emit (PutResult host LocalOriginConnectSuccess)
                   (inc request_decoding_success (in_stream E c rest px)))))))\<lparr>cm_decoder := new_decoder\<rparr>))"
    using rest(2) d(1) createFilterChain_default [OF assms(4)] by simp
  then show thesis
    by (rule that) (use d in simp_all)
qed

subsection \<open>The response is sent back\<close>

text \<open>A message that was sent upstream and waits for the answer.\<close>

definition awaits_response ::
  "('c, 'x, 'b, 'h, 'f) active_message \<Rightarrow> string \<Rightarrow> ('x, 'b, 'h) metadata \<Rightarrow> bool" where
  "awaits_response am host m =
     (\<exists>ur b. routed am ur b m \<and> sent_request ur host \<and> \<not> ur_stream_reset ur \<and> am_response_decoder am = None)"

lemma awaits_response_sent:
  "routed am (UpstreamRequest\<lparr>ur_upstream_host := Some host, ur_conn_data := True,
     ur_request_complete := True\<rparr>) b m \<Longrightarrow> am_response_decoder am = None \<Longrightarrow> awaits_response am host m"
  unfolding awaits_response_def
  by (intro exI conjI) (assumption, simp_all add: UpstreamRequest_def sent_request_def)

lemma awaits_holds:
  "awaits_response am host m \<Longrightarrow> holds_connection mid 0 (put_message mid am px)"
  by (auto simp: awaits_response_def routed_def holds_connection_def request_of_def sent_request_def
      get_router_def)

lemma response_event:
  assumes "awaits_response am host m" and "cx_state px = ConnOpen"
    and "response_codec_done E (en_createCodec E) data c' rest rm"
    and "md_request_id rm = md_request_id m"
  obtains am' r where
    "handle E (UpstreamData mid 0 data es) (put_message mid am px) =
       Some (Inr (), put_message mid am' (emit (UpstreamRelease mid) (deferredMessage mid
         (count_response rm (emit (DownstreamWrite (written E (md_origin_message rm)) False)
            (emit (PutResult host (response_result rm)) px))))))"
    "am_filters am' = [RouterFilter r]" "rt_upstream_request r = None"
    "am_decoder_filters am' = [\<lparr>fw_handle = 0, fw_dual_filter = True\<rparr>]"
    "am_encoder_filters am' = [\<lparr>fw_handle = 0, fw_dual_filter = True\<rparr>]"
proof -
  obtain ur b where a: "routed am ur b m" "sent_request ur host" "am_response_decoder am = None"
    using assms(1) by (auto simp: awaits_response_def)
  note r = sent_reads [OF a(2,3), of E]
  show thesis
    by (rule response_forwarded [OF assms(3) a(1) conjunct1 [OF r] conjunct2 [OF r] assms(2), where mid = mid and es = es])
      (use assms(4) in \<open>simp_all add: that\<close>)
qed

subsection \<open>The request waits for a connection\<close>

text \<open>A message whose bytes \<open>b\<close> wait for the connection pool.\<close>

definition awaits_pool ::
  "('c, 'x, 'b, 'h, 'f) env \<Rightarrow> ('c, 'x, 'b, 'h, 'f) active_message \<Rightarrow> 'b \<Rightarrow> ('x, 'b, 'h) metadata \<Rightarrow> bool" where
  "awaits_pool E am b m =
     (routed am (UpstreamRequest\<lparr>ur_conn_pool_handle := True\<rparr>) b m \<and>
      am_filter_action am \<and> am_pending_stream_decoded am \<and> am_response_decoder am = None \<and>
      buf_length (en_buffer E) (md_origin_message m) = 0)"

lemma awaits_pool_waits: "awaits_pool E am b m \<Longrightarrow> waits_for_pool mid 0 (put_message mid am px)"
  by (auto simp: awaits_pool_def routed_def waits_for_pool_def request_of_def get_router_def)

lemma data_waiting:
  assumes "listens px" and "completes E px data c m" and "md_message_type m \<noteq> Heartbeat"
    and "default_chain E" and "routing E m (en_random E (st_next px)) = Inr name"
    and "en_newConnection E name (cx_effects px) = ConnectionPending"
    and "envoy_buffer (en_buffer E) content" and "\<not> cm_half_closed px"
  obtains am' px1 where
    "handle E (DownstreamData data False) px = Some (Inr (), put_message (st_next px) am' px1)"
    "cx_effects px1 = cx_effects px"
    "cm_active_message_list px1 = st_next px # cm_active_message_list px"
    "ev_deferred px1 = ev_deferred px"
    "st_messages px1 = st_messages px" "cx_state px1 = cx_state px" "cm_codec px1 = c"
    "awaits_pool E am' (taken_buffer E m) (taken_metadata E m)" "nothing_to_read E px1"
proof -
  let ?mid = "st_next px" and ?sid = "en_random E (st_next px)"
  obtain rest where rest: "buf_length (en_buffer E) rest = 0"
    "\<And>px'. ActiveMessage_onStreamDecoded E ?mid m MutationImpl
       (put_message ?mid (createFilterChain E (ActiveMessage ?sid)) (in_stream E c rest px)) = (Inr (), px') \<Longrightarrow>
     handle E (DownstreamData data False) px = Some (Inr (), px'\<lparr>cm_decoder := new_decoder\<rparr>)"
    using data_request [OF assms(1-3)] by metis
  obtain am' where d: "ActiveMessage_onStreamDecoded E ?mid m MutationImpl
      (put_message ?mid (router_message ?sid (Router (en_buffer E))) (in_stream E c rest px)) =
       (Inr (), put_message ?mid am' (inc request_decoding_success (in_stream E c rest px)))"
    "routed am' (UpstreamRequest\<lparr>ur_conn_pool_handle := True\<rparr>) (taken_buffer E m) (taken_metadata E m)"
    "am_filter_action am'" "am_pending_stream_decoded am'" "am_response_decoder am' = None"
    by (rule waiting_request [OF assms(5), where px = "in_stream E c rest px" and
          mid = ?mid and mu = MutationImpl]) (use assms(6) in simp_all)
  have "handle E (DownstreamData data False) px = Some (Inr (), put_message ?mid am'
      ((inc request_decoding_success (in_stream E c rest px))\<lparr>cm_decoder := new_decoder\<rparr>))"
    using rest(2) d(1) createFilterChain_default [OF assms(4)] by simp
  then show thesis
    by (rule that)
      (use d rest(1) assms(1,8) taken_contents(2) [OF assms(7)] envoy_buffer.length_content [OF assms(7)]
        in \<open>simp_all add: awaits_pool_def nothing_in_stream listens_def\<close>)
qed

lemma pool_ready_event:
  assumes "awaits_pool E am b m" and "nothing_to_read E px"
  obtains am' where
    "handle E (PoolReady mid 0 host) (put_message mid am px) =
       Some (Inr (), put_message mid am' (emit (UpstreamWrite mid (written E b))
         ((if md_message_type m = Oneway then deferredMessage mid else id)
            (count_request m (inc stat_request
              (emit (PutResult host LocalOriginConnectSuccess) px))))))"
    "awaits_response am' host m"
proof -
  have a: "routed am (UpstreamRequest\<lparr>ur_conn_pool_handle := True\<rparr>) b m" "am_filter_action am"
    "am_pending_stream_decoded am" "buf_length (en_buffer E) (md_origin_message m) = 0"
    "am_response_decoder am = None"
    using assms(1) by (simp_all add: awaits_pool_def)
  show thesis
    by (rule pool_ready [OF a(1-4) assms(2), where mid = mid and host = host])
      (use a(5) in \<open>simp add: that awaits_response_sent\<close>)
qed

lemma pool_failure_event:
  assumes "awaits_pool E am b m" and "nothing_to_read E px" and "md_message_type m \<noteq> Oneway"
    and "reason \<noteq> Overflow" and "replies E m (pool_failure_error reason host) px"
  obtains am' where
    "handle E (PoolFailure mid 0 reason (Some host)) (put_message mid am px) =
       Some (Inr (), put_message mid am' (deferredMessage mid (count_request m (inc stat_request
         (failure_report reason host (replied E m (pool_failure_error reason host) px))))))"
    "am_local_response_sent am'"
proof -
  have a: "routed am (UpstreamRequest\<lparr>ur_conn_pool_handle := True\<rparr>) b m" "am_filter_action am"
    "am_pending_stream_decoded am" "buf_length (en_buffer E) (md_origin_message m) = 0"
    using assms(1) by (simp_all add: awaits_pool_def)
  show thesis
    by (rule pool_failure [OF a assms(2-5), where mid = mid]) (simp add: that)
qed

subsection \<open>Requests answered by the proxy\<close>

lemma data_rejected:
  assumes "listens px" and "completes E px data c m" and "md_message_type m \<noteq> Heartbeat"
    and "default_chain E" and "routing E m (en_random E (st_next px)) = Inl err"
    and "replies E m err (px\<lparr>cm_codec := c\<rparr>)" and "envoy_buffer (en_buffer E) content"
  obtains am' px1 reply where
    "handle E (DownstreamData data False) px = Some (Inr (), put_message (st_next px) am' px1)"
    "cx_effects px1 = cx_effects px @ [DownstreamWrite reply False]"
    "content reply = reply_to E content c m err"
    "cm_active_message_list px1 = cm_active_message_list px"
    "ev_deferred px1 = ev_deferred px @ [st_next px]" "cx_state px1 = cx_state px"
proof -
  let ?mid = "st_next px" and ?sid = "en_random E (st_next px)"
  obtain rest where rest: "buf_length (en_buffer E) rest = 0"
    "\<And>px'. ActiveMessage_onStreamDecoded E ?mid m MutationImpl
       (put_message ?mid (createFilterChain E (ActiveMessage ?sid)) (in_stream E c rest px)) = (Inr (), px') \<Longrightarrow>
     handle E (DownstreamData data False) px = Some (Inr (), px'\<lparr>cm_decoder := new_decoder\<rparr>)"
    using data_request [OF assms(1-3)] by metis
  let ?in = "in_stream E c rest px"
  have "replies E m err ?in" using assms(6) by (simp add: replies_def)
  then obtain am' where d: "ActiveMessage_onStreamDecoded E ?mid m MutationImpl
      (put_message ?mid (router_message ?sid (Router (en_buffer E))) ?in) =
       (Inr (), put_message ?mid am' (deferredMessage ?mid (count_request m (inc stat_request
             (replied E m err (inc request_decoding_success ?in))))))"
    using rejected_request [OF assms(5)] by metis
  obtain reply where r: "cx_effects (replied E m err (inc request_decoding_success ?in)) =
      cx_effects px @ [DownstreamWrite reply False]" "content reply = reply_to E content c m err"
    using replied_write [OF assms(7), of m err "inc request_decoding_success ?in"] by auto
  have "handle E (DownstreamData data False) px = Some (Inr (), put_message ?mid am'
      ((deferredMessage ?mid (count_request m (inc stat_request
             (replied E m err (inc request_decoding_success ?in)))))\<lparr>cm_decoder := new_decoder\<rparr>))"
    using rest(2) d createFilterChain_default [OF assms(4)] by simp
  then show thesis by (rule that [of _ _ reply]) (use r in simp_all)
qed

subsection \<open>Upstream failures\<close>

text \<open>A response that is not for this request, and an upstream that closes instead of answering.\<close>

lemma mismatch_event:
  assumes "awaits_response am host m" and "cx_state px = ConnOpen"
    and "response_codec_done E (en_createCodec E) data c' rest rm"
    and "md_request_id m \<noteq> md_request_id rm"
    and "replies E m (mk_error BadResponse (mismatch_text E (md_request_id m) (md_request_id rm))) px"
  obtains am' where
    "handle E (UpstreamData mid 0 data es) (put_message mid am px) =
       Some (Inr (), put_message mid am' (emit (UpstreamClose mid) (deferredMessage mid
         (replied E m (mk_error BadResponse (mismatch_text E (md_request_id m) (md_request_id rm)))
           (inc response_decoding_error
             (count_response rm (emit (DownstreamWrite (written E (md_origin_message rm)) False)
               (emit (PutResult host (response_result rm)) px))))))))"
proof -
  obtain ur b where a: "routed am ur b m" "sent_request ur host" "am_response_decoder am = None"
    using assms(1) by (auto simp: awaits_response_def)
  note r = sent_reads [OF a(2,3), of E]
  show thesis
    by (rule response_mismatch [OF assms(3) a(1) conjunct1 [OF r] conjunct2 [OF r] assms(2,4,5), where mid = mid and es = es]) (simp add: that)
qed

lemma upstream_close_event:
  assumes "awaits_response am host m" and "md_message_type m \<noteq> Oneway"
    and "replies E m (pool_failure_error RemoteConnectionFailure host) px"
  obtains am' where
    "handle E (UpstreamEvent mid 0 RemoteClose) (put_message mid am px) =
       Some (Inr (), put_message mid am' (emit (PutResult host LocalOriginConnectFailed)
         (replied E m (pool_failure_error RemoteConnectionFailure host) px)))"
    "am_local_response_sent am'"
proof -
  obtain ur b where a: "routed am ur b m" "sent_request ur host" "\<not> ur_stream_reset ur"
    using assms(1) by (auto simp: awaits_response_def)
  show thesis
    by (rule upstream_closes [OF a assms(2,3), where mid = mid]) (simp add: that)
qed

text \<open>A heartbeat of the upstream reaches \<open>onHeartbeat\<close> of the response decoder, which is not there.\<close>

lemma upstream_heartbeat_event:
  assumes "awaits_response am host m"
    and "codec_decode (en_codec E) (en_createCodec E) data (MetadataImpl (en_buffer E) (en_headers E)) =
      (Inr DecodeDone, (c', rest, rm))" and "md_message_type rm = Heartbeat"
  obtains px' where "handle E (UpstreamData mid 0 data es) (put_message mid am px) =
    Some (Inl (Panic ''NOT_IMPLEMENTED''), px')"
proof -
  obtain ur b where a: "routed am ur b m" "sent_request ur host" "am_response_decoder am = None"
    using assms(1) by (auto simp: awaits_response_def)
  note r = sent_reads [OF a(2,3), of E]
  obtain am1 rd where s: "Router_onUpstreamData E mid 0 data es (put_message mid am px) =
       and_then (ActiveMessage_upstreamData E mid data (put_message mid am1 px)) (after_upstream_data E mid es)"
    "am_response_decoder am1 = Some rd" "ready_decoder rd" "rd_codec rd = en_createCodec E"
    by (rule response_started [OF a(1) conjunct1 [OF r] conjunct2 [OF r],
          where mid = mid and data = data and es = es and px = px])
  have "\<exists>rd'. ActiveResponseDecoder_onData E mid (rd, data, put_message mid am1 px) =
      (Inl (Panic ''NOT_IMPLEMENTED''), (rd', rest, put_message mid am1 px))"
    using assms(2,3) s(3,4)
    by (auto simp: ActiveResponseDecoder_onData_def ActiveResponseDecoder_onHeartbeat_def response_decoder_code)
  then have "\<exists>px'. ActiveMessage_upstreamData E mid data (put_message mid am1 px) =
      (Inl (Panic ''NOT_IMPLEMENTED''), px')"
    using s(2) by (auto simp: ActiveMessage_upstreamData_def ActiveMessage_upstreamData_try_def Let_def)
  then show thesis using s(1) that by auto
qed

text \<open>An encoder filter that asks for a retry resets the response decoder while it runs.\<close>

lemma retry_destroys:
  assumes "codec_decode (en_codec E) (en_createCodec E) data (MetadataImpl (en_buffer E) (en_headers E)) =
      (Inr DecodeDone, (c', rest, m))" and "md_message_type m \<in> {Response, MsgError}"
    and "applyEncoderFilters E mid None CanStartFromCurrent (m, MutationImpl)
      (update_message mid (\<lambda>am. am\<lparr>am_encoder_filter_action := True\<rparr>) px) = (Inr (Retry, r), px')"
  shows "\<exists>s. ActiveResponseDecoder_onData E mid (ActiveResponseDecoder E, data, px) =
    (Inl (Panic ''write to state_ of a destroyed DecoderStateMachine''), s)"
  using assms
  by (cases r) (auto simp: response_decoder_code ActiveResponseDecoder_onData_def ActiveResponseDecoder_def
      ActiveResponseDecoder_onStreamDecoded_def applyMessageEncodedFilters_def)

text \<open>An encoder filter that stops the chain: the response counts as complete and is not written.\<close>

lemma stop_decoded:
  assumes "codec_decode (en_codec E) (en_createCodec E) data (MetadataImpl (en_buffer E) (en_headers E)) =
      (Inr DecodeDone, (c', rest, m))" and "md_message_type m \<in> {Response, MsgError}"
    and "buf_length (en_buffer E) rest = 0"
    and "applyEncoderFilters E mid None CanStartFromCurrent (m, MutationImpl)
      (update_message mid (\<lambda>am. am\<lparr>am_encoder_filter_action := True\<rparr>) px) =
      (Inr (StopIteration, (m', mu')), px')"
  obtains rd where
    "ActiveResponseDecoder_onData E mid (ActiveResponseDecoder E, data, px) = (Inr Complete, (rd, rest, px'))"
    "rd_metadata rd = Some m'"
  using assms
  by (auto simp: response_decoder_code ActiveResponseDecoder_onData_def ActiveResponseDecoder_def
      ActiveResponseDecoder_onStreamDecoded_def applyMessageEncodedFilters_def)

lemma stop_upstreamData:
  assumes "codec_decode (en_codec E) (en_createCodec E) data (MetadataImpl (en_buffer E) (en_headers E)) =
      (Inr DecodeDone, (c', rest, m))" and "md_message_type m \<in> {Response, MsgError}"
    and "buf_length (en_buffer E) rest = 0"
    and "applyEncoderFilters E mid None CanStartFromCurrent (m, MutationImpl)
      (update_message mid (\<lambda>am. am\<lparr>am_encoder_filter_action := True\<rparr>) px) =
      (Inr (StopIteration, (m', mu')), px')"
    and "st_messages px mid = Some am" and "am_response_decoder am = Some (ActiveResponseDecoder E)"
    and "st_messages px' mid = Some am'" and "ActiveMessage_requestId am' = md_request_id m'"
  obtains rd where
    "ActiveMessage_upstreamData E mid data px =
       (Inr (Complete, rest),
        deferredMessage mid (update_message mid (\<lambda>am. am\<lparr>am_response_decoder := Some rd\<rparr>) px'))"
proof (rule stop_decoded [OF assms(1-4)])
  fix rd
  assume rd: "ActiveResponseDecoder_onData E mid (ActiveResponseDecoder E, data, px) = (Inr Complete, (rd, rest, px'))"
    "rd_metadata rd = Some m'"
  show thesis
    by (rule that [of rd])
      (use rd assms(5-8) in \<open>simp add: ActiveMessage_upstreamData_def ActiveMessage_upstreamData_try_def
        ActiveResponseDecoder_requestId_def ActiveMessage_requestId_def with_message_def update_message_def\<close>)
qed

text \<open>No operation of a message is possible once its destructor ran.\<close>

lemma destroyed_encoding:
  assumes "ActiveMessage_destroy mid px = (Inr (), q)"
  shows "fst (EncoderFilter_continueEncoding E mid pos response q) = Inl (Panic ''dangling ActiveMessage'')"
proof -
  have "st_messages q mid = None"
    using assms
    by (auto simp: ActiveMessage_destroy_def with_message_def panic_def and_then_def split: option.splits
        sum.splits prod.splits)
  then show ?thesis
    by (simp add: EncoderFilter_continueEncoding_def with_metadata_def with_message_def panic_def)
qed

end
