(* ===== verification/Proxy_Lifecycle.thy ===== *)
theory Proxy_Lifecycle
  imports Proxy_Streams
begin

text \<open>
  The life of a message. An event puts the messages it creates at the front of the active list, moves
  messages from there to the end of the deferred ones, and the destruction takes the first of these;
  no message is lost, duplicated or destroyed otherwise. Closing the connection moves all active
  messages to the dispatcher.
\<close>

subsection \<open>Moving messages\<close>

lemma fold_remove1_Cons: "x \<notin> set ms \<Longrightarrow> fold remove1 ms (x # xs) = x # fold remove1 ms xs"
  by (induction ms arbitrary: xs) auto

lemma fold_remove1_filter: "distinct xs \<Longrightarrow> fold remove1 ms xs = filter (\<lambda>x. x \<notin> set ms) xs"
proof (induction ms arbitrary: xs)
  case (Cons m ms)
  then have "fold remove1 (m # ms) xs = filter (\<lambda>x. x \<notin> set ms) (filter (\<lambda>x. x \<noteq> m) xs)"
    by (simp add: distinct_remove1_removeAll removeAll_filter_not_eq eq_commute)
  then show ?case by (simp add: conj_commute)
qed simp

text \<open>
  \<open>conserved px0 px\<close>: since \<open>px0\<close> the messages \<open>born\<close> were created, the last one first, the messages
  \<open>moved\<close> were handed to the dispatcher, and none was destroyed.
\<close>

definition conserved ::
  "('c, 'x, 'b, 'h, 'f) proxy \<Rightarrow> ('c, 'x, 'b, 'h, 'f) proxy \<Rightarrow> bool" where
  "conserved px0 px = (objects_ok px \<and> (\<exists>born moved.
     distinct born \<and> set born \<inter> dom (st_messages px0) = {} \<and>
     dom (st_messages px) = set born \<union> dom (st_messages px0) \<and>
     ev_deferred px = ev_deferred px0 @ moved \<and>
     cm_active_message_list px = fold remove1 moved (born @ cm_active_message_list px0)))"

lemma conservedI:
  assumes "objects_ok px" and "distinct born" and "set born \<inter> dom (st_messages px0) = {}"
    and "dom (st_messages px) = set born \<union> dom (st_messages px0)"
    and "ev_deferred px = ev_deferred px0 @ moved"
    and "cm_active_message_list px = fold remove1 moved (born @ cm_active_message_list px0)"
  shows "conserved px0 px"
  using assms unfolding conserved_def by blast

lemma conservedE:
  assumes "conserved px0 px"
  obtains born moved where "objects_ok px" "distinct born" "set born \<inter> dom (st_messages px0) = {}"
    "dom (st_messages px) = set born \<union> dom (st_messages px0)" "ev_deferred px = ev_deferred px0 @ moved"
    "cm_active_message_list px = fold remove1 moved (born @ cm_active_message_list px0)"
  using assms unfolding conserved_def by blast

lemma conserved_refl: "objects_ok px \<Longrightarrow> conserved px px"
  by (rule conservedI [where born = "[]" and moved = "[]"]) simp_all

lemma conserved_keeps:
  assumes "conserved px0 px" and "keeps E px py"
  shows "conserved px0 py"
proof -
  obtain born moved where c: "objects_ok px" "distinct born" "set born \<inter> dom (st_messages px0) = {}"
    "dom (st_messages px) = set born \<union> dom (st_messages px0)" "ev_deferred px = ev_deferred px0 @ moved"
    "cm_active_message_list px = fold remove1 moved (born @ cm_active_message_list px0)"
    by (rule conservedE [OF assms(1)])
  obtain us where us: "moves px us py"
    using keeps_only_moves [OF assms(2)] unfolding only_moves_def by blast
  have k: "objects_ok py" "dom (st_messages py) = dom (st_messages px)"
    using assms(2) c(1) by (simp_all add: keeps_def)
  show ?thesis
    by (rule conservedI [OF k(1) c(2,3), where moved = "moved @ us"])
      (use k(2) c(4-6) us in \<open>simp_all add: moves_def\<close>)
qed

lemma conserved_newStream:
  assumes "conserved px0 px"
  shows "conserved px0 (snd (ConnectionManager_newStream E px))"
proof -
  let ?px = "snd (ConnectionManager_newStream E px)" and ?mid = "st_next px"
  obtain born moved where c: "objects_ok px" "distinct born" "set born \<inter> dom (st_messages px0) = {}"
    "dom (st_messages px) = set born \<union> dom (st_messages px0)" "ev_deferred px = ev_deferred px0 @ moved"
    "cm_active_message_list px = fold remove1 moved (born @ cm_active_message_list px0)"
    by (rule conservedE [OF assms])
  have new: "cm_active_message_list ?px = ?mid # cm_active_message_list px" "ev_deferred ?px = ev_deferred px"
    "dom (st_messages ?px) = insert ?mid (dom (st_messages px))"
    by (simp_all add: ConnectionManager_newStream_def inc_def Let_def)
  have ok: "objects_ok ?px"
    using c(1) by (auto simp: ConnectionManager_newStream_def objects_inv_def inc_def Let_def less_Suc_eq
        split: if_splits)
  have fresh: "?mid \<notin> dom (st_messages px)" using c(1) unfolding objects_inv_def by blast
  then have "?mid \<notin> set moved" "?mid \<notin> set born" "?mid \<notin> dom (st_messages px0)"
    using c(1,4,5) unfolding objects_inv_def by auto
  then show ?thesis
    by (intro conservedI [OF ok, where born = "?mid # born" and moved = moved])
      (use c(2-6) new in \<open>simp_all add: fold_remove1_Cons\<close>)
qed

lemma conserved_fields [simp]:
  "conserved px0 (px\<lparr>cm_request_buffer := b\<rparr>) = conserved px0 px"
  "conserved px0 (px\<lparr>cm_decoder := d\<rparr>) = conserved px0 px"
  "conserved px0 (px\<lparr>cm_codec := c\<rparr>) = conserved px0 px"
  "conserved px0 (px\<lparr>cm_stopped := f\<rparr>) = conserved px0 px"
  "conserved px0 (px\<lparr>cm_half_closed := f\<rparr>) = conserved px0 px"
  by (simp_all add: conserved_def objects_inv_def)

interpretation conservation: proxy_kept E "conserved px0" for E px0
proof (unfold_locales, goal_cases)
  case (1 px py)
  then show ?case by (rule conserved_keeps)
next
  case (2 px)
  then show ?case by (rule conserved_newStream)
qed simp_all

subsection \<open>One event\<close>

lemma objects_ok_lists:
  assumes "objects_ok px"
  shows "distinct (cm_active_message_list px)" and "distinct (ev_deferred px)"
    and "set (cm_active_message_list px) \<inter> set (ev_deferred px) = {}"
    and "dom (st_messages px) = set (cm_active_message_list px) \<union> set (ev_deferred px)"
  using assms by (simp_all add: objects_inv_def)

text \<open>What an event but the destruction does to the lists.\<close>

lemma event_conserves:
  assumes "objects_ok px" and "handle E ev px = Some (Inr (), px')" and "ev \<noteq> DeferredDelete"
  obtains born moved where "distinct born" "set born \<inter> dom (st_messages px) = {}"
    "dom (st_messages px') = set born \<union> dom (st_messages px)" "ev_deferred px' = ev_deferred px @ moved"
    "cm_active_message_list px' = filter (\<lambda>mid. mid \<notin> set moved) (born @ cm_active_message_list px)"
    "distinct moved" "set moved \<subseteq> set born \<union> set (cm_active_message_list px)"
    "reads_requests ev \<or> born = []"
proof -
  have "conserved px px'"
    by (rule conservation.P_event [OF conserved_refl [OF assms(1)] assms(2,3)])
  then obtain born moved where c: "objects_ok px'" "distinct born" "set born \<inter> dom (st_messages px) = {}"
    "dom (st_messages px') = set born \<union> dom (st_messages px)" "ev_deferred px' = ev_deferred px @ moved"
    "cm_active_message_list px' = fold remove1 moved (born @ cm_active_message_list px)"
    by (rule conservedE)
  note ok = objects_ok_lists [OF assms(1)] and ok' = objects_ok_lists [OF c(1)]
  have "distinct (born @ cm_active_message_list px)" using c(2,3) ok(1,4) by auto
  moreover have "born = []" if "\<not> reads_requests ev"
  proof -
    have "dom (st_messages px') = dom (st_messages px)"
      using handle_keeps [OF assms(2) that assms(3)] by (simp add: keeps_def)
    then have "set born \<subseteq> dom (st_messages px)" using c(4) by (metis Un_upper1)
    then have "set born = {}" using c(3) by (simp add: Int_absorb2)
    then show ?thesis by simp
  qed
  moreover have "distinct moved" "set moved \<inter> set (ev_deferred px) = {}"
    using c(5) ok'(2) by auto
  moreover have "set moved \<subseteq> set born \<union> dom (st_messages px)"
    using c(4,5) ok'(4) by (metis Un_upper2 set_append sup.coboundedI2)
  ultimately show thesis
    using c(2-6) ok(4) by (intro that [of born moved]) (auto simp: fold_remove1_filter)
qed

text \<open>The destruction of the first deferred message. Its filters may give up other messages.\<close>

lemma destruction_conserves:
  assumes "objects_ok px" and "handle E DeferredDelete px = Some (Inr (), px')"
  obtains moved where "dom (st_messages px') = dom (st_messages px) - set (take 1 (ev_deferred px))"
    "ev_deferred px' = tl (ev_deferred px) @ moved"
    "cm_active_message_list px' = filter (\<lambda>mid. mid \<notin> set moved) (cm_active_message_list px)"
    "distinct moved" "set moved \<subseteq> set (cm_active_message_list px)"
proof (cases "ev_deferred px")
  case Nil
  then show thesis using assms(2) by (intro that [of "[]"]) simp_all
next
  case (Cons mid rest)
  let ?px = "dec request_active (px\<lparr>ev_deferred := rest\<rparr>)"
  have "ActiveMessage_destroy mid (px\<lparr>ev_deferred := rest\<rparr>) = (Inr (), px')"
    using assms(2) Cons by simp
  then obtain s where s: "keeps E ?px s" and px': "px' = s\<lparr>st_messages := (st_messages s)(mid := None)\<rparr>"
    by (rule destroy_keeps [where E = E]) simp
  note ok = objects_ok_lists [OF assms(1)]
  have inv: "objects_inv {mid} ?px" using assms(1) Cons by (auto simp: objects_inv_def dec_def)
  then have si: "objects_inv {mid} s" using s by (simp add: keeps_def)
  obtain us where "moves ?px us s"
    using keeps_only_moves [OF s] unfolding only_moves_def by blast
  then have us: "ev_deferred s = rest @ us"
    "cm_active_message_list s = filter (\<lambda>mid. mid \<notin> set us) (cm_active_message_list px)"
    using fold_remove1_filter [OF ok(1), of us] by (simp_all add: moves_def dec_def)
  have d: "dom (st_messages s) = dom (st_messages px)" using s by (simp add: keeps_def dec_def)
  show thesis
  proof (rule that [of us])
    show "dom (st_messages px') = dom (st_messages px) - set (take 1 (ev_deferred px))"
      using d Cons by (auto simp: px')
    show "distinct us" using si us(1) by (simp add: objects_inv_def)
    show "set us \<subseteq> set (cm_active_message_list px)"
      using si us(1) d ok(4) Cons by (auto simp: objects_inv_def)
  qed (use us Cons in \<open>simp_all add: px'\<close>)
qed

subsection \<open>The stages of a message\<close>

datatype stage = Active | Deferred | Destroyed

inductive advance :: "stage \<Rightarrow> stage \<Rightarrow> bool" where
  deferred: "advance Active Deferred"
| destroyed: "advance Deferred Destroyed"

inductive_simps advance_simps [simp]: "advance s Active" "advance s Deferred" "advance s Destroyed"

fun stage_rank :: "stage \<Rightarrow> nat" where
  "stage_rank Active = 0" | "stage_rank Deferred = 1" | "stage_rank Destroyed = 2"

instantiation stage :: linorder
begin

definition less_eq_stage :: "stage \<Rightarrow> stage \<Rightarrow> bool" where
  "s \<le> t \<longleftrightarrow> stage_rank s \<le> stage_rank t"

definition less_stage :: "stage \<Rightarrow> stage \<Rightarrow> bool" where
  "s < t \<longleftrightarrow> stage_rank s < stage_rank t"

instance
proof
  fix s t :: stage
  show "s \<le> t \<Longrightarrow> t \<le> s \<Longrightarrow> s = t"
    by (cases s; cases t) (simp_all add: less_eq_stage_def)
qed (auto simp: less_eq_stage_def less_stage_def)

end

lemma advance_le: "advance\<^sup>*\<^sup>* s t \<longleftrightarrow> s \<le> t"
proof
  show "s \<le> t" if "advance\<^sup>*\<^sup>* s t"
    using that by (induction rule: rtranclp_induct) (auto simp: less_eq_stage_def elim!: advance.cases)
  have steps: "advance\<^sup>*\<^sup>* Active Deferred" "advance\<^sup>*\<^sup>* Deferred Destroyed"
    by (simp_all add: r_into_rtranclp)
  show "advance\<^sup>*\<^sup>* s t" if "s \<le> t"
    using that steps by (cases s; cases t) (auto simp: less_eq_stage_def intro: rtranclp_trans)
qed

definition stage_of :: "('c, 'x, 'b, 'h, 'f) proxy \<Rightarrow> nat \<Rightarrow> stage" where
  "stage_of px mid =
     (if mid \<in> set (cm_active_message_list px) then Active
      else if mid \<in> set (ev_deferred px) then Deferred else Destroyed)"

text \<open>A message that exists goes along the stages, and no event but the destruction destroys it.\<close>

lemma advances:
  assumes "objects_ok px"
    and "cm_active_message_list px' = filter (\<lambda>mid. mid \<notin> set moved) (born @ cm_active_message_list px)"
    and "set (ev_deferred px') \<subseteq> set (ev_deferred px) \<union> set moved"
    and "set moved \<subseteq> set born \<union> set (cm_active_message_list px)"
    and "mid \<in> dom (st_messages px)" and "mid \<notin> set born"
  shows "advance\<^sup>*\<^sup>* (stage_of px mid) (stage_of px' mid)"
proof -
  have "mid \<in> set (cm_active_message_list px') \<Longrightarrow> mid \<in> set (cm_active_message_list px)"
    using assms(2,6) by simp
  moreover have "mid \<in> set (ev_deferred px') \<Longrightarrow>
      mid \<in> set (cm_active_message_list px) \<union> set (ev_deferred px)"
    using assms(3,4,6) by blast
  ultimately show ?thesis
    using objects_ok_lists(4) [OF assms(1)] assms(5)
    by (auto simp: advance_le stage_of_def less_eq_stage_def)
qed

lemma event_advances:
  assumes "objects_ok px" and "handle E ev px = Some (Inr (), px')" and "mid \<in> dom (st_messages px)"
  shows "advance\<^sup>*\<^sup>* (stage_of px mid) (stage_of px' mid)"
proof (cases "ev = DeferredDelete")
  case True
  obtain moved where "ev_deferred px' = tl (ev_deferred px) @ moved"
    "cm_active_message_list px' = filter (\<lambda>mid. mid \<notin> set moved) ([] @ cm_active_message_list px)"
    "set moved \<subseteq> set [] \<union> set (cm_active_message_list px)"
    using destruction_conserves [OF assms(1) assms(2) [unfolded True]] by (metis append_Nil set_append)
  moreover have "set (tl (ev_deferred px)) \<subseteq> set (ev_deferred px)" by (cases "ev_deferred px") auto
  ultimately show ?thesis by (intro advances [OF assms(1) _ _ _ assms(3), of px' moved "[]"]) auto
next
  case False
  obtain born moved where "set born \<inter> dom (st_messages px) = {}" "ev_deferred px' = ev_deferred px @ moved"
    "cm_active_message_list px' = filter (\<lambda>mid. mid \<notin> set moved) (born @ cm_active_message_list px)"
    "set moved \<subseteq> set born \<union> set (cm_active_message_list px)"
    by (rule event_conserves [OF assms(1,2) False])
  then show ?thesis
    using assms(3) by (intro advances [OF assms(1) _ _ _ assms(3), of px' moved born]) auto
qed

subsection \<open>Closing the connection\<close>

lemma resetAllMessages_eqs:
  "cm_active_message_list (resetAllMessages l px) = [] \<and>
   ev_deferred (resetAllMessages l px) = ev_deferred px @ cm_active_message_list px \<and>
   cx_effects (resetAllMessages l px) = cx_effects px \<and> cx_state (resetAllMessages l px) = cx_state px \<and>
   cm_stats (resetAllMessages l px) s = cm_stats px s +
     (if s = (if l then cx_destroy_local_with_active_rq else cx_destroy_remote_with_active_rq)
      then length (cm_active_message_list px) else 0)"
proof (induction l px rule: resetAllMessages.induct)
  case (1 l px)
  show ?case
  proof (cases "cm_active_message_list px")
    case (Cons front rest)
    let ?px = "ActiveMessage_onReset front (inc (if l then cx_destroy_local_with_active_rq
        else cx_destroy_remote_with_active_rq) px)"
    have "cm_active_message_list ?px = rest" "ev_deferred ?px = ev_deferred px @ [front]"
      "cx_effects ?px = cx_effects px" "cx_state ?px = cx_state px"
      "cm_stats ?px s = cm_stats px s + (if s = (if l then cx_destroy_local_with_active_rq
         else cx_destroy_remote_with_active_rq) then 1 else 0)"
      using Cons by (simp_all add: ActiveMessage_onReset_def) (simp add: inc_def)
    then show ?thesis
      using 1 [OF Cons] Cons by (simp add: resetAllMessages.simps [of l px])
  qed (simp add: resetAllMessages.simps [of l px])
qed

lemmas resetAllMessages_state = resetAllMessages_eqs [THEN conjunct1]
  resetAllMessages_eqs [THEN conjunct2, THEN conjunct1]
  resetAllMessages_eqs [THEN conjunct2, THEN conjunct2, THEN conjunct1]
  resetAllMessages_eqs [THEN conjunct2, THEN conjunct2, THEN conjunct2, THEN conjunct1]
  resetAllMessages_eqs [THEN conjunct2, THEN conjunct2, THEN conjunct2, THEN conjunct2]

lemma emit_fields [simp]:
  "cm_stats (emit e px) = cm_stats px" "cm_active_message_list (px\<lparr>cx_state := st\<rparr>) = cm_active_message_list px"
  by (simp_all add: emit_def)

text \<open>\<open>close\<close> of an open connection.\<close>

lemma connection_close_open:
  assumes "cx_state px = ConnOpen"
  shows "cx_effects (connection_close E t px) = cx_effects px @ [DownstreamClose t]"
    and "cx_state (connection_close E t px) \<noteq> ConnOpen"
    and "t = NoFlush \<Longrightarrow> connection_close E t px =
      resetAllMessages True (emit (DownstreamClose t) (px\<lparr>cx_state := ConnClosed\<rparr>))"
  using assms
  by (simp_all add: connection_close_def ConnectionManager_onEvent_def resetAllMessages_state)

lemma connection_close_list:
  "cm_active_message_list px = [] \<Longrightarrow> cm_active_message_list (connection_close E t px) = []"
  "cm_active_message_list px = [] \<Longrightarrow> ev_deferred (connection_close E t px) = ev_deferred px"
  by (simp_all add: connection_close_def ConnectionManager_onEvent_def resetAllMessages_state emit_def)

text \<open>
  The end of the client's stream: what the read does, then all messages are given up and the connection
  is closed. Nothing sets \<open>stopped_\<close>, so no message is waited for.
\<close>

lemma end_of_stream:
  assumes "handle E (DownstreamData data False) px = Some (r, px1)" and "proxy_ok px"
  shows "handle E (DownstreamData data True) px =
    (case r of Inl e \<Rightarrow> Some (Inl e, px1)
     | Inr _ \<Rightarrow> Some (Inr (), connection_close E FlushWrite (resetAllMessages False px1)))"
proof -
  obtain x where x: "dispatch E (with_data E data px) = Some x" "and_then x (\<lambda>_ px. (Inr (), px)) = (r, px1)"
    using assms(1) by (auto simp: ConnectionManager_onData_def with_data_def case_prod_beta)
  show ?thesis
  proof (cases r)
    case (Inl e)
    then have "x = (Inl e, px1)" using x(2) by (cases x; cases "fst x") auto
    then show ?thesis
      using x(1) Inl by (simp add: ConnectionManager_onData_def with_data_def case_prod_beta)
  next
    case (Inr u)
    then have "x = (Inr (), px1)" using x(2) by (cases x; cases "fst x") auto
    moreover have "\<not> cm_stopped px1"
    proof -
      have "handle E (DownstreamData data False) px = Some (Inr (), px1)" using assms(1) Inr by simp
      then have "proxy_ok px1" by (rule objects.P_handle [OF assms(2)])
      then show ?thesis by (simp add: proxy_ok_def)
    qed
    ultimately show ?thesis
      using x(1) Inr by (simp add: ConnectionManager_onData_def with_data_def case_prod_beta)
  qed
qed

lemma closed_after_reset:
  fixes E :: "('c, 'x, 'b, 'h, 'f) env" and px :: "('c, 'x, 'b, 'h, 'f) proxy"
  defines "px' \<equiv> connection_close E FlushWrite (resetAllMessages False px)"
  shows "cm_active_message_list px' = []" and "ev_deferred px' = ev_deferred px @ cm_active_message_list px"
    and "cx_state px' \<noteq> ConnOpen"
    and "cx_effects px' = cx_effects px @ (if cx_state px = ConnClosed then [] else [DownstreamClose FlushWrite])"
    and "cm_stats px' cx_destroy_remote_with_active_rq =
      cm_stats px cx_destroy_remote_with_active_rq + length (cm_active_message_list px)"
  by (cases "cx_state px"; simp add: px'_def connection_close_def ConnectionManager_onEvent_def
      resetAllMessages_state emit_def)+

end
