(* ===== verification/Route_Matcher.thy ===== *)
theory Route_Matcher
  imports Proxy_World
begin

text \<open>
  The route table, src/src/meta_protocol_proxy/filters/router/route_matcher.cc: the constructors
  that read the configuration, matching a request against one entry, and the search of the table.

  Envoy's header matchers and its choice of a weighted cluster are parameters (\<open>matcher_ops\<close>):
  \<open>'p\<close> is a header matcher of the configuration, \<open>'m\<close> what Envoy compiles it to. The locale
  \<open>route_matching\<close> says what is relied on, and is interpreted on matchers that compare for
  equality and on the choice by ranges of weights.
\<close>

subsection \<open>Configuration\<close>

datatype ClusterSpecifier =
    ClusterSpecifierNotSet
  | ClusterSpecifierCluster string
  | ClusterSpecifierWeighted "(string \<times> u32 option) list"

record 'p route_config =
  rc_metadata :: "'p list"
  rc_cluster_specifier :: ClusterSpecifier

text \<open>\<open>route.route().cluster()\<close> is empty where another member of the oneof is set.\<close>

fun configured_cluster :: "ClusterSpecifier \<Rightarrow> string" where
  "configured_cluster (ClusterSpecifierCluster c) = c"
| "configured_cluster _ = []"

subsection \<open>Entries\<close>

record weighted_cluster_entry =
  wce_cluster_name :: string
  wce_cluster_weight :: u64

record 'm route_entry =
  re_cluster_name :: string
  re_config_headers :: "'m list"
  re_weighted_clusters :: "weighted_cluster_entry list"
  re_total_cluster_weight :: u64

text \<open>A resolved route: the entry itself, or one of its weighted clusters.\<close>

datatype 'm route = EntryRoute "'m route_entry" | WeightedRoute weighted_cluster_entry

fun clusterName :: "'m route \<Rightarrow> string" where
  "clusterName (EntryRoute e) = re_cluster_name e"
| "clusterName (WeightedRoute w) = wce_cluster_name w"

record ('p, 'm, 'h) matcher_ops =
  mo_buildHeaderDataVector :: "'p list \<Rightarrow> exn + 'm list"
  mo_matchHeaders :: "'h \<Rightarrow> 'm list \<Rightarrow> bool"
  mo_pickCluster :: "weighted_cluster_entry list \<Rightarrow> u64 \<Rightarrow> u64 \<Rightarrow> weighted_cluster_entry"

text \<open>
  \<open>PROTOBUF_GET_WRAPPED_REQUIRED\<close> throws where the weight is not set. The total is a \<open>uint64_t\<close>;
  without weighted clusters the constructor leaves it uninitialised, and nothing reads it: the
  model has 0 there.
\<close>

fun WeightedClusterEntry :: "string \<times> u32 option \<Rightarrow> exn + weighted_cluster_entry" where
  "WeightedClusterEntry (name, Some weight) =
     Inr \<lparr>wce_cluster_name = name, wce_cluster_weight = ucast weight\<rparr>"
| "WeightedClusterEntry (name, None) = Inl (EnvoyException ''Field weight is missing'')"

fun add_weighted_clusters ::
  "(string \<times> u32 option) list \<Rightarrow> weighted_cluster_entry list \<Rightarrow> u64 \<Rightarrow>
   exn + (weighted_cluster_entry list \<times> u64)" where
  "add_weighted_clusters [] ws weight_sum = Inr (ws, weight_sum)"
| "add_weighted_clusters (c # cs) ws weight_sum =
     (case WeightedClusterEntry c of
        Inl e \<Rightarrow> Inl e
      | Inr w \<Rightarrow> add_weighted_clusters cs (ws @ [w]) (weight_sum + wce_cluster_weight w))"

definition RouteEntryImpl ::
  "('p, 'm, 'h) matcher_ops \<Rightarrow> 'p route_config \<Rightarrow> exn + 'm route_entry" where
  "RouteEntryImpl U route =
     (case mo_buildHeaderDataVector U (rc_metadata route) of
        Inl e \<Rightarrow> Inl e
      | Inr headers \<Rightarrow>
          (let entry = \<lparr>re_cluster_name = configured_cluster (rc_cluster_specifier route),
             re_config_headers = headers, re_weighted_clusters = [], re_total_cluster_weight = 0\<rparr>
           in case rc_cluster_specifier route of
                ClusterSpecifierWeighted clusters \<Rightarrow>
                  (case add_weighted_clusters clusters [] 0 of
                     Inl e \<Rightarrow> Inl e
                   | Inr (ws, weight_sum) \<Rightarrow>
                       Inr (entry\<lparr>re_weighted_clusters := ws, re_total_cluster_weight := weight_sum\<rparr>))
              | _ \<Rightarrow> Inr entry))"

definition clusterEntry :: "('p, 'm, 'h) matcher_ops \<Rightarrow> 'm route_entry \<Rightarrow> u64 \<Rightarrow> 'm route" where
  "clusterEntry U entry random_value =
     (if re_weighted_clusters entry = [] then EntryRoute entry
      else WeightedRoute (mo_pickCluster U (re_weighted_clusters entry)
             (re_total_cluster_weight entry) random_value))"

definition headersMatch ::
  "('p, 'm, 'h) matcher_ops \<Rightarrow> 'm route_entry \<Rightarrow> ('x, 'b, 'h) metadata \<Rightarrow> bool" where
  "headersMatch U entry metadata =
     (if re_config_headers entry = [] then True
      else mo_matchHeaders U (md_headers metadata) (re_config_headers entry))"

definition RouteEntryImpl_matches ::
  "('p, 'm, 'h) matcher_ops \<Rightarrow> 'm route_entry \<Rightarrow> ('x, 'b, 'h) metadata \<Rightarrow> u64 \<Rightarrow> 'm route option" where
  "RouteEntryImpl_matches U entry metadata random_value =
     (if \<not> headersMatch U entry metadata then None
      else Some (clusterEntry U entry random_value))"

subsection \<open>The table\<close>

fun RouteMatcherImpl ::
  "('p, 'm, 'h) matcher_ops \<Rightarrow> 'p route_config list \<Rightarrow> exn + 'm route_entry list" where
  "RouteMatcherImpl U [] = Inr []"
| "RouteMatcherImpl U (route # routes) =
     (case RouteEntryImpl U route of
        Inl e \<Rightarrow> Inl e
      | Inr entry \<Rightarrow>
          (case RouteMatcherImpl U routes of Inl e \<Rightarrow> Inl e | Inr entries \<Rightarrow> Inr (entry # entries)))"

fun RouteMatcherImpl_route ::
  "('p, 'm, 'h) matcher_ops \<Rightarrow> 'm route_entry list \<Rightarrow> ('x, 'b, 'h) metadata \<Rightarrow> u64 \<Rightarrow> 'm route option" where
  "RouteMatcherImpl_route U [] metadata random_value = None"
| "RouteMatcherImpl_route U (route # routes) metadata random_value =
     (case RouteEntryImpl_matches U route metadata random_value of
        Some route_entry \<Rightarrow> Some route_entry
      | None \<Rightarrow> RouteMatcherImpl_route U routes metadata random_value)"

text \<open>What the connection manager's configuration answers: \<open>ConfigImpl::route\<close>, and its cluster.\<close>

definition ConfigImpl_route ::
  "('p, 'm, 'h) matcher_ops \<Rightarrow> 'm route_entry list \<Rightarrow> ('x, 'b, 'h) metadata \<Rightarrow> u64 \<Rightarrow> string option" where
  "ConfigImpl_route U routes metadata random_value =
     map_option clusterName (RouteMatcherImpl_route U routes metadata random_value)"

subsection \<open>First match\<close>

lemma route_find:
  "RouteMatcherImpl_route U es m v =
     map_option (\<lambda>e. clusterEntry U e v) (List.find (\<lambda>e. headersMatch U e m) es)"
  by (induction es) (auto simp: RouteEntryImpl_matches_def)

lemma route_Some_iff:
  "RouteMatcherImpl_route U es m v = Some r \<longleftrightarrow>
   (\<exists>i < length es. headersMatch U (es ! i) m \<and> (\<forall>j < i. \<not> headersMatch U (es ! j) m) \<and>
      r = clusterEntry U (es ! i) v)"
  unfolding route_find by (auto simp: find_Some_iff)

lemma route_None_iff:
  "RouteMatcherImpl_route U es m v = None \<longleftrightarrow> (\<forall>e \<in> set es. \<not> headersMatch U e m)"
  by (auto simp: route_find find_None_iff)

text \<open>Routing looks at the headers of the metadata and at nothing else of it.\<close>

lemma route_cong_headers:
  "md_headers m = md_headers m' \<Longrightarrow>
   RouteMatcherImpl_route U es m v = RouteMatcherImpl_route U es m' v"
  by (induction es) (simp_all add: RouteEntryImpl_matches_def headersMatch_def)

subsection \<open>The entries of a configuration\<close>

lemma add_weighted_clusters_app:
  "add_weighted_clusters cs ws weight_sum = Inr (ws', weight_sum') \<longleftrightarrow>
   (\<exists>vs. list_all2 (\<lambda>c w. WeightedClusterEntry c = Inr w) cs vs \<and> ws' = ws @ vs \<and>
      weight_sum' = weight_sum + sum_list (map wce_cluster_weight vs))"
proof (induction cs arbitrary: ws weight_sum)
  case Nil
  then show ?case by auto
next
  case (Cons c cs)
  show ?case
  proof (cases "WeightedClusterEntry c")
    case (Inl e)
    then show ?thesis by (auto simp: list_all2_Cons1)
  next
    case (Inr w)
    then show ?thesis by (auto simp: Cons list_all2_Cons1 add.assoc)
  qed
qed

text \<open>The clusters a configured route can lead to.\<close>

fun configured_clusters :: "ClusterSpecifier \<Rightarrow> string set" where
  "configured_clusters (ClusterSpecifierWeighted cs) = (if cs = [] then {[]} else fst ` set cs)"
| "configured_clusters s = {configured_cluster s}"

lemma weighted_entry_name: "WeightedClusterEntry c = Inr w \<Longrightarrow> wce_cluster_name w = fst c"
  by (cases c rule: WeightedClusterEntry.cases) auto

lemma RouteEntryImpl_clusters:
  assumes "RouteEntryImpl U route = Inr entry"
  shows "(if re_weighted_clusters entry = [] then {re_cluster_name entry}
          else wce_cluster_name ` set (re_weighted_clusters entry)) =
    configured_clusters (rc_cluster_specifier route)"
    and "re_weighted_clusters entry \<noteq> [] \<Longrightarrow>
      re_total_cluster_weight entry = sum_list (map wce_cluster_weight (re_weighted_clusters entry))"
proof -
  have names: "wce_cluster_name ` set vs = fst ` set cs \<and> (vs = [] \<longleftrightarrow> cs = [])"
    if "list_all2 (\<lambda>c w. WeightedClusterEntry c = Inr w) cs vs" for cs vs
    using that by (induction rule: list_all2_induct) (auto simp: weighted_entry_name)
  show "(if re_weighted_clusters entry = [] then {re_cluster_name entry}
          else wce_cluster_name ` set (re_weighted_clusters entry)) =
    configured_clusters (rc_cluster_specifier route)"
  proof (cases "rc_cluster_specifier route")
    case (ClusterSpecifierWeighted cs)
    obtain vs where vs: "list_all2 (\<lambda>c w. WeightedClusterEntry c = Inr w) cs vs"
      "re_weighted_clusters entry = vs" "re_cluster_name entry = []"
      using assms ClusterSpecifierWeighted
      by (auto simp: RouteEntryImpl_def Let_def add_weighted_clusters_app split: sum.splits)
    then show ?thesis using names [OF vs(1)] ClusterSpecifierWeighted by simp
  qed (use assms in \<open>auto simp: RouteEntryImpl_def Let_def split: sum.splits\<close>)
  show "re_weighted_clusters entry \<noteq> [] \<Longrightarrow>
      re_total_cluster_weight entry = sum_list (map wce_cluster_weight (re_weighted_clusters entry))"
    using assms
    by (auto simp: RouteEntryImpl_def Let_def add_weighted_clusters_app
        split: sum.splits ClusterSpecifier.splits)
qed

subsection \<open>What is relied on\<close>

text \<open>
  The compiled matchers say what the configured ones say (\<open>meets\<close>), and \<open>pickCluster\<close> answers with
  one of the clusters it is given, where their weights add up to something.
\<close>

lemma unat_weight: "unat (ucast (w :: u32) :: u64) = unat w"
proof -
  have "unat w < 2 ^ 32" using unsigned_less [of w] by simp
  then have "unat w < 2 ^ 64" by simp
  then show ?thesis by (simp add: unsigned_ucast_eq take_bit_nat_eq_self)
qed

locale route_matching =
  fixes U :: "('p, 'm, 'h) matcher_ops" and meets :: "'h \<Rightarrow> 'p \<Rightarrow> bool"
  assumes match_built: "mo_buildHeaderDataVector U ps = Inr ms \<Longrightarrow>
      (ms = [] \<longleftrightarrow> ps = []) \<and> mo_matchHeaders U h ms = (\<forall>p \<in> set ps. meets h p)"
    and pick_member: "0 < sum_list (map (unat \<circ> wce_cluster_weight) ws) \<Longrightarrow>
      sum_list (map (unat \<circ> wce_cluster_weight) ws) < 2 ^ 64 \<Longrightarrow>
      mo_pickCluster U ws (sum_list (map wce_cluster_weight ws)) v \<in> set ws"
begin

text \<open>
  A table built from a configuration routes a request to a cluster of the first configured route
  all of whose matchers the request meets.
\<close>

definition rule_matches :: "'p route_config \<Rightarrow> ('x, 'b, 'h) metadata \<Rightarrow> bool" where
  "rule_matches rule m = (\<forall>p \<in> set (rc_metadata rule). meets (md_headers m) p)"

lemma entry_matches:
  "RouteEntryImpl U rule = Inr entry \<Longrightarrow> headersMatch U entry m = rule_matches rule m"
  using match_built
  by (auto simp: RouteEntryImpl_def headersMatch_def rule_matches_def Let_def
      split: sum.splits ClusterSpecifier.splits)

lemma table_entries:
  "RouteMatcherImpl U rules = Inr es \<Longrightarrow> list_all2 (\<lambda>rule e. RouteEntryImpl U rule = Inr e) rules es"
  by (induction rules arbitrary: es) (auto split: sum.splits)

lemma entry_cluster:
  assumes "RouteEntryImpl U rule = Inr entry"
    and "\<forall>cs. rc_cluster_specifier rule = ClusterSpecifierWeighted cs \<longrightarrow>
      0 < sum_list (map (\<lambda>c. unat (the (snd c))) cs) \<and> sum_list (map (\<lambda>c. unat (the (snd c))) cs) < 2 ^ 64"
  shows "clusterName (clusterEntry U entry v) \<in> configured_clusters (rc_cluster_specifier rule)"
proof (cases "re_weighted_clusters entry = []")
  case True
  then show ?thesis using RouteEntryImpl_clusters(1) [OF assms(1)] by (auto simp: clusterEntry_def)
next
  case False
  let ?ws = "re_weighted_clusters entry"
  have "\<exists>cs. rc_cluster_specifier rule = ClusterSpecifierWeighted cs \<and>
      list_all2 (\<lambda>c w. WeightedClusterEntry c = Inr w) cs ?ws"
    using assms(1) False
    by (auto simp: RouteEntryImpl_def Let_def add_weighted_clusters_app split: sum.splits ClusterSpecifier.splits)
  then obtain cs where cs: "rc_cluster_specifier rule = ClusterSpecifierWeighted cs"
    "list_all2 (\<lambda>c w. WeightedClusterEntry c = Inr w) cs ?ws" by blast
  have "map (\<lambda>c. unat (the (snd c))) cs = map (unat \<circ> wce_cluster_weight) ?ws"
    using cs(2)
  proof (induction rule: list_all2_induct)
    case (Cons c cs w ws)
    then show ?case
      by (cases c rule: WeightedClusterEntry.cases) (auto simp: unat_weight)
  qed simp
  then have "mo_pickCluster U ?ws (re_total_cluster_weight entry) v \<in> set ?ws"
    using pick_member [of ?ws v] assms(2) cs(1) RouteEntryImpl_clusters(2) [OF assms(1) False] by simp
  then show ?thesis
    using RouteEntryImpl_clusters(1) [OF assms(1)] False by (auto simp: clusterEntry_def)
qed

end

subsection \<open>An instance\<close>

text \<open>
  Matchers that ask for a value of a header of an association list, and the choice of the cluster in
  whose range of weights the random value falls.
\<close>

fun pick_from :: "weighted_cluster_entry list \<Rightarrow> nat \<Rightarrow> weighted_cluster_entry" where
  "pick_from [] selected = \<lparr>wce_cluster_name = [], wce_cluster_weight = 0\<rparr>"
| "pick_from (w # ws) selected =
     (if selected < unat (wce_cluster_weight w) \<or> ws = [] then w
      else pick_from ws (selected - unat (wce_cluster_weight w)))"

definition exact_matchers ::
  "(string \<times> string, string \<times> string, (string \<times> string) list) matcher_ops" where
  "exact_matchers =
     \<lparr>mo_buildHeaderDataVector = Inr,
      mo_matchHeaders = (\<lambda>h ms. list_all (\<lambda>(k, v). alist_get h k = [v]) ms),
      mo_pickCluster = (\<lambda>ws weight_sum v. pick_from ws (unat v mod unat weight_sum))\<rparr>"

lemma pick_from_member: "ws \<noteq> [] \<Longrightarrow> pick_from ws n \<in> set ws"
  by (induction ws n rule: pick_from.induct) auto

interpretation em: route_matching exact_matchers "\<lambda>h (k, v). alist_get h k = [v]"
proof
  fix ws :: "weighted_cluster_entry list" and v
  assume "0 < sum_list (map (unat \<circ> wce_cluster_weight) ws)"
  then have "ws \<noteq> []" by auto
  then show "mo_pickCluster exact_matchers ws (sum_list (map wce_cluster_weight ws)) v \<in> set ws"
    by (simp add: exact_matchers_def pick_from_member)
qed (auto simp: exact_matchers_def list_all_iff)

end
