(* ===== verification/Proxy_Config.thy ===== *)
theory Proxy_Config
  imports Route_Matcher
begin

text \<open>
  The configuration of the proxy, \<open>ConfigImpl\<close> of src/src/meta_protocol_proxy/config.cc: the route
  table, the filters of the chain and their default, and the prefix of the statistics.

  The registry of filter factories is Envoy's: it maps the name and the configuration of a filter
  to a factory callback, or throws. The router filter registers itself under \<open>router_filter_name\<close>
  (filters/router/config.h and config.cc) with the callback \<open>AddRouter\<close>.
\<close>

subsection \<open>The constructor\<close>

type_synonym ('g, 'f) filter_registry = "string \<Rightarrow> 'g \<Rightarrow> exn + 'f FilterFactoryCb"

definition router_filter_name :: string where
  "router_filter_name = ''aeraki.meta_protocol.filters.router''"

record ('p, 'g) proxy_proto =
  pp_application_protocol :: string
  pp_stat_prefix :: string
  pp_routes :: "'p route_config list"
  pp_meta_protocol_filters :: "(string \<times> 'g) list"

record ('m, 'f) config_impl =
  ci_stats_prefix :: string
  ci_application_protocol :: string
  ci_route_matcher :: "'m route_entry list"
  ci_filter_factories :: "'f FilterFactoryCb list"

definition registerFilter ::
  "('g, 'f) filter_registry \<Rightarrow> string \<times> 'g \<Rightarrow> 'f FilterFactoryCb list \<Rightarrow> exn + 'f FilterFactoryCb list" where
  "registerFilter registry proto_config filter_factories =
     (case registry (fst proto_config) (snd proto_config) of
        Inl e \<Rightarrow> Inl e
      | Inr callback \<Rightarrow> Inr (filter_factories @ [callback]))"

fun register_filters ::
  "('g, 'f) filter_registry \<Rightarrow> (string \<times> 'g) list \<Rightarrow> 'f FilterFactoryCb list \<Rightarrow> exn + 'f FilterFactoryCb list" where
  "register_filters registry [] filter_factories = Inr filter_factories"
| "register_filters registry (f # fs) filter_factories =
     (case registerFilter registry f filter_factories of
        Inl e \<Rightarrow> Inl e
      | Inr filter_factories \<Rightarrow> register_filters registry fs filter_factories)"

text \<open>\<open>empty_config\<close> is the configuration of a filter message with only its name set.\<close>

definition ConfigImpl ::
  "('p, 'm, 'h) matcher_ops \<Rightarrow> ('g, 'f) filter_registry \<Rightarrow> 'g \<Rightarrow> ('p, 'g) proxy_proto \<Rightarrow> exn + ('m, 'f) config_impl" where
  "ConfigImpl U registry empty_config config =
     (case RouteMatcherImpl U (pp_routes config) of
        Inl e \<Rightarrow> Inl e
      | Inr route_matcher \<Rightarrow>
          (case (if pp_meta_protocol_filters config = []
                 then registerFilter registry (router_filter_name, empty_config) []
                 else register_filters registry (pp_meta_protocol_filters config) []) of
             Inl e \<Rightarrow> Inl e
           | Inr filter_factories \<Rightarrow>
               Inr \<lparr>ci_stats_prefix = ''meta_protocol.'' @ pp_application_protocol config @ ''.'' @
                      pp_stat_prefix config @ ''.'',
                    ci_application_protocol = pp_application_protocol config,
                    ci_route_matcher = route_matcher,
                    ci_filter_factories = filter_factories\<rparr>))"

text \<open>What a configuration makes of the environment of the connection managers.\<close>

definition configure ::
  "('p, 'm, 'h) matcher_ops \<Rightarrow> ('m, 'f) config_impl \<Rightarrow> ('c, 'x, 'b, 'h, 'f) env \<Rightarrow> ('c, 'x, 'b, 'h, 'f) env" where
  "configure U config E =
     E\<lparr>en_applicationProtocol := ci_application_protocol config,
       en_filter_factories := ci_filter_factories config,
       en_route := ConfigImpl_route U (ci_route_matcher config)\<rparr>"

subsection \<open>What it configures\<close>

lemma register_filters_map:
  "register_filters registry fs cbs = Inr cbs' \<longleftrightarrow>
   (\<exists>new. list_all2 (\<lambda>f cb. registry (fst f) (snd f) = Inr cb) fs new \<and> cbs' = cbs @ new)"
proof (induction fs arbitrary: cbs)
  case Nil
  then show ?case by auto
next
  case (Cons f fs)
  show ?case
  proof (cases "registry (fst f) (snd f)")
    case (Inl e)
    then show ?thesis by (auto simp: registerFilter_def list_all2_Cons1)
  next
    case (Inr cb)
    then show ?thesis by (auto simp: registerFilter_def Cons list_all2_Cons1)
  qed
qed

lemma ConfigImpl_fields:
  assumes "ConfigImpl U registry g config = Inr ci"
  shows "RouteMatcherImpl U (pp_routes config) = Inr (ci_route_matcher ci)"
    and "ci_application_protocol ci = pp_application_protocol config"
    and "list_all2 (\<lambda>f cb. registry (fst f) (snd f) = Inr cb)
      (if pp_meta_protocol_filters config = [] then [(router_filter_name, g)]
       else pp_meta_protocol_filters config) (ci_filter_factories ci)"
  using assms
  by (auto simp: ConfigImpl_def registerFilter_def register_filters_map split: sum.splits if_splits)

lemma default_filter_factories:
  assumes "ConfigImpl U registry g config = Inr ci" and "pp_meta_protocol_filters config = []"
    and "registry router_filter_name g = Inr AddRouter"
  shows "ci_filter_factories ci = [AddRouter]"
  using ConfigImpl_fields(3) [OF assms(1)] assms(2,3) by (auto simp: list_all2_Cons1)

end
