(* ===== verification/Dubbo_Proxy.thy ===== *)
theory Dubbo_Proxy
  imports Dubbo_Properties Proxy_Exchange Proxy_Lifecycle Proxy_Config
begin

text \<open>
  The proxy with the Dubbo codec: what the connection manager and the router rely on of a codec
  holds of it, and the headers the codec sets are those the route table matches on. A concrete
  proxy, with a route for one service, ends the theory; the examples of the proxy's properties
  run on it.
\<close>

subsection \<open>The codec contract\<close>

locale dubbo_proxy = rpc_serializer "en_buffer E" content S result_code
  for E :: "('b dubbo_codec, dubbo_any, 'b, 'h, 'f) env" and content :: "'b \<Rightarrow> u8 list"
    and S :: "'b serializer" and result_code :: "RpcResponseType \<Rightarrow> string \<Rightarrow> u8 list" +
  assumes runs_codec: "en_codec E = DubboCodec (en_buffer E) (en_headers E) S"
    and runs_new: "en_createCodec E = DubboCodec_init"

sublocale dubbo_proxy \<subseteq> proxy_env E content "codec_ok content"
proof (unfold_locales, goal_cases)
  case (1 c b m st c' b' m')
  then show ?case using dubbo.decode_inv by (simp add: runs_codec)
next
  case (2 c b m c' b' m')
  then show ?case using dubbo.decode_progress by (simp add: runs_codec)
next
  case (3 c b m e c' b' m')
  then show ?case using dubbo.decode_throws by (simp add: runs_codec)
next
  case 4
  then show ?case by (simp add: runs_new codec_ok_init)
next
  case 5
  then show ?case by (simp add: codec_keeps_def runs_codec DubboCodec_def apsnd_def map_prod_def case_prod_beta)
qed

subsection \<open>Local replies\<close>

text \<open>
  The codec can answer every request without a timeout, and also after the router took the bytes of
  the request.
\<close>

context dubbo_proxy
begin

lemma dubbo_replies:
  assumes "cx_state px = ConnOpen" and "dm_timeout dm = None" and "dm_serialization_type dm = 2"
    and "err_message err \<noteq> []"
    and "length (result_code ResponseWithException (err_message err)) < 2 ^ 64"
  shows "replies E (toMetadata (en_headers E) dm ctx (MetadataImpl (en_buffer E) (en_headers E))) err px"
    and "reply_to E content c (toMetadata (en_headers E) dm ctx (MetadataImpl (en_buffer E) (en_headers E))) err =
      header_bytes 2 (error_status_code (err_type err)) (dm_request_id dm)
        (of_nat (length (result_code ResponseWithException (err_message err)))) @
      result_code ResponseWithException (err_message err)"
proof -
  let ?m = "toMetadata (en_headers E) dm ctx (MetadataImpl (en_buffer E) (en_headers E))"
  obtain out where out: "DubboCodec_onError (en_buffer E) S ?m err (buf_new (en_buffer E)) = (Inr (), out)"
    "content out = header_bytes 2 (error_status_code (err_type err)) (dm_request_id dm)
       (of_nat (length (result_code ResponseWithException (err_message err)))) @
       result_code ResponseWithException (err_message err)"
    by (rule encode_error [where H = "en_headers E" and ctx = ctx]) (use assms new_content in auto)
  have "buf_length (en_buffer E) (buf_new (en_buffer E)) = 0"
    using new_content by (simp add: length_content)
  then show "replies E ?m err px" "reply_to E content c ?m err =
      header_bytes 2 (error_status_code (err_type err)) (dm_request_id dm)
        (of_nat (length (result_code ResponseWithException (err_message err)))) @
      result_code ResponseWithException (err_message err)"
    using out assms(1) by (simp_all add: replies_def reply_to_def runs_codec DubboCodec_def)
qed

end

subsection \<open>The headers of a request\<close>

lemma toMetadata_headers:
  assumes "dm_invocation_info dm = Some i"
  shows "md_headers (toMetadata H dm ctx m) =
    md_headers (Metadata_putString H (Metadata_putString H m ''interface'' (inv_service_name i))
      ''method'' (inv_method_name i))"
  using assms
  by (simp add: toMetadata_def toMetadata_msg_def Let_def getput split: option.split)

lemma toMetadata_routes:
  assumes "header_map H hget" and "dm_invocation_info dm = Some i"
    and "hdr_lower H ''interface'' \<noteq> hdr_lower H ''method''"
  shows "hget (md_headers (toMetadata H dm ctx (MetadataImpl B H))) k =
    (if k = hdr_lower H ''method'' then [inv_method_name i]
     else if k = hdr_lower H ''interface'' then [inv_service_name i] else [])"
  using assms(3)
  by (simp add: toMetadata_headers [OF assms(2)] header_map.putString_routes [OF assms(1)]
      header_map.create_hget [OF assms(1)] getput)

subsection \<open>A concrete proxy\<close>

text \<open>A route table with one rule, the default filters, and a cluster whose pool gives \<open>answer\<close>.\<close>

definition sample_registry :: "string \<Rightarrow> unit \<Rightarrow> exn + unit FilterFactoryCb" where
  "sample_registry name g =
     (if name = router_filter_name then Inr AddRouter
      else Inl (EnvoyException ''Didn't find a registered implementation''))"

definition sample_config :: "(string \<times> string, unit) proxy_proto" where
  "sample_config =
     \<lparr>pp_application_protocol = ''dubbo'', pp_stat_prefix = ''sample'',
      pp_routes = [\<lparr>rc_metadata = [(''interface'', ''i'')],
                    rc_cluster_specifier = ClusterSpecifierCluster ''c''\<rparr>],
      pp_meta_protocol_filters = []\<rparr>"

definition sample_config_impl :: "(string \<times> string, unit) config_impl" where
  "sample_config_impl =
     \<lparr>ci_stats_prefix = ''meta_protocol.dubbo.sample.'', ci_application_protocol = ''dubbo'',
      ci_route_matcher = [\<lparr>re_cluster_name = ''c'', re_config_headers = [(''interface'', ''i'')],
        re_weighted_clusters = [], re_total_cluster_weight = 0\<rparr>],
      ci_filter_factories = [AddRouter]\<rparr>"

lemma sample_config_impl:
  "ConfigImpl exact_matchers sample_registry () sample_config = Inr sample_config_impl"
  by (simp add: ConfigImpl_def sample_config_def sample_config_impl_def sample_registry_def
      registerFilter_def RouteEntryImpl_def exact_matchers_def Let_def)

type_synonym sample_proxy =
  "(u8 list dubbo_codec, dubbo_any, u8 list, (string \<times> string) list, unit) proxy"

definition sample_env ::
  "pool_answer \<Rightarrow> (u8 list dubbo_codec, dubbo_any, u8 list, (string \<times> string) list, unit) env" where
  "sample_env answer = configure exact_matchers sample_config_impl
     \<lparr>en_buffer = list_buffer, en_headers = alist_headers,
      en_codec = DubboCodec list_buffer alist_headers list_serializer,
      en_createCodec = DubboCodec_init, en_applicationProtocol = [], en_filter_factories = [],
      en_route = (\<lambda>_ _. None),
      en_getThreadLocalCluster = (\<lambda>name. if name = ''c''
        then Some \<lparr>cl_maintenanceMode = False, cl_tcpConnPool = True\<rparr> else None),
      en_newConnection = (\<lambda>_ _. answer), en_write_pending = (\<lambda>_. False), en_random = (\<lambda>_. 0),
      en_onMessageDecoded = (\<lambda>f m mu. (f, m, mu, None, Continue)),
      en_onMessageEncoded = (\<lambda>f m mu. (f, m, mu, Continue))\<rparr>"

lemma sample_env_fields [simp]:
  "en_buffer (sample_env answer) = list_buffer"
  "en_headers (sample_env answer) = alist_headers"
  "en_codec (sample_env answer) = DubboCodec list_buffer alist_headers list_serializer"
  "en_createCodec (sample_env answer) = DubboCodec_init"
  "en_applicationProtocol (sample_env answer) = ''dubbo''"
  "en_filter_factories (sample_env answer) = [AddRouter]"
  "en_newConnection (sample_env answer) name es = answer"
  "en_random (sample_env answer) n = 0"
  by (simp_all add: sample_env_def configure_def sample_config_impl_def)

interpretation sample: dubbo_proxy "sample_env answer" "\<lambda>bs. bs" list_serializer list_result_code for answer
proof (rule dubbo_proxy.intro)
  show "rpc_serializer (en_buffer (sample_env answer)) (\<lambda>bs. bs) list_serializer list_result_code"
    using lh.rpc_serializer_axioms by simp
  show "dubbo_proxy_axioms (sample_env answer) list_serializer"
    by (rule dubbo_proxy_axioms.intro) simp_all
qed

subsection \<open>Concrete messages\<close>

text \<open>A two-way request with id 7 for method m of the service with the one-letter name \<open>x\<close>.\<close>

definition sample_request :: "u8 \<Rightarrow> u8 list" where
  "sample_request x = header_bytes 0xC2 0 7 8 @ [1, 50, 1, x, 1, 48, 1, 109]"

definition sample_invocation :: "u8 \<Rightarrow> rpc_invocation" where
  "sample_invocation x = \<lparr>inv_service_name = [char_of_byte x], inv_method_name = ''m'',
     inv_service_version = Some ''0'', inv_group = None, inv_parsed_size = 24\<rparr>"

definition sample_dubbo_metadata :: "u8 \<Rightarrow> dubbo_metadata" where
  "sample_dubbo_metadata x =
     (header_metadata 0xC2 0 7 MessageMetadata)\<lparr>dm_invocation_info := Some (sample_invocation x)\<rparr>"

definition sample_metadata :: "u8 \<Rightarrow> (dubbo_any, u8 list, (string \<times> string) list) metadata" where
  "sample_metadata x =
     toMetadata alist_headers (sample_dubbo_metadata x)
       ((header_context list_buffer 0xC2 8)\<lparr>ctx_origin_message := sample_request x\<rparr>) new_metadata"

lemma sample_decode_front:
  "list_decode (sample_request x @ after) = (Inr DecodeDone, (DubboCodec_init, after, sample_metadata x))"
proof -
  let ?rest = "[1, 50, 1, x, 1, 48, 1, 109] @ after :: u8 list"
  have len: "unat (8 :: u32) \<le> length ?rest" by simp
  have body: "body_outcome list_serializer b (header_context list_buffer 0xC2 8)
      (header_metadata 0xC2 0 7 MessageMetadata) = Inr (sample_dubbo_metadata x)" if "b = ?rest" for b
    using that
    by (simp add: body_outcome_def sample_header_valid deserializeRpcInvocation_def list_hessian_def
        list_decode_string_def header_context_def sample_chars sample_dubbo_metadata_def
        sample_invocation_def lb.header_metadata_type)
  show ?thesis
    by (rule lh.decode_body [OF refl sample_header_valid(1,2) len body,
          where H = alist_headers and m = new_metadata])
      (auto simp: sample_request_def sample_metadata_def)
qed

lemma sample_decode:
  "list_decode (sample_request x) = (Inr DecodeDone, (DubboCodec_init, [], sample_metadata x))"
  using sample_decode_front [of x "[]"] by simp

lemma sample_metadata_fields [simp]:
  "md_message_type (sample_metadata x) = Request" "md_request_id (sample_metadata x) = 7"
  "md_origin_message (sample_metadata x) = sample_request x"
  by (simp_all add: sample_metadata_def sample_dubbo_metadata_def toMetadata_fields
      lb.header_metadata_type sample_header_valid header_metadata_def)

lemma sample_routes:
  "alist_get (md_headers (sample_metadata x)) ''interface'' = [[char_of_byte x]]"
proof -
  have low: "hdr_lower alist_headers ''interface'' = ''interface''"
    "hdr_lower alist_headers ''method'' = ''method''"
    by (simp_all add: alist_headers_def lower_char_def)
  show ?thesis
    using toMetadata_routes [OF ah.header_map_axioms, of "sample_dubbo_metadata x" "sample_invocation x"
        "(header_context list_buffer 0xC2 8)\<lparr>ctx_origin_message := sample_request x\<rparr>" list_buffer "''interface''"]
    by (simp add: low sample_metadata_def sample_dubbo_metadata_def sample_invocation_def)
qed

lemma sample_route:
  "en_route (sample_env answer) (sample_metadata x) sid =
     (if [char_of_byte x] = ''i'' then Some ''c'' else None)"
  using sample_routes [of x]
  by (simp add: sample_env_def configure_def sample_config_impl_def ConfigImpl_route_def
      RouteEntryImpl_matches_def headersMatch_def clusterEntry_def exact_matchers_def)

lemma taken_sample:
  "taken_metadata E (sample_metadata x) = toMetadata alist_headers (sample_dubbo_metadata x)
     ((header_context list_buffer 0xC2 8)\<lparr>ctx_origin_message := md_origin_message (taken_metadata E (sample_metadata x))\<rparr>)
     new_metadata"
  by (simp add: taken_metadata_def sample_metadata_def toMetadata_def)

lemma sample_replies:
  assumes "cx_state px = ConnOpen" and "err_message err \<noteq> []" and "length (err_message err) < 2 ^ 32"
  shows "replies (sample_env answer) (sample_metadata x) err px"
    and "replies (sample_env answer) (taken_metadata E (sample_metadata x)) err px"
proof -
  have "length (list_result_code ResponseWithException (err_message err)) < 2 ^ 64"
    using assms(3) by (simp add: list_int_code_def list_string_code_def)
  then have r: "replies (sample_env answer) (toMetadata alist_headers (sample_dubbo_metadata x) ctx new_metadata) err px"
    for ctx
    using sample.dubbo_replies(1) [OF assms(1) _ _ assms(2), where dm = "sample_dubbo_metadata x" and answer = answer]
    by (simp add: sample_dubbo_metadata_def header_metadata_def MessageMetadata_def sample_header_valid Let_def)
  show "replies (sample_env answer) (sample_metadata x) err px"
    unfolding sample_metadata_def by (rule r)
  show "replies (sample_env answer) (taken_metadata E (sample_metadata x)) err px"
    by (subst taken_sample) (rule r)
qed

lemma sample_completes:
  assumes "cm_codec px = DubboCodec_init" and "cm_request_buffer px = []"
  shows "completes (sample_env answer) px (sample_request x) DubboCodec_init (sample_metadata x)"
proof -
  have "fst (buf_move_all list_buffer [] (sample_request x)) = sample_request x"
    "buf_length list_buffer (sample_request x) \<noteq> 0" "buf_length list_buffer [] = 0"
    by (simp_all add: list_buffer_def sample_request_def header_bytes_def)
  then show ?thesis
    using sample_decode [of x] assms
    by (simp add: completes_def decodes_def DubboCodec_def Let_def)
qed

lemma sample_routing:
  "routing (sample_env answer) (sample_metadata 105) sid = Inr ''c''"
  "routing (sample_env answer) (sample_metadata 106) sid = Inl (no_route_error 7)"
proof -
  have "char_of_byte 106 = CHR ''j''" by code_simp
  then show "routing (sample_env answer) (sample_metadata 105) sid = Inr ''c''"
    "routing (sample_env answer) (sample_metadata 106) sid = Inl (no_route_error 7)"
    by (simp_all add: routing_def sample_route sample_chars)
      (simp add: sample_env_def configure_def)
qed

text \<open>A one-way request for the service that is routed.\<close>

definition sample_oneway :: "u8 list" where
  "sample_oneway = header_bytes 0x82 0 7 8 @ sample_body"

definition oneway_metadata :: "(dubbo_any, u8 list, (string \<times> string) list) metadata" where
  "oneway_metadata =
     toMetadata alist_headers
       ((header_metadata 0x82 0 7 MessageMetadata)\<lparr>dm_invocation_info := Some (sample_invocation 105)\<rparr>)
       ((header_context list_buffer 0x82 8)\<lparr>ctx_origin_message := sample_oneway\<rparr>) new_metadata"

lemma oneway_header:
  "valid_header 0x82 0 8" "\<not> flag_event 0x82" "header_type 0x82 = DOneway"
  by (simp_all add: valid_header_def valid_size_def flag_request_def flag_event_def MaxBodySize_def
      MessageTypeMask_def EventMask_def SerializationTypeMask_def header_type_def flag_two_way_def
      TwoWayMask_def)

lemma oneway_decode:
  "list_decode sample_oneway = (Inr DecodeDone, (DubboCodec_init, [], oneway_metadata))"
proof -
  have len: "unat (8 :: u32) \<le> length sample_body" by (simp add: sample_body_def)
  have body: "body_outcome list_serializer b (header_context list_buffer 0x82 8)
      (header_metadata 0x82 0 7 MessageMetadata) =
    Inr ((header_metadata 0x82 0 7 MessageMetadata)\<lparr>dm_invocation_info := Some (sample_invocation 105)\<rparr>)"
    if "b = sample_body" for b
    using that
    by (simp add: body_outcome_def oneway_header deserializeRpcInvocation_def list_hessian_def sample_body_def
        list_decode_string_def header_context_def sample_chars sample_invocation_def lb.header_metadata_type)
  show ?thesis
    by (rule lh.decode_body [OF refl oneway_header(1,2) len body, where H = alist_headers and m = new_metadata])
      (auto simp: sample_oneway_def sample_body_def oneway_metadata_def)
qed

lemma oneway_completes:
  assumes "cm_codec px = DubboCodec_init" and "cm_request_buffer px = []"
  shows "completes (sample_env answer) px sample_oneway DubboCodec_init oneway_metadata"
proof -
  have "fst (buf_move_all list_buffer [] sample_oneway) = sample_oneway"
    "buf_length list_buffer sample_oneway \<noteq> 0" "buf_length list_buffer [] = 0"
    by (simp_all add: list_buffer_def sample_oneway_def header_bytes_def)
  then show ?thesis
    using oneway_decode assms by (simp add: completes_def decodes_def DubboCodec_def Let_def)
qed

lemma oneway_routing:
  "md_message_type oneway_metadata = Oneway"
  "routing (sample_env answer) oneway_metadata sid = Inr ''c''"
proof -
  have low: "hdr_lower alist_headers ''interface'' = ''interface''"
    "hdr_lower alist_headers ''method'' = ''method''"
    by (simp_all add: alist_headers_def lower_char_def)
  have "alist_get (md_headers oneway_metadata) ''interface'' = [''i'']"
    using toMetadata_routes [OF ah.header_map_axioms, of
        "(header_metadata 0x82 0 7 MessageMetadata)\<lparr>dm_invocation_info := Some (sample_invocation 105)\<rparr>"
        "sample_invocation 105" "(header_context list_buffer 0x82 8)\<lparr>ctx_origin_message := sample_oneway\<rparr>"
        list_buffer "''interface''"]
    by (simp add: low oneway_metadata_def sample_invocation_def sample_chars)
  then have "en_route (sample_env answer) oneway_metadata sid = Some ''c''"
    by (simp add: sample_env_def configure_def sample_config_impl_def ConfigImpl_route_def
        RouteEntryImpl_matches_def headersMatch_def clusterEntry_def exact_matchers_def)
  then show "routing (sample_env answer) oneway_metadata sid = Inr ''c''"
    by (simp add: routing_def) (simp add: sample_env_def configure_def)
  show "md_message_type oneway_metadata = Oneway"
    by (simp add: oneway_metadata_def toMetadata_fields lb.header_metadata_type oneway_header)
qed

text \<open>The new connection.\<close>

abbreviation sample_start :: "pool_answer \<Rightarrow> sample_proxy" where
  "sample_start answer \<equiv> ConnectionManager (sample_env answer)"

lemma sample_start_fields [simp]:
  "cm_codec (sample_start answer) = DubboCodec_init" "cm_request_buffer (sample_start answer) = []"
  "cx_state (sample_start answer) = ConnOpen" "cx_effects (sample_start answer) = []"
  "cm_active_message_list (sample_start answer) = []" "ev_deferred (sample_start answer) = []"
  "st_next (sample_start answer) = 0" "st_messages (sample_start answer) = Map.empty"
  by (simp_all add: ConnectionManager_def list_buffer_def)

lemma sample_default_chain: "default_chain (sample_env answer)"
  by (simp add: default_chain_def)

text \<open>An error reply of the upstream to the request \<open>i\<close>.\<close>

definition sample_reply :: "u64 \<Rightarrow> u8 list" where
  "sample_reply i = header_bytes 2 70 i 4 @ list_result_code ResponseWithException ''no''"

lemma sample_response:
  obtains rest rm where
    "response_codec_done (sample_env answer) DubboCodec_init (sample_reply i) DubboCodec_init rest rm"
    "md_request_id rm = i" "md_origin_message rm = sample_reply i" "rest = []"
    "response_result rm = ExtOriginRequestFailed"
proof -
  let ?code = "list_result_code ResponseWithException ''no''"
  have len: "length ?code = 4" by (simp add: list_int_code_def list_string_code_def)
  have v: "valid_header 2 70 4"
    using error_status_code_valid [of RouteNotFound]
    by (simp add: valid_header_def valid_size_def reply_flags MaxBodySize_def error_status_code_def
        SerializationTypeMask_def isValidResponseStatus_def response_status_of_u8_def response_statuses_def)
  show thesis
  proof (rule lh.decode_body [of "sample_reply i" 2 70 i 4 ?code, where H = alist_headers and m = new_metadata])
    show "body_outcome list_serializer b (header_context list_buffer 2 4)
        (header_metadata 2 70 i MessageMetadata) =
      Inr ((header_metadata 2 70 i MessageMetadata)\<lparr>dm_message_type := DException\<rparr>)"
      if "b = ?code" for b
    proof -
      have "body_outcome list_serializer b (header_context list_buffer 2 (of_nat (length ?code)))
          (header_metadata 2 70 i MessageMetadata) =
        Inr ((header_metadata 2 70 i MessageMetadata)\<lparr>dm_message_type := DException\<rparr>)"
        by (rule lh.body_outcome_reply [OF that]) (simp_all only: len, simp_all add: header_metadata_def reply_flags)
      then show ?thesis by (simp only: len of_nat_numeral)
    qed
  qed (use v len that in \<open>auto simp: sample_reply_def reply_flags response_codec_done_def DubboCodec_def
      toMetadata_fields header_metadata_def response_result_def\<close>)
qed

text \<open>Bytes that are not the protocol's, and a heartbeat.\<close>

lemma sample_garbage:
  obtains c b where
    "list_decode (replicate 16 0) = (Inl (EnvoyException ''invalid dubbo message magic number 0''), (c, b, new_metadata))"
proof -
  have m: "be_word (take 2 (replicate 16 0 :: u8 list)) = (0 :: u16)" by code_simp
  have zero: "dec_nat 0 = ''0''" by code_simp
  have "decodeHeader_metadata list_buffer (replicate 16 0) MessageMetadata =
      (Inl (EnvoyException ''invalid dubbo message magic number 0''), MessageMetadata)"
    using lb.decodeHeader_bad_magic [of "replicate 16 0" MessageMetadata] m
    by (simp add: MagicNumber_def zero)
  then have "dubbo_run list_buffer list_serializer (replicate 16 0) DubboDecoderStateMachine =
      (Inl (EnvoyException ''invalid dubbo message magic number 0''),
       (replicate 16 0, DubboDecoderStateMachine\<lparr>sm_metadata := MessageMetadata\<rparr>))"
    using lb.run_header_error [OF new_machine(1)] by simp
  then show thesis by (intro that) (simp add: decode_init)
qed

definition sample_heartbeat :: "u8 list" where
  "sample_heartbeat = header_bytes 0xE2 0 9 0"

lemma sample_heartbeat:
  obtains m out where
    "completes (sample_env answer) (sample_start answer) sample_heartbeat DubboCodec_init m"
    "md_message_type m = Heartbeat"
    "codec_encode (en_codec (sample_env answer)) DubboCodec_init m MutationImpl [] =
       (Inr (), (DubboCodec_init, out))" "out = heartbeat_reply 9"
proof -
  let ?dm = "header_metadata 0xE2 0 9 MessageMetadata"
  have v: "valid_header 0xE2 0 0" "flag_event 0xE2" "flag_request 0xE2"
    by (simp_all add: valid_header_def valid_size_def flag_request_def flag_event_def MaxBodySize_def
        MessageTypeMask_def EventMask_def SerializationTypeMask_def)
  have dm: "dm_message_type ?dm = DHeartbeatRequest" "dm_timeout ?dm = None"
    "dm_serialization_type ?dm = 2" "dm_request_id ?dm = 9"
    using v by (simp_all add: header_metadata_def header_type_def MessageMetadata_def Let_def)
  obtain o' b' where d: "list_decode sample_heartbeat = (Inr DecodeDone, (DubboCodec_init, b',
      toMetadata alist_headers ?dm ((header_context list_buffer 0xE2 0)\<lparr>ctx_origin_message := o'\<rparr>) new_metadata))"
    "b' = []"
    by (rule lh.decode_heartbeat [where b = sample_heartbeat and flag = "0xE2" and status = 0 and i = 9 and n = 0
          and rest = "[]" and H = alist_headers and m = new_metadata])
      (use v in \<open>simp_all add: sample_heartbeat_def\<close>)
  let ?m = "toMetadata alist_headers ?dm ((header_context list_buffer 0xE2 0)\<lparr>ctx_origin_message := o'\<rparr>) new_metadata"
  obtain out where e: "DubboCodec_encode list_buffer list_serializer ?m MutationImpl [] = (Inr (), out)"
    "out = heartbeat_reply 9"
    by (rule lb.encode_heartbeat [OF refl dm(2,3), where S = list_serializer and H = alist_headers
          and ctx = "(header_context list_buffer 0xE2 0)\<lparr>ctx_origin_message := o'\<rparr>" and mut = MutationImpl])
      (use dm in auto)
  show thesis
    by (rule that [of ?m out])
      (use d e dm in \<open>simp_all add: completes_def decodes_def DubboCodec_def list_buffer_def
        sample_heartbeat_def header_bytes_def toMetadata_fields Let_def\<close>)
qed

end
