(* ===== verification/Proxy_Transfer.thy ===== *)
theory Proxy_Transfer
  imports Proxy_Exchange Proxy_Lifecycle
begin

text \<open>
  A whole exchange, for any codec that keeps the contract \<open>proxy_env\<close>: the three events that take
  a two-way request from the client to the upstream and its response back.
\<close>

lemma exchange_runs:
  assumes "proxy_env E content codec_inv" and "reachable E px" and "cx_state px = ConnOpen"
    and "ev_deferred px = []" and "default_chain E"
    and "completes E px data c m" and "md_message_type m = Request"
    and "routing E m (en_random E (st_next px)) = Inr name"
    and "en_newConnection E name (cx_effects px) = ConnectionReady host"
    and "response_codec_done E (en_createCodec E) answer c' rest rm"
    and "md_request_id rm = md_request_id m"
  obtains px' sent got where
    "run_events E [DownstreamData data False, UpstreamData (st_next px) 0 answer es, DeferredDelete] px = Some px'"
    "cx_effects px' = cx_effects px @
      [PutResult host LocalOriginConnectSuccess, UpstreamWrite (st_next px) sent,
       PutResult host (response_result rm), DownstreamWrite got False, UpstreamRelease (st_next px)]"
    "content sent = content (md_origin_message m)" "content got = content (md_origin_message rm)"
    "cm_active_message_list px' = cm_active_message_list px" "ev_deferred px' = []"
    "st_messages px' = st_messages px" "cx_state px' = ConnOpen"
proof -
  let ?mid = "st_next px"
  have B: "envoy_buffer (en_buffer E) content"
    using assms(1) by (simp add: proxy_env_def codec_contract_def)
  have fresh: "st_messages px ?mid = None"
    using reachable_proxy_ok [OF assms(2)] by (auto simp: proxy_ok_def objects_inv_def)
  have ty: "md_message_type m \<noteq> Heartbeat" using assms(7) by simp
  obtain am1 b px1 where 1: "handle E (DownstreamData data False) px = Some (Inr (), put_message ?mid am1 px1)"
    "cx_effects px1 = cx_effects px @
       [PutResult host LocalOriginConnectSuccess, UpstreamWrite ?mid (written E (taken_buffer E m))]"
    "cm_active_message_list px1 = ?mid # cm_active_message_list px" "ev_deferred px1 = []"
    "st_messages px1 = st_messages px" "cx_state px1 = ConnOpen"
    "awaits_response am1 host (taken_metadata E m)"
    by (rule data_forwarded [OF reachable_listens [OF assms(1-3)] assms(6) ty assms(5,8,9)])
      (use assms(3,4,7) in \<open>simp add: awaits_response_sent\<close>)
  obtain am2 r where 2: "handle E (UpstreamData ?mid 0 answer es) (put_message ?mid am1 px1) =
       Some (Inr (), put_message ?mid am2 (emit (UpstreamRelease ?mid) (deferredMessage ?mid
         (count_response rm (emit (DownstreamWrite (written E (md_origin_message rm)) False)
            (emit (PutResult host (response_result rm)) px1))))))"
    "am_filters am2 = [RouterFilter r]" "rt_upstream_request r = None"
    "am_decoder_filters am2 = [\<lparr>fw_handle = 0, fw_dual_filter = True\<rparr>]"
    "am_encoder_filters am2 = [\<lparr>fw_handle = 0, fw_dual_filter = True\<rparr>]"
    by (rule response_event [OF 1(7,6) assms(10)]) (simp_all add: assms(11))
  let ?px2 = "emit (UpstreamRelease ?mid) (deferredMessage ?mid
         (count_response rm (emit (DownstreamWrite (written E (md_origin_message rm)) False)
            (emit (PutResult host (response_result rm)) px1))))"
  have front: "cm_active_message_list ?px2 = cm_active_message_list px" "ev_deferred ?px2 = [?mid]"
    using 1(3,4) by simp_all
  have 3: "handle E DeferredDelete (put_message ?mid am2 ?px2) =
      Some (Inr (), (dec request_active (?px2\<lparr>ev_deferred := []\<rparr>))\<lparr>st_messages := st_messages px\<rparr>)"
    using destroy_done [OF 2(2-5)] front 1(5) fresh by (simp add: fun_upd_idem)
  then have "\<exists>px' sent got.
    run_events E [DownstreamData data False, UpstreamData ?mid 0 answer es, DeferredDelete] px = Some px' \<and>
    cx_effects px' = cx_effects px @
      [PutResult host LocalOriginConnectSuccess, UpstreamWrite ?mid sent,
       PutResult host (response_result rm), DownstreamWrite got False, UpstreamRelease ?mid] \<and>
    content sent = content (md_origin_message m) \<and> content got = content (md_origin_message rm) \<and>
    cm_active_message_list px' = cm_active_message_list px \<and> ev_deferred px' = [] \<and>
    st_messages px' = st_messages px \<and> cx_state px' = ConnOpen"
    using 1(1,2,6) 2(1) front assms(3) awaits_holds [OF 1(7)] taken_contents [OF B]
    by (simp del: handle.simps)
  then show thesis using that by blast
qed

end
