(* ===== verification/Proxy_Pipeline.thy ===== *)
theory Proxy_Pipeline
  imports Dubbo_Proxy Proxy_Transfer
begin

text \<open>
  Pipelined requests: one read from the client that holds several messages. The loop of \<open>dispatch\<close>
  takes them one by one; each gets its own message and goes upstream before the next is decoded.
\<close>

subsection \<open>A buffer that holds messages\<close>

text \<open>The codec in the state \<open>c\<close> takes the messages \<open>ms\<close> off the buffer \<open>b\<close>, and nothing is left.\<close>

fun holds_messages ::
  "('c, 'x, 'b, 'h, 'f) env \<Rightarrow> 'c \<Rightarrow> 'b \<Rightarrow> ('x, 'b, 'h) metadata list \<Rightarrow> bool" where
  "holds_messages E c b [] = (buf_length (en_buffer E) b = 0)"
| "holds_messages E c b (m # ms) =
     (buf_length (en_buffer E) b \<noteq> 0 \<and>
      (case codec_decode (en_codec E) c b (MetadataImpl (en_buffer E) (en_headers E)) of
         (Inr DecodeDone, (c', rest, m')) \<Rightarrow> m' = m \<and> holds_messages E c' rest ms
       | _ \<Rightarrow> False))"

lemma holds_messages_ConsE:
  assumes "holds_messages E c b (m # ms)"
  obtains c' rest where
    "codec_decode (en_codec E) c b (MetadataImpl (en_buffer E) (en_headers E)) =
       (Inr DecodeDone, (c', rest, m))"
    "holds_messages E c' rest ms" "buf_length (en_buffer E) b \<noteq> 0"
  using assms by (auto split: prod.splits sum.splits DecodeStatus.splits)

lemma holds_messages_empty:
  "holds_messages E c b ms \<Longrightarrow> buf_length (en_buffer E) b = 0 \<longleftrightarrow> ms = []"
  by (cases ms) simp_all

subsection \<open>One request of the read\<close>

text \<open>What the proxy writes upstream: the message it writes for, and the bytes.\<close>

definition upstream_writes :: "('b \<Rightarrow> u8 list) \<Rightarrow> 'b effect list \<Rightarrow> (nat \<times> u8 list) list" where
  "upstream_writes content es =
     List.map_filter (\<lambda>e. case e of UpstreamWrite mid b \<Rightarrow> Some (mid, content b) | _ \<Rightarrow> None) es"

lemma upstream_writes_simps [simp]:
  "upstream_writes content [] = []"
  "upstream_writes content (xs @ ys) = upstream_writes content xs @ upstream_writes content ys"
  "upstream_writes content (UpstreamWrite mid b # es) = (mid, content b) # upstream_writes content es"
  "upstream_writes content (PutResult host r # es) = upstream_writes content es"
  by (simp_all add: upstream_writes_def List.map_filter_def)

lemma count_decoder [simp]:
  "cm_decoder (count_request m px) = cm_decoder px" "cm_stopped (count_request m px) = cm_stopped px"
  "st_next (count_request m px) = st_next px" "cm_request_buffer (count_request m px) = cm_request_buffer px"
  by (simp_all add: count_request_def inc_def Let_def split: MessageType.split)

lemma deferred_next [simp]:
  "st_next (deferredMessage mid px) = st_next px" "cm_stopped (deferredMessage mid px) = cm_stopped px"
  "cm_request_buffer (deferredMessage mid px) = cm_request_buffer px"
  "cm_codec (deferredMessage mid px) = cm_codec px" "cx_state (deferredMessage mid px) = cx_state px"
  "cx_effects (deferredMessage mid px) = cx_effects px"
  by (simp_all add: deferredMessage_def)

lemma turn_forwarded:
  assumes "decoder_idle (cm_decoder px)"
    and "codec_decode (en_codec E) (cm_codec px) (cm_request_buffer px)
      (MetadataImpl (en_buffer E) (en_headers E)) = (Inr DecodeDone, (c, rest, m))"
    and "md_message_type m \<noteq> Heartbeat" and "default_chain E"
    and "routing E m (en_random E (st_next px)) = Inr name"
    and "en_newConnection E name (cx_effects px) = ConnectionReady host"
  obtains px1 where
    "Decoder_onData (request_ops E) px = (Inr (Continue, buf_length (en_buffer E) rest = 0), px1)"
    "cx_effects px1 = cx_effects px @
       [PutResult host LocalOriginConnectSuccess, UpstreamWrite (st_next px) (written E (taken_buffer E m))]"
    "st_next px1 = st_next px + 1" "cm_codec px1 = c" "cm_request_buffer px1 = rest"
    "cm_decoder px1 = new_decoder" "cx_state px1 = cx_state px" "cm_stopped px1 = cm_stopped px"
    "cm_active_message_list px1 =
       (if md_message_type m = Oneway then cm_active_message_list px else st_next px # cm_active_message_list px)"
proof -
  let ?mid = "st_next px" and ?sid = "en_random E (st_next px)"
  obtain am' where d: "ActiveMessage_onStreamDecoded E ?mid m MutationImpl
      (put_message ?mid (router_message ?sid (Router (en_buffer E))) (in_stream E c rest px)) =
       (Inr (), put_message ?mid am'
          ((if md_message_type m = Oneway then deferredMessage ?mid else id)
             (count_request m (inc stat_request
               (emit (UpstreamWrite ?mid (written E (taken_buffer E m)))
                 (emit (PutResult host LocalOriginConnectSuccess)
                   (inc request_decoding_success (in_stream E c rest px))))))))"
    by (rule forwarded_request [OF assms(5), where px = "in_stream E c rest px" and host = host and
          mid = ?mid and mu = MutationImpl]) (use assms(6) in simp_all)
  let ?px1 = "put_message ?mid am' (((if md_message_type m = Oneway then deferredMessage ?mid else id)
             (count_request m (inc stat_request
               (emit (UpstreamWrite ?mid (written E (taken_buffer E m)))
                 (emit (PutResult host LocalOriginConnectSuccess)
                   (inc request_decoding_success (in_stream E c rest px)))))))\<lparr>cm_decoder := new_decoder\<rparr>)"
  have "Decoder_onData (request_ops E) px = (Inr (Continue, buf_length (en_buffer E) rest = 0), ?px1)"
    using turn_done [OF assms(1-3)] d createFilterChain_default [OF assms(4)] by simp
  then show thesis
    by (rule that) (simp_all add: put_message_def inc_def emit_def deferredMessage_def)
qed

subsection \<open>All requests of the read\<close>

text \<open>Every request has a route to a cluster, whose pool answers at once.\<close>

definition served :: "('c, 'x, 'b, 'h, 'f) env \<Rightarrow> ('x, 'b, 'h) metadata \<Rightarrow> bool" where
  "served E m = (md_message_type m \<noteq> Heartbeat \<and>
     (\<forall>sid. \<exists>name. routing E m sid = Inr name \<and>
        (\<forall>es. \<exists>host. en_newConnection E name es = ConnectionReady host)))"

text \<open>The identities of the messages that stay active, the last one first.\<close>

fun waiting_ids :: "nat \<Rightarrow> ('x, 'b, 'h) metadata list \<Rightarrow> nat list \<Rightarrow> nat list" where
  "waiting_ids n [] l = l"
| "waiting_ids n (m # ms) l = waiting_ids (n + 1) ms (if md_message_type m = Oneway then l else n # l)"

lemma dispatch_forwards:
  assumes "envoy_buffer (en_buffer E) content" and "default_chain E" and "ms \<noteq> []"
    and "\<forall>m \<in> set ms. served E m" and "decoder_idle (cm_decoder px)"
    and "holds_messages E (cm_codec px) (cm_request_buffer px) ms"
  shows "\<exists>px1. dispatch_loop E px = Some (Inr (), px1) \<and>
    upstream_writes content (cx_effects px1) = upstream_writes content (cx_effects px) @
      zip [st_next px ..< st_next px + length ms] (map (content \<circ> md_origin_message) ms) \<and>
    cm_active_message_list px1 = waiting_ids (st_next px) ms (cm_active_message_list px) \<and>
    cx_state px1 = cx_state px \<and> buf_length (en_buffer E) (cm_request_buffer px1) = 0"
  using assms(3-6)
proof (induction ms arbitrary: px)
  case (Cons m ms)
  obtain c rest where dec: "codec_decode (en_codec E) (cm_codec px) (cm_request_buffer px)
      (MetadataImpl (en_buffer E) (en_headers E)) = (Inr DecodeDone, (c, rest, m))"
    "holds_messages E c rest ms"
    by (rule holds_messages_ConsE [OF Cons.prems(4)])
  obtain name host where to: "routing E m (en_random E (st_next px)) = Inr name"
    "en_newConnection E name (cx_effects px) = ConnectionReady host"
    using Cons.prems(2) by (auto simp: served_def) metis
  have ty: "md_message_type m \<noteq> Heartbeat" using Cons.prems(2) by (simp add: served_def)
  obtain px1 where px1:
    "Decoder_onData (request_ops E) px = (Inr (Continue, buf_length (en_buffer E) rest = 0), px1)"
    "cx_effects px1 = cx_effects px @
       [PutResult host LocalOriginConnectSuccess, UpstreamWrite (st_next px) (written E (taken_buffer E m))]"
    "st_next px1 = st_next px + 1" "cm_codec px1 = c" "cm_request_buffer px1 = rest"
    "cm_decoder px1 = new_decoder" "cx_state px1 = cx_state px" "cm_stopped px1 = cm_stopped px"
    "cm_active_message_list px1 =
       (if md_message_type m = Oneway then cm_active_message_list px else st_next px # cm_active_message_list px)"
    by (rule turn_forwarded [OF Cons.prems(3) dec(1) ty assms(2) to])
  have loop: "dispatch_loop E px =
      (if buf_length (en_buffer E) rest = 0 then Some (Inr (), px1) else dispatch_loop E px1)"
    by (simp add: dispatch_loop.simps [of E px] px1(1))
  have writes: "upstream_writes content (cx_effects px1) =
      upstream_writes content (cx_effects px) @ [(st_next px, content (md_origin_message m))]"
    by (simp add: px1(2) taken_contents [OF assms(1)])
  have ids: "[st_next px ..< st_next px + length (m # ms)] =
      st_next px # [st_next px1 ..< st_next px1 + length ms]"
    by (simp add: px1(3) upt_conv_Cons del: upt_Suc)
  show ?case
  proof (cases "ms = []")
    case True
    then show ?thesis using loop dec(2) px1 writes ids by simp
  next
    case False
    have "decoder_idle (cm_decoder px1)" using px1(6) by (simp add: decoder_idle_def)
    then show ?thesis
      using Cons.IH [OF False, of px1] Cons.prems(2) dec(2) px1 loop writes ids
        holds_messages_empty [OF dec(2)] False by simp
  qed
qed simp

lemma pipelined_data:
  assumes "envoy_buffer (en_buffer E) content" and "default_chain E" and "ms \<noteq> []"
    and "\<forall>m \<in> set ms. served E m" and "listens px"
    and "holds_messages E (cm_codec px) (fst (buf_move_all (en_buffer E) (cm_request_buffer px) data)) ms"
  shows "\<exists>px'. handle E (DownstreamData data False) px = Some (Inr (), px') \<and>
    upstream_writes content (cx_effects px') = upstream_writes content (cx_effects px) @
      zip [st_next px ..< st_next px + length ms] (map (content \<circ> md_origin_message) ms) \<and>
    cm_active_message_list px' = waiting_ids (st_next px) ms (cm_active_message_list px) \<and>
    cx_state px' = cx_state px"
proof -
  let ?px = "with_data E data px"
  have b: "cm_request_buffer ?px = fst (buf_move_all (en_buffer E) (cm_request_buffer px) data)"
    "cx_effects ?px = cx_effects px" "cx_state ?px = cx_state px"
    "cm_active_message_list ?px = cm_active_message_list px"
    by (simp_all add: with_data_def)
  obtain px1 where px1: "dispatch_loop E ?px = Some (Inr (), px1)"
    "upstream_writes content (cx_effects px1) = upstream_writes content (cx_effects px) @
      zip [st_next px ..< st_next px + length ms] (map (content \<circ> md_origin_message) ms)"
    "cm_active_message_list px1 = waiting_ids (st_next px) ms (cm_active_message_list px)"
    "cx_state px1 = cx_state px"
    using dispatch_forwards [OF assms(1-4), of ?px] assms(5,6) b by (auto simp: listens_def)
  have "dispatch E ?px = Some (Inr (), px1)"
    using px1(1) assms(3,5) holds_messages_empty [OF assms(6)] b(1)
    by (simp add: dispatch_def listens_def dispatch_catch_def)
  then have "handle E (DownstreamData data False) px = Some (Inr (), px1)"
    by (simp add: ConnectionManager_onData_def with_data_def case_prod_beta Let_def)
  then show ?thesis using px1(2-4) by (intro exI conjI)
qed

subsection \<open>Two requests in one read\<close>

lemma sample_pipelined:
  assumes "cm_codec px = DubboCodec_init" and "cm_request_buffer px = []"
  shows "holds_messages (sample_env answer) (cm_codec px)
    (fst (buf_move_all (en_buffer (sample_env answer)) (cm_request_buffer px)
      (sample_request x @ sample_request y))) [sample_metadata x, sample_metadata y]"
proof -
  have "fst (buf_move_all list_buffer [] (sample_request x @ sample_request y)) = sample_request x @ sample_request y"
    "buf_length list_buffer (sample_request x @ sample_request y) \<noteq> 0"
    "buf_length list_buffer (sample_request y) \<noteq> 0" "buf_length list_buffer [] = 0"
    by (simp_all add: list_buffer_def sample_request_def header_bytes_def)
  then show ?thesis
    using sample_decode_front [of x "sample_request y"] sample_decode [of y] assms
    by (simp add: DubboCodec_def)
qed

lemma sample_served: "served (sample_env (ConnectionReady host)) (sample_metadata 105)"
  by (simp add: served_def sample_routing)

end
