(* ===== verification/Proxy_Properties.thy ===== *)
theory Proxy_Properties
  imports Proxy_Pipeline
begin

text \<open>
  The properties of the proxy. They hold for every environment: the codec is any that keeps the
  contract \<open>proxy_env\<close>, the buffer any that meets \<open>envoy_buffer\<close>, pool, cluster manager and route
  table are arbitrary. Those that follow a request from its arrival to its end are for the default
  filter chain. The witnesses run on the concrete proxy of \<open>Dubbo_Proxy\<close>.
\<close>

subsection \<open>A whole exchange\<close>

text \<open>C2: a two-way request that is routed to a cluster whose pool has a connection is written to
  that connection byte for byte; the response with its id is written to the client byte for byte;
  the connection goes back to the pool, the message is destroyed and nothing of it is left.\<close>

theorem exchange_completes:
  assumes "proxy_env E content codec_inv" and "reachable E px" and "cx_state px = ConnOpen"
    and "ev_deferred px = []" and "default_chain E"
    and "completes E px data c m" and "md_message_type m = Request"
    and "routing E m (en_random E (st_next px)) = Inr name"
    and "en_newConnection E name (cx_effects px) = ConnectionReady host"
    and "response_codec_done E (en_createCodec E) answer c' rest rm"
    and "md_request_id rm = md_request_id m"
  shows "\<exists>px' sent got.
    run_events E [DownstreamData data False, UpstreamData (st_next px) 0 answer es, DeferredDelete] px = Some px' \<and>
    cx_effects px' = cx_effects px @
      [PutResult host LocalOriginConnectSuccess, UpstreamWrite (st_next px) sent,
       PutResult host (response_result rm), DownstreamWrite got False, UpstreamRelease (st_next px)] \<and>
    content sent = content (md_origin_message m) \<and> content got = content (md_origin_message rm) \<and>
    cm_active_message_list px' = cm_active_message_list px \<and> ev_deferred px' = [] \<and>
    st_messages px' = st_messages px \<and> cx_state px' = ConnOpen"
  using exchange_runs [OF assms, where es = es] by metis

theorem exchange_completes_witness:
  "\<exists>px' sent got.
    run_events (sample_env (ConnectionReady ''h''))
      [DownstreamData (sample_request 105) False, UpstreamData 0 0 (sample_reply 7) False, DeferredDelete]
      (sample_start (ConnectionReady ''h'')) = Some px' \<and>
    cx_effects px' =
      [PutResult ''h'' LocalOriginConnectSuccess, UpstreamWrite 0 sent,
       PutResult ''h'' ExtOriginRequestFailed, DownstreamWrite got False, UpstreamRelease 0] \<and>
    sent = sample_request 105 \<and> got = sample_reply 7 \<and>
    cm_active_message_list px' = [] \<and> ev_deferred px' = [] \<and>
    st_messages px' = Map.empty \<and> cx_state px' = ConnOpen"
proof -
  obtain rest rm where r: "response_codec_done (sample_env (ConnectionReady ''h'')) DubboCodec_init
      (sample_reply 7) DubboCodec_init rest rm" "md_request_id rm = 7" "md_origin_message rm = sample_reply 7"
    "response_result rm = ExtOriginRequestFailed"
    by (rule sample_response)
  have c: "completes (sample_env (ConnectionReady ''h'')) (sample_start (ConnectionReady ''h''))
      (sample_request 105) DubboCodec_init (sample_metadata 105)"
    by (rule sample_completes) simp_all
  show ?thesis
    using exchange_completes [OF sample.proxy_env_axioms reachable_init _ _ sample_default_chain c _ _ _ _,
        where name = "''c''" and host = "''h''" and answer = "sample_reply 7" and es = False and rm = rm
          and c' = DubboCodec_init and rest = rest] r
    by (simp add: sample_routing del: run_events.simps)
qed

text \<open>Requests that arrive in one read go upstream in the order they came, each with its own
  bytes, whole, and under an identity of its own; those that expect an answer are active afterwards.\<close>

theorem pipelined_requests:
  assumes "proxy_env E content codec_inv" and "reachable E px" and "cx_state px = ConnOpen"
    and "default_chain E" and "ms \<noteq> []" and "\<forall>m \<in> set ms. served E m"
    and "holds_messages E (cm_codec px) (fst (buf_move_all (en_buffer E) (cm_request_buffer px) data)) ms"
  shows "\<exists>px'. handle E (DownstreamData data False) px = Some (Inr (), px') \<and>
    upstream_writes content (cx_effects px') = upstream_writes content (cx_effects px) @
      zip [st_next px ..< st_next px + length ms] (map (content \<circ> md_origin_message) ms) \<and>
    cm_active_message_list px' = waiting_ids (st_next px) ms (cm_active_message_list px) \<and>
    cx_state px' = ConnOpen"
proof -
  have B: "envoy_buffer (en_buffer E) content"
    using assms(1) by (simp add: proxy_env_def codec_contract_def)
  show ?thesis
    using pipelined_data [OF B assms(4-6) reachable_listens [OF assms(1-3)] assms(7)]
    unfolding assms(3) .
qed

theorem pipelined_requests_witness:
  "\<exists>px'. handle (sample_env (ConnectionReady ''h'')) (DownstreamData (sample_request 105 @ sample_request 105) False)
      (sample_start (ConnectionReady ''h'')) = Some (Inr (), px') \<and>
     upstream_writes (\<lambda>bs. bs) (cx_effects px') = [(0, sample_request 105), (1, sample_request 105)] \<and>
     cm_active_message_list px' = [1, 0] \<and> cx_state px' = ConnOpen"
  using pipelined_requests [OF sample.proxy_env_axioms reachable_init _ sample_default_chain _ _
      sample_pipelined [where answer = "ConnectionReady ''h''" and x = 105 and y = 105]]
  by (simp add: sample_served upt_rec del: handle.simps)

subsection \<open>Every event ends\<close>

text \<open>C6: on an open connection every event of the event loop is handled to the end: the loop of
  \<open>dispatch\<close>, which runs as long as the codec completes messages, terminates on every buffer.\<close>

theorem handle_terminates:
  assumes "proxy_env E content codec_inv" and "reachable E px" and "cx_state px = ConnOpen"
  shows "\<exists>r. handle E ev px = Some r"
  by (rule proxy_env.reachable_handle_returns [OF assms])

theorem handle_terminates_witness:
  "\<exists>r. handle (sample_env ConnectionPending) (DownstreamData (sample_request 105 @ sample_request 106) True)
     (sample_start ConnectionPending) = Some r"
  by (rule handle_terminates [OF sample.proxy_env_axioms reachable_init]) simp

subsection \<open>The objects\<close>

text \<open>C12: in every reachable state a message is in exactly one of the two lists, once; the objects
  that exist are those in the lists, so no list holds a dangling message; and the gauge
  \<open>request_active\<close> is their number.\<close>

theorem reachable_objects:
  assumes "reachable E px"
  shows "distinct (cm_active_message_list px @ ev_deferred px) \<and>
    dom (st_messages px) = set (cm_active_message_list px) \<union> set (ev_deferred px) \<and>
    cm_stats px request_active = length (cm_active_message_list px) + length (ev_deferred px)"
  using reachable_proxy_ok [OF assms] by (simp add: proxy_ok_def objects_inv_def)

lemma sample_waiting:
  obtains px where
    "handle (sample_env ConnectionPending) (DownstreamData sample_oneway False) (sample_start ConnectionPending) =
       Some (Inr (), px)"
    "reachable (sample_env ConnectionPending) px" "cm_active_message_list px = [0]" "ev_deferred px = []"
    "cx_state px = ConnOpen" "cx_effects px = []" "nothing_to_read (sample_env ConnectionPending) px"
proof -
  let ?E = "sample_env ConnectionPending"
  have l: "listens (sample_start ConnectionPending)"
    by (rule reachable_listens [OF sample.proxy_env_axioms reachable_init]) simp
  have c: "completes ?E (sample_start ConnectionPending) sample_oneway DubboCodec_init oneway_metadata"
    by (rule oneway_completes) simp_all
  have n: "en_newConnection ?E ''c'' (cx_effects (sample_start ConnectionPending)) = ConnectionPending"
    by simp
  have ty: "md_message_type oneway_metadata \<noteq> Heartbeat" and half: "\<not> cm_half_closed (sample_start ConnectionPending)"
    by (simp_all add: oneway_routing ConnectionManager_def)
  have B: "envoy_buffer (en_buffer ?E) (\<lambda>bs. bs)" by (simp add: lb.envoy_buffer_axioms)
  obtain am px1 where px1:
    "handle ?E (DownstreamData sample_oneway False) (sample_start ConnectionPending) = Some (Inr (), put_message 0 am px1)"
    "cx_effects px1 = []" "cm_active_message_list px1 = [0]" "ev_deferred px1 = []" "cx_state px1 = ConnOpen"
    "nothing_to_read ?E px1"
    by (rule data_waiting [OF l c ty sample_default_chain oneway_routing(2) n B half]) (simp del: handle.simps)
  have "reachable ?E (put_message 0 am px1)"
    by (rule reachable_step [OF reachable_init _ px1(1)]) simp
  then show thesis
    by (intro that [of "put_message 0 am px1"]) (use px1 in \<open>simp_all del: handle.simps\<close>)
qed

theorem reachable_objects_witness:
  "\<exists>px. reachable (sample_env ConnectionPending) px \<and>
    cm_active_message_list px = [0] \<and> ev_deferred px = [] \<and> distinct ([0 :: nat] @ []) \<and>
    dom (st_messages px) = {0} \<and> cm_stats px request_active = 1"
proof -
  obtain px where px: "reachable (sample_env ConnectionPending) px" "cm_active_message_list px = [0]"
    "ev_deferred px = []"
    by (rule sample_waiting)
  then show ?thesis using reachable_objects [OF px(1)] by auto
qed

text \<open>C13: no message is lost, duplicated or destroyed out of turn. An event creates fresh messages, and
  only an event that can read requests does; it puts them in front of the active messages, the last
  one first; it moves messages from the active ones, whose order stays, to the end of the deferred
  ones; and only the event that destroys takes a message away, the first deferred one.\<close>

theorem messages_conserved:
  assumes "reachable E px" and "handle E ev px = Some (Inr (), px')"
  shows "\<exists>born moved. distinct born \<and> set born \<inter> dom (st_messages px) = {} \<and> (reads_requests ev \<or> born = []) \<and>
    distinct moved \<and> set moved \<subseteq> set born \<union> set (cm_active_message_list px) \<and>
    cm_active_message_list px' = filter (\<lambda>mid. mid \<notin> set moved) (born @ cm_active_message_list px) \<and>
    ev_deferred px' = (if ev = DeferredDelete then tl (ev_deferred px) else ev_deferred px) @ moved \<and>
    dom (st_messages px') = set born \<union>
      (dom (st_messages px) - (if ev = DeferredDelete then set (take 1 (ev_deferred px)) else {}))"
proof -
  have ok: "objects_ok px" using reachable_proxy_ok [OF assms(1)] by (simp add: proxy_ok_def)
  show ?thesis
  proof (cases "ev = DeferredDelete")
    case True
    obtain moved where "dom (st_messages px') = dom (st_messages px) - set (take 1 (ev_deferred px))"
      "ev_deferred px' = tl (ev_deferred px) @ moved"
      "cm_active_message_list px' = filter (\<lambda>mid. mid \<notin> set moved) (cm_active_message_list px)"
      "distinct moved" "set moved \<subseteq> set (cm_active_message_list px)"
      by (rule destruction_conserves [OF ok assms(2) [unfolded True]])
    then show ?thesis using True by (intro exI [of _ "[]"] exI [of _ moved]) simp
  next
    case False
    obtain born moved where "distinct born" "set born \<inter> dom (st_messages px) = {}"
      "dom (st_messages px') = set born \<union> dom (st_messages px)" "ev_deferred px' = ev_deferred px @ moved"
      "cm_active_message_list px' = filter (\<lambda>mid. mid \<notin> set moved) (born @ cm_active_message_list px)"
      "distinct moved" "set moved \<subseteq> set born \<union> set (cm_active_message_list px)"
      "reads_requests ev \<or> born = []"
      by (rule event_conserves [OF ok assms(2) False])
    then show ?thesis using False by (intro exI [of _ born] exI [of _ moved]) auto
  qed
qed

lemma sample_given_up:
  assumes "nothing_to_read (sample_env ConnectionPending) px" and "proxy_ok px"
  shows "handle (sample_env ConnectionPending) (DownstreamData [] True) px =
    Some (Inr (), connection_close (sample_env ConnectionPending) FlushWrite (resetAllMessages False px))"
proof -
  have e: "cm_request_buffer px = []"
    using assms(1) by (simp add: nothing_to_read_def list_buffer_def)
  have "handle (sample_env ConnectionPending) (DownstreamData [] False) px =
      Some (Inr (), px\<lparr>cm_request_buffer := cm_request_buffer px\<rparr>)"
    by (simp add: ConnectionManager_onData_def dispatch_def list_buffer_def e)
  then show ?thesis using end_of_stream [OF _ assms(2)] by (simp del: handle.simps)
qed

theorem messages_conserved_witness:
  "\<exists>px px' born moved. reachable (sample_env ConnectionPending) px \<and> cm_active_message_list px = [0] \<and>
    handle (sample_env ConnectionPending) (DownstreamData [] True) px = Some (Inr (), px') \<and>
    cm_active_message_list px' = [] \<and> ev_deferred px' = [0] \<and>
    distinct born \<and> set born \<inter> {0} = {} \<and> distinct moved \<and> set moved \<subseteq> set born \<union> {0} \<and>
    [] = filter (\<lambda>mid. mid \<notin> set moved) (born @ [0]) \<and> [0] = moved \<and>
    dom (st_messages px') = set born \<union> {0}"
proof -
  let ?E = "sample_env ConnectionPending"
  obtain px where px: "reachable ?E px" "cm_active_message_list px = [0]" "ev_deferred px = []"
    "nothing_to_read ?E px"
    by (rule sample_waiting)
  note ok = reachable_proxy_ok [OF px(1)]
  let ?px' = "connection_close ?E FlushWrite (resetAllMessages False px)"
  have h: "handle ?E (DownstreamData [] True) px = Some (Inr (), ?px')"
    by (rule sample_given_up [OF px(4) ok])
  have l: "cm_active_message_list ?px' = []" "ev_deferred ?px' = [0]"
    using px(2,3) by (simp_all add: closed_after_reset)
  have d: "dom (st_messages px) = {0}"
    using ok px(2,3) by (simp add: proxy_ok_def objects_inv_def)
  from messages_conserved [OF px(1) h] show ?thesis
  proof (elim exE, goal_cases)
    case (1 born moved)
    show ?case
      by (rule exI [of _ px], rule exI [of _ ?px'], rule exI [of _ born], rule exI [of _ moved])
        (use 1 px h l d in \<open>simp del: handle.simps\<close>)
  qed
qed

lemma silent_after: "silent (xs @ e # ys) \<Longrightarrow> is_close e \<Longrightarrow> e' \<in> set ys \<Longrightarrow> \<not> is_write e'"
  by (induction xs) auto

text \<open>C17: nothing is written to the client after its connection was closed.\<close>

theorem no_write_after_close:
  assumes "reachable E px" and "cx_effects px = before @ DownstreamClose t # after"
  shows "DownstreamWrite b es \<notin> set after"
  using reachable_writes_ok [OF assms(1)] assms(2)
    silent_after [of before "DownstreamClose t" after "DownstreamWrite b es"]
  by (auto simp: writes_ok_def)

lemma sample_end_of_stream:
  "handle (sample_env answer) (DownstreamData [] True) (sample_start answer) =
     Some (Inr (), emit (DownstreamClose FlushWrite) ((sample_start answer)\<lparr>cx_state := ConnClosed\<rparr>))"
  by (simp add: ConnectionManager_onData_def dispatch_def list_buffer_def connection_close_def
      ConnectionManager_onEvent_def resetAllMessages.simps sample_env_def configure_def
      ConnectionManager_def emit_def)

lemma sample_closes:
  obtains px where "reachable (sample_env answer) px" "cx_effects px = [DownstreamClose FlushWrite]"
  by (rule that [OF reachable_step [OF reachable_init _ sample_end_of_stream]]) simp_all

theorem no_write_after_close_witness:
  "\<exists>px. reachable (sample_env ConnectionPending) px \<and> cx_effects px = [] @ DownstreamClose FlushWrite # [] \<and>
    DownstreamWrite [1] False \<notin> set ([] :: u8 list effect list)"
proof -
  obtain px where px: "reachable (sample_env ConnectionPending) px" "cx_effects px = [DownstreamClose FlushWrite]"
    by (rule sample_closes)
  have "DownstreamWrite [1] False \<notin> set ([] :: u8 list effect list)"
    by (rule no_write_after_close [OF px(1), where before = "[]"]) (simp add: px(2))
  then show ?thesis using px by auto
qed

subsection \<open>Requests the proxy answers\<close>

text \<open>C19: a request without a route, for an unknown cluster, for a cluster in maintenance or without
  a healthy host is answered once, with the error of its case encoded by the codec; it never goes
  upstream, leaves the list of active messages and is handed to the dispatcher.\<close>

theorem rejected_request_answered:
  assumes "proxy_env E content codec_inv" and "reachable E px" and "cx_state px = ConnOpen"
    and "default_chain E" and "completes E px data c m" and "md_message_type m \<noteq> Heartbeat"
    and "routing E m (en_random E (st_next px)) = Inl err" and "replies E m err (px\<lparr>cm_codec := c\<rparr>)"
  shows "\<exists>px' reply. handle E (DownstreamData data False) px = Some (Inr (), px') \<and>
    cx_effects px' = cx_effects px @ [DownstreamWrite reply False] \<and>
    content reply = reply_to E content c m err \<and>
    cm_active_message_list px' = cm_active_message_list px \<and>
    ev_deferred px' = ev_deferred px @ [st_next px] \<and> cx_state px' = ConnOpen"
proof -
  have "envoy_buffer (en_buffer E) content"
    using assms(1) by (simp add: proxy_env_def codec_contract_def)
  then obtain am px1 reply where
    "handle E (DownstreamData data False) px = Some (Inr (), put_message (st_next px) am px1)"
    "cx_effects px1 = cx_effects px @ [DownstreamWrite reply False]"
    "content reply = reply_to E content c m err"
    "cm_active_message_list px1 = cm_active_message_list px"
    "ev_deferred px1 = ev_deferred px @ [st_next px]" "cx_state px1 = cx_state px"
    using data_rejected [OF reachable_listens [OF assms(1-3)] assms(5,6,4,7,8)] by metis
  then show ?thesis using assms(3) by (metis put_message_fields(2-5))
qed

theorem rejected_request_answered_witness:
  "\<exists>px' reply. handle (sample_env ConnectionPending) (DownstreamData (sample_request 106) False)
      (sample_start ConnectionPending) = Some (Inr (), px') \<and>
    cx_effects px' = [DownstreamWrite reply False] \<and>
    reply = reply_to (sample_env ConnectionPending) (\<lambda>bs. bs) DubboCodec_init (sample_metadata 106)
      (no_route_error 7) \<and>
    cm_active_message_list px' = [] \<and> ev_deferred px' = [0] \<and> cx_state px' = ConnOpen"
proof -
  have c: "completes (sample_env ConnectionPending) (sample_start ConnectionPending)
      (sample_request 106) DubboCodec_init (sample_metadata 106)"
    by (rule sample_completes) simp_all
  have "dec_nat 7 = ''7''" by code_simp
  then have r: "replies (sample_env ConnectionPending) (sample_metadata 106) (no_route_error 7)
      ((sample_start ConnectionPending)\<lparr>cm_codec := DubboCodec_init\<rparr>)"
    by (intro sample_replies) (simp_all add: no_route_error_def mk_error_def quoted_def)
  show ?thesis
    using rejected_request_answered [OF sample.proxy_env_axioms reachable_init _ sample_default_chain c _ _ r]
    by (simp add: sample_routing del: handle.simps)
qed

text \<open>C22: a heartbeat of the client is answered at once with the heartbeat the codec encodes; no
  message is created and nothing goes upstream.\<close>

theorem heartbeat_answered:
  assumes "proxy_env E content codec_inv" and "reachable E px" and "cx_state px = ConnOpen"
    and "completes E px data c m" and "md_message_type m = Heartbeat"
    and "codec_encode (en_codec E) c m MutationImpl (buf_new (en_buffer E)) = (Inr (), (c', b))"
  shows "\<exists>px' reply. handle E (DownstreamData data False) px = Some (Inr (), px') \<and>
    cx_effects px' = cx_effects px @ [DownstreamWrite reply False] \<and> content reply = content b \<and>
    cm_active_message_list px' = cm_active_message_list px \<and> st_messages px' = st_messages px \<and>
    cm_codec px' = c'"
proof -
  have B: "envoy_buffer (en_buffer E) content"
    using assms(1) by (simp add: proxy_env_def codec_contract_def)
  obtain rest where rest: "\<And>px'. ConnectionManager_onHeartbeat E m (in_decode c rest px) = (Inr (), px') \<Longrightarrow>
      handle E (DownstreamData data False) px = Some (Inr (), px'\<lparr>cm_decoder := new_decoder\<rparr>)"
    using data_heartbeat [OF reachable_listens [OF assms(1-3)] assms(4,5)] by metis
  have "m\<lparr>md_message_type := Heartbeat\<rparr> = m" using assms(5) by (cases m) simp
  then have "ConnectionManager_onHeartbeat E m (in_decode c rest px) =
      (Inr (), snd (connection_write E b False ((inc request_event (in_decode c rest px))\<lparr>cm_codec := c'\<rparr>)))"
    using assms(3,6)
    by (simp add: ConnectionManager_onHeartbeat_def HeartbeatResponse_encode_def Let_def)
  then show ?thesis
    using rest envoy_buffer.content_simps [OF B]
    by (simp add: connection_write_def case_prod_beta del: handle.simps)
qed

theorem heartbeat_answered_witness:
  "\<exists>px' reply. handle (sample_env ConnectionPending) (DownstreamData sample_heartbeat False)
      (sample_start ConnectionPending) = Some (Inr (), px') \<and>
    cx_effects px' = [DownstreamWrite reply False] \<and> reply = heartbeat_reply 9 \<and>
    cm_active_message_list px' = [] \<and> st_messages px' = Map.empty \<and> cm_codec px' = DubboCodec_init"
proof -
  obtain m out where m: "completes (sample_env ConnectionPending) (sample_start ConnectionPending)
      sample_heartbeat DubboCodec_init m" "md_message_type m = Heartbeat"
    "codec_encode (en_codec (sample_env ConnectionPending)) DubboCodec_init m MutationImpl [] =
       (Inr (), (DubboCodec_init, out))" "out = heartbeat_reply 9"
    by (rule sample_heartbeat)
  have new: "buf_new (en_buffer (sample_env ConnectionPending)) = []" by (simp add: list_buffer_def)
  show ?thesis
    using heartbeat_answered [OF sample.proxy_env_axioms reachable_init _ m(1,2), of DubboCodec_init out] m(3,4)
    by (simp add: new del: handle.simps sample_env_fields)
qed

subsection \<open>The end of a connection\<close>

text \<open>C23: on data the codec refuses the connection is closed at once: one close, no write, every
  active message is handed to the dispatcher, and the statistics count the error and the messages
  given up.\<close>

theorem bad_data_closes:
  assumes "proxy_env E content codec_inv" and "reachable E px" and "cx_state px = ConnOpen"
    and "decodes E px data (Inl e) c rest m"
  shows "\<exists>px'. handle E (DownstreamData data False) px = Some (Inr (), px') \<and>
    cx_state px' = ConnClosed \<and> cx_effects px' = cx_effects px @ [DownstreamClose NoFlush] \<and>
    cm_active_message_list px' = [] \<and> ev_deferred px' = ev_deferred px @ cm_active_message_list px \<and>
    cm_stats px' request_decoding_error = cm_stats px request_decoding_error + 1 \<and>
    cm_stats px' cx_destroy_local_with_active_rq =
      cm_stats px cx_destroy_local_with_active_rq + length (cm_active_message_list px)"
proof -
  have "codec_inv (cm_codec px)"
    using proxy_env.reachable_open_awaits [OF assms(1,2)] assms(3)
    by (simp add: proxy_env.open_awaits_def [OF assms(1)] proxy_env.awaits_def [OF assms(1)])
  then have "is_envoy_exception e"
    using codec_contract.decode_throws [OF proxy_env.axioms(1) [OF assms(1)]] decodesD(1) [OF assms(4)]
    by simp
  note h = data_refused [OF reachable_listens [OF assms(1-3)] assms(4) this]
  let ?px = "in_decode c rest px"
  have close: "connection_close E NoFlush ?px =
      resetAllMessages True (emit (DownstreamClose NoFlush) (?px\<lparr>cx_state := ConnClosed\<rparr>))"
    by (rule connection_close_open(3)) (simp_all add: assms(3))
  have stats: "cm_stats ?px = cm_stats px" by (simp add: in_decode_def)
  show ?thesis
    unfolding h close by (simp add: resetAllMessages_state inc_def emit_def stats)
qed

theorem bad_data_closes_witness:
  "\<exists>px'. handle (sample_env ConnectionPending) (DownstreamData (replicate 16 0) False)
      (sample_start ConnectionPending) = Some (Inr (), px') \<and>
    cx_state px' = ConnClosed \<and> cx_effects px' = [DownstreamClose NoFlush] \<and>
    cm_active_message_list px' = [] \<and> ev_deferred px' = [] \<and>
    cm_stats px' request_decoding_error = 1 \<and> cm_stats px' cx_destroy_local_with_active_rq = 0"
proof -
  obtain c b where "list_decode (replicate 16 0) =
      (Inl (EnvoyException ''invalid dubbo message magic number 0''), (c, b, new_metadata))"
    by (rule sample_garbage)
  then have d: "decodes (sample_env ConnectionPending) (sample_start ConnectionPending) (replicate 16 0)
      (Inl (EnvoyException ''invalid dubbo message magic number 0'')) c b new_metadata"
    by (simp add: decodes_def DubboCodec_def list_buffer_def)
  have s: "cm_stats (sample_start ConnectionPending) s = 0" for s by (simp add: ConnectionManager_def)
  show ?thesis
    using bad_data_closes [OF sample.proxy_env_axioms reachable_init _ d] by (simp add: s del: handle.simps)
qed

text \<open>C24: the end of the client's stream closes the connection. Whatever was read, the last read is handled
  as any read is, and unless it ends in a panic every message that is then active is given up: it is
  handed to the dispatcher and counted, and the connection is closed. That includes the one-way
  requests that still wait for an upstream connection, which the code means to let complete
  (conn_manager.cc:33); nothing sets \<open>stopped_\<close>, so it never waits for them.\<close>

theorem end_stream_closes:
  assumes "proxy_env E content codec_inv" and "reachable E px" and "cx_state px = ConnOpen"
  shows "\<exists>r px1. handle E (DownstreamData data False) px = Some (r, px1) \<and>
    (case r of
       Inl e \<Rightarrow> handle E (DownstreamData data True) px = Some (Inl e, px1)
     | Inr _ \<Rightarrow> \<exists>px'. handle E (DownstreamData data True) px = Some (Inr (), px') \<and>
         cx_state px' \<noteq> ConnOpen \<and> cm_active_message_list px' = [] \<and>
         ev_deferred px' = ev_deferred px1 @ cm_active_message_list px1 \<and>
         cx_effects px' = cx_effects px1 @ (if cx_state px1 = ConnClosed then [] else [DownstreamClose FlushWrite]) \<and>
         cm_stats px' cx_destroy_remote_with_active_rq =
           cm_stats px1 cx_destroy_remote_with_active_rq + length (cm_active_message_list px1))"
proof -
  obtain r px1 where h: "handle E (DownstreamData data False) px = Some (r, px1)"
    using proxy_env.reachable_handle_returns [OF assms] by (metis surj_pair)
  have e: "handle E (DownstreamData data True) px =
    (case r of Inl e \<Rightarrow> Some (Inl e, px1)
     | Inr _ \<Rightarrow> Some (Inr (), connection_close E FlushWrite (resetAllMessages False px1)))"
    by (rule end_of_stream [OF h reachable_proxy_ok [OF assms(2)]])
  show ?thesis
    by (intro exI [of _ r] exI [of _ px1] conjI h)
      (cases r; simp add: e closed_after_reset del: handle.simps)
qed

theorem end_stream_closes_witness:
  "\<exists>px'. handle (sample_env ConnectionPending) (DownstreamData sample_oneway True) (sample_start ConnectionPending) =
      Some (Inr (), px') \<and>
    cx_state px' \<noteq> ConnOpen \<and> cm_active_message_list px' = [] \<and> ev_deferred px' = [0] \<and>
    cx_effects px' = [DownstreamClose FlushWrite]"
proof -
  let ?E = "sample_env ConnectionPending"
  obtain px where px: "handle ?E (DownstreamData sample_oneway False) (sample_start ConnectionPending) = Some (Inr (), px)"
    "cm_active_message_list px = [0]" "ev_deferred px = []" "cx_state px = ConnOpen" "cx_effects px = []"
    by (rule sample_waiting)
  show ?thesis
    using end_stream_closes [OF sample.proxy_env_axioms reachable_init, of ConnectionPending sample_oneway] px
    by (auto simp del: handle.simps)
qed

subsection \<open>The connection pool\<close>

text \<open>C25: a request whose cluster has no connection yet is held back, with nothing written; when the
  pool reports a connection it is written to it, byte for byte, and stays active until it is answered.\<close>

theorem waiting_request_sent:
  assumes "proxy_env E content codec_inv" and "reachable E px" and "cx_state px = ConnOpen"
    and "default_chain E" and "completes E px data c m" and "md_message_type m = Request"
    and "routing E m (en_random E (st_next px)) = Inr name"
    and "en_newConnection E name (cx_effects px) = ConnectionPending"
  shows "\<exists>px1 px2 sent. handle E (DownstreamData data False) px = Some (Inr (), px1) \<and>
    cx_effects px1 = cx_effects px \<and> enabled (PoolReady (st_next px) 0 host) px1 \<and>
    handle E (PoolReady (st_next px) 0 host) px1 = Some (Inr (), px2) \<and>
    cx_effects px2 = cx_effects px @
      [PutResult host LocalOriginConnectSuccess, UpstreamWrite (st_next px) sent] \<and>
    content sent = content (md_origin_message m) \<and>
    cm_active_message_list px2 = st_next px # cm_active_message_list px \<and> cx_state px2 = ConnOpen"
proof -
  let ?mid = "st_next px"
  have B: "envoy_buffer (en_buffer E) content"
    using assms(1) by (simp add: proxy_env_def codec_contract_def)
  have ty: "md_message_type m \<noteq> Heartbeat" using assms(6) by simp
  have half: "\<not> cm_half_closed px" using reachable_proxy_ok [OF assms(2)] by (simp add: proxy_ok_def)
  obtain am1 px1 where 1: "handle E (DownstreamData data False) px = Some (Inr (), put_message ?mid am1 px1)"
    "cx_effects px1 = cx_effects px" "cm_active_message_list px1 = ?mid # cm_active_message_list px"
    "cx_state px1 = cx_state px" "awaits_pool E am1 (taken_buffer E m) (taken_metadata E m)"
    "nothing_to_read E px1"
    by (rule data_waiting [OF reachable_listens [OF assms(1-3)] assms(5) ty assms(4,7,8) B half])
  obtain am2 where 2: "handle E (PoolReady ?mid 0 host) (put_message ?mid am1 px1) =
       Some (Inr (), put_message ?mid am2 (emit (UpstreamWrite ?mid (written E (taken_buffer E m)))
         (count_request (taken_metadata E m) (inc stat_request
              (emit (PutResult host LocalOriginConnectSuccess) px1)))))"
    by (rule pool_ready_event [OF 1(5,6), where mid = ?mid and host = host]) (simp add: assms(6))
  show ?thesis
    using 1(1-4) 2 awaits_pool_waits [OF 1(5)] taken_contents [OF B] assms(3)
    by (simp del: handle.simps)
qed

theorem waiting_request_sent_witness:
  "\<exists>px1 px2 sent. handle (sample_env ConnectionPending) (DownstreamData (sample_request 105) False)
      (sample_start ConnectionPending) = Some (Inr (), px1) \<and>
    cx_effects px1 = [] \<and> enabled (PoolReady 0 0 ''h'') px1 \<and>
    handle (sample_env ConnectionPending) (PoolReady 0 0 ''h'') px1 = Some (Inr (), px2) \<and>
    cx_effects px2 = [PutResult ''h'' LocalOriginConnectSuccess, UpstreamWrite 0 sent] \<and>
    sent = sample_request 105 \<and> cm_active_message_list px2 = [0] \<and> cx_state px2 = ConnOpen"
proof -
  have c: "completes (sample_env ConnectionPending) (sample_start ConnectionPending)
      (sample_request 105) DubboCodec_init (sample_metadata 105)"
    by (rule sample_completes) simp_all
  show ?thesis
    using waiting_request_sent [OF sample.proxy_env_axioms reachable_init _ sample_default_chain c,
        where name = "''c''" and host = "''h''"]
    by (simp add: sample_routing del: handle.simps enabled.simps)
qed

text \<open>C26: where the connection fails, a two-way request is answered with the error of the failure, the
  failure is reported to the outlier detector, and the message is handed to the dispatcher.\<close>

theorem pool_failure_answered:
  assumes "proxy_env E content codec_inv" and "reachable E px" and "cx_state px = ConnOpen"
    and "default_chain E" and "completes E px data c m" and "md_message_type m = Request"
    and "routing E m (en_random E (st_next px)) = Inr name"
    and "en_newConnection E name (cx_effects px) = ConnectionPending" and "reason \<noteq> Overflow"
    and "replies E (taken_metadata E m) (pool_failure_error reason host) (px\<lparr>cm_codec := c\<rparr>)"
  shows "\<exists>px' reply.
    run_events E [DownstreamData data False, PoolFailure (st_next px) 0 reason (Some host)] px = Some px' \<and>
    cx_effects px' = cx_effects px @ DownstreamWrite reply False #
      (if reason = Timeout then [PutResult host LocalOriginTimeout]
       else if reason = RemoteConnectionFailure then [PutResult host LocalOriginConnectFailed] else []) \<and>
    content reply = reply_to E content c (taken_metadata E m) (pool_failure_error reason host) \<and>
    cm_active_message_list px' = cm_active_message_list px \<and>
    ev_deferred px' = ev_deferred px @ [st_next px] \<and> cx_state px' = ConnOpen"
proof -
  let ?mid = "st_next px" and ?m = "taken_metadata E m" and ?err = "pool_failure_error reason host"
  have B: "envoy_buffer (en_buffer E) content"
    using assms(1) by (simp add: proxy_env_def codec_contract_def)
  have ty: "md_message_type m \<noteq> Heartbeat" "md_message_type ?m \<noteq> Oneway" using assms(6) by simp_all
  have half: "\<not> cm_half_closed px" using reachable_proxy_ok [OF assms(2)] by (simp add: proxy_ok_def)
  obtain am1 px1 where 1: "handle E (DownstreamData data False) px = Some (Inr (), put_message ?mid am1 px1)"
    "cx_effects px1 = cx_effects px" "cm_active_message_list px1 = ?mid # cm_active_message_list px"
    "ev_deferred px1 = ev_deferred px" "cx_state px1 = cx_state px" "cm_codec px1 = c"
    "awaits_pool E am1 (taken_buffer E m) ?m" "nothing_to_read E px1"
    by (rule data_waiting [OF reachable_listens [OF assms(1-3)] assms(5) ty(1) assms(4,7,8) B half])
  have r: "replies E ?m ?err px1" using assms(10) 1(5,6) by (simp add: replies_def)
  obtain am2 where 2: "handle E (PoolFailure ?mid 0 reason (Some host)) (put_message ?mid am1 px1) =
       Some (Inr (), put_message ?mid am2 (deferredMessage ?mid (count_request ?m (inc stat_request
         (failure_report reason host (replied E ?m ?err px1))))))"
    by (rule pool_failure_event [OF 1(7,8) ty(2) assms(9) r, where mid = ?mid])
  obtain reply where w: "cx_effects (replied E ?m ?err px1) = cx_effects px1 @ [DownstreamWrite reply False]"
    "content reply = reply_to E content c ?m ?err"
    using replied_write [OF B, of ?m ?err px1] 1(6) by auto
  have f: "cx_state (failure_report reason host q) = cx_state q"
    "cx_effects (failure_report reason host q) = cx_effects q @
      (if reason = Timeout then [PutResult host LocalOriginTimeout]
       else if reason = RemoteConnectionFailure then [PutResult host LocalOriginConnectFailed] else [])" for q
    by (simp_all add: failure_report_def)
  show ?thesis
    using 1(1-5) 2 w awaits_pool_waits [OF 1(7)] assms(3,9) by (simp add: f del: handle.simps)
qed

theorem pool_failure_answered_witness:
  "\<exists>px' reply.
    run_events (sample_env ConnectionPending)
      [DownstreamData (sample_request 105) False, PoolFailure 0 0 Timeout (Some ''h'')]
      (sample_start ConnectionPending) = Some px' \<and>
    cx_effects px' = [DownstreamWrite reply False, PutResult ''h'' LocalOriginTimeout] \<and>
    reply = reply_to (sample_env ConnectionPending) (\<lambda>bs. bs) DubboCodec_init
      (taken_metadata (sample_env ConnectionPending) (sample_metadata 105)) (pool_failure_error Timeout ''h'') \<and>
    cm_active_message_list px' = [] \<and> ev_deferred px' = [0] \<and> cx_state px' = ConnOpen"
proof -
  have c: "completes (sample_env ConnectionPending) (sample_start ConnectionPending)
      (sample_request 105) DubboCodec_init (sample_metadata 105)"
    by (rule sample_completes) simp_all
  have r: "replies (sample_env ConnectionPending) (taken_metadata (sample_env ConnectionPending) (sample_metadata 105))
      (pool_failure_error Timeout ''h'') ((sample_start ConnectionPending)\<lparr>cm_codec := DubboCodec_init\<rparr>)"
    by (rule sample_replies) (simp_all add: mk_error_def quoted_def)
  show ?thesis
    using pool_failure_answered [OF sample.proxy_env_axioms reachable_init _ sample_default_chain c _ _ _ _ r,
        where name = "''c''"]
    by (simp add: sample_routing del: run_events.simps)
qed

subsection \<open>Where the code does not do what it means to\<close>

text \<open>C35: a response with the id of another request is noticed only after it was written to the
  client: the client gets the wrong response and then the error reply to its request.\<close>

theorem mismatched_response_forwarded:
  assumes "proxy_env E content codec_inv" and "reachable E px" and "cx_state px = ConnOpen"
    and "default_chain E" and "completes E px data c m" and "md_message_type m = Request"
    and "routing E m (en_random E (st_next px)) = Inr name"
    and "en_newConnection E name (cx_effects px) = ConnectionReady host"
    and "response_codec_done E (en_createCodec E) answer c' rest rm"
    and "md_request_id m \<noteq> md_request_id rm"
    and "replies E (taken_metadata E m)
      (mk_error BadResponse (mismatch_text E (md_request_id m) (md_request_id rm))) (px\<lparr>cm_codec := c\<rparr>)"
  shows "\<exists>px' sent got reply.
    run_events E [DownstreamData data False, UpstreamData (st_next px) 0 answer es] px = Some px' \<and>
    cx_effects px' = cx_effects px @
      [PutResult host LocalOriginConnectSuccess, UpstreamWrite (st_next px) sent,
       PutResult host (response_result rm), DownstreamWrite got False,
       DownstreamWrite reply False, UpstreamClose (st_next px)] \<and>
    content got = content (md_origin_message rm)"
proof -
  let ?mid = "st_next px" and ?m = "taken_metadata E m"
    and ?err = "mk_error BadResponse (mismatch_text E (md_request_id m) (md_request_id rm))"
  have B: "envoy_buffer (en_buffer E) content"
    using assms(1) by (simp add: proxy_env_def codec_contract_def)
  have ty: "md_message_type m \<noteq> Heartbeat" using assms(6) by simp
  obtain am1 b px1 where 1: "handle E (DownstreamData data False) px = Some (Inr (), put_message ?mid am1 px1)"
    "cx_effects px1 = cx_effects px @
       [PutResult host LocalOriginConnectSuccess, UpstreamWrite ?mid (written E (taken_buffer E m))]"
    "cx_state px1 = ConnOpen" "cm_codec px1 = c" "awaits_response am1 host ?m"
    by (rule data_forwarded [OF reachable_listens [OF assms(1-3)] assms(5) ty assms(4,7,8)])
      (use assms(3) in \<open>simp add: awaits_response_sent\<close>)
  have id: "md_request_id ?m = md_request_id m" by simp
  have r: "replies E ?m (mk_error BadResponse (mismatch_text E (md_request_id ?m) (md_request_id rm))) px1"
    using assms(3,11) 1(3,4) by (simp add: replies_def)
  obtain am2 where 2: "handle E (UpstreamData ?mid 0 answer es) (put_message ?mid am1 px1) =
       Some (Inr (), put_message ?mid am2 (emit (UpstreamClose ?mid) (deferredMessage ?mid
         (replied E ?m ?err (inc response_decoding_error
             (count_response rm (emit (DownstreamWrite (written E (md_origin_message rm)) False)
               (emit (PutResult host (response_result rm)) px1))))))))"
    by (rule mismatch_event [OF 1(5,3) assms(9) _ r, where mid = ?mid and es = es])
      (simp_all add: assms(10))
  obtain reply where "cx_effects (replied E ?m ?err (inc response_decoding_error
             (count_response rm (emit (DownstreamWrite (written E (md_origin_message rm)) False)
               (emit (PutResult host (response_result rm)) px1))))) =
      cx_effects px @ [PutResult host LocalOriginConnectSuccess, UpstreamWrite ?mid (written E (taken_buffer E m)),
        PutResult host (response_result rm), DownstreamWrite (written E (md_origin_message rm)) False,
        DownstreamWrite reply False]"
    using replied_write [OF B, of ?m ?err "inc response_decoding_error
             (count_response rm (emit (DownstreamWrite (written E (md_origin_message rm)) False)
               (emit (PutResult host (response_result rm)) px1)))"] 1(2) by auto
  then show ?thesis
    using 1(1) 2 awaits_holds [OF 1(5)] taken_contents(3) [OF B] assms(3) by (simp del: handle.simps)
qed

theorem mismatched_response_forwarded_witness:
  "\<exists>px' sent got reply.
    run_events (sample_env (ConnectionReady ''h''))
      [DownstreamData (sample_request 105) False, UpstreamData 0 0 (sample_reply 8) False]
      (sample_start (ConnectionReady ''h'')) = Some px' \<and>
    cx_effects px' =
      [PutResult ''h'' LocalOriginConnectSuccess, UpstreamWrite 0 sent,
       PutResult ''h'' ExtOriginRequestFailed, DownstreamWrite got False,
       DownstreamWrite reply False, UpstreamClose 0] \<and> got = sample_reply 8"
proof -
  let ?E = "sample_env (ConnectionReady ''h'')"
  obtain rest rm where rm: "response_codec_done ?E DubboCodec_init (sample_reply 8) DubboCodec_init rest rm"
    "md_request_id rm = 8" "md_origin_message rm = sample_reply 8" "response_result rm = ExtOriginRequestFailed"
    by (rule sample_response)
  have c: "completes ?E (sample_start (ConnectionReady ''h'')) (sample_request 105) DubboCodec_init (sample_metadata 105)"
    by (rule sample_completes) simp_all
  have d: "dec_nat 7 = ''7''" "dec_nat 8 = ''8''" by code_simp+
  have r: "replies ?E (taken_metadata ?E (sample_metadata 105)) (mk_error BadResponse (mismatch_text ?E 7 8))
      ((sample_start (ConnectionReady ''h''))\<lparr>cm_codec := DubboCodec_init\<rparr>)"
    by (rule sample_replies) (simp_all add: mk_error_def mismatch_text_def d)
  show ?thesis
    using mismatched_response_forwarded [OF sample.proxy_env_axioms reachable_init _ sample_default_chain c,
        where name = "''c''" and host = "''h''" and answer = "sample_reply 8" and es = False and rm = rm
          and c' = DubboCodec_init and rest = rest] rm r
    by (simp add: sample_routing del: run_events.simps)
qed

text \<open>C36: an upstream that closes the connection instead of answering: the client gets its error
  reply, but the message is not handed to the dispatcher. It stays in the list of active messages
  until the connection ends (\<open>filter_complete_\<close>, which would reset the stream, is never set).\<close>

theorem upstream_close_keeps_message:
  assumes "proxy_env E content codec_inv" and "reachable E px" and "cx_state px = ConnOpen"
    and "default_chain E" and "completes E px data c m" and "md_message_type m = Request"
    and "routing E m (en_random E (st_next px)) = Inr name"
    and "en_newConnection E name (cx_effects px) = ConnectionReady host"
    and "replies E (taken_metadata E m) (pool_failure_error RemoteConnectionFailure host) (px\<lparr>cm_codec := c\<rparr>)"
  shows "\<exists>px' sent reply.
    run_events E [DownstreamData data False, UpstreamEvent (st_next px) 0 RemoteClose] px = Some px' \<and>
    cx_effects px' = cx_effects px @
      [PutResult host LocalOriginConnectSuccess, UpstreamWrite (st_next px) sent,
       DownstreamWrite reply False, PutResult host LocalOriginConnectFailed] \<and>
    content reply = reply_to E content c (taken_metadata E m) (pool_failure_error RemoteConnectionFailure host) \<and>
    cm_active_message_list px' = st_next px # cm_active_message_list px \<and> ev_deferred px' = ev_deferred px"
proof -
  let ?mid = "st_next px" and ?m = "taken_metadata E m" and ?err = "pool_failure_error RemoteConnectionFailure host"
  have B: "envoy_buffer (en_buffer E) content"
    using assms(1) by (simp add: proxy_env_def codec_contract_def)
  have ty: "md_message_type m \<noteq> Heartbeat" "md_message_type ?m \<noteq> Oneway" using assms(6) by simp_all
  obtain am1 b px1 where 1: "handle E (DownstreamData data False) px = Some (Inr (), put_message ?mid am1 px1)"
    "cx_effects px1 = cx_effects px @
       [PutResult host LocalOriginConnectSuccess, UpstreamWrite ?mid (written E (taken_buffer E m))]"
    "cm_active_message_list px1 = ?mid # cm_active_message_list px" "ev_deferred px1 = ev_deferred px"
    "cx_state px1 = ConnOpen" "cm_codec px1 = c" "awaits_response am1 host ?m"
    by (rule data_forwarded [OF reachable_listens [OF assms(1-3)] assms(5) ty(1) assms(4,7,8)])
      (use assms(3,6) in \<open>simp add: awaits_response_sent\<close>)
  have r: "replies E ?m ?err px1" using assms(3,9) 1(5,6) by (simp add: replies_def)
  obtain am2 where 2: "handle E (UpstreamEvent ?mid 0 RemoteClose) (put_message ?mid am1 px1) =
       Some (Inr (), put_message ?mid am2 (emit (PutResult host LocalOriginConnectFailed) (replied E ?m ?err px1)))"
    by (rule upstream_close_event [OF 1(7) ty(2) r, where mid = ?mid])
  obtain reply where "cx_effects (replied E ?m ?err px1) = cx_effects px1 @ [DownstreamWrite reply False]"
    "content reply = reply_to E content c ?m ?err"
    using replied_write [OF B, of ?m ?err px1] 1(6) by auto
  then show ?thesis
    using 1(1-4) 2 awaits_holds [OF 1(7)] assms(3) by (simp del: handle.simps)
qed

theorem upstream_close_keeps_message_witness:
  "\<exists>px' sent reply.
    run_events (sample_env (ConnectionReady ''h''))
      [DownstreamData (sample_request 105) False, UpstreamEvent 0 0 RemoteClose]
      (sample_start (ConnectionReady ''h'')) = Some px' \<and>
    cx_effects px' =
      [PutResult ''h'' LocalOriginConnectSuccess, UpstreamWrite 0 sent,
       DownstreamWrite reply False, PutResult ''h'' LocalOriginConnectFailed] \<and>
    reply = reply_to (sample_env (ConnectionReady ''h'')) (\<lambda>bs. bs) DubboCodec_init
      (taken_metadata (sample_env (ConnectionReady ''h'')) (sample_metadata 105))
      (pool_failure_error RemoteConnectionFailure ''h'') \<and>
    cm_active_message_list px' = [0] \<and> ev_deferred px' = []"
proof -
  let ?E = "sample_env (ConnectionReady ''h'')"
  have c: "completes ?E (sample_start (ConnectionReady ''h'')) (sample_request 105) DubboCodec_init (sample_metadata 105)"
    by (rule sample_completes) simp_all
  have r: "replies ?E (taken_metadata ?E (sample_metadata 105)) (pool_failure_error RemoteConnectionFailure ''h'')
      ((sample_start (ConnectionReady ''h''))\<lparr>cm_codec := DubboCodec_init\<rparr>)"
    by (rule sample_replies) (simp_all add: mk_error_def quoted_def)
  show ?thesis
    using upstream_close_keeps_message [OF sample.proxy_env_axioms reachable_init _ sample_default_chain c _ _ _ r,
        where name = "''c''"]
    by (simp add: sample_routing del: run_events.simps)
qed

text \<open>C37: a heartbeat the upstream sends on a connection that carries a request ends in
  \<open>NOT_IMPLEMENTED\<close>, a panic of the whole proxy: any provider can stop it.\<close>

theorem upstream_heartbeat_panics:
  assumes "proxy_env E content codec_inv" and "reachable E px" and "cx_state px = ConnOpen"
    and "default_chain E" and "completes E px data c m" and "md_message_type m = Request"
    and "routing E m (en_random E (st_next px)) = Inr name"
    and "en_newConnection E name (cx_effects px) = ConnectionReady host"
    and "codec_decode (en_codec E) (en_createCodec E) beat (MetadataImpl (en_buffer E) (en_headers E)) =
      (Inr DecodeDone, (c', rest, rm))" and "md_message_type rm = Heartbeat"
  shows "\<exists>px1 px2. handle E (DownstreamData data False) px = Some (Inr (), px1) \<and>
    enabled (UpstreamData (st_next px) 0 beat es) px1 \<and>
    handle E (UpstreamData (st_next px) 0 beat es) px1 = Some (Inl (Panic ''NOT_IMPLEMENTED''), px2)"
proof -
  let ?mid = "st_next px"
  have ty: "md_message_type m \<noteq> Heartbeat" using assms(6) by simp
  obtain am1 b px1 where 1: "handle E (DownstreamData data False) px = Some (Inr (), put_message ?mid am1 px1)"
    "awaits_response am1 host (taken_metadata E m)"
    by (rule data_forwarded [OF reachable_listens [OF assms(1-3)] assms(5) ty assms(4,7,8)])
      (simp add: awaits_response_sent)
  obtain px2 where "handle E (UpstreamData ?mid 0 beat es) (put_message ?mid am1 px1) =
      Some (Inl (Panic ''NOT_IMPLEMENTED''), px2)"
    by (rule upstream_heartbeat_event [OF 1(2) assms(9,10), where mid = ?mid and es = es and px = px1])
  then show ?thesis
    using 1(1) awaits_holds [OF 1(2)] by (intro exI conjI) (assumption | simp del: handle.simps)+
qed

theorem upstream_heartbeat_panics_witness:
  "\<exists>px1 px2. handle (sample_env (ConnectionReady ''h'')) (DownstreamData (sample_request 105) False)
      (sample_start (ConnectionReady ''h'')) = Some (Inr (), px1) \<and>
    enabled (UpstreamData 0 0 sample_heartbeat False) px1 \<and>
    handle (sample_env (ConnectionReady ''h'')) (UpstreamData 0 0 sample_heartbeat False) px1 =
      Some (Inl (Panic ''NOT_IMPLEMENTED''), px2)"
proof -
  let ?E = "sample_env (ConnectionReady ''h'')"
  have c: "completes ?E (sample_start (ConnectionReady ''h'')) (sample_request 105) DubboCodec_init (sample_metadata 105)"
    by (rule sample_completes) simp_all
  obtain m where m: "completes ?E (sample_start (ConnectionReady ''h'')) sample_heartbeat DubboCodec_init m"
    "md_message_type m = Heartbeat"
    by (rule sample_heartbeat)
  obtain rest where "codec_decode (en_codec ?E) DubboCodec_init sample_heartbeat
      (MetadataImpl (en_buffer ?E) (en_headers ?E)) = (Inr DecodeDone, (DubboCodec_init, rest, m))"
    using m(1) by (auto simp: completes_def decodes_def list_buffer_def)
  then show ?thesis
    using upstream_heartbeat_panics [OF sample.proxy_env_axioms reachable_init _ sample_default_chain c,
        where name = "''c''" and host = "''h''" and beat = sample_heartbeat and es = False and rm = m
          and c' = DubboCodec_init and rest = rest] m(2)
    by (simp add: sample_routing del: handle.simps enabled.simps)
qed

text \<open>C39: an encoder filter that answers \<open>Retry\<close> to a response makes the response decoder drop the
  state machine it is running on: \<open>run\<close> then writes to the destroyed object. The retry the filter
  asked for never happens.\<close>

theorem encoder_retry_destroys_decoder:
  assumes "codec_decode (en_codec E) (en_createCodec E) data (MetadataImpl (en_buffer E) (en_headers E)) =
      (Inr DecodeDone, (c', rest, m))" and "md_message_type m \<in> {Response, MsgError}"
    and "applyEncoderFilters E mid None CanStartFromCurrent (m, MutationImpl)
      (update_message mid (\<lambda>am. am\<lparr>am_encoder_filter_action := True\<rparr>) px) = (Inr (Retry, r), px')"
  shows "\<exists>s. ActiveResponseDecoder_onData E mid (ActiveResponseDecoder E, data, px) =
    (Inl (Panic ''write to state_ of a destroyed DecoderStateMachine''), s)"
  by (rule retry_destroys [OF assms])

text \<open>A message with one encoder filter, which always asks for a retry.\<close>

definition retry_env :: "(u8 list dubbo_codec, dubbo_any, u8 list, (string \<times> string) list, unit) env" where
  "retry_env = (sample_env ConnectionPending)\<lparr>en_onMessageEncoded := \<lambda>f m mu. (f, m, mu, Retry)\<rparr>"

definition retry_proxy :: sample_proxy where
  "retry_proxy = put_message 0 (addEncoderFilter (ExternalFilter ()) (ActiveMessage 0)) (sample_start ConnectionPending)"

theorem encoder_retry_destroys_decoder_witness:
  "\<exists>s. ActiveResponseDecoder_onData retry_env 0 (ActiveResponseDecoder retry_env, sample_reply 7, retry_proxy) =
    (Inl (Panic ''write to state_ of a destroyed DecoderStateMachine''), s)"
proof -
  obtain rest rm where rm: "response_codec_done (sample_env ConnectionPending) DubboCodec_init (sample_reply 7)
      DubboCodec_init rest rm"
    by (rule sample_response)
  have env: "en_codec retry_env = en_codec (sample_env ConnectionPending)"
    "en_createCodec retry_env = DubboCodec_init" "en_buffer retry_env = list_buffer"
    "en_headers retry_env = alist_headers"
    by (simp_all add: retry_env_def)
  have "\<exists>px'. applyEncoderFilters retry_env 0 None CanStartFromCurrent (rm, MutationImpl)
      (update_message 0 (\<lambda>am. am\<lparr>am_encoder_filter_action := True\<rparr>) retry_proxy) =
      (Inr (Retry, (rm, MutationImpl)), px')"
    by (simp add: retry_proxy_def applyEncoderFilters_def addEncoderFilter_def add_filter_object_def
        ActiveMessage_def call_encoder_filter_def retry_env_def Let_def)
  then obtain px' where "applyEncoderFilters retry_env 0 None CanStartFromCurrent (rm, MutationImpl)
      (update_message 0 (\<lambda>am. am\<lparr>am_encoder_filter_action := True\<rparr>) retry_proxy) =
      (Inr (Retry, (rm, MutationImpl)), px')" by blast
  then show ?thesis
    using rm by (intro encoder_retry_destroys_decoder) (simp_all add: env response_codec_done_def)
qed

text \<open>C38: an encoder filter that stops the iteration loses the response, one that carries the request's
  id and leaves no byte behind in the upstream buffer. Nothing is written to the
  client beyond what the filters did, the message is handed to deferred deletion as if it were
  answered, and \<open>continueEncoding\<close>, by which the filter is to go on later, then is a call on a
  destroyed message.\<close>

theorem encoder_stop_loses_response:
  assumes "codec_decode (en_codec E) (en_createCodec E) data (MetadataImpl (en_buffer E) (en_headers E)) =
      (Inr DecodeDone, (c', rest, m))" and "md_message_type m \<in> {Response, MsgError}"
    and "buf_length (en_buffer E) rest = 0"
    and "applyEncoderFilters E mid None CanStartFromCurrent (m, MutationImpl)
      (update_message mid (\<lambda>am. am\<lparr>am_encoder_filter_action := True\<rparr>) px) =
      (Inr (StopIteration, (m', mu')), px')"
    and "st_messages px mid = Some am" and "am_response_decoder am = Some (ActiveResponseDecoder E)"
    and "st_messages px' mid = Some am'" and "ActiveMessage_requestId am' = md_request_id m'"
    and "mid \<in> set (cm_active_message_list px')"
  shows "\<exists>q. ActiveMessage_upstreamData E mid data px = (Inr (Complete, rest), q) \<and>
    cx_effects q = cx_effects px' \<and> cm_stats q = cm_stats px' \<and>
    cm_active_message_list q = remove1 mid (cm_active_message_list px') \<and> mid \<in> set (ev_deferred q) \<and>
    (case ActiveMessage_destroy mid q of
       (Inr _, q) \<Rightarrow>
         fst (EncoderFilter_continueEncoding E mid pos response q) = Inl (Panic ''dangling ActiveMessage'')
     | _ \<Rightarrow> True)"
proof (rule stop_upstreamData [OF assms(1-8)])
  fix rd
  assume rd: "ActiveMessage_upstreamData E mid data px =
      (Inr (Complete, rest), deferredMessage mid (update_message mid (\<lambda>am. am\<lparr>am_response_decoder := Some rd\<rparr>) px'))"
  show ?thesis
    by (rule exI, intro conjI, rule rd)
      (use assms(9) in \<open>auto simp: deferredMessage_def update_message_def destroyed_encoding
        split: option.splits sum.splits prod.splits\<close>)
qed

text \<open>A message for the request 7 with one encoder filter, which always stops.\<close>

definition stop_env :: "(u8 list dubbo_codec, dubbo_any, u8 list, (string \<times> string) list, unit) env" where
  "stop_env = (sample_env ConnectionPending)\<lparr>en_onMessageEncoded := \<lambda>f m mu. (f, m, mu, StopIteration)\<rparr>"

definition stop_proxy :: sample_proxy where
  "stop_proxy = (put_message 0 ((addEncoderFilter (ExternalFilter ()) (ActiveMessage 0))
     \<lparr>am_metadata := Some (sample_metadata 105), am_response_decoder := Some (ActiveResponseDecoder stop_env)\<rparr>)
     (sample_start ConnectionPending))\<lparr>cm_active_message_list := [0]\<rparr>"

theorem encoder_stop_loses_response_witness:
  "\<exists>q. ActiveMessage_upstreamData stop_env 0 (sample_reply 7) stop_proxy = (Inr (Complete, []), q) \<and>
     cx_effects q = [] \<and> cm_active_message_list q = [] \<and> 0 \<in> set (ev_deferred q)"
proof -
  obtain rest rm where rm: "response_codec_done (sample_env ConnectionPending) DubboCodec_init (sample_reply 7)
      DubboCodec_init rest rm" "md_request_id rm = 7" "rest = []"
    by (rule sample_response)
  have env: "en_codec stop_env = en_codec (sample_env ConnectionPending)"
    "en_createCodec stop_env = DubboCodec_init" "en_buffer stop_env = list_buffer"
    "en_headers stop_env = alist_headers"
    by (simp_all add: stop_env_def)
  obtain px' am' where run: "applyEncoderFilters stop_env 0 None CanStartFromCurrent (rm, MutationImpl)
      (update_message 0 (\<lambda>am. am\<lparr>am_encoder_filter_action := True\<rparr>) stop_proxy) =
      (Inr (StopIteration, (rm, MutationImpl)), px')"
    "st_messages px' 0 = Some am'" "am_metadata am' = Some (sample_metadata 105)"
    "cx_effects px' = []" "cm_active_message_list px' = [0]"
    by (simp add: stop_proxy_def applyEncoderFilters_def addEncoderFilter_def add_filter_object_def
        ActiveMessage_def call_encoder_filter_def stop_env_def Let_def update_message_def put_message_def
        with_message_def)
  have empty: "buf_length list_buffer [] = 0" by (simp add: list_buffer_def)
  obtain am where am: "st_messages stop_proxy 0 = Some am"
      "am_response_decoder am = Some (ActiveResponseDecoder stop_env)"
    by (simp add: stop_proxy_def put_message_def)
  show ?thesis
    using encoder_stop_loses_response [OF _ _ _ run(1) am run(2),
        where c' = DubboCodec_init and rest = "[]" and data = "sample_reply 7" and pos = 0
          and response = "(rm, MutationImpl)"] run(3-5) rm empty
    by (auto simp: env response_codec_done_def ActiveMessage_requestId_def)
qed

subsection \<open>Routing\<close>

text \<open>C28: a proxy built from a configuration routes a request by the first rule all of whose matchers
  its headers meet, to the cluster of the rule or one of its weighted clusters; without such a rule
  there is no route.\<close>

theorem configured_routing:
  assumes "route_matching U meets" and "ConfigImpl U registry g config = Inr ci"
    and "\<And>rule cs. rule \<in> set (pp_routes config) \<Longrightarrow> rc_cluster_specifier rule = ClusterSpecifierWeighted cs \<Longrightarrow>
      0 < sum_list (map (\<lambda>c. unat (the (snd c))) cs) \<and> sum_list (map (\<lambda>c. unat (the (snd c))) cs) < 2 ^ 64"
  shows "case en_route (configure U ci E) m v of
      None \<Rightarrow> \<forall>rule \<in> set (pp_routes config). \<exists>p \<in> set (rc_metadata rule). \<not> meets (md_headers m) p
    | Some cluster \<Rightarrow> \<exists>i < length (pp_routes config).
        (\<forall>p \<in> set (rc_metadata (pp_routes config ! i)). meets (md_headers m) p) \<and>
        (\<forall>j < i. \<exists>p \<in> set (rc_metadata (pp_routes config ! j)). \<not> meets (md_headers m) p) \<and>
        cluster \<in> configured_clusters (rc_cluster_specifier (pp_routes config ! i))"
proof -
  let ?rules = "pp_routes config" and ?es = "ci_route_matcher ci"
  let ?ok = "\<lambda>rule. \<forall>p \<in> set (rc_metadata rule). meets (md_headers m) p"
  have es: "list_all2 (\<lambda>rule e. RouteEntryImpl U rule = Inr e) ?rules ?es"
    using route_matching.table_entries [OF assms(1)] ConfigImpl_fields(1) [OF assms(2)] .
  have len: "length ?es = length ?rules" using es by (simp add: list_all2_lengthD)
  have e: "RouteEntryImpl U (?rules ! i) = Inr (?es ! i)" if "i < length ?rules" for i
    using es that by (rule list_all2_nthD)
  have match: "headersMatch U (?es ! i) m = ?ok (?rules ! i)" if "i < length ?rules" for i
    using route_matching.entry_matches [OF assms(1) e [OF that]]
    by (simp add: route_matching.rule_matches_def [OF assms(1)])
  have route: "en_route (configure U ci E) m v = map_option clusterName (RouteMatcherImpl_route U ?es m v)"
    by (simp add: configure_def ConfigImpl_route_def)
  show ?thesis
  proof (cases "RouteMatcherImpl_route U ?es m v")
    case None
    then have "\<not> headersMatch U (?es ! i) m" if "i < length ?rules" for i
      using that len by (simp add: route_None_iff)
    then have "\<not> ?ok rule" if "rule \<in> set ?rules" for rule
      using that match by (auto simp: in_set_conv_nth)
    then show ?thesis using None route by simp
  next
    case (Some r)
    then obtain i where i: "i < length ?rules" "headersMatch U (?es ! i) m"
      "\<forall>j < i. \<not> headersMatch U (?es ! j) m" "r = clusterEntry U (?es ! i) v"
      using len by (auto simp: route_Some_iff)
    have "clusterName r \<in> configured_clusters (rc_cluster_specifier (?rules ! i))"
      unfolding i(4)
      by (rule route_matching.entry_cluster [OF assms(1) e [OF i(1)]]) (use assms(3) i(1) nth_mem in blast)
    moreover have "\<not> ?ok (?rules ! j)" if "j < i" for j using that i(1,3) match [of j] by simp
    ultimately show ?thesis using Some route i(1,2) match by auto
  qed
qed

theorem configured_routing_witness:
  "case en_route (configure exact_matchers sample_config_impl (sample_env ConnectionPending)) (sample_metadata 105) 3 of
      None \<Rightarrow> \<forall>rule \<in> set (pp_routes sample_config). \<exists>p \<in> set (rc_metadata rule).
        \<not> (\<lambda>h (k, v). alist_get h k = [v]) (md_headers (sample_metadata 105)) p
    | Some cluster \<Rightarrow> \<exists>i < length (pp_routes sample_config).
        (\<forall>p \<in> set (rc_metadata (pp_routes sample_config ! i)).
           (\<lambda>h (k, v). alist_get h k = [v]) (md_headers (sample_metadata 105)) p) \<and>
        (\<forall>j < i. \<exists>p \<in> set (rc_metadata (pp_routes sample_config ! j)).
           \<not> (\<lambda>h (k, v). alist_get h k = [v]) (md_headers (sample_metadata 105)) p) \<and>
        cluster \<in> configured_clusters (rc_cluster_specifier (pp_routes sample_config ! i))"
  by (rule configured_routing [OF em.route_matching_axioms sample_config_impl]) (simp add: sample_config_def)

text \<open>C31: the headers the route table matches on are the service and the method of the Dubbo
  request, whatever else its metadata holds.\<close>

theorem dubbo_request_headers:
  assumes "header_map H hget" and "dm_invocation_info dm = Some i"
    and "hdr_lower H ''interface'' \<noteq> hdr_lower H ''method''"
  shows "hget (md_headers (toMetadata H dm ctx (MetadataImpl B H))) k =
    (if k = hdr_lower H ''method'' then [inv_method_name i]
     else if k = hdr_lower H ''interface'' then [inv_service_name i] else [])"
  by (rule toMetadata_routes [OF assms])

theorem dubbo_request_headers_witness:
  "alist_get (md_headers (toMetadata alist_headers (sample_dubbo_metadata 105) (ContextImpl list_buffer)
       (MetadataImpl list_buffer alist_headers))) ''interface'' =
    (if ''interface'' = hdr_lower alist_headers ''method'' then [''m'']
     else if ''interface'' = hdr_lower alist_headers ''interface'' then [''i''] else [])"
proof -
  have low: "hdr_lower alist_headers ''interface'' \<noteq> hdr_lower alist_headers ''method''"
    by (simp add: alist_headers_def)
  have inv: "dm_invocation_info (sample_dubbo_metadata 105) = Some (sample_invocation 105)"
    "inv_service_name (sample_invocation 105) = ''i''" "inv_method_name (sample_invocation 105) = ''m''"
    by (simp_all add: sample_dubbo_metadata_def sample_invocation_def sample_chars)
  show ?thesis by (rule dubbo_request_headers [OF ah.header_map_axioms inv(1) low, unfolded inv(2,3)])
qed

text \<open>\<open>putString\<close> twice on one key: \<open>getString\<close> keeps returning the first value (\<open>insert\<close> does not
  replace), the route table sees the second (the header is replaced).\<close>

theorem putString_twice:
  assumes "header_map H hget" and "Metadata_get m k = None"
  shows "Metadata_getString (Metadata_putString H (Metadata_putString H m k v1) k v2) k = Inr v1 \<and>
    hget (md_headers (Metadata_putString H (Metadata_putString H m k v1) k v2)) (hdr_lower H k) = [v2]"
  using assms(2) by (simp add: getput header_map.putString_routes [OF assms(1)])

theorem putString_twice_witness:
  "let m = (MetadataImpl list_buffer alist_headers :: (dubbo_any, u8 list, (string \<times> string) list) metadata) in
    Metadata_getString (Metadata_putString alist_headers
      (Metadata_putString alist_headers m ''k'' ''a'') ''k'' ''b'') ''k'' = Inr ''a'' \<and>
    alist_get (md_headers (Metadata_putString alist_headers
      (Metadata_putString alist_headers m ''k'' ''a'') ''k'' ''b''))
      (hdr_lower alist_headers ''k'') = [''b'']"
  unfolding Let_def by (rule putString_twice [OF ah.header_map_axioms]) (simp add: getput)

end
