(* ===== verification/Codec_Streams.thy ===== *)
theory Codec_Streams
  imports Meta_Codec "HOL-Library.Sublist"
begin

text \<open>
  A codec as a reader of a stream that arrives in pieces. The locale \<open>resumable_codec\<close> has the law
  both codecs of the repository keep: a call of \<open>decode\<close> that continues after a wait ends as one call
  on all the bytes does. From it follows what a codec does with the rest of a frame of which it has
  read a part.
\<close>

subsection \<open>Calls that end alike\<close>

fun same_decoding ::
  "('b \<Rightarrow> u8 list) \<Rightarrow> (DecodeStatus, 'c \<times> 'b \<times> ('x, 'b, 'h) metadata) outcome \<Rightarrow>
   (DecodeStatus, 'c \<times> 'b \<times> ('x, 'b, 'h) metadata) outcome \<Rightarrow> bool" where
  "same_decoding content (Inr st, (c, b, m)) (Inr st', (c', b', m')) =
     (st = st' \<and> content b = content b' \<and> metadata_view content m = metadata_view content m' \<and>
      (st = DecodeDone \<longrightarrow> c = c'))"
| "same_decoding content (Inl _, _) (Inl _, _) = True"
| "same_decoding content _ _ = False"

lemma same_decoding_trans:
  "same_decoding content r s \<Longrightarrow> same_decoding content s t \<Longrightarrow> same_decoding content r t"
  by (induction content r s rule: same_decoding.induct; cases t; cases "fst t") auto

lemma same_decodingE:
  assumes "same_decoding content r (Inr st, (c, b, m))"
  obtains c' b' m' where "r = (Inr st, (c', b', m'))" "content b' = content b"
    "metadata_view content m' = metadata_view content m" "st = DecodeDone \<Longrightarrow> c' = c"
  using assms by (cases r; cases "fst r") auto

subsection \<open>Frames\<close>

text \<open>
  \<open>takes_frame\<close>: an idle codec decodes a message from the bytes \<open>f\<close> whatever follows, is idle again,
  and what it decoded satisfies \<open>Q\<close>; on less than \<open>f\<close> it waits.
\<close>

definition takes_frame ::
  "('b \<Rightarrow> u8 list) \<Rightarrow> ('c, 'x, 'b, 'h) codec \<Rightarrow> ('x, 'b, 'h) metadata \<Rightarrow> ('c \<Rightarrow> bool) \<Rightarrow>
   ('c \<Rightarrow> ('x, 'b, 'h) metadata \<Rightarrow> bool) \<Rightarrow> u8 list \<Rightarrow> bool" where
  "takes_frame content K m0 idle Q f \<longleftrightarrow> f \<noteq> [] \<and>
     (\<forall>c b xs. idle c \<longrightarrow> content b = f @ xs \<longrightarrow>
        (\<exists>c' b' m. codec_decode K c b m0 = (Inr DecodeDone, (c', b', m)) \<and> idle c' \<and> content b' = xs \<and>
           content (md_origin_message m) = f \<and>
           (\<forall>m'. metadata_view content m' = metadata_view content m \<longrightarrow> Q c' m'))) \<and>
     (\<forall>c b. idle c \<longrightarrow> content b \<noteq> [] \<longrightarrow> strict_prefix (content b) f \<longrightarrow>
        (\<exists>c' b' m. codec_decode K c b m0 = (Inr DecodeWaitForData, (c', b', m))))"

lemma takes_frameD:
  assumes "takes_frame content K m0 idle Q f" and "idle c"
  shows "content b = f @ xs \<Longrightarrow>
      \<exists>c' b' m. codec_decode K c b m0 = (Inr DecodeDone, (c', b', m)) \<and> idle c' \<and> content b' = xs \<and>
        content (md_origin_message m) = f \<and>
        (\<forall>m'. metadata_view content m' = metadata_view content m \<longrightarrow> Q c' m')"
    and "content b \<noteq> [] \<Longrightarrow> strict_prefix (content b) f \<Longrightarrow>
      \<exists>c' b' m. codec_decode K c b m0 = (Inr DecodeWaitForData, (c', b', m))"
    and "f \<noteq> []"
  using assms unfolding takes_frame_def by blast+

lemma takes_frame_mono:
  assumes "takes_frame content K m0 idle Q f" and "\<And>c m. idle c \<Longrightarrow> Q c m \<Longrightarrow> R c m"
  shows "takes_frame content K m0 idle R f"
  using assms(1) unfolding takes_frame_def by (meson assms(2))

lemma cut_anywhere: "take n xs @ drop n xs @ ys = xs @ ys"
  by (metis append_assoc append_take_drop_id)

context envoy_buffer
begin

lemma buffer_with: "\<exists>b. content b = bs"
  by (induction bs rule: rev_induct) (metis new_content, metis write8_content)

end

locale resumable_codec = codec_contract B content K codec_inv
  for B :: "'b buffer_ops" and content :: "'b \<Rightarrow> u8 list"
    and K :: "('c, 'x, 'b, 'h) codec" and codec_inv :: "'c \<Rightarrow> bool" +
  fixes idle :: "'c \<Rightarrow> bool"
  assumes idle_inv: "idle c \<Longrightarrow> codec_inv c"
    and resumed: "codec_inv c \<Longrightarrow> codec_decode K c b m = (Inr DecodeWaitForData, (c1, b1, m1)) \<Longrightarrow>
      content b2 = content b1 @ xs \<Longrightarrow> content b3 = content b @ xs \<Longrightarrow>
      same_decoding content (codec_decode K c1 b2 m) (codec_decode K c b3 m)"
begin

text \<open>
  \<open>reading m0 c q p\<close>: the codec \<open>c\<close>, with the bytes \<open>q\<close> left in the buffer, goes on as an idle codec
  would that got the bytes \<open>p\<close>.
\<close>

definition reading :: "('x, 'b, 'h) metadata \<Rightarrow> 'c \<Rightarrow> u8 list \<Rightarrow> u8 list \<Rightarrow> bool" where
  "reading m0 c q p \<longleftrightarrow>
     (if p = [] then q = [] \<and> idle c
      else codec_inv c \<and> (\<exists>c0. idle c0 \<and>
        (\<forall>xs b b'. content b = q @ xs \<longrightarrow> content b' = p @ xs \<longrightarrow>
           same_decoding content (codec_decode K c b m0) (codec_decode K c0 b' m0))))"

lemma reading_idle: "idle c \<Longrightarrow> reading m0 c [] []"
  by (simp add: reading_def)

lemma reading_frame:
  assumes "reading m0 c q p" and "takes_frame content K m0 idle Q f"
    and "content b = q @ xs" and "p @ xs = f @ rest"
  obtains c' b' m where "codec_decode K c b m0 = (Inr DecodeDone, (c', b', m))" "idle c'"
    "content b' = rest" "content (md_origin_message m) = f" "Q c' m"
proof (cases "p = []")
  case True
  then have "idle c" "content b = f @ rest" using assms(1,3,4) by (simp_all add: reading_def)
  then show thesis using takes_frameD(1) [OF assms(2)] that by metis
next
  case False
  then obtain c0 where c0: "idle c0" "\<And>b'. content b' = p @ xs \<Longrightarrow>
      same_decoding content (codec_decode K c b m0) (codec_decode K c0 b' m0)"
    using assms(1,3) by (auto simp: reading_def)
  obtain b0 where b0: "content b0 = p @ xs" using buffer_with by blast
  obtain c' b1 m where d: "codec_decode K c0 b0 m0 = (Inr DecodeDone, (c', b1, m))" "idle c'"
      "content b1 = rest" "content (md_origin_message m) = f"
      "\<And>m'. metadata_view content m' = metadata_view content m \<Longrightarrow> Q c' m'"
    using takes_frameD(1) [OF assms(2) c0(1), of b0 rest] b0 assms(4) by auto
  obtain b2 m2 where "codec_decode K c b m0 = (Inr DecodeDone, (c', b2, m2))" "content b2 = rest"
      "metadata_view content m2 = metadata_view content m"
    using c0(2) [OF b0] d(1,3) by (auto elim: same_decodingE)
  then show thesis using that d(2,4,5) by (simp add: metadata_view_def)
qed

lemma reading_part:
  assumes "reading m0 c q p" and "takes_frame content K m0 idle Q f"
    and "content b = q @ xs" and "strict_prefix (p @ xs) f" and "p @ xs \<noteq> []"
  obtains c' b' m where "codec_decode K c b m0 = (Inr DecodeWaitForData, (c', b', m))"
    "reading m0 c' (content b') (p @ xs)"
proof (cases "p = []")
  case True
  then have c: "idle c" "content b = xs" using assms(1,3) by (simp_all add: reading_def)
  obtain c' b' m where d: "codec_decode K c b m0 = (Inr DecodeWaitForData, (c', b', m))"
    using takes_frameD(2) [OF assms(2) c(1), of b] c(2) assms(4,5) True by auto
  have "reading m0 c' (content b') (p @ xs)"
    using decode_inv [OF idle_inv [OF c(1)] d] resumed [OF idle_inv [OF c(1)] d] c assms(5) True
    by (auto simp: reading_def)
  then show thesis using that d by blast
next
  case False
  then obtain c0 where c0: "codec_inv c" "idle c0" "\<And>xs b b'. content b = q @ xs \<Longrightarrow> content b' = p @ xs \<Longrightarrow>
      same_decoding content (codec_decode K c b m0) (codec_decode K c0 b' m0)"
    using assms(1) unfolding reading_def by auto
  obtain b0 where b0: "content b0 = p @ xs" using buffer_with by blast
  obtain c1 b1 m1 where "codec_decode K c0 b0 m0 = (Inr DecodeWaitForData, (c1, b1, m1))"
    using takes_frameD(2) [OF assms(2) c0(2), of b0] b0 assms(4,5) by auto
  then obtain c' b' m where d: "codec_decode K c b m0 = (Inr DecodeWaitForData, (c', b', m))"
    using c0(3) [OF assms(3) b0] by (auto elim: same_decodingE)
  have "same_decoding content (codec_decode K c' b2 m0) (codec_decode K c0 b3 m0)"
    if "content b2 = content b' @ ys" and "content b3 = (p @ xs) @ ys" for ys b2 b3
  proof -
    obtain b4 where "content b4 = q @ xs @ ys" using buffer_with by blast
    then show ?thesis
      using resumed [OF c0(1) d that(1), of b4] c0(3) [of b4 "xs @ ys" b3] that(2) assms(3)
      by (auto intro: same_decoding_trans)
  qed
  then have "reading m0 c' (content b') (p @ xs)"
    using decode_inv [OF c0(1) d] c0(2) False by (auto simp: reading_def)
  then show thesis using that d by blast
qed

end

end
