(* ===== verification/Proxy_Segments.thy ===== *)
theory Proxy_Segments
  imports Proxy_Pipeline Codec_Streams
begin

text \<open>
  What the proxy does with the stream of frames a client sends, however the stream is cut into reads:
  for every frame in turn it writes the frame upstream, or a local reply or a heartbeat to the client.
\<close>

subsection \<open>The specification\<close>

text \<open>The fate of a frame: it is forwarded, refused with a reply, or is a heartbeat with its answer.\<close>

datatype fate = Forward | Refuse "u8 list" | Beat "u8 list"

text \<open>What can be seen of the proxy: the bytes it writes for a message upstream, and downstream.\<close>

datatype traffic = Up nat "u8 list" | Down "u8 list"

definition traffic :: "('b \<Rightarrow> u8 list) \<Rightarrow> 'b effect list \<Rightarrow> traffic list" where
  "traffic content es =
     List.map_filter (\<lambda>e. case e of UpstreamWrite mid b \<Rightarrow> Some (Up mid (content b))
        | DownstreamWrite b _ \<Rightarrow> Some (Down (content b)) | _ \<Rightarrow> None) es"

text \<open>The frames with their fates, the first of them under the identity \<open>n\<close>.\<close>

fun expected :: "nat \<Rightarrow> (u8 list \<times> fate) list \<Rightarrow> traffic list" where
  "expected n [] = []"
| "expected n ((f, Forward) # fs) = Up n f # expected (n + 1) fs"
| "expected n ((f, Refuse reply) # fs) = Down reply # expected (n + 1) fs"
| "expected n ((f, Beat reply) # fs) = Down reply # expected n fs"

text \<open>When a decoded message meets a fate, for a codec that is idle again.\<close>

definition meets_fate ::
  "('c, 'x, 'b, 'h, 'f) env \<Rightarrow> ('b \<Rightarrow> u8 list) \<Rightarrow> ('c \<Rightarrow> bool) \<Rightarrow> fate \<Rightarrow> 'c \<Rightarrow> ('x, 'b, 'h) metadata \<Rightarrow> bool" where
  "meets_fate E content idle v c m =
     (case v of
        Forward \<Rightarrow> served E m
      | Refuse reply \<Rightarrow> md_message_type m \<noteq> Heartbeat \<and>
          (\<forall>sid. \<exists>err c' b. routing E m sid = Inl err \<and>
             codec_onError (en_codec E) c m err (buf_new (en_buffer E)) = (Inr (), (c', b)) \<and>
             idle c' \<and> content b = reply)
      | Beat reply \<Rightarrow> md_message_type m = Heartbeat \<and>
          (\<exists>c' b. codec_encode (en_codec E) c m MutationImpl (buf_new (en_buffer E)) = (Inr (), (c', b)) \<and>
             idle c' \<and> content b = reply))"

text \<open>A frame of the client's stream with its fate.\<close>

definition client_frame ::
  "('c, 'x, 'b, 'h, 'f) env \<Rightarrow> ('b \<Rightarrow> u8 list) \<Rightarrow> ('c \<Rightarrow> bool) \<Rightarrow> u8 list \<times> fate \<Rightarrow> bool" where
  "client_frame E content idle = (\<lambda>(f, v).
     takes_frame content (en_codec E) (MetadataImpl (en_buffer E) (en_headers E)) idle
       (meets_fate E content idle v) f)"

lemma traffic_simps [simp]:
  "traffic content [] = []"
  "traffic content (xs @ ys) = traffic content xs @ traffic content ys"
  "traffic content (UpstreamWrite mid b # es) = Up mid (content b) # traffic content es"
  "traffic content (DownstreamWrite b fin # es) = Down (content b) # traffic content es"
  "traffic content (PutResult host r # es) = traffic content es"
  by (simp_all add: traffic_def List.map_filter_def)

fun next_id :: "fate \<Rightarrow> nat \<Rightarrow> nat" where
  "next_id (Beat _) n = n" | "next_id _ n = n + 1"

lemma expected_Cons: "expected n (fv # fs) = expected n [fv] @ expected (next_id (snd fv) n) fs"
  by (cases fv; cases "snd fv") auto

subsection \<open>One frame\<close>

text \<open>A turn of the loop of \<open>dispatch\<close> that takes a frame; \<open>px1\<close> is the state after it.\<close>

definition frame_taken ::
  "('b \<Rightarrow> u8 list) \<Rightarrow> ('c \<Rightarrow> bool) \<Rightarrow> 'b \<Rightarrow> u8 list \<times> fate \<Rightarrow> ('c, 'x, 'b, 'h, 'f) proxy \<Rightarrow>
   ('c, 'x, 'b, 'h, 'f) proxy \<Rightarrow> bool" where
  "frame_taken content idle rest fv px px1 \<longleftrightarrow>
     traffic content (cx_effects px1) = traffic content (cx_effects px) @ expected (st_next px) [fv] \<and>
     st_next px1 = next_id (snd fv) (st_next px) \<and> idle (cm_codec px1) \<and> cm_request_buffer px1 = rest \<and>
     cm_decoder px1 = new_decoder \<and> cx_state px1 = cx_state px \<and> cm_stopped px1 = cm_stopped px"

lemma inc_fields [simp]:
  "st_next (inc s px) = st_next px" "cm_codec (inc s px) = cm_codec px"
  "cm_request_buffer (inc s px) = cm_request_buffer px" "cm_stopped (inc s px) = cm_stopped px"
  by (simp_all add: inc_def)

lemma refused_turn:
  assumes "envoy_buffer (en_buffer E) content" and "decoder_idle (cm_decoder px)"
    and "codec_decode (en_codec E) (cm_codec px) (cm_request_buffer px)
      (MetadataImpl (en_buffer E) (en_headers E)) = (Inr DecodeDone, (c, rest, m))"
    and "default_chain E" and "cx_state px = ConnOpen"
    and "meets_fate E content idle (Refuse reply) c m"
  shows "\<exists>px1. Decoder_onData (request_ops E) px = (Inr (Continue, buf_length (en_buffer E) rest = 0), px1) \<and>
    frame_taken content idle rest (f, Refuse reply) px px1"
proof -
  let ?mid = "st_next px" and ?sid = "en_random E (st_next px)"
  obtain err c' b where err: "routing E m ?sid = Inl err" "md_message_type m \<noteq> Heartbeat"
    "codec_onError (en_codec E) c m err (buf_new (en_buffer E)) = (Inr (), (c', b))" "idle c'" "content b = reply"
    using assms(6) by (auto simp: meets_fate_def) metis
  have new: "buf_length (en_buffer E) (buf_new (en_buffer E)) = 0"
    by (simp add: envoy_buffer.content_simps [OF assms(1)])
  then have "replies E m err (in_stream E c rest px)"
    using err(3) assms(5) by (simp add: replies_def)
  then obtain am' where d: "ActiveMessage_onStreamDecoded E ?mid m MutationImpl
      (put_message ?mid (router_message ?sid (Router (en_buffer E))) (in_stream E c rest px)) =
       (Inr (), put_message ?mid am'
          (deferredMessage ?mid (count_request m (inc stat_request
             (replied E m err (inc request_decoding_success (in_stream E c rest px)))))))"
    by (rule rejected_request [OF err(1), where px = "in_stream E c rest px" and mid = ?mid
          and mu = MutationImpl and r = "Router (en_buffer E)"])
  let ?px1 = "put_message ?mid am' ((deferredMessage ?mid (count_request m (inc stat_request
             (replied E m err (inc request_decoding_success (in_stream E c rest px))))))\<lparr>cm_decoder := new_decoder\<rparr>)"
  have "Decoder_onData (request_ops E) px = (Inr (Continue, buf_length (en_buffer E) rest = 0), ?px1)"
    using turn_done [OF assms(2,3) err(2)] d createFilterChain_default [OF assms(4)] by simp
  moreover have "frame_taken content idle rest (f, Refuse reply) px ?px1"
    using err(3-5) assms(5)
    by (simp add: frame_taken_def put_message_def replied_def deferredMessage_def Let_def
        emit_def envoy_buffer.content_simps [OF assms(1)])
  ultimately show ?thesis by blast
qed

lemma beat_turn:
  assumes "envoy_buffer (en_buffer E) content" and "decoder_idle (cm_decoder px)"
    and "codec_decode (en_codec E) (cm_codec px) (cm_request_buffer px)
      (MetadataImpl (en_buffer E) (en_headers E)) = (Inr DecodeDone, (c, rest, m))"
    and "cx_state px = ConnOpen" and "meets_fate E content idle (Beat reply) c m"
  shows "\<exists>px1. Decoder_onData (request_ops E) px = (Inr (Continue, buf_length (en_buffer E) rest = 0), px1) \<and>
    frame_taken content idle rest (f, Beat reply) px px1"
proof -
  obtain c' b where beat: "md_message_type m = Heartbeat"
    "codec_encode (en_codec E) c m MutationImpl (buf_new (en_buffer E)) = (Inr (), (c', b))" "idle c'" "content b = reply"
    using assms(5) by (auto simp: meets_fate_def)
  let ?px1 = "snd (connection_write E b False ((inc request_event (in_decode c rest px))\<lparr>cm_codec := c'\<rparr>))"
  have "m\<lparr>md_message_type := Heartbeat\<rparr> = m" using beat(1) by (cases m) simp
  then have "ConnectionManager_onHeartbeat E m (in_decode c rest px) = (Inr (), ?px1)"
    using assms(4) beat(2)
    by (simp add: ConnectionManager_onHeartbeat_def HeartbeatResponse_encode_def Let_def)
  then have "Decoder_onData (request_ops E) px =
      (Inr (Continue, buf_length (en_buffer E) rest = 0), ?px1\<lparr>cm_decoder := new_decoder\<rparr>)"
    by (rule turn_heartbeat [OF assms(2,3) beat(1)])
  moreover have "frame_taken content idle rest (f, Beat reply) px (?px1\<lparr>cm_decoder := new_decoder\<rparr>)"
    using beat(3,4)
    by (simp add: frame_taken_def connection_write_def case_prod_beta emit_def in_decode_def
        envoy_buffer.content_simps [OF assms(1)])
  ultimately show ?thesis by blast
qed

lemma frame_turn:
  assumes "envoy_buffer (en_buffer E) content" and "decoder_idle (cm_decoder px)"
    and "codec_decode (en_codec E) (cm_codec px) (cm_request_buffer px)
      (MetadataImpl (en_buffer E) (en_headers E)) = (Inr DecodeDone, (c, rest, m))"
    and "default_chain E" and "cx_state px = ConnOpen" and "idle c"
    and "content (md_origin_message m) = f" and "meets_fate E content idle v c m"
  shows "\<exists>px1. Decoder_onData (request_ops E) px = (Inr (Continue, buf_length (en_buffer E) rest = 0), px1) \<and>
    frame_taken content idle rest (f, v) px px1"
proof (cases v)
  case Forward
  then have s: "served E m" using assms(8) by (simp add: meets_fate_def)
  then have ty: "md_message_type m \<noteq> Heartbeat" by (simp add: served_def)
  obtain name host where to: "routing E m (en_random E (st_next px)) = Inr name"
    "en_newConnection E name (cx_effects px) = ConnectionReady host"
    using s by (auto simp: served_def) metis
  obtain px1 where "Decoder_onData (request_ops E) px = (Inr (Continue, buf_length (en_buffer E) rest = 0), px1)"
    "cx_effects px1 = cx_effects px @
       [PutResult host LocalOriginConnectSuccess, UpstreamWrite (st_next px) (written E (taken_buffer E m))]"
    "st_next px1 = st_next px + 1" "cm_codec px1 = c" "cm_request_buffer px1 = rest"
    "cm_decoder px1 = new_decoder" "cx_state px1 = cx_state px" "cm_stopped px1 = cm_stopped px"
    by (rule turn_forwarded [OF assms(2,3) ty assms(4) to])
  then show ?thesis
    using Forward assms(6,7) taken_contents [OF assms(1)]
    by (auto simp: frame_taken_def)
next
  case (Refuse reply)
  then show ?thesis using refused_turn [OF assms(1-5)] assms(8) by simp
next
  case (Beat reply)
  then show ?thesis using beat_turn [OF assms(1-3,5)] assms(8) by simp
qed

subsection \<open>The stream\<close>

locale segmented_env = proxy_env E content codec_inv
    + resumable_codec "en_buffer E" content "en_codec E" codec_inv idle
  for E :: "('c, 'x, 'b, 'h, 'f) env" and content :: "'b \<Rightarrow> u8 list" and codec_inv :: "'c \<Rightarrow> bool"
    and idle :: "'c \<Rightarrow> bool"
begin

abbreviation fresh :: "('x, 'b, 'h) metadata" where
  "fresh \<equiv> MetadataImpl (en_buffer E) (en_headers E)"

text \<open>
  \<open>on_stream px ys fs\<close>: the connection is open and between two events; what it has read of the first
  of the frames \<open>fs\<close> and the bytes \<open>ys\<close> to come are these frames.
\<close>

definition part_read :: "u8 list \<Rightarrow> u8 list \<Rightarrow> (u8 list \<times> fate) list \<Rightarrow> bool" where
  "part_read p ys fs \<longleftrightarrow> p @ ys = concat (map fst fs) \<and> (\<forall>fv fs'. fs = fv # fs' \<longrightarrow> strict_prefix p (fst fv))"

definition on_stream :: "('c, 'x, 'b, 'h, 'f) proxy \<Rightarrow> u8 list \<Rightarrow> (u8 list \<times> fate) list \<Rightarrow> bool" where
  "on_stream px ys fs \<longleftrightarrow> listens px \<and> cx_state px = ConnOpen \<and> list_all (client_frame E content idle) fs \<and>
     (\<exists>p. reading fresh (cm_codec px) (content (cm_request_buffer px)) p \<and> part_read p ys fs)"

lemma frame_nonempty: "client_frame E content idle (f, v) \<Longrightarrow> f \<noteq> []"
  by (simp add: client_frame_def takes_frame_def)

lemma nothing_read: "list_all (client_frame E content idle) fs \<Longrightarrow> part_read [] (concat (map fst fs)) fs"
  by (cases fs) (auto simp: part_read_def strict_prefix_def dest: frame_nonempty)

lemma part_cases:
  assumes "p @ xs @ ys = f @ rs"
  obtains (part) "strict_prefix (p @ xs) f" | (whole) rest where "p @ xs = f @ rest" "rest @ ys = rs"
proof -
  have "(p @ xs) @ ys = f @ rs" using assms by simp
  then obtain us where "p @ xs = f @ us \<and> us @ ys = rs \<or> f = (p @ xs) @ us \<and> ys = us @ rs"
    unfolding append_eq_append_conv2 by metis
  then consider rest where "p @ xs = f @ rest" "rest @ ys = rs" | us where "f = (p @ xs) @ us" "us \<noteq> []"
    by (cases "us = []") (simp, fastforce)+
  then show thesis
  proof cases
    case 1
    then show thesis by (rule whole)
  next
    case 2
    then show thesis by (intro part) (auto simp: strict_prefix_def prefix_def)
  qed
qed

lemma loop_frames:
  assumes "default_chain E" and "list_all (client_frame E content idle) fs" and "listens px"
    and "cx_state px = ConnOpen" and "reading fresh (cm_codec px) q p"
    and "content (cm_request_buffer px) = q @ xs" and "q @ xs \<noteq> []" and "part_read p (xs @ ys) fs"
  shows "\<exists>px1 todo. dispatch_loop E px = Some (Inr (), px1) \<and> on_stream px1 ys todo \<and>
    traffic content (cx_effects px1) @ expected (st_next px1) todo =
      traffic content (cx_effects px) @ expected (st_next px) fs"
  using assms(2-8)
proof (induction fs arbitrary: px q p xs)
  case Nil
  then have "p = []" "xs = []" by (simp_all add: part_read_def)
  then show ?case using Nil.prems(4,6) by (simp add: reading_def)
next
  case (Cons fv fs)
  obtain f v where fv: "fv = (f, v)" by (cases fv)
  note listening = Cons.prems(2) [unfolded listens_def]
  have take: "takes_frame content (en_codec E) fresh idle (meets_fate E content idle v) f"
    using Cons.prems(1) by (simp add: fv client_frame_def)
  have some: "p @ xs \<noteq> []"
    using Cons.prems(4,6) by (auto simp: reading_def split: if_splits)
  have bytes: "p @ xs @ ys = f @ concat (map fst fs)" using Cons.prems(7) by (simp add: part_read_def fv)
  then show ?case
  proof (cases rule: part_cases)
    case part
    obtain c' b' m where d: "codec_decode (en_codec E) (cm_codec px) (cm_request_buffer px) fresh =
        (Inr DecodeWaitForData, (c', b', m))" "reading fresh c' (content b') (p @ xs)"
      by (rule reading_part [OF Cons.prems(4) take Cons.prems(5) part some])
    let ?px1 = "px\<lparr>cm_codec := c', cm_request_buffer := b',
       cm_decoder := \<lparr>md_state_machine = Some WaitForData, md_stream = False, md_decode_started = True\<rparr>\<rparr>"
    have "dispatch_loop E px = Some (Inr (), ?px1)"
      using turn_waits [OF conjunct1 [OF listening] d(1)] by (simp add: dispatch_loop.simps [of E px])
    moreover have "on_stream ?px1 ys (fv # fs)"
      unfolding on_stream_def
      by (intro conjI exI [of _ "p @ xs"])
        (use Cons.prems(1,3) d(2) part bytes listening in
          \<open>simp_all add: part_read_def fv listens_def decoder_idle_def\<close>)
    ultimately show ?thesis by (intro exI [of _ ?px1] exI [of _ "fv # fs"] conjI) simp_all
  next
    case (whole rest)
    obtain c' b' m where d: "codec_decode (en_codec E) (cm_codec px) (cm_request_buffer px) fresh =
        (Inr DecodeDone, (c', b', m))" "idle c'" "content b' = rest" "content (md_origin_message m) = f"
        "meets_fate E content idle v c' m"
      by (rule reading_frame [OF Cons.prems(4) take Cons.prems(5) whole(1)])
    obtain px1 where px1: "Decoder_onData (request_ops E) px =
        (Inr (Continue, buf_length (en_buffer E) b' = 0), px1)" "frame_taken content idle b' (f, v) px px1"
      using frame_turn [OF envoy_buffer_axioms conjunct1 [OF listening] d(1) assms(1) Cons.prems(3) d(2,4,5)]
      by blast
    note t = px1(2) [unfolded frame_taken_def]
    have loop: "dispatch_loop E px = (if rest = [] then Some (Inr (), px1) else dispatch_loop E px1)"
      using px1(1) d(3) by (simp add: dispatch_loop.simps [of E px] length_content)
    have same: "traffic content (cx_effects px1) @ expected (st_next px1) fs =
        traffic content (cx_effects px) @ expected (st_next px) (fv # fs)"
      using t by (simp add: fv expected_Cons [of _ "(f, v)" fs])
    have l1: "listens px1" "cx_state px1 = ConnOpen"
      using t Cons.prems(3) listening by (simp_all add: listens_def decoder_idle_def)
    have r1: "reading fresh (cm_codec px1) [] []" using t by (simp add: reading_idle)
    have fs: "list_all (client_frame E content idle) fs" using Cons.prems(1) by simp
    have p1: "part_read [] (rest @ ys) fs" using nothing_read [OF fs] whole(2) by simp
    show ?thesis
    proof (cases "rest = []")
      case True
      then have "on_stream px1 ys fs"
        using l1 r1 fs p1 t d(3) by (auto simp: on_stream_def)
      then show ?thesis
        using loop True same by (intro exI [of _ px1] exI [of _ fs] conjI) simp_all
    next
      case False
      have b1: "content (cm_request_buffer px1) = [] @ rest" using t d(3) by simp
      obtain px2 todo where "dispatch_loop E px1 = Some (Inr (), px2)" "on_stream px2 ys todo"
        "traffic content (cx_effects px2) @ expected (st_next px2) todo =
           traffic content (cx_effects px1) @ expected (st_next px1) fs"
        using Cons.IH [OF fs l1 r1 b1 _ p1] False by auto
      then show ?thesis
        using loop False same by (intro exI [of _ px2] exI [of _ todo] conjI) simp_all
    qed
  qed
qed

lemma read_frames:
  assumes "default_chain E" and "on_stream px (content data @ ys) fs"
  shows "\<exists>px1 todo. handle E (DownstreamData data False) px = Some (Inr (), px1) \<and> on_stream px1 ys todo \<and>
    traffic content (cx_effects px1) @ expected (st_next px1) todo =
      traffic content (cx_effects px) @ expected (st_next px) fs"
proof -
  let ?px = "with_data E data px"
  obtain p where p: "reading fresh (cm_codec px) (content (cm_request_buffer px)) p"
      "part_read p (content data @ ys) fs" and px: "listens px" "cx_state px = ConnOpen"
      "list_all (client_frame E content idle) fs"
    using assms(2) by (auto simp: on_stream_def)
  have b: "content (cm_request_buffer ?px) = content (cm_request_buffer px) @ content data"
    "cx_effects ?px = cx_effects px" "cx_state ?px = cx_state px" "listens ?px = listens px"
    by (simp_all add: with_data_def content_simps listens_def)
  have "\<exists>px1 todo. dispatch E ?px = Some (Inr (), px1) \<and> on_stream px1 ys todo \<and>
    traffic content (cx_effects px1) @ expected (st_next px1) todo =
      traffic content (cx_effects px) @ expected (st_next px) fs"
  proof (cases "content (cm_request_buffer ?px) = []")
    case True
    then have "on_stream ?px ys fs"
      using p px b by (auto simp: on_stream_def)
    moreover have "dispatch E ?px = Some (Inr (), ?px)"
      using True by (simp add: dispatch_def length_content)
    ultimately show ?thesis
      using b by (intro exI [of _ ?px] exI [of _ fs] conjI) simp_all
  next
    case False
    then obtain px1 todo where "dispatch_loop E ?px = Some (Inr (), px1)" "on_stream px1 ys todo"
      "traffic content (cx_effects px1) @ expected (st_next px1) todo =
         traffic content (cx_effects px) @ expected (st_next px) fs"
      using loop_frames [OF assms(1) px(3), of ?px "content (cm_request_buffer px)" p "content data" ys]
        p px b by auto
    then show ?thesis
      using False px(1)
      by (intro exI [of _ px1] exI [of _ todo] conjI) (auto simp: dispatch_def dispatch_catch_def listens_def length_content)
  qed
  then obtain px1 todo where d: "dispatch E ?px = Some (Inr (), px1)" "on_stream px1 ys todo"
    "traffic content (cx_effects px1) @ expected (st_next px1) todo =
      traffic content (cx_effects px) @ expected (st_next px) fs" by blast
  have "handle E (DownstreamData data False) px = Some (Inr (), px1)"
    using d(1) by (simp add: ConnectionManager_onData_def with_data_def case_prod_beta Let_def)
  then show ?thesis using d(2,3) by blast
qed

lemma reads_frames:
  assumes "default_chain E" and "on_stream px (concat (map content reads) @ ys) fs"
  shows "\<exists>px1 todo. run_events E (map (\<lambda>data. DownstreamData data False) reads) px = Some px1 \<and>
    on_stream px1 ys todo \<and>
    traffic content (cx_effects px1) @ expected (st_next px1) todo =
      traffic content (cx_effects px) @ expected (st_next px) fs"
  using assms(2)
proof (induction reads arbitrary: px fs)
  case (Cons data reads)
  obtain px1 fs1 where 1: "handle E (DownstreamData data False) px = Some (Inr (), px1)"
    "on_stream px1 (concat (map content reads) @ ys) fs1"
    "traffic content (cx_effects px1) @ expected (st_next px1) fs1 =
       traffic content (cx_effects px) @ expected (st_next px) fs"
    using read_frames [OF assms(1), of px data "concat (map content reads) @ ys" fs] Cons.prems by auto
  have "enabled (DownstreamData data False) px" using Cons.prems by (simp add: on_stream_def)
  then show ?case using Cons.IH [OF 1(2)] 1(1,3) by (simp del: handle.simps)
qed auto

lemma stream_traffic:
  assumes "default_chain E" and "list_all (client_frame E content idle) fs" and "reachable E px"
    and "cx_state px = ConnOpen" and "idle (cm_codec px)" and "content (cm_request_buffer px) = []"
    and "concat (map content reads) = concat (map fst fs)"
  shows "\<exists>px1. run_events E (map (\<lambda>data. DownstreamData data False) reads) px = Some px1 \<and>
    traffic content (cx_effects px1) = traffic content (cx_effects px) @ expected (st_next px) fs \<and>
    cx_state px1 = ConnOpen \<and> content (cm_request_buffer px1) = [] \<and> idle (cm_codec px1)"
proof -
  have "on_stream px (concat (map content reads) @ []) fs"
    using reachable_listens [OF proxy_env_axioms assms(3,4)] assms(2,4-7) nothing_read [OF assms(2)]
    by (auto simp: on_stream_def intro: reading_idle)
  then obtain px1 todo where px1: "run_events E (map (\<lambda>data. DownstreamData data False) reads) px = Some px1"
    "on_stream px1 [] todo" "traffic content (cx_effects px1) @ expected (st_next px1) todo =
       traffic content (cx_effects px) @ expected (st_next px) fs"
    using reads_frames [OF assms(1)] by blast
  have "todo = []"
  proof (rule ccontr)
    assume "todo \<noteq> []"
    then obtain fv todo' where todo: "todo = fv # todo'" by (cases todo) auto
    then obtain p where "strict_prefix p (fst fv)" "p = fst fv @ concat (map fst todo')"
      using px1(2) unfolding on_stream_def part_read_def by auto
    then show False by (auto dest: prefix_length_less)
  qed
  then show ?thesis
    using px1 by (auto simp: on_stream_def part_read_def reading_def)
qed

end

end
