(* ===== verification/Dubbo_Segments.thy ===== *)
theory Dubbo_Segments
  imports Dubbo_Proxy Proxy_Segments
begin

text \<open>
  A client of the Dubbo proxy sends requests and heartbeats on one connection, cut into reads
  anywhere: what the proxy writes for each of them, in bytes.
\<close>

subsection \<open>The Dubbo codec resumes\<close>

lemma same_decode_decoding:
  assumes "same_decode content (DubboCodec_decode B H S c b m) (DubboCodec_decode B H S c' b' m')"
  shows "same_decoding content (codec_decode (DubboCodec B H S) c b m) (codec_decode (DubboCodec B H S) c' b' m')"
proof -
  have init: "c1 = DubboCodec_init"
    if "DubboCodec_decode B H S c b m = (Inr DecodeDone, (c1, b1, m1))" for c b m c1 b1 m1
    using that by (auto simp: DubboCodec_decode_def complete_is_init Let_def
        split: prod.splits sum.splits if_splits option.splits)
  show ?thesis
    using assms init [of c b m] init [of c' b' m']
    by (cases "DubboCodec_decode B H S c b m"; cases "fst (DubboCodec_decode B H S c b m)";
        cases "DubboCodec_decode B H S c' b' m'"; cases "fst (DubboCodec_decode B H S c' b' m')")
      (auto simp: DubboCodec_def)
qed

sublocale dubbo_proxy \<subseteq> segmented_env E content "codec_ok content" "\<lambda>c. c = DubboCodec_init"
proof (unfold_locales, goal_cases)
  case (1 c)
  then show ?case by simp
next
  case (2 c b m c1 b1 m1 b2 xs b3)
  then have d: "DubboCodec_decode (en_buffer E) (en_headers E) S c b m = (Inr DecodeWaitForData, (c1, b1, m1))"
    by (simp add: runs_codec DubboCodec_def)
  then have "m1 = m" using decode_wait_dubbo [OF 2(1)] by blast
  then show ?case
    using decode_resumed [OF 2(1) d 2(3,4)] same_decode_decoding by (simp add: runs_codec)
qed

subsection \<open>Dubbo frames\<close>

text \<open>
  What the router is given of a message whose header has the flags \<open>flag\<close> and announces \<open>n\<close> bytes;
  \<open>out\<close> is the buffer its bytes are in.
\<close>

definition dubbo_seen ::
  "('b dubbo_codec, dubbo_any, 'b, 'h, 'f) env \<Rightarrow> u8 \<Rightarrow> u32 \<Rightarrow> dubbo_metadata \<Rightarrow> 'b \<Rightarrow> (dubbo_any, 'b, 'h) metadata" where
  "dubbo_seen E flag n dm out =
     toMetadata (en_headers E) dm ((header_context (en_buffer E) flag n)\<lparr>ctx_origin_message := out\<rparr>)
       (MetadataImpl (en_buffer E) (en_headers E))"

text \<open>The bytes of the reply to a request that is refused.\<close>

definition dubbo_refusal :: "(RpcResponseType \<Rightarrow> string \<Rightarrow> u8 list) \<Rightarrow> u64 \<Rightarrow> error \<Rightarrow> u8 list" where
  "dubbo_refusal result_code i err =
     header_bytes 2 (error_status_code (err_type err)) i
       (of_nat (length (result_code ResponseWithException (err_message err)))) @
     result_code ResponseWithException (err_message err)"

definition dubbo_routed ::
  "('b dubbo_codec, dubbo_any, 'b, 'h, 'f) env \<Rightarrow> (RpcResponseType \<Rightarrow> string \<Rightarrow> u8 list) \<Rightarrow>
   u8 \<Rightarrow> u32 \<Rightarrow> dubbo_metadata \<Rightarrow> fate \<Rightarrow> bool" where
  "dubbo_routed E result_code flag n dm v \<longleftrightarrow>
     v = Forward \<and> (\<forall>out. served E (dubbo_seen E flag n dm out)) \<or>
     (\<exists>err. v = Refuse (dubbo_refusal result_code (dm_request_id dm) err) \<and>
        length (result_code ResponseWithException (err_message err)) < 2 ^ 64 \<and>
        (\<forall>sid out. routing E (dubbo_seen E flag n dm out) sid = Inl err))"

text \<open>
  A frame of a client: a header with a body, which is a heartbeat, or a request whose body the
  serializer decodes; the fate of a request is the one the routing decides.
\<close>

definition dubbo_frame ::
  "('b dubbo_codec, dubbo_any, 'b, 'h, 'f) env \<Rightarrow> ('b \<Rightarrow> u8 list) \<Rightarrow> 'b serializer \<Rightarrow>
   (RpcResponseType \<Rightarrow> string \<Rightarrow> u8 list) \<Rightarrow> u8 list \<times> fate \<Rightarrow> bool" where
  "dubbo_frame E content S result_code = (\<lambda>(f, v). \<exists>flag status i n body.
     f = header_bytes flag status i n @ body \<and> length body = unat n \<and> valid_header flag status n \<and>
     flag_request flag \<and>
     (if flag_event flag then v = Beat (heartbeat_reply i)
      else \<exists>dm. (\<forall>b. content b = body \<longrightarrow> body_outcome S b (header_context (en_buffer E) flag n)
             (header_metadata flag status i MessageMetadata) = Inr dm) \<and>
           dubbo_routed E result_code flag n dm v))"

lemma routing_error_message: "routing E m sid = Inl err \<Longrightarrow> err_message err \<noteq> []"
  by (auto simp: routing_def routing_errors mk_error_def split: option.splits if_splits)

lemma metadata_view_toMetadata:
  assumes "metadata_view content m = metadata_view content (toMetadata H dm ctx m0)"
  shows "m = toMetadata H dm (ctx\<lparr>ctx_origin_message := md_origin_message m\<rparr>) m0"
  using assms by (cases m) (simp add: metadata_view_def toMetadata_def)

lemma strict_prefix_header:
  assumes "strict_prefix p (header_bytes flag status i n @ body)"
  obtains (short) "length p < 16"
  | (cut) rest where "p = header_bytes flag status i n @ rest" "length rest < length body"
proof (cases "length p < 16")
  case False
  obtain zs where zs: "header_bytes flag status i n @ body = p @ zs" "zs \<noteq> []"
    using assms by (auto simp: strict_prefix_def prefix_def)
  have "p = header_bytes flag status i n @ drop 16 p"
    using arg_cong [OF zs(1), of "take 16"] False by (metis append_take_drop_id length_header_bytes
        append_eq_conv_conj not_less take_append diff_is_0_eq take0 append_Nil2)
  moreover have "length (drop 16 p) < length body"
    using arg_cong [OF zs(1), of length] zs(2) False by (cases zs) simp_all
  ultimately show thesis by (rule cut)
qed (rule short)

context dubbo_proxy
begin

lemma frame_waits:
  assumes "valid_header flag status n" and "length body = unat n"
    and "strict_prefix (content b) (header_bytes flag status i n @ body)"
  shows "\<exists>c' b' m. codec_decode (en_codec E) DubboCodec_init b m0 = (Inr DecodeWaitForData, (c', b', m))"
  using assms(3)
proof (cases rule: strict_prefix_header)
  case short
  then show ?thesis
    using run_header_short [OF new_machine(1) short, of S] by (simp add: runs_codec DubboCodec_def decode_init)
next
  case (cut rest)
  then have w: "length rest < unat n" using assms(2) by simp
  show ?thesis
  proof (cases "flag_event flag")
    case True
    then show ?thesis
      using run_heartbeat_wait [OF new_machine(1) cut(1) assms(1) True w, of S]
      by (simp add: runs_codec DubboCodec_def decode_init)
  next
    case False
    show ?thesis
      by (rule decode_body_wait [OF cut(1) assms(1) False w, where H = "en_headers E" and m = m0])
        (simp add: runs_codec DubboCodec_def)
  qed
qed

text \<open>The metadata of every frame: of an event the header says all, of a request the body adds the rest.\<close>

lemma frame_taken_by_decode:
  assumes "valid_header flag status n" and "length body = unat n"
    and "if flag_event flag then dm = header_metadata flag status i MessageMetadata
      else \<forall>b. content b = body \<longrightarrow> body_outcome S b (header_context (en_buffer E) flag n)
        (header_metadata flag status i MessageMetadata) = Inr dm"
    and "\<And>out. Q DubboCodec_init (dubbo_seen E flag n dm out)"
  shows "takes_frame content (en_codec E) fresh (\<lambda>c. c = DubboCodec_init) Q (header_bytes flag status i n @ body)"
proof -
  have whole: "\<exists>o' b'. codec_decode (en_codec E) DubboCodec_init b fresh =
      (Inr DecodeDone, (DubboCodec_init, b', dubbo_seen E flag n dm o')) \<and>
      content o' = header_bytes flag status i n @ body \<and> content b' = xs"
    if b: "content b = header_bytes flag status i n @ body @ xs" for b xs
  proof (cases "flag_event flag")
    case True
    have le: "unat n \<le> length (body @ xs)" using assms(2) by simp
    obtain o' b' where "DubboCodec_decode (en_buffer E) (en_headers E) S DubboCodec_init b fresh =
        (Inr DecodeDone, (DubboCodec_init, b', dubbo_seen E flag n dm o'))"
      "content o' = header_bytes flag status i n @ body" "content b' = xs"
      by (rule decode_heartbeat [OF b assms(1) True le, where H = "en_headers E" and m = fresh])
        (rule that, use True assms(2,3) in \<open>simp_all add: dubbo_seen_def\<close>)
    then show ?thesis by (intro exI [of _ o'] exI [of _ b'] conjI) (simp_all add: runs_codec DubboCodec_def)
  next
    case False
    have le: "unat n \<le> length (body @ xs)" using assms(2) by simp
    have "body_outcome S b1 (header_context (en_buffer E) flag n)
        (header_metadata flag status i MessageMetadata) = Inr dm" if b1: "content b1 = body @ xs" for b1
    proof -
      obtain b0 where b0: "content b0 = body" using buffer_with by blast
      have size: "unat (ctx_body_size (header_context (en_buffer E) flag n)) = unat n"
        using header_size_unat(2) [OF assms(1)] by (simp add: header_context_def)
      have "agree (body_outcome S b0 (header_context (en_buffer E) flag n)
          (header_metadata flag status i MessageMetadata)) (body_outcome S b1 (header_context (en_buffer E) flag n)
          (header_metadata flag status i MessageMetadata))"
        by (rule body_outcome_local) (use b0 b1 size assms(2) in simp_all)
      then show ?thesis
        using assms(3) False b0
        by (cases "body_outcome S b1 (header_context (en_buffer E) flag n)
          (header_metadata flag status i MessageMetadata)") auto
    qed
    note out = this
    obtain o' b' where "DubboCodec_decode (en_buffer E) (en_headers E) S DubboCodec_init b fresh =
        (Inr DecodeDone, (DubboCodec_init, b', dubbo_seen E flag n dm o'))"
      "content o' = header_bytes flag status i n @ body" "content b' = xs"
      by (rule decode_body [OF b assms(1) False le out, where H = "en_headers E" and m = fresh])
        (assumption, rule that, use assms(2) in \<open>simp_all add: dubbo_seen_def\<close>)
    then show ?thesis by (intro exI [of _ o'] exI [of _ b'] conjI) (simp_all add: runs_codec DubboCodec_def)
  qed
  have seen: "Q DubboCodec_init m" if "metadata_view content m = metadata_view content (dubbo_seen E flag n dm out)" for m out
  proof -
    have "m = dubbo_seen E flag n dm (md_origin_message m)"
      using metadata_view_toMetadata [OF that [unfolded dubbo_seen_def]] by (simp add: dubbo_seen_def)
    then show ?thesis using assms(4) [of "md_origin_message m"] by simp
  qed
  have whole_frame: "\<exists>b' m. codec_decode (en_codec E) DubboCodec_init b fresh = (Inr DecodeDone, (DubboCodec_init, b', m)) \<and>
      content b' = xs \<and> content (md_origin_message m) = header_bytes flag status i n @ body \<and>
      (\<forall>m'. metadata_view content m' = metadata_view content m \<longrightarrow> Q DubboCodec_init m')"
    if b: "content b = (header_bytes flag status i n @ body) @ xs" for b xs
  proof -
    obtain o' b' where "codec_decode (en_codec E) DubboCodec_init b fresh =
        (Inr DecodeDone, (DubboCodec_init, b', dubbo_seen E flag n dm o'))"
      "content o' = header_bytes flag status i n @ body" "content b' = xs"
      using whole [of b xs] b by auto
    then show ?thesis
      using seen by (intro exI [of _ b'] exI [of _ "dubbo_seen E flag n dm o'"]) (simp add: dubbo_seen_def)
  qed
  show ?thesis
    unfolding takes_frame_def
  proof (intro conjI allI impI, goal_cases)
    case 1
    then show ?case by (simp add: header_bytes_def)
  next
    case (2 c b xs)
    then show ?case using whole_frame [of b xs] by blast
  next
    case (3 c b)
    then show ?case using frame_waits [OF assms(1,2) 3(3), of fresh] by simp
  qed
qed

lemma refusal_meets:
  assumes "dm_timeout dm = None" and "dm_serialization_type dm = 2"
    and "dm_message_type dm \<in> {DRequest, DOneway}" and "dubbo_routed E result_code flag n dm v"
  shows "meets_fate E content (\<lambda>c. c = DubboCodec_init) v DubboCodec_init (dubbo_seen E flag n dm out)"
  using assms(4) unfolding dubbo_routed_def
proof (elim disjE exE conjE)
  assume "v = Forward" "\<forall>out. served E (dubbo_seen E flag n dm out)"
  then show ?thesis by (simp add: meets_fate_def)
next
  fix err assume v: "v = Refuse (dubbo_refusal result_code (dm_request_id dm) err)"
    and len: "length (result_code ResponseWithException (err_message err)) < 2 ^ 64"
    and route: "\<forall>sid out. routing E (dubbo_seen E flag n dm out) sid = Inl err"
  have "err_message err \<noteq> []"
    using route routing_error_message by blast
  then obtain b where "DubboCodec_onError (en_buffer E) S (dubbo_seen E flag n dm out) err (buf_new (en_buffer E)) = (Inr (), b)"
    "content b = dubbo_refusal result_code (dm_request_id dm) err"
    unfolding dubbo_seen_def dubbo_refusal_def
    by (rule encode_error [OF new_content assms(1,2) _ len, where H = "en_headers E"])
  moreover have "md_message_type (dubbo_seen E flag n dm out) \<noteq> Heartbeat"
    using assms(3) by (auto simp: dubbo_seen_def toMetadata_fields)
  ultimately show ?thesis
    using v route by (simp add: meets_fate_def runs_codec DubboCodec_def)
qed

lemma heartbeat_meets:
  assumes "dm = header_metadata flag status i MessageMetadata" and "flag_request flag" and "flag_event flag"
  shows "meets_fate E content (\<lambda>c. c = DubboCodec_init) (Beat (heartbeat_reply i)) DubboCodec_init
    (dubbo_seen E flag n dm out)"
proof -
  have dm: "dm_timeout dm = None" "dm_serialization_type dm = 2" "dm_request_id dm = i"
    "dm_message_type dm \<in> {DHeartbeatRequest, DHeartbeatResponse}"
    using assms by (simp_all add: header_metadata_def MessageMetadata_def header_type_def Let_def)
  obtain b where "DubboCodec_encode (en_buffer E) S (dubbo_seen E flag n dm out) MutationImpl
      (buf_new (en_buffer E)) = (Inr (), b)" "content b = heartbeat_reply i"
    unfolding dubbo_seen_def
    by (rule encode_heartbeat [OF new_content dm(1,2,4), where S = S and H = "en_headers E" and mut = MutationImpl])
      (use dm(3) that in simp)
  then show ?thesis
    using dm(4) by (auto simp: meets_fate_def runs_codec DubboCodec_def dubbo_seen_def toMetadata_fields)
qed

lemma dubbo_client_frame:
  assumes "dubbo_frame E content S result_code fv"
  shows "client_frame E content (\<lambda>c. c = DubboCodec_init) fv"
proof -
  obtain f v flag status i n body where fv: "fv = (f, v)" "f = header_bytes flag status i n @ body"
    and h: "length body = unat n" "valid_header flag status n" "flag_request flag"
    and fate: "if flag_event flag then v = Beat (heartbeat_reply i)
      else \<exists>dm. (\<forall>b. content b = body \<longrightarrow> body_outcome S b (header_context (en_buffer E) flag n)
             (header_metadata flag status i MessageMetadata) = Inr dm) \<and>
           dubbo_routed E result_code flag n dm v"
    using assms by (auto simp: dubbo_frame_def)
  show ?thesis
  proof (cases "flag_event flag")
    case True
    then show ?thesis
      using fate h(3) heartbeat_meets [OF refl]
      by (simp add: client_frame_def fv frame_taken_by_decode [OF h(2,1)])
  next
    case False
    then obtain dm where dm: "\<forall>b. content b = body \<longrightarrow> body_outcome S b (header_context (en_buffer E) flag n)
        (header_metadata flag status i MessageMetadata) = Inr dm" "dubbo_routed E result_code flag n dm v"
      using fate by auto
    obtain b where "content b = body" using buffer_with by blast
    then have out: "body_outcome S b (header_context (en_buffer E) flag n)
        (header_metadata flag status i MessageMetadata) = Inr dm" using dm(1) by blast
    have ty: "dm_message_type (header_metadata flag status i MessageMetadata) \<in> {DOneway, DRequest}"
      using False h(3) by (simp add: header_type_def)
    then obtain invo where "dm = (header_metadata flag status i MessageMetadata)\<lparr>dm_invocation_info := Some invo\<rparr>"
      using out unfolding body_outcome_def if_P [OF ty] by (auto split: sum.splits prod.splits)
    then have "dm_timeout dm = None" "dm_serialization_type dm = 2" "dm_message_type dm \<in> {DRequest, DOneway}"
      using ty h(3) by (simp_all add: header_metadata_def MessageMetadata_def Let_def insert_commute)
    then show ?thesis
      unfolding client_frame_def fv prod.case
      by (intro frame_taken_by_decode [OF h(2,1)] refusal_meets) (use dm False in simp_all)
  qed
qed

lemma serves_stream:
  assumes "default_chain E" and "reachable E px" and "cx_state px = ConnOpen"
    and "cm_codec px = DubboCodec_init" and "content (cm_request_buffer px) = []"
    and "list_all (dubbo_frame E content S result_code) fs"
    and "concat (map content reads) = concat (map fst fs)"
  shows "\<exists>px1. run_events E (map (\<lambda>data. DownstreamData data False) reads) px = Some px1 \<and>
    traffic content (cx_effects px1) = traffic content (cx_effects px) @ expected (st_next px) fs \<and>
    cx_state px1 = ConnOpen \<and> content (cm_request_buffer px1) = [] \<and> cm_codec px1 = DubboCodec_init"
  by (rule stream_traffic [OF assms(1) _ assms(2-5,7)])
    (use assms(6) dubbo_client_frame in \<open>simp add: list_all_iff\<close>)

end

subsection \<open>A client's stream is served\<close>

text \<open>C3: whatever requests and heartbeats a client sends on a connection, and wherever the stream is cut
  into reads, the proxy writes, in their order and byte for byte, each request with a route and a ready
  connection in its cluster's pool upstream under an identity of its own, the refusal of each other request and the answer to each heartbeat to the client;
  afterwards the connection is open and no byte is held back.\<close>

theorem dubbo_client_stream:
  assumes "dubbo_proxy E content S result_code" and "default_chain E" and "reachable E px"
    and "cx_state px = ConnOpen" and "cm_codec px = DubboCodec_init" and "content (cm_request_buffer px) = []"
    and "list_all (dubbo_frame E content S result_code) fs"
    and "concat (map content reads) = concat (map fst fs)"
  shows "\<exists>px1. run_events E (map (\<lambda>data. DownstreamData data False) reads) px = Some px1 \<and>
    traffic content (cx_effects px1) = traffic content (cx_effects px) @ expected (st_next px) fs \<and>
    cx_state px1 = ConnOpen \<and> cm_codec px1 = DubboCodec_init \<and> content (cm_request_buffer px1) = []"
  using dubbo_proxy.serves_stream [OF assms] by blast

text \<open>Two requests with a route, one without, and a heartbeat, cut inside headers and bodies.\<close>

lemma sample_seen:
  "dubbo_seen (sample_env answer) 0xC2 8 (sample_dubbo_metadata x) out =
    (sample_metadata x)\<lparr>md_origin_message := out\<rparr>"
  by (simp add: dubbo_seen_def sample_metadata_def toMetadata_def)

lemma sample_routing_origin:
  "routing (sample_env answer) (m\<lparr>md_origin_message := out\<rparr>) sid = routing (sample_env answer) m sid"
  by (simp add: routing_def sample_env_def configure_def sample_config_impl_def ConfigImpl_route_def
      RouteEntryImpl_matches_def headersMatch_def clusterEntry_def)

lemma sample_dubbo_frame:
  assumes "dubbo_routed (sample_env answer) list_result_code 0xC2 8 (sample_dubbo_metadata x) v"
  shows "dubbo_frame (sample_env answer) (\<lambda>bs. bs) list_serializer list_result_code (sample_request x, v)"
proof -
  have "body_outcome list_serializer [1, 50, 1, x, 1, 48, 1, 109] (header_context list_buffer 0xC2 8)
      (header_metadata 0xC2 0 7 MessageMetadata) = Inr (sample_dubbo_metadata x)"
    by (simp add: body_outcome_def sample_header_valid deserializeRpcInvocation_def list_hessian_def
        list_decode_string_def header_context_def sample_chars sample_dubbo_metadata_def
        sample_invocation_def lb.header_metadata_type)
  then show ?thesis
    unfolding dubbo_frame_def prod.case
    by (intro exI [of _ "0xC2"] exI [of _ 0] exI [of _ 7] exI [of _ 8] exI [of _ "[1, 50, 1, x, 1, 48, 1, 109]"] conjI)
      (use assms sample_header_valid in \<open>simp_all add: sample_request_def\<close>)
qed

lemma sample_forward: "dubbo_frame (sample_env (ConnectionReady host)) (\<lambda>bs. bs) list_serializer
    list_result_code (sample_request 105, Forward)"
  by (rule sample_dubbo_frame)
    (simp add: dubbo_routed_def sample_seen served_def sample_routing_origin sample_routing)

lemma sample_refuse: "dubbo_frame (sample_env answer) (\<lambda>bs. bs) list_serializer
    list_result_code (sample_request 106, Refuse (dubbo_refusal list_result_code 7 (no_route_error 7)))"
proof -
  have "dec_nat 7 = ''7''" by code_simp
  then have len: "length (list_result_code ResponseWithException (err_message (no_route_error 7))) < 2 ^ 64"
    by (simp add: no_route_error_def mk_error_def quoted_def list_int_code_def list_string_code_def)
  have "dm_request_id (sample_dubbo_metadata 106) = 7"
    by (simp add: sample_dubbo_metadata_def header_metadata_def Let_def)
  then show ?thesis
    using len
    by (intro sample_dubbo_frame)
      (auto simp: dubbo_routed_def sample_seen sample_routing_origin sample_routing)
qed

lemma sample_beat: "dubbo_frame (sample_env answer) (\<lambda>bs. bs) list_serializer
    list_result_code (sample_heartbeat, Beat (heartbeat_reply 9))"
proof -
  have "valid_header 0xE2 0 0" "flag_event 0xE2" "flag_request 0xE2"
    by (simp_all add: valid_header_def valid_size_def flag_request_def flag_event_def MaxBodySize_def
        MessageTypeMask_def EventMask_def SerializationTypeMask_def)
  then show ?thesis
    unfolding dubbo_frame_def prod.case
    by (intro exI [of _ "0xE2"] exI [of _ 0] exI [of _ 9] exI [of _ 0] exI [of _ "[]"] conjI)
      (simp_all add: sample_heartbeat_def)
qed

theorem dubbo_client_stream_witness:
  "\<exists>px1. run_events (sample_env (ConnectionReady ''h''))
      [DownstreamData (take 5 (sample_request 105)) False,
       DownstreamData (drop 5 (sample_request 105) @ sample_heartbeat @ take 20 (sample_request 106)) False,
       DownstreamData (drop 20 (sample_request 106) @ sample_request 105) False]
      (sample_start (ConnectionReady ''h'')) = Some px1 \<and>
    traffic (\<lambda>bs. bs) (cx_effects px1) =
      [Up 0 (sample_request 105), Down (heartbeat_reply 9),
       Down (dubbo_refusal list_result_code 7 (no_route_error 7)), Up 2 (sample_request 105)] \<and>
    cx_state px1 = ConnOpen \<and> cm_codec px1 = DubboCodec_init \<and> cm_request_buffer px1 = []"
proof -
  have "concat (map (\<lambda>bs. bs) [take 5 (sample_request 105),
       drop 5 (sample_request 105) @ sample_heartbeat @ take 20 (sample_request 106),
       drop 20 (sample_request 106) @ sample_request 105]) =
    concat (map fst [(sample_request 105, Forward), (sample_heartbeat, Beat (heartbeat_reply 9)),
       (sample_request 106, Refuse (dubbo_refusal list_result_code 7 (no_route_error 7))),
       (sample_request 105, Forward)])"
    by (simp add: cut_anywhere)
  from dubbo_client_stream [OF sample.dubbo_proxy_axioms [of "ConnectionReady ''h''"] sample_default_chain
      reachable_init _ _ _ _ this]
  show ?thesis
    by (simp add: sample_forward sample_refuse sample_beat numeral_2_eq_2 del: run_events.simps)
qed

end
