(* ===== verification/Proxy_Pieces.thy ===== *)
theory Proxy_Pieces
  imports Dubbo_Segments
begin

text \<open>
  The response of an upstream, cut into reads anywhere: nothing is written to the client before the
  response is complete, and then all of it, once.
\<close>

subsection \<open>The reads of an upstream connection\<close>

text \<open>
  The connection appends what it reads to what the last call of \<open>onUpstreamData\<close> left in its buffer.
\<close>

fun upstream_reads ::
  "('c, 'x, 'b, 'h, 'f) env \<Rightarrow> nat \<Rightarrow> 'b \<Rightarrow> 'b list \<Rightarrow> ('c, 'x, 'b, 'h, 'f) proxy \<Rightarrow>
   ('b \<times> ('c, 'x, 'b, 'h, 'f) proxy) option" where
  "upstream_reads E mid left [] px = Some (left, px)"
| "upstream_reads E mid left (piece # pieces) px =
     (case Router_onUpstreamData E mid 0 (fst (buf_move_all (en_buffer E) left piece)) False px of
        (Inr left', px') \<Rightarrow> upstream_reads E mid left' pieces px'
      | _ \<Rightarrow> None)"

text \<open>What the client gets and what is left of the message when its response is complete.\<close>

definition responded ::
  "('c, 'x, 'b, 'h, 'f) env \<Rightarrow> nat \<Rightarrow> string \<Rightarrow> ('x, 'b, 'h) metadata \<Rightarrow>
   ('c, 'x, 'b, 'h, 'f) proxy \<Rightarrow> ('c, 'x, 'b, 'h, 'f) proxy" where
  "responded E mid host rm px =
     emit (UpstreamRelease mid) (deferredMessage mid
       (count_response rm (emit (DownstreamWrite (written E (md_origin_message rm)) False)
          (emit (PutResult host (response_result rm)) px))))"

definition released :: "('c, 'x, 'b, 'h, 'f) active_message \<Rightarrow> bool" where
  "released am \<longleftrightarrow> (\<exists>r. am_filters am = [RouterFilter r] \<and> rt_upstream_request r = None) \<and>
     am_decoder_filters am = [\<lparr>fw_handle = 0, fw_dual_filter = True\<rparr>] \<and>
     am_encoder_filters am = [\<lparr>fw_handle = 0, fw_dual_filter = True\<rparr>]"

definition answers :: "('x, 'b, 'h) metadata \<Rightarrow> 'c \<Rightarrow> ('x, 'b, 'h) metadata \<Rightarrow> bool" where
  "answers m c rm \<longleftrightarrow> md_message_type rm \<in> {Response, MsgError} \<and> md_request_id rm = md_request_id m"

lemma answers_taken: "answers (taken_metadata E m) = answers m"
  by (simp add: answers_def fun_eq_iff)

context segmented_env
begin

lemma response_pieces:
  assumes "takes_frame content (en_codec E) fresh idle (answers m) f" and "cx_state px = ConnOpen"
    and "routed am ur b m" and "open_request ur host" and "reads_response E am ur c"
    and "reading fresh c (content left) p" and "strict_prefix p f"
    and "p @ concat (map content pieces) = f" and "list_all (\<lambda>piece. content piece \<noteq> []) pieces"
  shows "\<exists>left' am' rm. upstream_reads E mid left pieces (put_message mid am px) =
      Some (left', put_message mid am' (responded E mid host rm px)) \<and>
    content left' = [] \<and> content (md_origin_message rm) = f \<and> answers m c rm \<and> released am'"
  using assms(3-9)
proof (induction pieces arbitrary: am ur b c left p)
  case Nil
  then show ?case by simp
next
  case (Cons piece pieces)
  let ?data = "fst (buf_move_all (en_buffer E) left piece)"
  have data: "content ?data = content left @ content piece" by (simp add: content_simps)
  show ?case
  proof (cases "pieces = []")
    case True
    then have p: "p @ content piece = f @ []" using Cons.prems(6) by simp
    obtain c' rest rm where d: "codec_decode (en_codec E) c ?data fresh = (Inr DecodeDone, (c', rest, rm))"
      "content rest = []" "content (md_origin_message rm) = f" "answers m c' rm"
      by (rule reading_frame [OF Cons.prems(4) assms(1) data p])
    have complete: "response_codec_done E c ?data c' rest rm" and id: "md_request_id m = md_request_id rm"
      using d(1,4) by (simp_all add: response_codec_done_def answers_def)
    obtain am' r where
      "Router_onUpstreamData E mid 0 ?data False (put_message mid am px) =
         (Inr rest, put_message mid am' (responded E mid host rm px))"
      "am_filters am' = [RouterFilter r]" "rt_upstream_request r = None"
      "am_decoder_filters am' = [\<lparr>fw_handle = 0, fw_dual_filter = True\<rparr>]"
      "am_encoder_filters am' = [\<lparr>fw_handle = 0, fw_dual_filter = True\<rparr>]"
      by (rule response_forwarded [OF complete Cons.prems(1-3) assms(2) id, where mid = mid and es = False])
        (simp add: responded_def)
    then show ?thesis
      using True d(2-4)
      by (intro exI [of _ rest] exI [of _ am'] exI [of _ rm]) (simp add: released_def answers_def)
  next
    case False
    then obtain next_piece where "next_piece \<in> set pieces" "content next_piece \<noteq> []"
      using Cons.prems(7) by (cases pieces) auto
    then have more: "concat (map content pieces) \<noteq> []" by auto
    have p: "strict_prefix (p @ content piece) f" "p @ content piece \<noteq> []"
      "(p @ content piece) @ concat (map content pieces) = f"
      using Cons.prems(6,7) more by (auto simp: strict_prefix_def prefix_def)
    obtain c' rest rm where d: "codec_decode (en_codec E) c ?data fresh = (Inr DecodeWaitForData, (c', rest, rm))"
      "reading fresh c' (content rest) (p @ content piece)"
      by (rule reading_part [OF Cons.prems(4) assms(1) data p(1,2)])
    obtain am1 ur1 where
      1: "Router_onUpstreamData E mid 0 ?data False (put_message mid am px) = (Inr rest, put_message mid am1 px)"
      "routed am1 ur1 b m" "open_request ur1 host" "reads_response E am1 ur1 c'"
      by (rule response_awaited [OF Cons.prems(1-3) d(1)])
    have "list_all (\<lambda>piece. content piece \<noteq> []) pieces" using Cons.prems(7) by simp
    from Cons.IH [OF 1(2-4) d(2) p(1,3) this] show ?thesis
      using 1(1) by (simp add: answers_def)
  qed
qed

end

subsection \<open>An exchange\<close>

text \<open>C4: a two-way request routed to a cluster whose pool has a connection ready, whose bytes may have
  arrived in any number of reads, goes upstream byte for byte; its response, cut into reads anywhere, goes back byte for byte and in one write when
  its last byte has come, after which the connection is released and nothing of the message is left.\<close>

theorem exchange_in_pieces:
  assumes "segmented_env E content codec_inv idle" and "reachable E px" and "cx_state px = ConnOpen"
    and "ev_deferred px = []" and "default_chain E"
    and "completes E px data c m" and "md_message_type m = Request"
    and "routing E m (en_random E (st_next px)) = Inr name"
    and "en_newConnection E name (cx_effects px) = ConnectionReady host"
    and "takes_frame content (en_codec E) (MetadataImpl (en_buffer E) (en_headers E)) idle (answers m) answer"
    and "idle (en_createCodec E)" and "concat (map content pieces) = answer"
    and "list_all (\<lambda>piece. content piece \<noteq> []) pieces"
  shows "\<exists>px1 left px2 px3 sent got result.
    handle E (DownstreamData data False) px = Some (Inr (), px1) \<and>
    upstream_reads E (st_next px) (buf_new (en_buffer E)) pieces px1 = Some (left, px2) \<and>
    content left = [] \<and> handle E DeferredDelete px2 = Some (Inr (), px3) \<and>
    cx_effects px3 = cx_effects px @
      [PutResult host LocalOriginConnectSuccess, UpstreamWrite (st_next px) sent,
       PutResult host result, DownstreamWrite got False, UpstreamRelease (st_next px)] \<and>
    content sent = content (md_origin_message m) \<and> content got = answer \<and>
    cm_active_message_list px3 = cm_active_message_list px \<and> ev_deferred px3 = [] \<and>
    st_messages px3 = st_messages px \<and> cx_state px3 = ConnOpen"
proof -
  let ?mid = "st_next px"
  have env: "proxy_env E content codec_inv" using assms(1) by (simp add: segmented_env_def)
  then have B: "envoy_buffer (en_buffer E) content" by (simp add: proxy_env_def codec_contract_def)
  have codec: "resumable_codec (en_buffer E) content (en_codec E) codec_inv idle"
    using assms(1) by (simp add: segmented_env_def)
  have fresh: "st_messages px ?mid = None"
    using reachable_proxy_ok [OF assms(2)] by (auto simp: proxy_ok_def objects_inv_def)
  have ty: "md_message_type m \<noteq> Heartbeat" using assms(7) by simp
  obtain am1 b px1 where 1: "handle E (DownstreamData data False) px = Some (Inr (), put_message ?mid am1 px1)"
    "cx_effects px1 = cx_effects px @
       [PutResult host LocalOriginConnectSuccess, UpstreamWrite ?mid (written E (taken_buffer E m))]"
    "cm_active_message_list px1 = ?mid # cm_active_message_list px" "ev_deferred px1 = []"
    "st_messages px1 = st_messages px" "cx_state px1 = ConnOpen"
    "awaits_response am1 host (taken_metadata E m)"
    by (rule data_forwarded [OF reachable_listens [OF env assms(2,3)] assms(6) ty assms(5,8,9)])
      (use assms(3,4,7) in \<open>simp add: awaits_response_sent\<close>)
  obtain ur b where a: "routed am1 ur b (taken_metadata E m)" "sent_request ur host" "am_response_decoder am1 = None"
    using 1(7) by (auto simp: awaits_response_def)
  note reader = sent_reads [OF a(2,3), of E]
  have frame: "takes_frame content (en_codec E) (MetadataImpl (en_buffer E) (en_headers E)) idle
      (answers (taken_metadata E m)) answer" using assms(10) by (simp add: answers_taken)
  have new: "content (buf_new (en_buffer E)) = []" using envoy_buffer.new_content [OF B] .
  have prefix: "strict_prefix [] answer" using assms(10) unfolding takes_frame_def strict_prefix_def by (simp add: eq_commute)
  have whole: "[] @ concat (map content pieces) = answer" using assms(12) by simp
  note reads = resumable_codec.reading_idle [OF codec assms(11)]
  obtain left am2 rm where 2: "upstream_reads E ?mid (buf_new (en_buffer E)) pieces (put_message ?mid am1 px1) =
      Some (left, put_message ?mid am2 (responded E ?mid host rm px1))"
    "content left = []" "content (md_origin_message rm) = answer" "released am2"
    using segmented_env.response_pieces [OF assms(1) frame 1(6) a(1) conjunct1 [OF reader] conjunct2 [OF reader]
        _ prefix whole assms(13), where left = "buf_new (en_buffer E)" and mid = ?mid, unfolded new, OF reads]
    by blast
  let ?px2 = "responded E ?mid host rm px1"
  obtain r where r: "am_filters am2 = [RouterFilter r]" "rt_upstream_request r = None"
    "am_decoder_filters am2 = [\<lparr>fw_handle = 0, fw_dual_filter = True\<rparr>]"
    "am_encoder_filters am2 = [\<lparr>fw_handle = 0, fw_dual_filter = True\<rparr>]"
    using 2(4) by (auto simp: released_def)
  have front: "cm_active_message_list ?px2 = cm_active_message_list px" "ev_deferred ?px2 = [?mid]"
    "st_messages ?px2 = st_messages px" "cx_state ?px2 = ConnOpen"
    "cx_effects ?px2 = cx_effects px1 @ [PutResult host (response_result rm),
       DownstreamWrite (written E (md_origin_message rm)) False, UpstreamRelease ?mid]"
    using 1(3-6) by (simp_all add: responded_def)
  have 3: "handle E DeferredDelete (put_message ?mid am2 ?px2) =
      Some (Inr (), (dec request_active (?px2\<lparr>ev_deferred := []\<rparr>))\<lparr>st_messages := st_messages px\<rparr>)"
    using destroy_done [OF r] front fresh by (simp add: fun_upd_idem)
  show ?thesis
    by (rule exI [of _ "put_message ?mid am1 px1"], rule exI [of _ left], rule exI [of _ "put_message ?mid am2 ?px2"],
        rule exI, rule exI [of _ "written E (taken_buffer E m)"], rule exI [of _ "written E (md_origin_message rm)"],
        rule exI [of _ "response_result rm"], intro conjI, rule 1(1), rule 2(1), rule 2(2), rule 3)
      (use 1(2) 2(3) front taken_contents [OF B] in simp_all)
qed

text \<open>The answer of a Dubbo upstream as a frame.\<close>

lemma sample_reply_frame:
  "takes_frame (\<lambda>bs. bs) (en_codec (sample_env a)) (MetadataImpl (en_buffer (sample_env a)) (en_headers (sample_env a)))
     (\<lambda>c. c = DubboCodec_init) (answers (sample_metadata 105)) (sample_reply 7)"
proof -
  let ?code = "list_result_code ResponseWithException ''no''"
  let ?dm = "(header_metadata 2 70 7 MessageMetadata)\<lparr>dm_message_type := DException\<rparr>"
  have len: "length ?code = 4" by (simp add: list_int_code_def list_string_code_def)
  have v: "valid_header 2 70 4"
    by (simp add: valid_header_def valid_size_def reply_flags MaxBodySize_def isValidResponseStatus_def
        response_status_of_u8_def response_statuses_def)
  have out: "\<forall>b. b = ?code \<longrightarrow> body_outcome list_serializer b (header_context list_buffer 2 4)
      (header_metadata 2 70 7 MessageMetadata) = Inr ?dm"
  proof -
    have "body_outcome list_serializer ?code (header_context list_buffer 2 (of_nat (length ?code)))
        (header_metadata 2 70 7 MessageMetadata) = Inr ?dm"
      by (rule lh.body_outcome_reply [OF refl]) (simp_all only: len, simp_all add: header_metadata_def reply_flags)
    then show ?thesis by (simp only: len of_nat_numeral simp_thms)
  qed
  show ?thesis
    unfolding sample_reply_def
    by (rule sample.frame_taken_by_decode [OF v, where dm = ?dm])
      (use len out in \<open>simp_all add: reply_flags answers_def dubbo_seen_def toMetadata_fields header_metadata_def\<close>)
qed

theorem exchange_in_pieces_witness:
  "\<exists>px1 left px2 px3 sent got result.
    handle (sample_env (ConnectionReady ''h'')) (DownstreamData (sample_request 105) False)
      (sample_start (ConnectionReady ''h'')) = Some (Inr (), px1) \<and>
    upstream_reads (sample_env (ConnectionReady ''h'')) 0 [] [take 3 (sample_reply 7), drop 3 (sample_reply 7)] px1 =
      Some (left, px2) \<and>
    left = [] \<and> handle (sample_env (ConnectionReady ''h'')) DeferredDelete px2 = Some (Inr (), px3) \<and>
    cx_effects px3 =
      [PutResult ''h'' LocalOriginConnectSuccess, UpstreamWrite 0 sent,
       PutResult ''h'' result, DownstreamWrite got False, UpstreamRelease 0] \<and>
    sent = sample_request 105 \<and> got = sample_reply 7 \<and>
    cm_active_message_list px3 = [] \<and> ev_deferred px3 = [] \<and>
    st_messages px3 = Map.empty \<and> cx_state px3 = ConnOpen"
proof -
  have c: "completes (sample_env (ConnectionReady ''h'')) (sample_start (ConnectionReady ''h''))
      (sample_request 105) DubboCodec_init (sample_metadata 105)"
    by (rule sample_completes) simp_all
  have pieces: "concat (map (\<lambda>bs. bs) [take 3 (sample_reply 7), drop 3 (sample_reply 7)]) = sample_reply 7"
    "list_all (\<lambda>bs. bs \<noteq> []) [take 3 (sample_reply 7), drop 3 (sample_reply 7)]"
    by (simp_all add: sample_reply_def header_bytes_def)
  show ?thesis
    using exchange_in_pieces [OF sample.segmented_env_axioms reachable_init _ _ sample_default_chain c _ _ _
        sample_reply_frame _ pieces, where name = "''c''" and host = "''h''"]
    by (simp add: sample_routing list_buffer_def del: handle.simps)
qed

end
