(* ===== verification/Thrift_Types.thy ===== *)
theory Thrift_Types
  imports Meta_Codec
begin

text \<open>
  The Thrift data model, src/src/application_protocols/thrift: the enumerations of thrift.h,
  \<open>MessageMetadata\<close> (metadata.h), the tracing data it carries (tracing.h) and
  \<open>ThriftConnectionState\<close> (conn_state.h).

  The enumerations have \<open>int\<close> as underlying type and a \<open>static_cast\<close> makes a value out of any
  integer: \<open>FieldType\<close> and \<open>ThriftMessageType\<close>, which come off the wire, have a constructor for
  a value that is not an enumerator. Signed integers are kept as words and read with \<open>sint\<close>.
\<close>

type_synonym i16 = "16 word"
type_synonym i32 = "32 word"
type_synonym i64 = "64 word"

subsection \<open>Enumerations\<close>

datatype TransportType = TransportFramed | TransportHeader | TransportUnframed | TransportAuto

fun TransportNames_fromType :: "TransportType \<Rightarrow> string" where
  "TransportNames_fromType TransportFramed = ''framed''"
| "TransportNames_fromType TransportHeader = ''header''"
| "TransportNames_fromType TransportUnframed = ''unframed''"
| "TransportNames_fromType TransportAuto = ''auto''"

datatype ProtocolType =
  ProtocolBinary | ProtocolLaxBinary | ProtocolCompact | ProtocolTwitter | ProtocolAuto

fun ThriftProtocolNames_fromType :: "ProtocolType \<Rightarrow> string" where
  "ThriftProtocolNames_fromType ProtocolBinary = ''binary''"
| "ThriftProtocolNames_fromType ProtocolLaxBinary = ''binary/non-strict''"
| "ThriftProtocolNames_fromType ProtocolCompact = ''compact''"
| "ThriftProtocolNames_fromType ProtocolTwitter = ''twitter''"
| "ThriftProtocolNames_fromType ProtocolAuto = ''auto''"

datatype ThriftMessageType = TCall | TReply | TException | TOneway | TMessageOther int

fun thrift_message_code :: "ThriftMessageType \<Rightarrow> int" where
  "thrift_message_code TCall = 1"
| "thrift_message_code TReply = 2"
| "thrift_message_code TException = 3"
| "thrift_message_code TOneway = 4"
| "thrift_message_code (TMessageOther i) = i"

datatype FieldType =
    TStop | TVoid | TBool | TByte | TDouble | TI16 | TI32 | TI64 | TString | TStruct | TMap | TSet
  | TList | TFieldOther int

fun field_type_code :: "FieldType \<Rightarrow> int" where
  "field_type_code TStop = 0"
| "field_type_code TVoid = 1"
| "field_type_code TBool = 2"
| "field_type_code TByte = 3"
| "field_type_code TDouble = 4"
| "field_type_code TI16 = 6"
| "field_type_code TI32 = 8"
| "field_type_code TI64 = 10"
| "field_type_code TString = 11"
| "field_type_code TStruct = 12"
| "field_type_code TMap = 13"
| "field_type_code TSet = 14"
| "field_type_code TList = 15"
| "field_type_code (TFieldOther i) = i"

text \<open>The enumerator of a code: what \<open>static_cast<FieldType>(code)\<close> gives.\<close>

definition field_types :: "FieldType list" where
  "field_types =
     [TStop, TVoid, TBool, TByte, TDouble, TI16, TI32, TI64, TString, TStruct, TMap, TSet, TList]"

definition field_type_of_code :: "int \<Rightarrow> FieldType" where
  "field_type_of_code i =
     (case find (\<lambda>t. field_type_code t = i) field_types of Some t \<Rightarrow> t | None \<Rightarrow> TFieldOther i)"

lemma field_type_of_code_code [simp]:
  "t \<in> set field_types \<Longrightarrow> field_type_of_code (field_type_code t) = t"
  by (auto simp: field_type_of_code_def field_types_def)

datatype AppExceptionType =
    AppUnknown | UnknownMethod | InvalidMessageType | WrongMethodName | BadSequenceId
  | MissingResult | InternalError | ProtocolError | InvalidTransform | InvalidProtocol
  | UnsupportedClientType | LoadShedding | AppTimeout | InjectedFailure | ChecksumMismatch
  | Interruption

fun app_exception_code :: "AppExceptionType \<Rightarrow> int" where
  "app_exception_code AppUnknown = 0"
| "app_exception_code UnknownMethod = 1"
| "app_exception_code InvalidMessageType = 2"
| "app_exception_code WrongMethodName = 3"
| "app_exception_code BadSequenceId = 4"
| "app_exception_code MissingResult = 5"
| "app_exception_code InternalError = 6"
| "app_exception_code ProtocolError = 7"
| "app_exception_code InvalidTransform = 8"
| "app_exception_code InvalidProtocol = 9"
| "app_exception_code UnsupportedClientType = 10"
| "app_exception_code LoadShedding = 11"
| "app_exception_code AppTimeout = 12"
| "app_exception_code InjectedFailure = 13"
| "app_exception_code ChecksumMismatch = 14"
| "app_exception_code Interruption = 15"

subsection \<open>Tracing data\<close>

record thrift_endpoint =
  ep_ipv4 :: i32
  ep_port :: i16
  ep_service_name :: string

definition thrift_Endpoint :: thrift_endpoint where
  "thrift_Endpoint = \<lparr>ep_ipv4 = 0, ep_port = 0, ep_service_name = []\<rparr>"

record thrift_annotation =
  an_timestamp :: i64
  an_value :: string
  an_host :: "thrift_endpoint option"

definition thrift_Annotation :: thrift_annotation where
  "thrift_Annotation = \<lparr>an_timestamp = 0, an_value = [], an_host = None\<rparr>"

datatype AnnotationType =
    AnnotationBool | AnnotationBytes | AnnotationI16 | AnnotationI32 | AnnotationI64
  | AnnotationDouble | AnnotationString

record thrift_binary_annotation =
  ba_key :: string
  ba_value :: string
  ba_annotation_type :: AnnotationType
  ba_host :: "thrift_endpoint option"

definition thrift_BinaryAnnotation :: thrift_binary_annotation where
  "thrift_BinaryAnnotation =
     \<lparr>ba_key = [], ba_value = [], ba_annotation_type = AnnotationBool, ba_host = None\<rparr>"

record thrift_span =
  sp_trace_id :: i64
  sp_name :: string
  sp_span_id :: i64
  sp_parent_span_id :: "i64 option"
  sp_annotations :: "thrift_annotation list"
  sp_binary_annotations :: "thrift_binary_annotation list"
  sp_debug :: bool

definition thrift_Span :: thrift_span where
  "thrift_Span =
     \<lparr>sp_trace_id = 0, sp_name = [], sp_span_id = 0, sp_parent_span_id = None,
      sp_annotations = [], sp_binary_annotations = [], sp_debug = False\<rparr>"

subsection \<open>Message metadata\<close>

text \<open>
  The setters are the record's updates with \<open>Some\<close>, the \<open>hasX\<close> predicates compare with
  \<open>None\<close>, and the accessors throw where nothing was set.
\<close>

record 'h thrift_metadata =
  mm_frame_size :: "u32 option"
  mm_proto :: "ProtocolType option"
  mm_method_name :: "string option"
  mm_seq_id :: "i32 option"
  mm_msg_type :: "ThriftMessageType option"
  mm_headers :: 'h
  mm_app_ex_type :: "AppExceptionType option"
  mm_app_ex_msg :: "string option"
  mm_protocol_upgrade_message :: bool
  mm_spans :: "thrift_span list"
  mm_trace_id :: "i64 option"
  mm_trace_id_high :: "i64 option"
  mm_span_id :: "i64 option"
  mm_parent_span_id :: "i64 option"
  mm_flags :: "i64 option"
  mm_sampled :: "bool option"

definition Thrift_MessageMetadata :: "'h header_ops \<Rightarrow> 'h thrift_metadata" where
  "Thrift_MessageMetadata H =
     \<lparr>mm_frame_size = None, mm_proto = None, mm_method_name = None, mm_seq_id = None,
      mm_msg_type = None, mm_headers = hdr_create H, mm_app_ex_type = None, mm_app_ex_msg = None,
      mm_protocol_upgrade_message = False, mm_spans = [], mm_trace_id = None,
      mm_trace_id_high = None, mm_span_id = None, mm_parent_span_id = None, mm_flags = None,
      mm_sampled = None\<rparr>"

definition optional_value :: "'a option \<Rightarrow> exn + 'a" where
  "optional_value x = (case x of Some v \<Rightarrow> Inr v | None \<Rightarrow> Inl BadOptionalAccess)"

lemma optional_value_simps [simp]:
  "optional_value (Some v) = Inr v" "optional_value None = Inl BadOptionalAccess"
  by (simp_all add: optional_value_def)

definition setAppException ::
  "AppExceptionType \<Rightarrow> string \<Rightarrow> 'h thrift_metadata \<Rightarrow> 'h thrift_metadata" where
  "setAppException app_ex_type message m =
     m\<lparr>mm_app_ex_type := Some app_ex_type, mm_app_ex_msg := Some message\<rparr>"

subsection \<open>Connection state\<close>

record thrift_conn_state =
  cs_next_sequence_id :: i32
  cs_upgrade_attempted :: bool
  cs_upgraded :: bool

definition ThriftConnectionState :: "i32 \<Rightarrow> thrift_conn_state" where
  "ThriftConnectionState initial_sequence_id =
     \<lparr>cs_next_sequence_id = initial_sequence_id, cs_upgrade_attempted = False,
      cs_upgraded = False\<rparr>"

text \<open>\<open>std::numeric_limits<int32_t>::max()\<close>.\<close>

definition int32_max :: i32 where
  "int32_max = 0x7FFFFFFF"

definition nextSequenceId :: "thrift_conn_state \<Rightarrow> i32 \<times> thrift_conn_state" where
  "nextSequenceId c =
     (if cs_next_sequence_id c = int32_max then (int32_max, c\<lparr>cs_next_sequence_id := 0\<rparr>)
      else (cs_next_sequence_id c, c\<lparr>cs_next_sequence_id := cs_next_sequence_id c + 1\<rparr>))"

definition markUpgraded :: "thrift_conn_state \<Rightarrow> thrift_conn_state" where
  "markUpgraded c = c\<lparr>cs_upgrade_attempted := True, cs_upgraded := True\<rparr>"

definition markUpgradeFailed :: "thrift_conn_state \<Rightarrow> thrift_conn_state" where
  "markUpgradeFailed c = c\<lparr>cs_upgrade_attempted := True, cs_upgraded := False\<rparr>"

text \<open>The ids \<open>n\<close> calls hand out.\<close>

fun sequence_ids :: "nat \<Rightarrow> thrift_conn_state \<Rightarrow> i32 list" where
  "sequence_ids 0 c = []"
| "sequence_ids (Suc n) c = (let (i, c') = nextSequenceId c in i # sequence_ids n c')"

text \<open>A sequence id is kept between 0 and the largest \<open>int32_t\<close>, as an unsigned number below
  \<open>2 ^ 31\<close>; the successor wraps to 0 there.\<close>

lemma nextSequenceId_spec:
  assumes "unat (cs_next_sequence_id c) < 2 ^ 31"
  shows "fst (nextSequenceId c) = cs_next_sequence_id c"
    and "unat (cs_next_sequence_id (snd (nextSequenceId c))) =
      (unat (cs_next_sequence_id c) + 1) mod 2 ^ 31"
proof -
  let ?i = "cs_next_sequence_id c"
  show "fst (nextSequenceId c) = ?i" by (simp add: nextSequenceId_def)
  show "unat (cs_next_sequence_id (snd (nextSequenceId c))) = (unat ?i + 1) mod 2 ^ 31"
  proof (cases "?i = int32_max")
    case True
    then show ?thesis by (simp add: nextSequenceId_def int32_max_def)
  next
    case False
    then have "unat ?i \<noteq> unat int32_max" by (simp add: word_unat_eq_iff)
    then have lt: "unat ?i + 1 < 2 ^ 31" using assms by (simp add: int32_max_def)
    then have "unat (?i + 1) = unat ?i + 1"
      by (subst unat_add_lem [THEN iffD1]) simp_all
    then show ?thesis using False lt by (simp add: nextSequenceId_def)
  qed
qed

lemma sequence_ids_spec:
  assumes "unat (cs_next_sequence_id c) < 2 ^ 31"
  shows "map unat (sequence_ids n c) =
    map (\<lambda>k. (unat (cs_next_sequence_id c) + k) mod 2 ^ 31) [0..<n]"
  using assms
proof (induction n arbitrary: c)
  case (Suc n)
  let ?i = "cs_next_sequence_id c" and ?c = "snd (nextSequenceId c)"
  have "map unat (sequence_ids (Suc n) c) =
      unat ?i # map (\<lambda>k. (unat (cs_next_sequence_id ?c) + k) mod 2 ^ 31) [0..<n]"
    using Suc nextSequenceId_spec [OF Suc.prems]
    by (simp add: Let_def split_beta)
  also have "map (\<lambda>k. (unat (cs_next_sequence_id ?c) + k) mod 2 ^ 31) [0..<n] =
      map (\<lambda>k. (unat ?i + Suc k) mod 2 ^ 31) [0..<n]"
    by (simp add: nextSequenceId_spec(2) [OF Suc.prems] mod_simps)
  finally show ?case
    using Suc.prems by (simp add: upt_conv_Cons map_Suc_upt [symmetric] comp_def del: upt_Suc)
qed simp

end
