(* ===== verification/Thrift_Protocol.thy ===== *)
theory Thrift_Protocol
  imports Thrift_Types
begin

text \<open>
  The interfaces of the Thrift codec: \<open>Protocol\<close> (src/src/application_protocols/thrift/protocol.h)
  and \<open>Transport\<close> (transport.h). Their implementations (binary, compact, framed, header and so on)
  are Envoy's and not in the repository, so a protocol is a record of operations over its own state
  \<open>'p\<close>, and a transport one over \<open>'t\<close>.

  A read returns \<open>None\<close> where the code returns false (more data is needed) and otherwise the
  out-parameters; a write appends to a buffer. Both may change the protocol object and may throw.
  A \<open>double\<close> is kept as its 64 bits: the code only moves it.

  The class is given in three parts, each an extension of the one before: the reads of messages and
  containers, the reads of values, and the writes.
\<close>

type_synonym ('v, 'p, 'b) reader = "'p \<times> 'b \<Rightarrow> ('v option, 'p \<times> 'b) outcome"
type_synonym ('p, 'b) writer = "'p \<times> 'b \<Rightarrow> (unit, 'p \<times> 'b) outcome"

record ('p, 'b, 'h) thrift_structure_reads =
  pr_type :: "'p \<Rightarrow> ProtocolType"
  pr_setType :: "ProtocolType \<Rightarrow> 'p \<Rightarrow> (unit, 'p) outcome"
  pr_readMessageBegin ::
    "'p \<times> 'b \<Rightarrow> 'h thrift_metadata \<Rightarrow> (bool, ('p \<times> 'b) \<times> 'h thrift_metadata) outcome"
  pr_readMessageEnd :: "(unit, 'p, 'b) reader"
  pr_readStructBegin :: "(string, 'p, 'b) reader"
  pr_readStructEnd :: "(unit, 'p, 'b) reader"
  pr_readFieldBegin :: "(string \<times> FieldType \<times> i16, 'p, 'b) reader"
  pr_readFieldEnd :: "(unit, 'p, 'b) reader"
  pr_readMapBegin :: "(FieldType \<times> FieldType \<times> u32, 'p, 'b) reader"
  pr_readMapEnd :: "(unit, 'p, 'b) reader"
  pr_readListBegin :: "(FieldType \<times> u32, 'p, 'b) reader"
  pr_readListEnd :: "(unit, 'p, 'b) reader"
  pr_readSetBegin :: "(FieldType \<times> u32, 'p, 'b) reader"
  pr_readSetEnd :: "(unit, 'p, 'b) reader"

record ('p, 'b, 'h) thrift_reads = "('p, 'b, 'h) thrift_structure_reads" +
  pr_readBool :: "(bool, 'p, 'b) reader"
  pr_readByte :: "(u8, 'p, 'b) reader"
  pr_readInt16 :: "(i16, 'p, 'b) reader"
  pr_readInt32 :: "(i32, 'p, 'b) reader"
  pr_readInt64 :: "(i64, 'p, 'b) reader"
  pr_readDouble :: "(u64, 'p, 'b) reader"
  pr_readString :: "(string, 'p, 'b) reader"

record ('p, 'b, 'h) thrift_protocol = "('p, 'b, 'h) thrift_reads" +
  pr_writeMessageBegin :: "'h thrift_metadata \<Rightarrow> ('p, 'b) writer"
  pr_writeMessageEnd :: "('p, 'b) writer"
  pr_writeStructBegin :: "string \<Rightarrow> ('p, 'b) writer"
  pr_writeStructEnd :: "('p, 'b) writer"
  pr_writeFieldBegin :: "string \<Rightarrow> FieldType \<Rightarrow> i16 \<Rightarrow> ('p, 'b) writer"
  pr_writeFieldEnd :: "('p, 'b) writer"
  pr_writeMapBegin :: "FieldType \<Rightarrow> FieldType \<Rightarrow> u32 \<Rightarrow> ('p, 'b) writer"
  pr_writeMapEnd :: "('p, 'b) writer"
  pr_writeListBegin :: "FieldType \<Rightarrow> u32 \<Rightarrow> ('p, 'b) writer"
  pr_writeListEnd :: "('p, 'b) writer"
  pr_writeSetBegin :: "FieldType \<Rightarrow> u32 \<Rightarrow> ('p, 'b) writer"
  pr_writeSetEnd :: "('p, 'b) writer"
  pr_writeBool :: "bool \<Rightarrow> ('p, 'b) writer"
  pr_writeByte :: "u8 \<Rightarrow> ('p, 'b) writer"
  pr_writeInt16 :: "i16 \<Rightarrow> ('p, 'b) writer"
  pr_writeInt32 :: "i32 \<Rightarrow> ('p, 'b) writer"
  pr_writeInt64 :: "i64 \<Rightarrow> ('p, 'b) writer"
  pr_writeDouble :: "u64 \<Rightarrow> ('p, 'b) writer"
  pr_writeString :: "string \<Rightarrow> ('p, 'b) writer"

text \<open>
  A transport decodes the start and the end of a frame (false: more data is needed) and wraps a
  message in a frame: \<open>encodeFrame\<close> takes the output buffer and the message and returns both.
\<close>

record ('t, 'b, 'h) thrift_transport =
  tr_decodeFrameStart ::
    "'t \<Rightarrow> 'b \<Rightarrow> 'h thrift_metadata \<Rightarrow> (bool, 't \<times> 'b \<times> 'h thrift_metadata) outcome"
  tr_decodeFrameEnd :: "'t \<Rightarrow> 'b \<Rightarrow> (bool, 't \<times> 'b) outcome"
  tr_encodeFrame :: "'t \<Rightarrow> 'b \<Rightarrow> 'h thrift_metadata \<Rightarrow> 'b \<Rightarrow> (unit, 't \<times> 'b \<times> 'b) outcome"

text \<open>Consecutive write calls on one buffer: the first throw ends the sequence.\<close>

fun write_all :: "('p, 'b) writer list \<Rightarrow> ('p, 'b) writer" where
  "write_all [] s = (Inr (), s)"
| "write_all (w # ws) s = and_then (w s) (\<lambda>_. write_all ws)"

end
