(* ===== verification/Thrift_Decoder.thy ===== *)
theory Thrift_Decoder
  imports Thrift_Protocol
begin

text \<open>
  The Thrift message state machine, \<open>DecoderStateMachine\<close> of
  src/src/application_protocols/thrift/thrift_codec.h and thrift_codec.cc: one definition per
  handler. The machine reads a message with the protocol and writes what it read into
  \<open>origin_message_\<close> with the same protocol.
\<close>

subsection \<open>State\<close>

datatype ThriftState =
    AtStopIteration | AtWaitForData | AtPassthroughData | AtMessageBegin | AtMessageEnd
  | AtStructBegin | AtStructEnd | AtFieldBegin | AtFieldValue | AtFieldEnd | AtMapBegin | AtMapKey
  | AtMapValue | AtMapEnd | AtListBegin | AtListValue | AtListEnd | AtSetBegin | AtSetValue
  | AtSetEnd | AtDone

record thrift_frame =
  fr_return_state :: ThriftState
  fr_elem_type :: FieldType
  fr_value_type :: FieldType
  fr_remaining :: u32

text \<open>The four constructors of \<open>Frame\<close>; a value-initialised \<open>FieldType\<close> is 0, \<open>Stop\<close>.\<close>

definition Frame_return :: "ThriftState \<Rightarrow> thrift_frame" where
  "Frame_return state =
     \<lparr>fr_return_state = state, fr_elem_type = TStop, fr_value_type = TStop, fr_remaining = 0\<rparr>"

definition Frame_field :: "ThriftState \<Rightarrow> FieldType \<Rightarrow> thrift_frame" where
  "Frame_field state elem_type =
     \<lparr>fr_return_state = state, fr_elem_type = elem_type, fr_value_type = TStop, fr_remaining = 0\<rparr>"

definition Frame_elems :: "ThriftState \<Rightarrow> FieldType \<Rightarrow> u32 \<Rightarrow> thrift_frame" where
  "Frame_elems state elem_type remaining =
     \<lparr>fr_return_state = state, fr_elem_type = elem_type, fr_value_type = TStop,
      fr_remaining = remaining\<rparr>"

definition Frame_map :: "ThriftState \<Rightarrow> FieldType \<Rightarrow> FieldType \<Rightarrow> u32 \<Rightarrow> thrift_frame" where
  "Frame_map state key_type value_type remaining =
     \<lparr>fr_return_state = state, fr_elem_type = key_type, fr_value_type = value_type,
      fr_remaining = remaining\<rparr>"

text \<open>
  \<open>tm_proto\<close> and \<open>tm_metadata\<close> are the objects the references \<open>proto_\<close> and \<open>metadata_\<close> point
  to: the codec hands its own in before a run and takes them back after it. The back of the
  vector \<open>stack_\<close> is the end of the list.
\<close>

record ('p, 'b, 'h) thrift_machine =
  tm_proto :: 'p
  tm_metadata :: "'h thrift_metadata"
  tm_state :: ThriftState
  tm_stack :: "thrift_frame list"
  tm_body_bytes :: u32
  tm_passthrough_enabled :: bool
  tm_origin_message :: 'b

definition Thrift_DecoderStateMachine ::
  "'b buffer_ops \<Rightarrow> 'p \<Rightarrow> 'h thrift_metadata \<Rightarrow> ('p, 'b, 'h) thrift_machine" where
  "Thrift_DecoderStateMachine B proto metadata =
     \<lparr>tm_proto = proto, tm_metadata = metadata, tm_state = AtMessageBegin, tm_stack = [],
      tm_body_bytes = 0, tm_passthrough_enabled = False, tm_origin_message = buf_new B\<rparr>"

text \<open>A handler works on the input buffer and the machine, and returns the next state.\<close>

type_synonym ('p, 'b, 'h) run_state = "'b \<times> ('p, 'b, 'h) thrift_machine"
type_synonym ('p, 'b, 'h) handler =
  "('p, 'b, 'h) run_state \<Rightarrow> (ThriftState, ('p, 'b, 'h) run_state) outcome"

subsection \<open>Reading from the input, writing the original message\<close>

definition proto_read ::
  "('v, 'p, 'b) reader \<Rightarrow> ('p, 'b, 'h) run_state \<Rightarrow> ('v option, ('p, 'b, 'h) run_state) outcome" where
  "proto_read rd s =
     (let (r, (p, buffer)) = rd (tm_proto (snd s), fst s)
      in (r, (buffer, (snd s)\<lparr>tm_proto := p\<rparr>)))"

definition proto_write ::
  "('p, 'b) writer \<Rightarrow> ('p, 'b, 'h) run_state \<Rightarrow> (unit, ('p, 'b, 'h) run_state) outcome" where
  "proto_write wr s =
     (let (r, (p, origin)) = wr (tm_proto (snd s), tm_origin_message (snd s))
      in (r, (fst s, (snd s)\<lparr>tm_proto := p, tm_origin_message := origin\<rparr>)))"

text \<open>\<open>if (!proto_.readX(buffer, v)) return ProtocolState::WaitForData;\<close> and then \<open>k v\<close>.\<close>

definition reading ::
  "('v, 'p, 'b) reader \<Rightarrow> ('v \<Rightarrow> ('p, 'b, 'h) handler) \<Rightarrow> ('p, 'b, 'h) handler" where
  "reading rd k s =
     and_then (proto_read rd s)
       (\<lambda>r s. case r of None \<Rightarrow> (Inr AtWaitForData, s) | Some v \<Rightarrow> k v s)"

definition writing ::
  "('p, 'b) writer \<Rightarrow> ('p, 'b, 'h) handler \<Rightarrow> ('p, 'b, 'h) handler" where
  "writing wr k s = and_then (proto_write wr s) (\<lambda>_ s. k s)"

definition goto_state :: "ThriftState \<Rightarrow> ('p, 'b, 'h) handler" where
  "goto_state state s = (Inr state, s)"

definition push_frame ::
  "thrift_frame \<Rightarrow> ('p, 'b, 'h) run_state \<Rightarrow> ('p, 'b, 'h) run_state" where
  "push_frame f s = (fst s, (snd s)\<lparr>tm_stack := tm_stack (snd s) @ [f]\<rparr>)"

definition popReturnState :: "('p, 'b, 'h) handler" where
  "popReturnState s =
     (if tm_stack (snd s) = [] then (Inl (Panic ''ASSERT(!stack_.empty())''), s)
      else (Inr (fr_return_state (last (tm_stack (snd s)))),
            (fst s, (snd s)\<lparr>tm_stack := butlast (tm_stack (snd s))\<rparr>)))"

text \<open>\<open>stack_[index].remaining_--\<close>, an unsigned decrement.\<close>

definition decrement_remaining ::
  "nat \<Rightarrow> ('p, 'b, 'h) run_state \<Rightarrow> ('p, 'b, 'h) run_state" where
  "decrement_remaining index s =
     (let st = tm_stack (snd s); f = st ! index
      in (fst s, (snd s)\<lparr>tm_stack := st[index := f\<lparr>fr_remaining := fr_remaining f - 1\<rparr>]\<rparr>))"

subsection \<open>Values\<close>

text \<open>\<open>static_cast<int8_t>\<close>.\<close>

definition int8_cast :: "int \<Rightarrow> int" where
  "int8_cast i = sint (word_of_int i :: u8)"

definition primitive ::
  "('v, 'p, 'b) reader \<Rightarrow> ('v \<Rightarrow> ('p, 'b) writer) \<Rightarrow> ThriftState \<Rightarrow> ('p, 'b, 'h) handler" where
  "primitive rd wr return_state = reading rd (\<lambda>v. writing (wr v) (goto_state return_state))"

definition handleValue ::
  "('p, 'b, 'h) thrift_protocol \<Rightarrow> FieldType \<Rightarrow> ThriftState \<Rightarrow> ('p, 'b, 'h) handler" where
  "handleValue P elem_type return_state s =
     (case elem_type of
        TBool \<Rightarrow> primitive (pr_readBool P) (pr_writeBool P) return_state s
      | TByte \<Rightarrow> primitive (pr_readByte P) (pr_writeByte P) return_state s
      | TI16 \<Rightarrow> primitive (pr_readInt16 P) (pr_writeInt16 P) return_state s
      | TI32 \<Rightarrow> primitive (pr_readInt32 P) (pr_writeInt32 P) return_state s
      | TI64 \<Rightarrow> primitive (pr_readInt64 P) (pr_writeInt64 P) return_state s
      | TDouble \<Rightarrow> primitive (pr_readDouble P) (pr_writeDouble P) return_state s
      | TString \<Rightarrow> primitive (pr_readString P) (pr_writeString P) return_state s
      | TStruct \<Rightarrow> (Inr AtStructBegin, push_frame (Frame_return return_state) s)
      | TMap \<Rightarrow> (Inr AtMapBegin, push_frame (Frame_return return_state) s)
      | TList \<Rightarrow> (Inr AtListBegin, push_frame (Frame_return return_state) s)
      | TSet \<Rightarrow> (Inr AtSetBegin, push_frame (Frame_return return_state) s)
      | _ \<Rightarrow> (Inl (EnvoyException
                (''unknown field type '' @ dec_int (int8_cast (field_type_code elem_type)))), s))"

subsection \<open>Handlers\<close>

definition passthroughData :: "'b buffer_ops \<Rightarrow> ('p, 'b, 'h) handler" where
  "passthroughData B s =
     (let (buffer, sm) = s; n = unat (tm_body_bytes sm)
      in if n > buf_length B buffer then (Inr AtWaitForData, s)
         else (let (origin, buffer) = buf_move B (tm_origin_message sm) buffer n
               in (Inr AtMessageEnd, (buffer, sm\<lparr>tm_origin_message := origin\<rparr>))))"

definition messageBegin ::
  "'b buffer_ops \<Rightarrow> ('p, 'b, 'h) thrift_protocol \<Rightarrow> ('p, 'b, 'h) handler" where
  "messageBegin B P s =
     (let (buffer, sm) = s;
          len = buf_length B buffer;
          (r, ((p, buffer), md)) = pr_readMessageBegin P (tm_proto sm, buffer) (tm_metadata sm);
          sm = sm\<lparr>tm_proto := p, tm_metadata := md\<rparr>
      in case r of
           Inl e \<Rightarrow> (Inl e, (buffer, sm))
         | Inr False \<Rightarrow> (Inr AtWaitForData, (buffer, sm))
         | Inr True \<Rightarrow>
             (let sm = sm\<lparr>tm_stack := [Frame_return AtMessageEnd]\<rparr>
              in if tm_passthrough_enabled sm then
                   (case optional_value (mm_frame_size md) of
                      Inl e \<Rightarrow> (Inl e, (buffer, sm))
                    | Inr frame_size \<Rightarrow>
                        (Inr AtPassthroughData,
                         (buffer, sm\<lparr>tm_body_bytes :=
                            frame_size - (of_nat len - of_nat (buf_length B buffer))\<rparr>)))
                 else writing (pr_writeMessageBegin P md) (goto_state AtStructBegin) (buffer, sm)))"

definition messageEnd :: "('p, 'b, 'h) thrift_protocol \<Rightarrow> ('p, 'b, 'h) handler" where
  "messageEnd P =
     reading (pr_readMessageEnd P) (\<lambda>_. writing (pr_writeMessageEnd P) (goto_state AtDone))"

definition structBegin :: "('p, 'b, 'h) thrift_protocol \<Rightarrow> ('p, 'b, 'h) handler" where
  "structBegin P =
     reading (pr_readStructBegin P)
       (\<lambda>name. writing (pr_writeStructBegin P name) (goto_state AtFieldBegin))"

definition structEnd :: "('p, 'b, 'h) thrift_protocol \<Rightarrow> ('p, 'b, 'h) handler" where
  "structEnd P =
     reading (pr_readStructEnd P)
       (\<lambda>_. writing (pr_writeFieldBegin P [] TStop 0) (writing (pr_writeStructEnd P) popReturnState))"

definition fieldBegin :: "('p, 'b, 'h) thrift_protocol \<Rightarrow> ('p, 'b, 'h) handler" where
  "fieldBegin P =
     reading (pr_readFieldBegin P)
       (\<lambda>(name, field_type, field_id) s.
          if field_type = TStop then (Inr AtStructEnd, s)
          else writing (pr_writeFieldBegin P name field_type field_id) (goto_state AtFieldValue)
                 (push_frame (Frame_field AtFieldEnd field_type) s))"

definition fieldValue :: "('p, 'b, 'h) thrift_protocol \<Rightarrow> ('p, 'b, 'h) handler" where
  "fieldValue P s =
     (if tm_stack (snd s) = [] then (Inl (Panic ''ASSERT(!stack_.empty())''), s)
      else (let frame = last (tm_stack (snd s))
            in handleValue P (fr_elem_type frame) (fr_return_state frame) s))"

definition fieldEnd :: "('p, 'b, 'h) thrift_protocol \<Rightarrow> ('p, 'b, 'h) handler" where
  "fieldEnd P =
     reading (pr_readFieldEnd P)
       (\<lambda>_ s. and_then (popReturnState s)
          (\<lambda>_. writing (pr_writeFieldEnd P) (goto_state AtFieldBegin)))"

definition listBegin :: "('p, 'b, 'h) thrift_protocol \<Rightarrow> ('p, 'b, 'h) handler" where
  "listBegin P =
     reading (pr_readListBegin P)
       (\<lambda>(elem_type, size) s.
          writing (pr_writeListBegin P elem_type size) (goto_state AtListValue)
            (push_frame (Frame_elems AtListEnd elem_type size) s))"

text \<open>
  \<open>handleValue\<close> followed by the decrement of the frame that was at the back: a nested value has
  pushed its own frame on top of it.
\<close>

definition handle_element ::
  "('p, 'b, 'h) thrift_protocol \<Rightarrow> FieldType \<Rightarrow> ThriftState \<Rightarrow> ('p, 'b, 'h) handler" where
  "handle_element P elem_type return_state s =
     (let index = length (tm_stack (snd s)) - 1
      in and_then (handleValue P elem_type return_state s)
           (\<lambda>nextState s.
              if nextState \<noteq> AtWaitForData then (Inr nextState, decrement_remaining index s)
              else (Inr nextState, s)))"

definition listValue :: "('p, 'b, 'h) thrift_protocol \<Rightarrow> ('p, 'b, 'h) handler" where
  "listValue P s =
     (if tm_stack (snd s) = [] then (Inl (Panic ''ASSERT(!stack_.empty())''), s)
      else (let frame = last (tm_stack (snd s))
            in if fr_remaining frame = 0 then popReturnState s
               else handle_element P (fr_elem_type frame) AtListValue s))"

definition listEnd :: "('p, 'b, 'h) thrift_protocol \<Rightarrow> ('p, 'b, 'h) handler" where
  "listEnd P =
     reading (pr_readListEnd P) (\<lambda>_. writing (pr_writeListEnd P) popReturnState)"

definition mapBegin :: "('p, 'b, 'h) thrift_protocol \<Rightarrow> ('p, 'b, 'h) handler" where
  "mapBegin P =
     reading (pr_readMapBegin P)
       (\<lambda>(key_type, value_type, size) s.
          writing (pr_writeMapBegin P key_type value_type size) (goto_state AtMapKey)
            (push_frame (Frame_map AtMapEnd key_type value_type size) s))"

definition mapKey :: "('p, 'b, 'h) thrift_protocol \<Rightarrow> ('p, 'b, 'h) handler" where
  "mapKey P s =
     (if tm_stack (snd s) = [] then (Inl (Panic ''ASSERT(!stack_.empty())''), s)
      else (let frame = last (tm_stack (snd s))
            in if fr_remaining frame = 0 then popReturnState s
               else handleValue P (fr_elem_type frame) AtMapValue s))"

definition mapValue :: "('p, 'b, 'h) thrift_protocol \<Rightarrow> ('p, 'b, 'h) handler" where
  "mapValue P s =
     (if tm_stack (snd s) = [] then (Inl (Panic ''ASSERT(!stack_.empty())''), s)
      else (let frame = last (tm_stack (snd s))
            in if fr_remaining frame = 0 then (Inl (Panic ''ASSERT(remaining_ != 0)''), s)
               else handle_element P (fr_value_type frame) AtMapKey s))"

definition mapEnd :: "('p, 'b, 'h) thrift_protocol \<Rightarrow> ('p, 'b, 'h) handler" where
  "mapEnd P =
     reading (pr_readMapEnd P) (\<lambda>_. writing (pr_writeMapEnd P) popReturnState)"

definition setBegin :: "('p, 'b, 'h) thrift_protocol \<Rightarrow> ('p, 'b, 'h) handler" where
  "setBegin P =
     reading (pr_readSetBegin P)
       (\<lambda>(elem_type, size) s.
          writing (pr_writeSetBegin P elem_type size) (goto_state AtSetValue)
            (push_frame (Frame_elems AtSetEnd elem_type size) s))"

definition setValue :: "('p, 'b, 'h) thrift_protocol \<Rightarrow> ('p, 'b, 'h) handler" where
  "setValue P s =
     (if tm_stack (snd s) = [] then (Inl (Panic ''ASSERT(!stack_.empty())''), s)
      else (let frame = last (tm_stack (snd s))
            in if fr_remaining frame = 0 then popReturnState s
               else handle_element P (fr_elem_type frame) AtSetValue s))"

definition setEnd :: "('p, 'b, 'h) thrift_protocol \<Rightarrow> ('p, 'b, 'h) handler" where
  "setEnd P =
     reading (pr_readSetEnd P) (\<lambda>_. writing (pr_writeSetEnd P) popReturnState)"

subsection \<open>The loop\<close>

definition thrift_handleState ::
  "'b buffer_ops \<Rightarrow> ('p, 'b, 'h) thrift_protocol \<Rightarrow> ('p, 'b, 'h) handler" where
  "thrift_handleState B P s =
     (case tm_state (snd s) of
        AtPassthroughData \<Rightarrow> passthroughData B s
      | AtMessageBegin \<Rightarrow> messageBegin B P s
      | AtStructBegin \<Rightarrow> structBegin P s
      | AtStructEnd \<Rightarrow> structEnd P s
      | AtFieldBegin \<Rightarrow> fieldBegin P s
      | AtFieldValue \<Rightarrow> fieldValue P s
      | AtFieldEnd \<Rightarrow> fieldEnd P s
      | AtListBegin \<Rightarrow> listBegin P s
      | AtListValue \<Rightarrow> listValue P s
      | AtListEnd \<Rightarrow> listEnd P s
      | AtMapBegin \<Rightarrow> mapBegin P s
      | AtMapKey \<Rightarrow> mapKey P s
      | AtMapValue \<Rightarrow> mapValue P s
      | AtMapEnd \<Rightarrow> mapEnd P s
      | AtSetBegin \<Rightarrow> setBegin P s
      | AtSetValue \<Rightarrow> setValue P s
      | AtSetEnd \<Rightarrow> setEnd P s
      | AtMessageEnd \<Rightarrow> messageEnd P s
      | _ \<Rightarrow> (Inl (Panic ''NOT_REACHED''), s))"

definition set_machine_state ::
  "ThriftState \<Rightarrow> ('p, 'b, 'h) run_state \<Rightarrow> ('p, 'b, 'h) run_state" where
  "set_machine_state state s = (fst s, (snd s)\<lparr>tm_state := state\<rparr>)"

text \<open>
  The loop of \<open>run\<close>. Whether it ends depends on the protocol: \<open>None\<close> is a run that does not
  return.
\<close>

partial_function (option) thrift_run ::
  "'b buffer_ops \<Rightarrow> ('p, 'b, 'h) thrift_protocol \<Rightarrow> ('p, 'b, 'h) run_state \<Rightarrow>
   (ThriftState, ('p, 'b, 'h) run_state) outcome option" where
  "thrift_run B P s =
     (if tm_state (snd s) = AtDone then Some (Inr AtDone, s)
      else
        (case thrift_handleState B P s of
           (Inl e, s') \<Rightarrow> Some (Inl e, s')
         | (Inr nextState, s') \<Rightarrow>
             if nextState = AtWaitForData then Some (Inr AtWaitForData, s')
             else thrift_run B P (set_machine_state nextState s')))"

lemma thrift_run_done: "tm_state sm = AtDone \<Longrightarrow> thrift_run B P (b, sm) = Some (Inr AtDone, (b, sm))"
  by (subst thrift_run.simps) simp

lemma thrift_run_step:
  assumes "tm_state (snd s) \<noteq> AtDone"
  shows "thrift_run B P s =
    (case thrift_handleState B P s of
       (Inl e, s') \<Rightarrow> Some (Inl e, s')
     | (Inr nextState, s') \<Rightarrow>
         if nextState = AtWaitForData then Some (Inr AtWaitForData, s')
         else thrift_run B P (set_machine_state nextState s'))"
  using assms by (subst thrift_run.simps) simp

end
