(* ===== verification/Thrift_Codec.thy ===== *)
theory Thrift_Codec
  imports Thrift_Decoder
begin

text \<open>
  The Thrift codec, \<open>ThriftCodec\<close> of src/src/application_protocols/thrift/thrift_codec.cc and
  thrift_codec.h: \<open>decode\<close>, \<open>encode\<close>, \<open>onError\<close> and the translation between Thrift's metadata
  and the proxy's. The codec owns a transport, a protocol, the metadata of the message it is
  reading (None for the null pointer) and the state machine.
\<close>

record ('t, 'p, 'b, 'h) thrift_codec =
  tc_transport :: 't
  tc_protocol :: 'p
  tc_metadata :: "'h thrift_metadata option"
  tc_state_machine :: "('p, 'b, 'h) thrift_machine option"
  tc_frame_started :: bool
  tc_frame_ended :: bool

text \<open>
  A new codec over the transport and the protocol the factories made: the members and their initial
  values. The lookup of the factories for \<open>Auto\<close> is \<open>ThriftCodec_new\<close> of \<open>Proxy_Factories\<close>.
\<close>

definition ThriftCodec_init :: "'t \<Rightarrow> 'p \<Rightarrow> ('t, 'p, 'b, 'h) thrift_codec" where
  "ThriftCodec_init transport protocol =
     \<lparr>tc_transport = transport, tc_protocol = protocol, tc_metadata = None,
      tc_state_machine = None, tc_frame_started = False, tc_frame_ended = False\<rparr>"

definition ThriftCodec_complete :: "('t, 'p, 'b, 'h) thrift_codec \<Rightarrow> ('t, 'p, 'b, 'h) thrift_codec" where
  "ThriftCodec_complete c =
     c\<lparr>tc_state_machine := None, tc_frame_started := False, tc_frame_ended := False\<rparr>"

subsection \<open>Metadata translation\<close>

text \<open>\<open>setRequestId\<close> takes a \<open>uint64_t\<close>: the signed sequence id is sign-extended.\<close>

definition thrift_toMetadata ::
  "'h header_ops \<Rightarrow> ('t, 'b, 'h) thrift_transport \<Rightarrow> 'h thrift_metadata \<Rightarrow>
   't \<times> ('x, 'b, 'h) metadata \<times> 'b \<Rightarrow> (unit, 't \<times> ('x, 'b, 'h) metadata \<times> 'b) outcome" where
  "thrift_toMetadata H T msgMetadata s =
     (let (transport, metadata, message) = s;
          m1 = (case mm_method_name msgMetadata of
                  Some name \<Rightarrow> Metadata_putString H metadata ''method'' name
                | None \<Rightarrow> metadata);
          m2 = (case mm_seq_id msgMetadata of
                  Some i \<Rightarrow> m1\<lparr>md_request_id := scast i\<rparr>
                | None \<Rightarrow> m1)
      in case mm_msg_type msgMetadata of
           None \<Rightarrow> (Inl (Panic ''ASSERT(msgMetadata.hasMessageType())''), (transport, m2, message))
         | Some t \<Rightarrow>
             (let frame = (\<lambda>m.
                 (let (r, (transport, origin, message)) =
                    tr_encodeFrame T transport (md_origin_message m) msgMetadata message
                  in (r, (transport, m\<lparr>md_origin_message := origin\<rparr>, message))))
              in case t of
                   TCall \<Rightarrow> frame (m2\<lparr>md_message_type := Request\<rparr>)
                 | TReply \<Rightarrow> frame (m2\<lparr>md_message_type := Response\<rparr>)
                 | TOneway \<Rightarrow> frame (m2\<lparr>md_message_type := Oneway\<rparr>)
                 | TException \<Rightarrow> frame (m2\<lparr>md_message_type := MsgError\<rparr>)
                 | TMessageOther _ \<Rightarrow> (Inl (Panic ''NOT_REACHED''), (transport, m2, message))))"

definition thrift_toMsgMetadata ::
  "('x, 'b, 'h) metadata \<Rightarrow> 'h thrift_metadata \<Rightarrow> (unit, 'h thrift_metadata) outcome" where
  "thrift_toMsgMetadata metadata msgMetadata =
     (case Metadata_getString metadata ''method'' of
        Inl e \<Rightarrow> (Inl e, msgMetadata)
      | Inr name \<Rightarrow>
          if name \<noteq> [] then (Inr (), msgMetadata\<lparr>mm_method_name := Some name\<rparr>)
          else (Inr (), msgMetadata))"

subsection \<open>Decoding\<close>

text \<open>
  The start of a frame, up to the new state machine: false where the transport needs more data.
\<close>

definition check_protocol ::
  "('p, 'b, 'h) thrift_protocol \<Rightarrow> 'h thrift_metadata \<Rightarrow> 'p \<Rightarrow> (unit, 'p) outcome" where
  "check_protocol P metadata p =
     (case mm_proto metadata of
        None \<Rightarrow> (Inr (), p)
      | Some proto \<Rightarrow>
          if pr_type P p = ProtocolAuto then pr_setType P proto p
          else if proto \<noteq> pr_type P p then
            (Inl (EnvoyException (''transport reports protocol '' @ ThriftProtocolNames_fromType proto @
               '', but configured for '' @ ThriftProtocolNames_fromType (pr_type P p))), p)
          else (Inr (), p))"

definition ThriftCodec_frameStart ::
  "'b buffer_ops \<Rightarrow> 'h header_ops \<Rightarrow> ('t, 'b, 'h) thrift_transport \<Rightarrow>
   ('p, 'b, 'h) thrift_protocol \<Rightarrow> ('t, 'p, 'b, 'h) thrift_codec \<times> 'b \<Rightarrow>
   (bool, ('t, 'p, 'b, 'h) thrift_codec \<times> 'b) outcome" where
  "ThriftCodec_frameStart B H T P s =
     (let (c, buffer) = s;
          metadata = (case tc_metadata c of Some m \<Rightarrow> m | None \<Rightarrow> Thrift_MessageMetadata H);
          (r, (transport, buffer, metadata)) =
            tr_decodeFrameStart T (tc_transport c) buffer metadata;
          c = c\<lparr>tc_transport := transport, tc_metadata := Some metadata\<rparr>
      in case r of
           Inl e \<Rightarrow> (Inl e, (c, buffer))
         | Inr False \<Rightarrow> (Inr False, (c, buffer))
         | Inr True \<Rightarrow>
             (let (r, p) = check_protocol P metadata (tc_protocol c);
                  c = c\<lparr>tc_protocol := p\<rparr>
              in case r of
                   Inl e \<Rightarrow> (Inl e, (c, buffer))
                 | Inr _ \<Rightarrow>
                     (case mm_app_ex_type metadata of
                        Some ex_type \<Rightarrow>
                          (case optional_value (mm_app_ex_msg metadata) of
                             Inl e \<Rightarrow> (Inl e, (c, buffer))
                           | Inr ex_msg \<Rightarrow>
                               (Inl (EnvoyException (''thrift AppException: type: '' @
                                  dec_int (app_exception_code ex_type) @ '', message: '' @ ex_msg)),
                                (c\<lparr>tc_metadata := None\<rparr>, buffer)))
                      | None \<Rightarrow>
                          (Inr True,
                           (c\<lparr>tc_frame_started := True,
                             tc_state_machine :=
                               Some (Thrift_DecoderStateMachine B (tc_protocol c) metadata)\<rparr>,
                            buffer)))))"

text \<open>The end of a frame, once the machine is done.\<close>

definition ThriftCodec_frameEnd ::
  "'h header_ops \<Rightarrow> ('t, 'b, 'h) thrift_transport \<Rightarrow> ('p, 'b, 'h) thrift_machine \<Rightarrow>
   ('t, 'p, 'b, 'h) thrift_codec \<times> 'b \<times> ('x, 'b, 'h) metadata \<Rightarrow>
   (DecodeStatus, ('t, 'p, 'b, 'h) thrift_codec \<times> 'b \<times> ('x, 'b, 'h) metadata) outcome" where
  "ThriftCodec_frameEnd H T sm s =
     (let (c, buffer, metadata) = s;
          (r, (transport, buffer)) = tr_decodeFrameEnd T (tc_transport c) buffer;
          c = c\<lparr>tc_transport := transport\<rparr>
      in case r of
           Inl e \<Rightarrow> (Inl e, (c, buffer, metadata))
         | Inr False \<Rightarrow> (Inr DecodeWaitForData, (c, buffer, metadata))
         | Inr True \<Rightarrow>
             (let (r, (transport, metadata, message)) =
                    thrift_toMetadata H T (tm_metadata sm)
                      (tc_transport c, metadata, tm_origin_message sm);
                  c = c\<lparr>tc_transport := transport,
                        tc_state_machine := Some (sm\<lparr>tm_origin_message := message\<rparr>)\<rparr>
              in case r of
                   Inl e \<Rightarrow> (Inl e, (c, buffer, metadata))
                 | Inr _ \<Rightarrow>
                     (Inr DecodeDone,
                      (ThriftCodec_complete (c\<lparr>tc_frame_ended := True, tc_metadata := None\<rparr>),
                       buffer, metadata))))"

definition ThriftCodec_decode ::
  "'b buffer_ops \<Rightarrow> 'h header_ops \<Rightarrow> ('t, 'b, 'h) thrift_transport \<Rightarrow>
   ('p, 'b, 'h) thrift_protocol \<Rightarrow> ('t, 'p, 'b, 'h) thrift_codec \<Rightarrow> 'b \<Rightarrow>
   ('x, 'b, 'h) metadata \<Rightarrow>
   (DecodeStatus, ('t, 'p, 'b, 'h) thrift_codec \<times> 'b \<times> ('x, 'b, 'h) metadata) outcome option" where
  "ThriftCodec_decode B H T P c buffer metadata =
     (if tc_frame_ended c then
        Some (Inr DecodeDone, (ThriftCodec_complete c, buffer, metadata))
      else
        (let (r, (c, buffer)) =
           (if \<not> tc_frame_started c then ThriftCodec_frameStart B H T P (c, buffer)
            else (Inr True, (c, buffer)))
         in case r of
              Inl e \<Rightarrow> Some (Inl e, (c, buffer, metadata))
            | Inr False \<Rightarrow> Some (Inr DecodeWaitForData, (c, buffer, metadata))
            | Inr True \<Rightarrow>
                (case (tc_state_machine c, tc_metadata c) of
                   (Some sm, Some md) \<Rightarrow>
                     (case thrift_run B P
                             (buffer, sm\<lparr>tm_proto := tc_protocol c, tm_metadata := md\<rparr>) of
                        None \<Rightarrow> None
                      | Some (rv, (buffer, sm)) \<Rightarrow>
                          (let c = c\<lparr>tc_protocol := tm_proto sm,
                                    tc_metadata := Some (tm_metadata sm),
                                    tc_state_machine := Some sm\<rparr>
                           in case rv of
                                Inl e \<Rightarrow> Some (Inl e, (c, buffer, metadata))
                              | Inr state \<Rightarrow>
                                  if state = AtWaitForData then
                                    Some (Inr DecodeWaitForData, (c, buffer, metadata))
                                  else if state \<noteq> AtDone then
                                    Some (Inl (Panic ''ASSERT(rv == ProtocolState::Done)''),
                                          (c, buffer, metadata))
                                  else Some (ThriftCodec_frameEnd H T sm (c, buffer, metadata))))
                 | _ \<Rightarrow> Some (Inl (Panic ''null state_machine_''), (c, buffer, metadata)))))"

subsection \<open>Encoding\<close>

definition ThriftCodec_encode ::
  "'b buffer_ops \<Rightarrow> ('t, 'p, 'b, 'h) thrift_codec \<Rightarrow> ('x, 'b, 'h) metadata \<Rightarrow> 'x mutation \<Rightarrow>
   'b \<Rightarrow> (unit, ('t, 'p, 'b, 'h) thrift_codec \<times> 'b) outcome" where
  "ThriftCodec_encode B c metadata mutation buffer =
     (if buf_length B buffer \<noteq> 0 then (Inl (Panic ''ASSERT(buffer.length() == 0)''), (c, buffer))
      else
        (case md_message_type metadata of
           Heartbeat \<Rightarrow> (Inr (), (c, buffer))
         | Request \<Rightarrow> (Inr (), (c, buffer))
         | MsgError \<Rightarrow> (Inr (), (c, buffer))
         | _ \<Rightarrow> (Inl (Panic ''NOT_REACHED''), (c, buffer))))"

definition thrift_exception :: "('p, 'b, 'h) thrift_protocol \<Rightarrow> 'h thrift_metadata \<Rightarrow> string \<Rightarrow>
    ('p, 'b) writer" where
  "thrift_exception P msgMetadata message =
     write_all
       [pr_writeMessageBegin P msgMetadata,
        pr_writeStructBegin P ''TApplicationException'',
        pr_writeFieldBegin P ''message'' TString 1,
        pr_writeString P message,
        pr_writeFieldEnd P,
        pr_writeFieldBegin P ''type'' TI32 2,
        pr_writeInt32 P (word_of_int (app_exception_code InternalError)),
        pr_writeFieldEnd P,
        pr_writeFieldBegin P [] TStop 0,
        pr_writeStructEnd P,
        pr_writeMessageEnd P]"

definition ThriftCodec_onError ::
  "'b buffer_ops \<Rightarrow> 'h header_ops \<Rightarrow> ('p, 'b, 'h) thrift_protocol \<Rightarrow>
   ('t, 'p, 'b, 'h) thrift_codec \<Rightarrow> ('x, 'b, 'h) metadata \<Rightarrow> error \<Rightarrow> 'b \<Rightarrow>
   (unit, ('t, 'p, 'b, 'h) thrift_codec \<times> 'b) outcome" where
  "ThriftCodec_onError B H P c metadata err buffer =
     (if buf_length B buffer \<noteq> 0 then (Inl (Panic ''ASSERT(buffer.length() == 0)''), (c, buffer))
      else
        (let (r, m0) = thrift_toMsgMetadata metadata (Thrift_MessageMetadata H)
         in case r of
              Inl e \<Rightarrow> (Inl e, (c, buffer))
            | Inr _ \<Rightarrow>
                (let m1 = (if mm_method_name m0 = None then m0\<lparr>mm_method_name := Some []\<rparr> else m0);
                     m2 = (if mm_seq_id m1 = None then m1\<lparr>mm_seq_id := Some 0\<rparr> else m1);
                     m3 = m2\<lparr>mm_msg_type := Some TException\<rparr>;
                     (r, (p, buffer)) =
                       thrift_exception P m3 (err_message err) (tc_protocol c, buffer)
                 in (r, (c\<lparr>tc_protocol := p\<rparr>, buffer)))))"

end
