(* ===== verification/Thrift_Machine.thy ===== *)
theory Thrift_Machine
  imports Thrift_Codec
begin

text \<open>
  The Thrift state machine is safe and its loop ends. The locale \<open>thrift_reading\<close> says what it
  relies on in a protocol: a read that succeeds removes a prefix of the buffer, one that needs more
  data leaves the buffer alone, a container or field header takes at least one byte, and what is
  thrown is an \<open>EnvoyException\<close>. The stack discipline \<open>shape\<close> is the machine's type invariant:
  the frames below a value are those of the containers it is nested in, so no \<open>ASSERT\<close> fails.
\<close>

subsection \<open>What a read and a write promise\<close>

definition reads_well ::
  "('b \<Rightarrow> u8 list) \<Rightarrow> ('p \<Rightarrow> bool) \<Rightarrow> nat \<Rightarrow> ('v, 'p, 'b) reader \<Rightarrow> bool" where
  "reads_well content ok k rd \<longleftrightarrow>
     (\<forall>p b. ok p \<longrightarrow>
       (case rd (p, b) of
          (Inl e, _) \<Rightarrow> is_envoy_exception e
        | (Inr None, (p', b')) \<Rightarrow> ok p' \<and> content b' = content b
        | (Inr (Some v), (p', b')) \<Rightarrow>
            ok p' \<and> (\<exists>pre. content b = pre @ content b' \<and> k \<le> length pre)))"

definition writes_well ::
  "('b \<Rightarrow> u8 list) \<Rightarrow> ('p \<Rightarrow> bool) \<Rightarrow> ('p, 'b) writer \<Rightarrow> bool" where
  "writes_well content ok wr \<longleftrightarrow>
     (\<forall>p b. ok p \<longrightarrow>
       (case wr (p, b) of
          (Inl e, _) \<Rightarrow> is_envoy_exception e
        | (Inr _, (p', b')) \<Rightarrow> ok p' \<and> (\<exists>out. content b' = content b @ out)))"

definition valid_message_type :: "'h thrift_metadata \<Rightarrow> bool" where
  "valid_message_type m \<longleftrightarrow> mm_msg_type m \<in> {Some TCall, Some TReply, Some TException, Some TOneway}"

definition begins_well ::
  "('b \<Rightarrow> u8 list) \<Rightarrow> ('p \<Rightarrow> bool) \<Rightarrow> ('p, 'b, 'h) thrift_protocol \<Rightarrow> bool" where
  "begins_well content ok P \<longleftrightarrow>
     (\<forall>p b m. ok p \<longrightarrow>
       (case pr_readMessageBegin P (p, b) m of
          (Inl e, _) \<Rightarrow> is_envoy_exception e
        | (Inr False, ((p', b'), m')) \<Rightarrow> ok p' \<and> content b' = content b
        | (Inr True, ((p', b'), m')) \<Rightarrow>
            ok p' \<and> (\<exists>pre. content b = pre @ content b' \<and> pre \<noteq> []) \<and> valid_message_type m'))"

locale thrift_reading = envoy_buffer B content
  for B :: "'b buffer_ops" and content :: "'b \<Rightarrow> u8 list" +
  fixes P :: "('p, 'b, 'h) thrift_protocol" and ok :: "'p \<Rightarrow> bool"
  assumes read_message: "begins_well content ok P"
    and read_headers:
      "reads_well content ok 1 (pr_readFieldBegin P)" "reads_well content ok 1 (pr_readMapBegin P)"
      "reads_well content ok 1 (pr_readListBegin P)" "reads_well content ok 1 (pr_readSetBegin P)"
    and read_marks:
      "reads_well content ok 0 (pr_readStructBegin P)" "reads_well content ok 0 (pr_readStructEnd P)"
      "reads_well content ok 0 (pr_readMessageEnd P)" "reads_well content ok 0 (pr_readFieldEnd P)"
      "reads_well content ok 0 (pr_readMapEnd P)" "reads_well content ok 0 (pr_readListEnd P)"
      "reads_well content ok 0 (pr_readSetEnd P)"
    and no_footer:
      "pr_readStructEnd P x \<noteq> (Inr None, y)" "pr_readMessageEnd P x \<noteq> (Inr None, y)"
    and read_values:
      "reads_well content ok 0 (pr_readBool P)" "reads_well content ok 0 (pr_readByte P)"
      "reads_well content ok 0 (pr_readInt16 P)" "reads_well content ok 0 (pr_readInt32 P)"
      "reads_well content ok 0 (pr_readInt64 P)" "reads_well content ok 0 (pr_readDouble P)"
      "reads_well content ok 0 (pr_readString P)"
    and write_begins:
      "writes_well content ok (pr_writeMessageBegin P m)"
      "writes_well content ok (pr_writeStructBegin P name)"
      "writes_well content ok (pr_writeFieldBegin P name t i)"
      "writes_well content ok (pr_writeMapBegin P t t' n)"
      "writes_well content ok (pr_writeListBegin P t n)"
      "writes_well content ok (pr_writeSetBegin P t n)"
    and write_ends:
      "writes_well content ok (pr_writeMessageEnd P)" "writes_well content ok (pr_writeStructEnd P)"
      "writes_well content ok (pr_writeFieldEnd P)" "writes_well content ok (pr_writeMapEnd P)"
      "writes_well content ok (pr_writeListEnd P)" "writes_well content ok (pr_writeSetEnd P)"
    and write_values:
      "writes_well content ok (pr_writeBool P v1)" "writes_well content ok (pr_writeByte P v2)"
      "writes_well content ok (pr_writeInt16 P v3)" "writes_well content ok (pr_writeInt32 P v4)"
      "writes_well content ok (pr_writeInt64 P v5)" "writes_well content ok (pr_writeDouble P v6)"
      "writes_well content ok (pr_writeString P v7)"

subsection \<open>The stack discipline\<close>

text \<open>
  \<open>returns n st\<close>: the machine may come back to state \<open>n\<close> with the frames \<open>st\<close>, top first. Below
  the frame of the field or container lies the frame that says where its own parent goes on; only
  the outermost struct goes on at the end of the message.
\<close>

inductive returns :: "ThriftState \<Rightarrow> thrift_frame list \<Rightarrow> bool" where
  message: "returns AtMessageEnd []"
| field: "fr_return_state f = AtFieldEnd \<Longrightarrow> returns (fr_return_state g) st \<Longrightarrow>
    returns AtFieldEnd (f # g # st)"
| list: "fr_return_state f = AtListEnd \<Longrightarrow> returns (fr_return_state g) st \<Longrightarrow>
    fr_return_state g \<noteq> AtMessageEnd \<Longrightarrow> returns AtListValue (f # g # st)"
| set: "fr_return_state f = AtSetEnd \<Longrightarrow> returns (fr_return_state g) st \<Longrightarrow>
    fr_return_state g \<noteq> AtMessageEnd \<Longrightarrow> returns AtSetValue (f # g # st)"
| key: "fr_return_state f = AtMapEnd \<Longrightarrow> returns (fr_return_state g) st \<Longrightarrow>
    fr_return_state g \<noteq> AtMessageEnd \<Longrightarrow> returns AtMapKey (f # g # st)"
| val: "fr_return_state f = AtMapEnd \<Longrightarrow> fr_remaining f \<noteq> 0 \<Longrightarrow> returns (fr_return_state g) st \<Longrightarrow>
    fr_return_state g \<noteq> AtMessageEnd \<Longrightarrow> returns AtMapValue (f # g # st)"

inductive_simps returns_simps:
  "returns AtMessageEnd st" "returns AtFieldEnd st" "returns AtListValue st"
  "returns AtSetValue st" "returns AtMapKey st" "returns AtMapValue st"

definition nested :: "thrift_frame list \<Rightarrow> bool" where
  "nested st \<longleftrightarrow> (\<exists>g st'. st = g # st' \<and> returns (fr_return_state g) st')"

definition nested_value :: "thrift_frame list \<Rightarrow> bool" where
  "nested_value st \<longleftrightarrow> nested st \<and> fr_return_state (hd st) \<noteq> AtMessageEnd"

fun shape :: "ThriftState \<Rightarrow> thrift_frame list \<Rightarrow> bool" where
  "shape AtMessageBegin st = True"
| "shape AtDone st = True"
| "shape AtStructBegin st = nested st"
| "shape AtStructEnd st = nested st"
| "shape AtFieldBegin st = nested st"
| "shape AtListBegin st = nested_value st"
| "shape AtListEnd st = nested_value st"
| "shape AtMapBegin st = nested_value st"
| "shape AtMapEnd st = nested_value st"
| "shape AtSetBegin st = nested_value st"
| "shape AtSetEnd st = nested_value st"
| "shape AtFieldValue st = returns AtFieldEnd st"
| "shape AtFieldEnd st = returns AtFieldEnd st"
| "shape AtListValue st = returns AtListValue st"
| "shape AtSetValue st = returns AtSetValue st"
| "shape AtMapKey st = returns AtMapKey st"
| "shape AtMapValue st = returns AtMapValue st"
| "shape AtMessageEnd st = returns AtMessageEnd st"
| "shape _ st = False"

lemma returns_shape: "returns n st \<Longrightarrow> shape n st"
  by (cases rule: returns.cases) (auto intro: returns.intros)

lemma nested_Cons [simp]:
  "nested (g # st) \<longleftrightarrow> returns (fr_return_state g) st"
  "nested_value (g # st) \<longleftrightarrow> returns (fr_return_state g) st \<and> fr_return_state g \<noteq> AtMessageEnd"
  by (simp_all add: nested_def nested_value_def)

subsection \<open>The measure\<close>

text \<open>
  Where a step takes no byte off the buffer, the weight of the stack and the state goes down: a
  frame weighs 10 and every element it still expects 20; entering a container is paid for by the
  element, leaving it by the frame.
\<close>

fun state_weight :: "ThriftState \<Rightarrow> nat" where
  "state_weight AtMessageBegin = 20"
| "state_weight AtMessageEnd = 1"
| "state_weight AtStructBegin = 2"
| "state_weight AtFieldBegin = 1"
| "state_weight AtListBegin = 2"
| "state_weight AtMapBegin = 2"
| "state_weight AtSetBegin = 2"
| "state_weight AtFieldValue = 15"
| "state_weight AtFieldEnd = 2"
| "state_weight AtMapKey = 14"
| "state_weight AtDone = 0"
| "state_weight _ = 5"

definition frames_weight :: "thrift_frame list \<Rightarrow> nat" where
  "frames_weight st = (\<Sum>f\<leftarrow>st. 10 + 20 * unat (fr_remaining f))"

lemma frames_weight_simps [simp]:
  "frames_weight [] = 0"
  "frames_weight (f # st) = 10 + 20 * unat (fr_remaining f) + frames_weight st"
  "frames_weight (st @ st') = frames_weight st + frames_weight st'"
  by (simp_all add: frames_weight_def)

lemma returns_weight: "returns n st \<Longrightarrow> state_weight n \<le> 14"
  by (cases rule: returns.cases) auto

lemma unat_decrement: "w \<noteq> 0 \<Longrightarrow> unat w = Suc (unat (w - 1))"
  for w :: "'a::len word"
  using unat_gt_0 [of w] by (simp add: unat_minus_one)

subsection \<open>The invariant of a run\<close>

definition run_ok :: "('p \<Rightarrow> bool) \<Rightarrow> ('p, 'b, 'h) thrift_machine \<Rightarrow> bool" where
  "run_ok ok sm \<longleftrightarrow>
     ok (tm_proto sm) \<and> \<not> tm_passthrough_enabled sm \<and>
     (tm_state sm \<noteq> AtMessageBegin \<longrightarrow> valid_message_type (tm_metadata sm)) \<and>
     shape (tm_state sm) (rev (tm_stack sm))"

definition step_less ::
  "('b \<Rightarrow> u8 list) \<Rightarrow> ('p, 'b, 'h) run_state \<Rightarrow> ThriftState \<Rightarrow> ('p, 'b, 'h) run_state \<Rightarrow> bool" where
  "step_less content s n s' \<longleftrightarrow>
     length (content (fst s')) < length (content (fst s)) \<or>
     length (content (fst s')) = length (content (fst s)) \<and>
       state_weight n + frames_weight (tm_stack (snd s')) <
       state_weight (tm_state (snd s)) + frames_weight (tm_stack (snd s))"

text \<open>
  From the end of the outermost struct on, nothing is read that has to take a byte. The machine
  never waits there, and it gets there over a stop field, which takes one.
\<close>

definition near_end :: "ThriftState \<Rightarrow> bool" where
  "near_end n \<longleftrightarrow> n \<in> {AtStructEnd, AtMessageEnd, AtDone}"

lemma near_end_simps [simp]:
  "near_end AtStructEnd" "near_end AtMessageEnd" "near_end AtDone"
  "\<not> near_end AtMessageBegin" "\<not> near_end AtStructBegin" "\<not> near_end AtFieldBegin"
  "\<not> near_end AtFieldValue" "\<not> near_end AtFieldEnd" "\<not> near_end AtListBegin"
  "\<not> near_end AtListValue" "\<not> near_end AtListEnd" "\<not> near_end AtMapBegin"
  "\<not> near_end AtMapKey" "\<not> near_end AtMapValue" "\<not> near_end AtMapEnd"
  "\<not> near_end AtSetBegin" "\<not> near_end AtSetValue" "\<not> near_end AtSetEnd"
  by (simp_all add: near_end_def)

text \<open>
  What a handler leaves: it waits without having touched the machine or the bytes, or it goes to
  a state that fits the stack and is closer to the end.
\<close>

definition step_ok ::
  "('b \<Rightarrow> u8 list) \<Rightarrow> ('p \<Rightarrow> bool) \<Rightarrow> ('p, 'b, 'h) run_state \<Rightarrow> ThriftState \<Rightarrow>
   ('p, 'b, 'h) run_state \<Rightarrow> bool" where
  "step_ok content ok s n s' \<longleftrightarrow>
     (\<exists>pre. content (fst s) = pre @ content (fst s')) \<and>
     (if n = AtWaitForData then
        run_ok ok (snd s') \<and> content (fst s') = content (fst s) \<and>
        tm_state (snd s') = tm_state (snd s) \<and> \<not> near_end (tm_state (snd s))
      else run_ok ok (snd (set_machine_state n s')) \<and> step_less content s n s' \<and>
        (near_end n \<longrightarrow> near_end (tm_state (snd s)) \<or>
           length (content (fst s')) < length (content (fst s))))"

definition safe ::
  "('a \<Rightarrow> 's \<Rightarrow> bool) \<Rightarrow> ('a, 's) outcome \<Rightarrow> bool" where
  "safe Q r \<longleftrightarrow> (case r of (Inl e, _) \<Rightarrow> is_envoy_exception e | (Inr x, s) \<Rightarrow> Q x s)"

lemma safe_simps [simp]:
  "safe Q (Inl e, s) = is_envoy_exception e" "safe Q (Inr x, s) = Q x s"
  by (simp_all add: safe_def)

lemma safe_reading:
  assumes "reads_well content ok k rd" and "ok (tm_proto sm)"
    and "\<And>p b'. rd (tm_proto sm, b) = (Inr None, (p, b')) \<Longrightarrow> ok p \<Longrightarrow> content b' = content b \<Longrightarrow>
      Q AtWaitForData (b', sm\<lparr>tm_proto := p\<rparr>)"
    and "\<And>v p b' pre. ok p \<Longrightarrow> content b = pre @ content b' \<Longrightarrow> k \<le> length pre \<Longrightarrow>
      safe Q (h v (b', sm\<lparr>tm_proto := p\<rparr>))"
  shows "safe Q (reading rd h (b, sm))"
proof -
  obtain r p b' where rd: "rd (tm_proto sm, b) = (r, (p, b'))"
    by (metis prod_cases3)
  then show ?thesis
    using assms(1) [unfolded reads_well_def, rule_format, OF assms(2), of b] assms(3,4)
    by (auto simp: reading_def proto_read_def split: sum.splits option.splits)
qed

lemma safe_writing:
  assumes "writes_well content ok wr" and "ok (tm_proto sm)"
    and "\<And>p out. ok p \<Longrightarrow> safe Q (h (b, sm\<lparr>tm_proto := p, tm_origin_message := out\<rparr>))"
  shows "safe Q (writing wr h (b, sm))"
proof -
  obtain r p out where wr: "wr (tm_proto sm, tm_origin_message sm) = (r, (p, out))"
    by (metis prod_cases3)
  then show ?thesis
    using assms(1) [unfolded writes_well_def, rule_format, OF assms(2), of "tm_origin_message sm"]
      assms(3)
    by (auto simp: writing_def proto_write_def split: sum.splits)
qed

lemma safe_and_then: "safe (\<lambda>x s. safe Q (f x s)) r \<Longrightarrow> safe Q (and_then r f)"
  by (cases r; cases "fst r") (auto simp: safe_def)

lemma step_ok_wait:
  assumes "run_ok ok sm" and "ok p" and "content b' = content b" and "\<not> near_end (tm_state sm)"
  shows "step_ok content ok (b, sm) AtWaitForData (b', sm\<lparr>tm_proto := p\<rparr>)"
  using assms by (simp add: step_ok_def run_ok_def)

lemma step_ok_go:
  assumes "\<exists>pre. content b = pre @ content b'" and "n \<noteq> AtWaitForData" and "n \<noteq> AtMessageBegin"
    and "ok (tm_proto sm')" and "\<not> tm_passthrough_enabled sm'"
    and "valid_message_type (tm_metadata sm')"
    and "shape n (rev (tm_stack sm'))"
    and "length (content b') < length (content b) \<or> state_weight n + frames_weight (tm_stack sm') <
      state_weight (tm_state sm) + frames_weight (tm_stack sm)"
    and "near_end n \<Longrightarrow> near_end (tm_state sm) \<or> length (content b') < length (content b)"
  shows "step_ok content ok (b, sm) n (b', sm')"
  using assms by (auto simp: step_ok_def run_ok_def step_less_def set_machine_state_def)

lemma goto_state_simp [simp]: "goto_state n s = (Inr n, s)"
  by (simp add: goto_state_def)

lemma Frame_simps [simp]:
  "fr_return_state (Frame_return n) = n" "fr_remaining (Frame_return n) = 0"
  "fr_return_state (Frame_field n t) = n" "fr_remaining (Frame_field n t) = 0"
  "fr_elem_type (Frame_field n t) = t"
  "fr_return_state (Frame_elems n t k) = n" "fr_remaining (Frame_elems n t k) = k"
  "fr_elem_type (Frame_elems n t k) = t"
  "fr_return_state (Frame_map n t t' k) = n" "fr_remaining (Frame_map n t t' k) = k"
  "fr_elem_type (Frame_map n t t' k) = t" "fr_value_type (Frame_map n t t' k) = t'"
  by (simp_all add: Frame_return_def Frame_field_def Frame_elems_def Frame_map_def)

lemma shape_returned:
  assumes "returns n st"
  shows "n \<noteq> AtWaitForData" and "n \<noteq> AtMessageBegin" and "n \<noteq> AtDone" and "shape n st"
    and "state_weight n \<le> 14" and "near_end n \<Longrightarrow> n = AtMessageEnd"
  using assms returns_shape returns_weight by (cases rule: returns.cases; auto simp: near_end_def)+

definition thrift_run_result_ok ::
  "('b \<Rightarrow> u8 list) \<Rightarrow> ('p \<Rightarrow> bool) \<Rightarrow> ('p, 'b, 'h) run_state \<Rightarrow> ThriftState \<Rightarrow>
   ('p, 'b, 'h) run_state \<Rightarrow> bool" where
  "thrift_run_result_ok content ok s n s' \<longleftrightarrow>
     run_ok ok (snd s') \<and> (\<exists>pre. content (fst s) = pre @ content (fst s')) \<and>
     (n = AtDone \<and> tm_state (snd s') = AtDone \<and>
        (near_end (tm_state (snd s)) \<or> length (content (fst s')) < length (content (fst s))) \<or>
      n = AtWaitForData \<and> \<not> near_end (tm_state (snd s')))"

definition run_order ::
  "('b \<Rightarrow> u8 list) \<Rightarrow> (('p, 'b, 'h) run_state \<times> ('p, 'b, 'h) run_state) set" where
  "run_order content =
     measures [\<lambda>s. length (content (fst s)),
               \<lambda>s. state_weight (tm_state (snd s)) + frames_weight (tm_stack (snd s))]"

lemma run_order_wf: "wf (run_order content)"
  by (simp add: run_order_def)

lemma run_orderI: "step_less content s n s' \<Longrightarrow> (set_machine_state n s', s) \<in> run_order content"
  by (auto simp: run_order_def step_less_def set_machine_state_def)

subsection \<open>The handlers\<close>

context thrift_reading
begin

lemma primitive_safe:
  assumes "reads_well content ok 0 rd" and "\<And>v. writes_well content ok (wr v)"
    and "ok (tm_proto sm)"
    and "\<And>p b'. ok p \<Longrightarrow> content b' = content b \<Longrightarrow> Q AtWaitForData (b', sm\<lparr>tm_proto := p\<rparr>)"
    and "\<And>p out b' pre. ok p \<Longrightarrow> content b = pre @ content b' \<Longrightarrow>
      Q ret (b', sm\<lparr>tm_proto := p, tm_origin_message := out\<rparr>)"
  shows "safe Q (primitive rd wr ret (b, sm))"
  unfolding primitive_def
  by (rule safe_reading [OF assms(1,3)]) (auto intro!: safe_writing [OF assms(2)] assms)

lemma handleValue_safe:
  assumes "ok (tm_proto sm)"
    and "\<And>p b'. ok p \<Longrightarrow> content b' = content b \<Longrightarrow> Q AtWaitForData (b', sm\<lparr>tm_proto := p\<rparr>)"
    and "\<And>p out b' pre. ok p \<Longrightarrow> content b = pre @ content b' \<Longrightarrow>
      Q ret (b', sm\<lparr>tm_proto := p, tm_origin_message := out\<rparr>)"
    and "\<And>n. n \<in> {AtStructBegin, AtMapBegin, AtListBegin, AtSetBegin} \<Longrightarrow>
      Q n (b, sm\<lparr>tm_stack := tm_stack sm @ [Frame_return ret]\<rparr>)"
  shows "safe Q (handleValue P t ret (b, sm))"
  by (cases t)
    (simp_all add: handleValue_def push_frame_def assms primitive_safe read_values write_values)

lemma handle_element_safe:
  assumes "ok (tm_proto sm)" and st: "tm_stack sm = st @ [f]" and "ret \<noteq> AtWaitForData"
    and "\<And>p b'. ok p \<Longrightarrow> content b' = content b \<Longrightarrow> Q AtWaitForData (b', sm\<lparr>tm_proto := p\<rparr>)"
    and "\<And>p out b' pre. ok p \<Longrightarrow> content b = pre @ content b' \<Longrightarrow>
      Q ret (b', sm\<lparr>tm_proto := p, tm_origin_message := out,
        tm_stack := st @ [f\<lparr>fr_remaining := fr_remaining f - 1\<rparr>]\<rparr>)"
    and "\<And>n. n \<in> {AtStructBegin, AtMapBegin, AtListBegin, AtSetBegin} \<Longrightarrow>
      Q n (b, sm\<lparr>tm_stack := st @ [f\<lparr>fr_remaining := fr_remaining f - 1\<rparr>, Frame_return ret]\<rparr>)"
  shows "safe Q (handle_element P t ret (b, sm))"
  unfolding handle_element_def Let_def
proof (rule safe_and_then, rule handleValue_safe [OF assms(1)], goal_cases)
  case (3 n)
  then show ?case
    using assms(6) [OF 3] by (auto simp: decrement_remaining_def st nth_append)
qed (use assms in \<open>auto simp: decrement_remaining_def st\<close>)

end

lemma nestedE:
  assumes "nested (rev st)"
  obtains xs g where "st = xs @ [g]" and "returns (fr_return_state g) (rev xs)"
  using assms by (auto simp: nested_def rev_eq_Cons_iff)

lemma containerE:
  assumes "returns n (rev st)" and "n \<noteq> AtMessageEnd"
  obtains xs g f where "st = xs @ [g, f]" and "returns (fr_return_state g) (rev xs)"
    and "returns n (f # g # rev xs)"
  using assms
  by (cases rule: returns.cases) (auto simp: rev_eq_Cons_iff intro: returns.intros that)

lemma nested_returns:
  "nested st \<Longrightarrow> fr_return_state f = AtFieldEnd \<Longrightarrow> returns AtFieldEnd (f # st)"
  "nested_value st \<Longrightarrow> fr_return_state f = AtListEnd \<Longrightarrow> returns AtListValue (f # st)"
  "nested_value st \<Longrightarrow> fr_return_state f = AtSetEnd \<Longrightarrow> returns AtSetValue (f # st)"
  "nested_value st \<Longrightarrow> fr_return_state f = AtMapEnd \<Longrightarrow> returns AtMapKey (f # st)"
  by (auto simp: nested_value_def nested_def intro: returns.intros)

lemma run_okD:
  assumes "run_ok ok sm"
  shows "ok (tm_proto sm)" and "\<not> tm_passthrough_enabled sm"
    and "tm_state sm \<noteq> AtMessageBegin \<Longrightarrow> valid_message_type (tm_metadata sm)"
    and "shape (tm_state sm) (rev (tm_stack sm))"
  using assms by (simp_all add: run_ok_def)

context thrift_reading
begin

text \<open>The marks: the state after a mark is the next one, or what the popped frame says.\<close>

lemma structBegin_safe:
  assumes "run_ok ok sm" and "tm_state sm = AtStructBegin"
  shows "safe (step_ok content ok (b, sm)) (structBegin P (b, sm))"
  unfolding structBegin_def
  by (rule safe_reading [OF read_marks(1)])
    (use assms run_okD [OF assms(1)] in \<open>auto intro!: step_ok_wait safe_writing [OF write_begins(2)]
      step_ok_go\<close>)

lemma messageEnd_safe:
  assumes "run_ok ok sm" and "tm_state sm = AtMessageEnd"
  shows "safe (step_ok content ok (b, sm)) (messageEnd P (b, sm))"
  unfolding messageEnd_def
  by (rule safe_reading [OF read_marks(3)])
    (use assms run_okD [OF assms(1)] in \<open>auto simp: no_footer
      intro!: safe_writing [OF write_ends(1)] step_ok_go\<close>)

lemma popReturnState_safe:
  assumes "run_ok ok sm" and "state_weight (tm_state sm) = 5"
    and "tm_state sm \<noteq> AtMessageBegin" and "nested (rev (tm_stack sm))"
    and "near_end (tm_state sm) \<or> nested_value (rev (tm_stack sm))"
    and "ok p" and "content b = pre @ content b'"
  shows "safe (step_ok content ok (b, sm))
    (popReturnState (b', sm\<lparr>tm_proto := p, tm_origin_message := out\<rparr>))"
proof -
  obtain xs g where st: "tm_stack sm = xs @ [g]" and r: "returns (fr_return_state g) (rev xs)"
    using assms(4) by (rule nestedE)
  show ?thesis
    using assms run_okD [OF assms(1)] shape_returned [OF r]
    by (auto simp: popReturnState_def st intro!: step_ok_go)
qed

lemma end_safe:
  assumes "reads_well content ok 0 rd" and "writes_well content ok wr"
    and "run_ok ok sm" and "state_weight (tm_state sm) = 5"
    and "tm_state sm \<noteq> AtMessageBegin" and "nested_value (rev (tm_stack sm))"
    and "\<not> near_end (tm_state sm)"
  shows "safe (step_ok content ok (b, sm))
    (reading rd (\<lambda>_. writing wr popReturnState) (b, sm))"
  by (rule safe_reading [OF assms(1)])
    (use assms(3-7) run_okD [OF assms(3)] in \<open>auto simp: nested_value_def
      intro!: step_ok_wait safe_writing [OF assms(2)] popReturnState_safe\<close>)

lemma structEnd_safe:
  assumes "run_ok ok sm" and "tm_state sm = AtStructEnd"
  shows "safe (step_ok content ok (b, sm)) (structEnd P (b, sm))"
  unfolding structEnd_def
  by (rule safe_reading [OF read_marks(2)])
    (use assms run_okD [OF assms(1)] in \<open>auto simp: no_footer intro!: safe_writing [OF write_begins(3)]
      safe_writing [OF write_ends(2)] popReturnState_safe\<close>)

lemma container_end_safe:
  assumes "run_ok ok sm"
  shows "tm_state sm = AtListEnd \<Longrightarrow> safe (step_ok content ok (b, sm)) (listEnd P (b, sm))"
    and "tm_state sm = AtMapEnd \<Longrightarrow> safe (step_ok content ok (b, sm)) (mapEnd P (b, sm))"
    and "tm_state sm = AtSetEnd \<Longrightarrow> safe (step_ok content ok (b, sm)) (setEnd P (b, sm))"
  using run_okD(4) [OF assms] unfolding listEnd_def mapEnd_def setEnd_def
  by (auto intro!: end_safe assms read_marks write_ends)

text \<open>Headers take a byte and push a frame for what follows.\<close>

lemma header_safe:
  assumes "reads_well content ok 1 rd" and "\<And>v. writes_well content ok (wr v)"
    and "run_ok ok sm" and "tm_state sm \<noteq> AtMessageBegin" and "\<not> near_end (tm_state sm)"
    and "\<And>v. shape n (frame v # rev (tm_stack sm))" and "n \<notin> {AtWaitForData, AtMessageBegin}"
  shows "safe (step_ok content ok (b, sm))
    (reading rd (\<lambda>v s. writing (wr v) (goto_state n) (push_frame (frame v) s)) (b, sm))"
  by (rule safe_reading [OF assms(1)])
    (use assms(3-7) run_okD [OF assms(3)] in \<open>auto simp: push_frame_def
      intro!: step_ok_wait safe_writing [OF assms(2)] step_ok_go\<close>)

lemma container_begin_safe:
  assumes "run_ok ok sm"
  shows "tm_state sm = AtListBegin \<Longrightarrow> safe (step_ok content ok (b, sm)) (listBegin P (b, sm))"
    and "tm_state sm = AtMapBegin \<Longrightarrow> safe (step_ok content ok (b, sm)) (mapBegin P (b, sm))"
    and "tm_state sm = AtSetBegin \<Longrightarrow> safe (step_ok content ok (b, sm)) (setBegin P (b, sm))"
  using run_okD(4) [OF assms] unfolding listBegin_def mapBegin_def setBegin_def case_prod_unfold
  by (auto intro!: header_safe assms read_headers write_begins nested_returns)

lemma fieldBegin_safe:
  assumes "run_ok ok sm" and "tm_state sm = AtFieldBegin"
  shows "safe (step_ok content ok (b, sm)) (fieldBegin P (b, sm))"
  unfolding fieldBegin_def
  by (rule safe_reading [OF read_headers(1)])
    (use assms run_okD [OF assms(1)] in \<open>auto simp: push_frame_def
      intro!: step_ok_wait safe_writing [OF write_begins(3)] step_ok_go nested_returns\<close>)

text \<open>Values: a field, and the elements of containers.\<close>

lemma fieldValue_safe:
  assumes "run_ok ok sm" and "tm_state sm = AtFieldValue"
  shows "safe (step_ok content ok (b, sm)) (fieldValue P (b, sm))"
proof -
  have "returns AtFieldEnd (rev (tm_stack sm))" using assms run_okD(4) [OF assms(1)] by simp
  then obtain xs g f where st: "tm_stack sm = xs @ [g, f]"
    and r: "returns (fr_return_state g) (rev xs)" "returns AtFieldEnd (f # g # rev xs)"
    by (rule containerE) simp
  then have f: "fr_return_state f = AtFieldEnd" by (simp add: returns_simps)
  show ?thesis
    using assms run_okD [OF assms(1)] r
    by (auto simp: fieldValue_def st f Let_def
        intro!: handleValue_safe step_ok_wait step_ok_go)
qed

lemma fieldEnd_safe:
  assumes "run_ok ok sm" and "tm_state sm = AtFieldEnd"
  shows "safe (step_ok content ok (b, sm)) (fieldEnd P (b, sm))"
proof -
  have "returns AtFieldEnd (rev (tm_stack sm))" using assms run_okD(4) [OF assms(1)] by simp
  then obtain xs g f where st: "tm_stack sm = xs @ [g, f]"
    and r: "returns (fr_return_state g) (rev xs)" "returns AtFieldEnd (f # g # rev xs)"
    by (rule containerE) simp
  show ?thesis
    unfolding fieldEnd_def
    by (rule safe_reading [OF read_marks(4)])
      (use assms run_okD [OF assms(1)] r in \<open>auto simp: popReturnState_def st butlast_append
        intro!: step_ok_wait safe_writing [OF write_ends(3)] step_ok_go\<close>)
qed

text \<open>An element: the container is done, or the element is read and one less is expected.\<close>

lemma elements_safe:
  assumes "run_ok ok sm" and "tm_state sm = n" and "n \<in> {AtListValue, AtSetValue}"
  shows "safe (step_ok content ok (b, sm))
    (if tm_stack sm = [] then (Inl (Panic m), (b, sm))
     else if fr_remaining (last (tm_stack sm)) = 0 then popReturnState (b, sm)
     else handle_element P (fr_elem_type (last (tm_stack sm))) n (b, sm))"
proof -
  have "returns n (rev (tm_stack sm))" using assms run_okD(4) [OF assms(1)] by auto
  then obtain xs g f where st: "tm_stack sm = xs @ [g, f]"
    and r: "returns (fr_return_state g) (rev xs)" "returns n (f # g # rev xs)"
    by (rule containerE) (use assms in auto)
  show ?thesis
  proof (cases "fr_remaining f = 0")
    case True
    then show ?thesis
      using assms run_okD [OF assms(1)] r
      by (auto simp: popReturnState_def st butlast_append returns_simps intro!: step_ok_go)
  next
    case False
    then show ?thesis
      using assms run_okD [OF assms(1)] r unat_decrement [OF False]
      by (auto simp: st returns_simps intro!: handle_element_safe [where st = "xs @ [g]" and f = f]
          step_ok_wait step_ok_go)
  qed
qed

lemma containerValue_safe:
  assumes "run_ok ok sm"
  shows "tm_state sm = AtListValue \<Longrightarrow> safe (step_ok content ok (b, sm)) (listValue P (b, sm))"
    and "tm_state sm = AtSetValue \<Longrightarrow> safe (step_ok content ok (b, sm)) (setValue P (b, sm))"
  using elements_safe [OF assms] by (auto simp: listValue_def setValue_def Let_def)

lemma mapKey_safe:
  assumes "run_ok ok sm" and "tm_state sm = AtMapKey"
  shows "safe (step_ok content ok (b, sm)) (mapKey P (b, sm))"
proof -
  have "returns AtMapKey (rev (tm_stack sm))" using assms run_okD(4) [OF assms(1)] by simp
  then obtain xs g f where st: "tm_stack sm = xs @ [g, f]"
    and r: "returns (fr_return_state g) (rev xs)" "returns AtMapKey (f # g # rev xs)"
    by (rule containerE) simp
  show ?thesis
    using assms run_okD [OF assms(1)] r
    by (auto simp: mapKey_def popReturnState_def st butlast_append returns_simps Let_def
        intro!: handleValue_safe step_ok_wait step_ok_go)
qed

lemma mapValue_safe:
  assumes "run_ok ok sm" and "tm_state sm = AtMapValue"
  shows "safe (step_ok content ok (b, sm)) (mapValue P (b, sm))"
proof -
  have "returns AtMapValue (rev (tm_stack sm))" using assms run_okD(4) [OF assms(1)] by simp
  then obtain xs g f where st: "tm_stack sm = xs @ [g, f]" and f: "fr_remaining f \<noteq> 0"
    and r: "returns (fr_return_state g) (rev xs)" "fr_return_state f = AtMapEnd"
    by (rule containerE) (auto simp: returns_simps)
  show ?thesis
    using assms run_okD [OF assms(1)] r f unat_decrement [OF f]
    by (auto simp: mapValue_def st returns_simps Let_def
        intro!: handle_element_safe [where st = "xs @ [g]" and f = f] step_ok_wait step_ok_go)
qed

lemma messageBegin_safe:
  assumes "run_ok ok sm" and "tm_state sm = AtMessageBegin"
  shows "safe (step_ok content ok (b, sm)) (messageBegin B P (b, sm))"
proof -
  obtain r p b' m where rd: "pr_readMessageBegin P (tm_proto sm, b) (tm_metadata sm) = (r, ((p, b'), m))"
    by (metis surj_pair)
  show ?thesis
    using read_message [unfolded begins_well_def, rule_format, OF run_okD(1) [OF assms(1)],
        of b "tm_metadata sm"] assms run_okD(2) [OF assms(1)]
    by (auto simp: messageBegin_def rd Let_def returns_simps split: sum.splits bool.splits
        intro!: safe_writing [OF write_begins(1)]
        simp: step_ok_def run_ok_def step_less_def set_machine_state_def returns.message)
qed

lemma thrift_handleState_safe:
  assumes "run_ok ok sm" and "tm_state sm \<noteq> AtDone"
  shows "safe (step_ok content ok (b, sm)) (thrift_handleState B P (b, sm))"
  using assms run_okD(4) [OF assms(1)]
  by (cases "tm_state sm")
    (simp_all add: thrift_handleState_def messageBegin_safe messageEnd_safe structBegin_safe
      structEnd_safe fieldBegin_safe fieldValue_safe fieldEnd_safe mapKey_safe mapValue_safe
      container_begin_safe container_end_safe containerValue_safe)

subsection \<open>The loop\<close>

text \<open>
  From a state of the invariant \<open>run\<close> returns: with \<open>Done\<close>, or with \<open>WaitForData\<close> and the
  machine in a state it can be run from again, or it throws an \<open>EnvoyException\<close>. It takes a
  prefix off the buffer.
\<close>

lemma thrift_run_result_ok_step:
  assumes "step_ok content ok s n s'" and "n \<noteq> AtWaitForData"
    and "safe (thrift_run_result_ok content ok (set_machine_state n s')) r"
  shows "safe (thrift_run_result_ok content ok s) r"
proof -
  obtain x t where r: "r = (x, t)" by (metis surj_pair)
  obtain pre where pre: "content (fst s) = pre @ content (fst s')"
    using assms(1) by (auto simp: step_ok_def)
  show ?thesis
    using assms pre unfolding r
    by (cases x)
      (auto simp: step_ok_def thrift_run_result_ok_def set_machine_state_def)
qed

lemma thrift_run_safe:
  assumes "run_ok ok sm"
  obtains r where "thrift_run B P (b, sm) = Some r" and "safe (thrift_run_result_ok content ok (b, sm)) r"
proof -
  have "\<exists>r. thrift_run B P s = Some r \<and> safe (thrift_run_result_ok content ok s) r"
    if "run_ok ok (snd s)" for s :: "('p, 'b, 'h) run_state"
    using that
  proof (induction s rule: wf_induct_rule [OF run_order_wf [of content]])
    case (1 s)
    show ?case
    proof (cases "tm_state (snd s) = AtDone")
      case True
      then show ?thesis
        using 1 thrift_run_done [of "snd s" B P "fst s"] by (simp add: thrift_run_result_ok_def)
    next
      case nd: False
      obtain n s' where h: "thrift_handleState B P s = (n, s')" by (metis surj_pair)
      have sf: "safe (step_ok content ok s) (n, s')"
        using thrift_handleState_safe [of "snd s" "fst s"] "1.prems" nd h by simp
      consider e where "n = Inl e" | "n = Inr AtWaitForData"
        | k where "n = Inr k" "k \<noteq> AtWaitForData" by (cases n) auto
      then show ?thesis
      proof cases
        case (3 k)
        have "run_ok ok (snd (set_machine_state k s'))"
          and "(set_machine_state k s', s) \<in> run_order content"
          using sf 3 by (auto simp: step_ok_def intro: run_orderI)
        from "1.IH" [OF this(2,1)] obtain r where "thrift_run B P (set_machine_state k s') = Some r"
          and "safe (thrift_run_result_ok content ok (set_machine_state k s')) r" by auto
        with sf 3 show ?thesis
          using thrift_run_result_ok_step [of s k s' r] nd h by (simp add: thrift_run_step)
      qed (use sf nd h in \<open>simp_all add: thrift_run_step thrift_run_result_ok_def step_ok_def\<close>)
    qed
  qed
  then show thesis using assms that by (metis snd_conv)
qed

end

end
