(* ===== verification/Thrift_Stream.thy ===== *)
theory Thrift_Stream
  imports Thrift_Machine
begin

text \<open>
  The Thrift codec meets the contract of the proxy's decoder. The locale \<open>thrift_framing\<close> adds to
  \<open>thrift_reading\<close> what the codec relies on in a transport: a frame header is removed only where it
  is complete, frames have no trailer (as those of Envoy's transports), and what is thrown is an
  \<open>EnvoyException\<close>. Between two calls of \<open>decode\<close> the codec satisfies \<open>thrift_codec_ok\<close>.
\<close>

definition app_exception_ok :: "'h thrift_metadata \<Rightarrow> bool" where
  "app_exception_ok m \<longleftrightarrow> (mm_app_ex_type m \<noteq> None \<longrightarrow> mm_app_ex_msg m \<noteq> None)"

definition frame_start_well ::
  "('b \<Rightarrow> u8 list) \<Rightarrow> ('t \<Rightarrow> bool) \<Rightarrow> ('t, 'b, 'h) thrift_transport \<Rightarrow> bool" where
  "frame_start_well content tok T \<longleftrightarrow>
     (\<forall>t b m. tok t \<longrightarrow> app_exception_ok m \<longrightarrow>
       (case tr_decodeFrameStart T t b m of
          (Inl e, _) \<Rightarrow> is_envoy_exception e
        | (Inr started, (t', b', m')) \<Rightarrow>
            tok t' \<and> app_exception_ok m' \<and>
            (if started then \<exists>pre. content b = pre @ content b' else content b' = content b)))"

definition frame_end_well ::
  "('b \<Rightarrow> u8 list) \<Rightarrow> ('t \<Rightarrow> bool) \<Rightarrow> ('t, 'b, 'h) thrift_transport \<Rightarrow> bool" where
  "frame_end_well content tok T \<longleftrightarrow>
     (\<forall>t b. tok t \<longrightarrow>
       (case tr_decodeFrameEnd T t b of
          (Inl e, _) \<Rightarrow> is_envoy_exception e
        | (Inr ended, (t', b')) \<Rightarrow> ended \<and> tok t' \<and> (\<exists>pre. content b = pre @ content b')))"

definition encode_frame_well :: "('t \<Rightarrow> bool) \<Rightarrow> ('t, 'b, 'h) thrift_transport \<Rightarrow> bool" where
  "encode_frame_well tok T \<longleftrightarrow>
     (\<forall>t out m message. tok t \<longrightarrow>
       (case tr_encodeFrame T t out m message of
          (Inl e, _) \<Rightarrow> is_envoy_exception e
        | (Inr _, (t', _)) \<Rightarrow> tok t'))"

definition set_type_well :: "('p \<Rightarrow> bool) \<Rightarrow> ('p, 'b, 'h) thrift_protocol \<Rightarrow> bool" where
  "set_type_well ok P \<longleftrightarrow>
     (\<forall>t p. ok p \<longrightarrow> pr_type P p = ProtocolAuto \<longrightarrow>
       (case pr_setType P t p of (Inl e, _) \<Rightarrow> is_envoy_exception e | (Inr _, p') \<Rightarrow> ok p'))"

locale thrift_framing = thrift_reading B content P ok
  for B :: "'b buffer_ops" and content :: "'b \<Rightarrow> u8 list"
    and P :: "('p, 'b, 'h) thrift_protocol" and ok :: "'p \<Rightarrow> bool" +
  fixes T :: "('t, 'b, 'h) thrift_transport" and tok :: "'t \<Rightarrow> bool" and H :: "'h header_ops"
  assumes frame_start: "frame_start_well content tok T"
    and frame_end: "frame_end_well content tok T"
    and encode_frame: "encode_frame_well tok T"
    and set_type: "set_type_well ok P"

definition attach ::
  "'p \<Rightarrow> 'h thrift_metadata \<Rightarrow> ('p, 'b, 'h) thrift_machine \<Rightarrow> ('p, 'b, 'h) thrift_machine" where
  "attach p md sm = sm\<lparr>tm_proto := p, tm_metadata := md\<rparr>"

definition thrift_codec_ok ::
  "('p \<Rightarrow> bool) \<Rightarrow> ('t \<Rightarrow> bool) \<Rightarrow> ('t, 'p, 'b, 'h) thrift_codec \<Rightarrow> bool" where
  "thrift_codec_ok ok tok c \<longleftrightarrow>
     tok (tc_transport c) \<and> ok (tc_protocol c) \<and> \<not> tc_frame_ended c \<and>
     (if tc_frame_started c then
        (case (tc_state_machine c, tc_metadata c) of
           (Some sm, Some md) \<Rightarrow>
             run_ok ok (attach (tc_protocol c) md sm) \<and> \<not> near_end (tm_state sm)
         | _ \<Rightarrow> False)
      else (case tc_metadata c of Some m \<Rightarrow> app_exception_ok m | None \<Rightarrow> True))"

lemma thrift_codec_ok_init: "tok t \<Longrightarrow> ok p \<Longrightarrow> thrift_codec_ok ok tok (ThriftCodec_init t p)"
  by (simp add: thrift_codec_ok_def ThriftCodec_init_def)

lemma new_machine_ok:
  "ok p \<Longrightarrow> run_ok ok (attach p md (Thrift_DecoderStateMachine B p' md'))"
  by (simp add: run_ok_def attach_def Thrift_DecoderStateMachine_def)

text \<open>What a call of \<open>decode\<close> leaves.\<close>

definition decode_ok ::
  "('b \<Rightarrow> u8 list) \<Rightarrow> ('p \<Rightarrow> bool) \<Rightarrow> ('t \<Rightarrow> bool) \<Rightarrow> 'b \<Rightarrow> ('x, 'b, 'h) metadata \<Rightarrow> DecodeStatus \<Rightarrow>
   ('t, 'p, 'b, 'h) thrift_codec \<times> 'b \<times> ('x, 'b, 'h) metadata \<Rightarrow> bool" where
  "decode_ok content ok tok b m st s \<longleftrightarrow>
     (let (c', b', m') = s in
      thrift_codec_ok ok tok c' \<and> (\<exists>pre. content b = pre @ content b') \<and>
      (case st of
         DecodeWaitForData \<Rightarrow> m' = m
       | DecodeDone \<Rightarrow>
           length (content b') < length (content b) \<and>
           \<not> tc_frame_started c' \<and> tc_metadata c' = None \<and> tc_state_machine c' = None))"

context thrift_framing
begin

lemma encodeFrame_laws:
  "tr_encodeFrame T t out m message = (Inl e, s) \<Longrightarrow> tok t \<Longrightarrow> is_envoy_exception e"
  "tr_encodeFrame T t out m message = (Inr u, (t', s')) \<Longrightarrow> tok t \<Longrightarrow> tok t'"
  using encode_frame [unfolded encode_frame_well_def, rule_format, of t out m message] by auto

lemma setType_laws:
  "pr_setType P t p = (Inl e, s) \<Longrightarrow> ok p \<Longrightarrow> pr_type P p = ProtocolAuto \<Longrightarrow> is_envoy_exception e"
  "pr_setType P t p = (Inr u, p') \<Longrightarrow> ok p \<Longrightarrow> pr_type P p = ProtocolAuto \<Longrightarrow> ok p'"
  using set_type [unfolded set_type_well_def, rule_format, of p t] by auto

lemma frameStart_safe:
  assumes "thrift_codec_ok ok tok c" and "\<not> tc_frame_started c"
  shows "safe (\<lambda>started (c', b').
      thrift_codec_ok ok tok c' \<and> tc_frame_started c' = started \<and>
      (\<exists>pre. content b = pre @ content b'))
    (ThriftCodec_frameStart B H T P (c, b))"
proof -
  define m where "m = (case tc_metadata c of Some m \<Rightarrow> m | None \<Rightarrow> Thrift_MessageMetadata H)"
  have c: "tok (tc_transport c)" "ok (tc_protocol c)" "\<not> tc_frame_ended c" "app_exception_ok m"
    using assms by (auto simp: thrift_codec_ok_def m_def app_exception_ok_def
        Thrift_MessageMetadata_def split: option.splits)
  obtain r t b' m' where fs: "tr_decodeFrameStart T (tc_transport c) b m = (r, (t, b', m'))"
    by (metis surj_pair)
  note law = frame_start [unfolded frame_start_well_def, rule_format, OF c(1,4), of b, unfolded fs]
  show ?thesis
  proof (cases "r = Inr True")
    case True
    obtain rp p where cp: "check_protocol P m' (tc_protocol c) = (rp, p)" by (metis surj_pair)
    have "safe (\<lambda>_ p. ok p) (rp, p)"
      using cp c(2)
      by (auto simp: check_protocol_def safe_def split: option.splits if_splits prod.splits sum.splits
          dest: setType_laws)
    then show ?thesis
      using law True c cp fs new_machine_ok [of ok p m' B p m']
      by (auto simp: ThriftCodec_frameStart_def Let_def m_def [symmetric] app_exception_ok_def
          thrift_codec_ok_def near_end_def Thrift_DecoderStateMachine_def
          split: sum.splits option.splits)
  next
    case False
    then show ?thesis
      using law c fs assms(2)
      by (auto simp: ThriftCodec_frameStart_def Let_def m_def [symmetric] thrift_codec_ok_def
          split: sum.splits bool.splits)
  qed
qed

lemma toMetadata_safe:
  assumes "tok t" and "valid_message_type md"
  shows "safe (\<lambda>_ (t', _). tok t') (thrift_toMetadata H T md (t, m, message))"
  using assms
  by (auto simp: thrift_toMetadata_def valid_message_type_def Let_def safe_def
      split: prod.splits sum.splits dest: encodeFrame_laws)

lemma frameEnd_safe:
  assumes "tok (tc_transport c)" and "ok (tc_protocol c)" and "\<not> tc_frame_ended c"
    and "valid_message_type (tm_metadata sm)"
    and "content b0 = pre @ content b" and "length (content b) < length (content b0)"
  shows "safe (decode_ok content ok tok b0 m0) (ThriftCodec_frameEnd H T sm (c, b, m))"
proof -
  obtain r t b' where fe: "tr_decodeFrameEnd T (tc_transport c) b = (r, (t, b'))"
    by (metis surj_pair)
  obtain rt t' m' message where
    tm: "thrift_toMetadata H T (tm_metadata sm) (t, m, tm_origin_message sm) = (rt, (t', m', message))"
    by (metis surj_pair)
  note law = frame_end [unfolded frame_end_well_def, rule_format, OF assms(1), of b, unfolded fe]
  show ?thesis
  proof (cases r)
    case (Inl e)
    then show ?thesis using law fe by (simp add: ThriftCodec_frameEnd_def)
  next
    case (Inr ended)
    with law have e: "ended" "tok t" and suf: "\<exists>pre. content b = pre @ content b'" by auto
    then have "length (content b') < length (content b0)" "\<exists>pre. content b0 = pre @ content b'"
      using assms(5,6) by auto
    then show ?thesis
      using toMetadata_safe [OF e(2) assms(4), of m "tm_origin_message sm"] assms(2) fe Inr e tm
      by (auto simp: ThriftCodec_frameEnd_def decode_ok_def thrift_codec_ok_def
          ThriftCodec_complete_def safe_def split: sum.splits)
  qed
qed

text \<open>The rest of \<open>decode\<close>, once a frame is started.\<close>

lemma decode_started:
  assumes "thrift_codec_ok ok tok c" and "tc_frame_started c"
  obtains r where "ThriftCodec_decode B H T P c b m = Some r"
    and "safe (decode_ok content ok tok b m) r"
proof -
  obtain sm md where c: "tc_state_machine c = Some sm" "tc_metadata c = Some md"
    "run_ok ok (attach (tc_protocol c) md sm)" "\<not> near_end (tm_state sm)"
    "tok (tc_transport c)" "ok (tc_protocol c)" "\<not> tc_frame_ended c"
    using assms by (auto simp: thrift_codec_ok_def split: option.splits)
  obtain r where run: "thrift_run B P (b, attach (tc_protocol c) md sm) = Some r"
    and sf: "safe (thrift_run_result_ok content ok (b, attach (tc_protocol c) md sm)) r"
    using thrift_run_safe [OF c(3)] .
  obtain rv b' sm' where r: "r = (rv, (b', sm'))" by (metis surj_pair)
  define c' where "c' = c\<lparr>tc_protocol := tm_proto sm', tc_metadata := Some (tm_metadata sm'),
    tc_state_machine := Some sm'\<rparr>"
  have dec: "ThriftCodec_decode B H T P c b m =
      (case rv of
         Inl e \<Rightarrow> Some (Inl e, (c', b', m))
       | Inr state \<Rightarrow>
           if state = AtWaitForData then Some (Inr DecodeWaitForData, (c', b', m))
           else if state \<noteq> AtDone then
             Some (Inl (Panic ''ASSERT(rv == ProtocolState::Done)''), (c', b', m))
           else Some (ThriftCodec_frameEnd H T sm' (c', b', m)))"
    using c assms(2) run r
    by (simp add: ThriftCodec_decode_def attach_def c'_def Let_def split: sum.splits)
  consider e where "rv = Inl e" | "rv = Inr AtWaitForData" | "rv = Inr AtDone"
    using sf r by (cases rv) (auto simp: thrift_run_result_ok_def)
  then show thesis
  proof cases
    case (1 e)
    then show thesis using that dec sf r by simp
  next
    case 2
    then have "decode_ok content ok tok b m DecodeWaitForData (c', b', m)"
      using sf r c assms(2)
      by (auto simp: decode_ok_def thrift_codec_ok_def c'_def thrift_run_result_ok_def attach_def
          dest: run_okD(1))
    then show thesis using that dec 2 by simp
  next
    case 3
    then obtain pre where "run_ok ok sm'" and pre: "content b = pre @ content b'"
      and less: "length (content b') < length (content b)" and "tm_state sm' = AtDone"
      using sf r c(4) by (auto simp: thrift_run_result_ok_def attach_def)
    then have md: "valid_message_type (tm_metadata sm')" and p: "ok (tm_proto sm')"
      using run_okD by fastforce+
    have "safe (decode_ok content ok tok b m) (ThriftCodec_frameEnd H T sm' (c', b', m))"
      by (rule frameEnd_safe [OF _ _ _ md pre less]) (use c p in \<open>simp_all add: c'_def\<close>)
    then show thesis using that dec 3 by simp
  qed
qed

lemma frameStart_then_decode:
  assumes "\<not> tc_frame_started c" and "\<not> tc_frame_ended c"
    and "ThriftCodec_frameStart B H T P (c, b) = (Inr True, (c', b'))"
    and "tc_frame_started c'" and "\<not> tc_frame_ended c'"
  shows "ThriftCodec_decode B H T P c b m = ThriftCodec_decode B H T P c' b' m"
  using assms by (simp add: ThriftCodec_decode_def)

text \<open>
  \<open>decode\<close> returns: it waits and keeps what it has taken off the buffer, it is done and took at
  least a byte, or it throws an \<open>EnvoyException\<close>.
\<close>

lemma decode_safe:
  assumes "thrift_codec_ok ok tok c"
  obtains r where "ThriftCodec_decode B H T P c b m = Some r"
    and "safe (decode_ok content ok tok b m) r"
proof (cases "tc_frame_started c")
  case True
  show thesis by (rule decode_started [OF assms True]) (rule that)
next
  case False
  obtain r c' b' where fs: "ThriftCodec_frameStart B H T P (c, b) = (r, (c', b'))"
    by (metis surj_pair)
  have ne: "\<not> tc_frame_ended c" using assms by (simp add: thrift_codec_ok_def)
  have sf: "safe (\<lambda>started (c', b'). thrift_codec_ok ok tok c' \<and> tc_frame_started c' = started \<and>
      (\<exists>pre. content b = pre @ content b')) (r, (c', b'))"
    using frameStart_safe [OF assms False, of b] fs by simp
  show thesis
  proof (cases "r = Inr True")
    case True
    then have ok: "thrift_codec_ok ok tok c'" and st: "tc_frame_started c'"
      and pre: "\<exists>pre. content b = pre @ content b'" using sf by auto
    obtain r' where r': "ThriftCodec_decode B H T P c' b' m = Some r'"
      "safe (decode_ok content ok tok b' m) r'" using decode_started [OF ok st] .
    have "safe (decode_ok content ok tok b m) r'"
      using r'(2) pre
      by (auto simp: safe_def decode_ok_def split: prod.splits sum.splits DecodeStatus.splits)
    moreover have "ThriftCodec_decode B H T P c b m = Some r'"
      using fs True st ok r'(1) ne False
      by (simp add: frameStart_then_decode [where c' = c' and b' = b'] thrift_codec_ok_def)
    ultimately show thesis using that by blast
  next
    case notyet: False
    then show thesis
      using that sf fs ne False
      by (cases r) (auto simp: ThriftCodec_decode_def decode_ok_def)
  qed
qed

end

subsection \<open>The codec as the proxy sees it\<close>

text \<open>
  The proxy's codec record has no value for a \<open>decode\<close> that does not return; under the invariant
  there is none. Thrift puts only strings in the metadata, so nothing beside them is in
  \<open>std::any\<close>.
\<close>

definition ThriftCodec ::
  "'b buffer_ops \<Rightarrow> 'h header_ops \<Rightarrow> ('t, 'b, 'h) thrift_transport \<Rightarrow>
   ('p, 'b, 'h) thrift_protocol \<Rightarrow> (('t, 'p, 'b, 'h) thrift_codec, unit, 'b, 'h) codec" where
  "ThriftCodec B H T P =
     \<lparr>codec_decode = (\<lambda>c b m. the (ThriftCodec_decode B H T P c b m)),
      codec_encode = ThriftCodec_encode B,
      codec_onError = ThriftCodec_onError B H P\<rparr>"

context thrift_framing
begin

lemma codec_decode_safe:
  assumes "thrift_codec_ok ok tok c"
  shows "safe (decode_ok content ok tok b m) (codec_decode (ThriftCodec B H T P) c b m)"
proof -
  obtain r where "ThriftCodec_decode B H T P c b m = Some r" "safe (decode_ok content ok tok b m) r"
    using decode_safe [OF assms] .
  then show ?thesis by (simp add: ThriftCodec_def)
qed

end

sublocale thrift_framing \<subseteq> thrift: codec_contract B content
    "ThriftCodec B H T P" "thrift_codec_ok ok tok"
proof (unfold_locales, goal_cases)
  case (1 c b m st c' b' m')
  then show ?case using codec_decode_safe [of c b m] by (simp add: decode_ok_def)
next
  case (2 c b m c' b' m')
  then show ?case using codec_decode_safe [of c b m] by (simp add: decode_ok_def)
next
  case (3 c b m e c' b' m')
  then show ?case using codec_decode_safe [of c b m] by simp
qed

end
