(* ===== verification/Thrift_Wire.thy ===== *)
theory Thrift_Wire
  imports Thrift_Stream
begin

text \<open>
  Thrift values and their encoding, as a specification of what the state machine reads and writes.
  The locale \<open>thrift_wire\<close> says that a protocol is given by the codes of its tokens, as Thrift's
  binary protocol is: reading the code of a token gives the token back, writing one appends its
  code, and the marks that end a value or begin a struct have no code.
\<close>

subsection \<open>Values\<close>

datatype tvalue =
    VBool bool | VByte u8 | VI16 i16 | VI32 i32 | VI64 i64 | VDouble u64 | VString string
  | VStruct "(i16 \<times> tvalue) list"
  | VMap FieldType FieldType "(tvalue \<times> tvalue) list"
  | VList FieldType "tvalue list"
  | VSet FieldType "tvalue list"

fun value_type :: "tvalue \<Rightarrow> FieldType" where
  "value_type (VBool _) = TBool"
| "value_type (VByte _) = TByte"
| "value_type (VI16 _) = TI16"
| "value_type (VI32 _) = TI32"
| "value_type (VI64 _) = TI64"
| "value_type (VDouble _) = TDouble"
| "value_type (VString _) = TString"
| "value_type (VStruct _) = TStruct"
| "value_type (VMap _ _ _) = TMap"
| "value_type (VList _ _) = TList"
| "value_type (VSet _ _) = TSet"

text \<open>Elements have the declared type, an enumerator; strings and containers fit a signed 32-bit length.\<close>

fun value_ok :: "tvalue \<Rightarrow> bool" where
  "value_ok (VString s) = (length s < 2 ^ 31)"
| "value_ok (VStruct fs) = (\<forall>f\<in>set fs. value_ok (snd f))"
| "value_ok (VMap k t kvs) =
     (length kvs < 2 ^ 31 \<and> k \<in> set field_types \<and> t \<in> set field_types \<and>
      (\<forall>kv\<in>set kvs. value_type (fst kv) = k \<and> value_type (snd kv) = t \<and>
         value_ok (fst kv) \<and> value_ok (snd kv)))"
| "value_ok (VList t vs) =
     (length vs < 2 ^ 31 \<and> t \<in> set field_types \<and> (\<forall>v\<in>set vs. value_type v = t \<and> value_ok v))"
| "value_ok (VSet t vs) =
     (length vs < 2 ^ 31 \<and> t \<in> set field_types \<and> (\<forall>v\<in>set vs. value_type v = t \<and> value_ok v))"
| "value_ok _ = True"

subsection \<open>Codes\<close>

record thrift_code =
  code_message :: "string \<Rightarrow> ThriftMessageType \<Rightarrow> i32 \<Rightarrow> u8 list"
  code_field :: "FieldType \<Rightarrow> i16 \<Rightarrow> u8 list"
  code_stop :: "u8 list"
  code_map :: "FieldType \<Rightarrow> FieldType \<Rightarrow> u32 \<Rightarrow> u8 list"
  code_list :: "FieldType \<Rightarrow> u32 \<Rightarrow> u8 list"
  code_set :: "FieldType \<Rightarrow> u32 \<Rightarrow> u8 list"
  code_bool :: "bool \<Rightarrow> u8 list"
  code_byte :: "u8 \<Rightarrow> u8 list"
  code_i16 :: "i16 \<Rightarrow> u8 list"
  code_i32 :: "i32 \<Rightarrow> u8 list"
  code_i64 :: "i64 \<Rightarrow> u8 list"
  code_double :: "u64 \<Rightarrow> u8 list"
  code_string :: "string \<Rightarrow> u8 list"

fun encode_value :: "thrift_code \<Rightarrow> tvalue \<Rightarrow> u8 list" where
  "encode_value W (VBool x) = code_bool W x"
| "encode_value W (VByte x) = code_byte W x"
| "encode_value W (VI16 x) = code_i16 W x"
| "encode_value W (VI32 x) = code_i32 W x"
| "encode_value W (VI64 x) = code_i64 W x"
| "encode_value W (VDouble x) = code_double W x"
| "encode_value W (VString x) = code_string W x"
| "encode_value W (VStruct fs) =
     concat (map (\<lambda>f. code_field W (value_type (snd f)) (fst f) @ encode_value W (snd f)) fs) @
     code_stop W"
| "encode_value W (VMap k t kvs) =
     code_map W k t (of_nat (length kvs)) @
     concat (map (\<lambda>kv. encode_value W (fst kv) @ encode_value W (snd kv)) kvs)"
| "encode_value W (VList t vs) =
     code_list W t (of_nat (length vs)) @ concat (map (encode_value W) vs)"
| "encode_value W (VSet t vs) =
     code_set W t (of_nat (length vs)) @ concat (map (encode_value W) vs)"

definition encode_message ::
  "thrift_code \<Rightarrow> string \<Rightarrow> ThriftMessageType \<Rightarrow> i32 \<Rightarrow> (i16 \<times> tvalue) list \<Rightarrow> u8 list" where
  "encode_message W name t i fs = code_message W name t i @ encode_value W (VStruct fs)"

text \<open>The metadata a message begin sets.\<close>

definition message_metadata ::
  "string \<Rightarrow> ThriftMessageType \<Rightarrow> i32 \<Rightarrow> 'h thrift_metadata \<Rightarrow> 'h thrift_metadata" where
  "message_metadata name t i m =
     m\<lparr>mm_method_name := Some name, mm_msg_type := Some t, mm_seq_id := Some i\<rparr>"

subsection \<open>A protocol given by codes\<close>

definition reads_code ::
  "('b \<Rightarrow> u8 list) \<Rightarrow> ('p \<Rightarrow> bool) \<Rightarrow> ('v, 'p, 'b) reader \<Rightarrow> 'v \<Rightarrow> u8 list \<Rightarrow> bool" where
  "reads_code content ok rd v code \<longleftrightarrow>
     (\<forall>p b rest. ok p \<longrightarrow> content b = code @ rest \<longrightarrow>
       (\<exists>p' b'. rd (p, b) = (Inr (Some v), (p', b')) \<and> ok p' \<and> content b' = rest))"

definition writes_code ::
  "('b \<Rightarrow> u8 list) \<Rightarrow> ('p \<Rightarrow> bool) \<Rightarrow> ('p, 'b) writer \<Rightarrow> u8 list \<Rightarrow> bool" where
  "writes_code content ok wr code \<longleftrightarrow>
     (\<forall>p b. ok p \<longrightarrow>
       (\<exists>p' b'. wr (p, b) = (Inr (), (p', b')) \<and> ok p' \<and> content b' = content b @ code))"

definition reads_message ::
  "('b \<Rightarrow> u8 list) \<Rightarrow> ('p \<Rightarrow> bool) \<Rightarrow> ('p, 'b, 'h) thrift_protocol \<Rightarrow> thrift_code \<Rightarrow> bool" where
  "reads_message content ok P W \<longleftrightarrow>
     (\<forall>p b m name t i rest. ok p \<longrightarrow> length name < 2 ^ 31 \<longrightarrow>
       t \<in> {TCall, TReply, TException, TOneway} \<longrightarrow>
       content b = code_message W name t i @ rest \<longrightarrow>
       (\<exists>p' b'. pr_readMessageBegin P (p, b) m =
          (Inr True, ((p', b'), message_metadata name t i m)) \<and> ok p' \<and> content b' = rest))"

locale thrift_wire = thrift_reading B content P ok
  for B :: "'b buffer_ops" and content :: "'b \<Rightarrow> u8 list"
    and P :: "('p, 'b, 'h) thrift_protocol" and ok :: "'p \<Rightarrow> bool" +
  fixes W :: thrift_code
  assumes message_code:
      "reads_message content ok P W"
      "mm_method_name m = Some name \<Longrightarrow> mm_msg_type m = Some mt \<Longrightarrow> mm_seq_id m = Some seq \<Longrightarrow>
         length name < 2 ^ 31 \<Longrightarrow> mt \<in> {TCall, TReply, TException, TOneway} \<Longrightarrow>
         writes_code content ok (pr_writeMessageBegin P m) (code_message W name mt seq)"
    and mark_code:
      "reads_code content ok (pr_readStructBegin P) [] []"
      "reads_code content ok (pr_readStructEnd P) () []"
      "reads_code content ok (pr_readMessageEnd P) () []"
      "reads_code content ok (pr_readFieldEnd P) () []"
      "reads_code content ok (pr_readMapEnd P) () []"
      "reads_code content ok (pr_readListEnd P) () []"
      "reads_code content ok (pr_readSetEnd P) () []"
      "writes_code content ok (pr_writeStructBegin P sname) []"
      "writes_code content ok (pr_writeStructEnd P) []"
      "writes_code content ok (pr_writeMessageEnd P) []"
      "writes_code content ok (pr_writeFieldEnd P) []"
      "writes_code content ok (pr_writeMapEnd P) []"
      "writes_code content ok (pr_writeListEnd P) []"
      "writes_code content ok (pr_writeSetEnd P) []"
    and field_code:
      "t \<in> set field_types \<Longrightarrow> t \<noteq> TStop \<Longrightarrow>
         reads_code content ok (pr_readFieldBegin P) ([], t, i) (code_field W t i)"
      "t \<in> set field_types \<Longrightarrow> t \<noteq> TStop \<Longrightarrow>
         writes_code content ok (pr_writeFieldBegin P fname t i) (code_field W t i)"
      "reads_code content ok (pr_readFieldBegin P) ([], TStop, 0) (code_stop W)"
      "writes_code content ok (pr_writeFieldBegin P [] TStop 0) (code_stop W)"
    and container_code:
      "t \<in> set field_types \<Longrightarrow> t' \<in> set field_types \<Longrightarrow> unat n < 2 ^ 31 \<Longrightarrow>
         reads_code content ok (pr_readMapBegin P) (t, t', n) (code_map W t t' n)"
      "t \<in> set field_types \<Longrightarrow> t' \<in> set field_types \<Longrightarrow> unat n < 2 ^ 31 \<Longrightarrow>
         writes_code content ok (pr_writeMapBegin P t t' n) (code_map W t t' n)"
      "t \<in> set field_types \<Longrightarrow> unat n < 2 ^ 31 \<Longrightarrow>
         reads_code content ok (pr_readListBegin P) (t, n) (code_list W t n)"
      "t \<in> set field_types \<Longrightarrow> unat n < 2 ^ 31 \<Longrightarrow>
         writes_code content ok (pr_writeListBegin P t n) (code_list W t n)"
      "t \<in> set field_types \<Longrightarrow> unat n < 2 ^ 31 \<Longrightarrow>
         reads_code content ok (pr_readSetBegin P) (t, n) (code_set W t n)"
      "t \<in> set field_types \<Longrightarrow> unat n < 2 ^ 31 \<Longrightarrow>
         writes_code content ok (pr_writeSetBegin P t n) (code_set W t n)"
    and read_value_code:
      "reads_code content ok (pr_readBool P) v1 (code_bool W v1)"
      "reads_code content ok (pr_readByte P) v2 (code_byte W v2)"
      "reads_code content ok (pr_readInt16 P) v3 (code_i16 W v3)"
      "reads_code content ok (pr_readInt32 P) v4 (code_i32 W v4)"
      "reads_code content ok (pr_readInt64 P) v5 (code_i64 W v5)"
      "reads_code content ok (pr_readDouble P) v6 (code_double W v6)"
      "length v7 < 2 ^ 31 \<Longrightarrow> reads_code content ok (pr_readString P) v7 (code_string W v7)"
    and write_value_code:
      "writes_code content ok (pr_writeBool P v1) (code_bool W v1)"
      "writes_code content ok (pr_writeByte P v2) (code_byte W v2)"
      "writes_code content ok (pr_writeInt16 P v3) (code_i16 W v3)"
      "writes_code content ok (pr_writeInt32 P v4) (code_i32 W v4)"
      "writes_code content ok (pr_writeInt64 P v5) (code_i64 W v5)"
      "writes_code content ok (pr_writeDouble P v6) (code_double W v6)"
      "length v7 < 2 ^ 31 \<Longrightarrow> writes_code content ok (pr_writeString P v7) (code_string W v7)"

end
