(* ===== verification/Thrift_Forward.thy ===== *)
theory Thrift_Forward
  imports Thrift_Wire
begin

text \<open>
  The state machine on the encoding of a message: it reads the whole encoding and nothing more, and
  its original message is that encoding again. Runs are composed as equations between runs, from
  the configuration before a value to the configuration after it.
\<close>

text \<open>A configuration: the state, the stack, the bytes written so far and the bytes to read.\<close>

type_synonym configuration = "ThriftState \<times> thrift_frame list \<times> u8 list \<times> u8 list"

definition at_config ::
  "('b \<Rightarrow> u8 list) \<Rightarrow> ('p \<Rightarrow> bool) \<Rightarrow> 'h thrift_metadata \<Rightarrow> configuration \<Rightarrow>
   ('p, 'b, 'h) run_state \<Rightarrow> bool" where
  "at_config content ok md cf s \<longleftrightarrow>
     (let (n, st, out, inp) = cf in
      ok (tm_proto (snd s)) \<and> \<not> tm_passthrough_enabled (snd s) \<and> tm_metadata (snd s) = md \<and>
      tm_state (snd s) = n \<and> tm_stack (snd s) = st \<and>
      content (tm_origin_message (snd s)) = out \<and> content (fst s) = inp)"

definition goes ::
  "'b buffer_ops \<Rightarrow> ('p, 'b, 'h) thrift_protocol \<Rightarrow> ('b \<Rightarrow> u8 list) \<Rightarrow> ('p \<Rightarrow> bool) \<Rightarrow>
   'h thrift_metadata \<Rightarrow> configuration \<Rightarrow> configuration \<Rightarrow> bool" where
  "goes B P content ok md cf cf' \<longleftrightarrow>
     (\<forall>s. at_config content ok md cf s \<longrightarrow>
        (\<exists>s'. thrift_run B P s = thrift_run B P s' \<and> at_config content ok md cf' s'))"

lemma goes_refl [simp]: "goes B P content ok md cf cf"
  by (auto simp: goes_def)

lemma goes_trans [trans]:
  "goes B P content ok md a b \<Longrightarrow> goes B P content ok md b c \<Longrightarrow> goes B P content ok md a c"
  by (fastforce simp: goes_def)

text \<open>
  What a handler does from a configuration: it goes to a state of which the stack, the output and
  the input are known.
\<close>

definition hands ::
  "('b \<Rightarrow> u8 list) \<Rightarrow> ('p \<Rightarrow> bool) \<Rightarrow> 'h thrift_metadata \<Rightarrow> configuration \<Rightarrow>
   (ThriftState, ('p, 'b, 'h) run_state) outcome \<Rightarrow> bool" where
  "hands content ok md cf r \<longleftrightarrow>
     (\<exists>s'. r = (Inr (fst cf), s') \<and> at_config content ok md cf (set_machine_state (fst cf) s'))"

lemma hands_run:
  assumes "\<And>s. at_config content ok md cf s \<Longrightarrow> hands content ok md cf' (thrift_handleState B P s)"
    and "fst cf \<noteq> AtDone" and "fst cf' \<noteq> AtWaitForData"
  shows "goes B P content ok md cf cf'"
  unfolding goes_def
proof (intro allI impI)
  fix s assume at: "at_config content ok md cf s"
  obtain s' where h: "thrift_handleState B P s = (Inr (fst cf'), s')"
    and at': "at_config content ok md cf' (set_machine_state (fst cf') s')"
    using assms(1) [OF at] by (auto simp: hands_def)
  have "tm_state (snd s) \<noteq> AtDone" using at assms(2) by (auto simp: at_config_def)
  then have "thrift_run B P s = thrift_run B P (set_machine_state (fst cf') s')"
    using h assms(3) by (simp add: thrift_run_step)
  with at' show "\<exists>s'. thrift_run B P s = thrift_run B P s' \<and> at_config content ok md cf' s'"
    by blast
qed

text \<open>Reading and writing tokens.\<close>

lemma hands_reading:
  assumes "reads_code content ok rd v code" and "at_config content ok md (n, st, out, code @ inp) s"
    and "\<And>s'. at_config content ok md (n, st, out, inp) s' \<Longrightarrow> hands content ok md cf (k v s')"
  shows "hands content ok md cf (reading rd k s)"
proof -
  obtain p b where rd: "rd (tm_proto (snd s), fst s) = (Inr (Some v), (p, b))" "ok p"
    "content b = inp"
    using assms(1,2) unfolding reads_code_def at_config_def by fastforce
  then have "at_config content ok md (n, st, out, inp) (b, (snd s)\<lparr>tm_proto := p\<rparr>)"
    using assms(2) by (simp add: at_config_def)
  then show ?thesis using assms(3) rd(1) by (simp add: reading_def proto_read_def)
qed

lemma hands_writing:
  assumes "writes_code content ok wr code" and "at_config content ok md (n, st, out, inp) s"
    and "\<And>s'. at_config content ok md (n, st, out @ code, inp) s' \<Longrightarrow> hands content ok md cf (k s')"
  shows "hands content ok md cf (writing wr k s)"
proof -
  obtain p o' where wr: "wr (tm_proto (snd s), tm_origin_message (snd s)) = (Inr (), (p, o'))" "ok p"
    "content o' = content (tm_origin_message (snd s)) @ code"
    using assms(1,2) unfolding writes_code_def at_config_def by fastforce
  then have "at_config content ok md (n, st, out @ code, inp)
      (fst s, (snd s)\<lparr>tm_proto := p, tm_origin_message := o'\<rparr>)"
    using assms(2) by (simp add: at_config_def)
  then show ?thesis using assms(3) wr(1) by (simp add: writing_def proto_write_def)
qed

lemma hands_goto:
  "at_config content ok md (n, st, out, inp) s \<Longrightarrow> hands content ok md (n', st, out, inp) (goto_state n' s)"
  by (simp add: hands_def goto_state_def at_config_def set_machine_state_def)

lemma hands_pop:
  "at_config content ok md (n, st @ [f], out, inp) s \<Longrightarrow> fr_return_state f = n' \<Longrightarrow>
   hands content ok md (n', st, out, inp) (popReturnState s)"
  by (simp add: hands_def popReturnState_def at_config_def set_machine_state_def)

lemma at_push:
  "at_config content ok md (n, st, out, inp) s \<Longrightarrow>
   at_config content ok md (n, st @ [f], out, inp) (push_frame f s)"
  by (simp add: push_frame_def at_config_def)

lemma at_state: "at_config content ok md (n, st, out, inp) s \<Longrightarrow> tm_state (snd s) = n"
  by (simp add: at_config_def)

lemma at_stack: "at_config content ok md (n, st, out, inp) s \<Longrightarrow> tm_stack (snd s) = st"
  by (simp add: at_config_def)

lemma hands_element:
  assumes "at_config content ok md (n, st @ [f], out, inp) s"
    and "hands content ok md (k, (st @ [f]) @ push, out', inp') (handleValue P t ret s)"
    and "k \<noteq> AtWaitForData"
  shows "hands content ok md (k, (st @ [f\<lparr>fr_remaining := fr_remaining f - 1\<rparr>]) @ push, out', inp')
    (handle_element P t ret s)"
proof -
  obtain s' where h: "handleValue P t ret s = (Inr k, s')"
    and at: "at_config content ok md (k, (st @ [f]) @ push, out', inp') (set_machine_state k s')"
    using assms(2) by (auto simp: hands_def)
  let ?s = "decrement_remaining (length st) s'"
  have "tm_stack (snd s') = st @ f # push" using at by (simp add: at_config_def set_machine_state_def)
  then have "at_config content ok md
      (k, (st @ [f\<lparr>fr_remaining := fr_remaining f - 1\<rparr>]) @ push, out', inp') (set_machine_state k ?s)"
    using at
    by (simp add: at_config_def set_machine_state_def decrement_remaining_def list_update_append
        del: append_assoc)
  moreover have "handle_element P t ret s = (Inr k, ?s)"
    using h assms(1,3) by (simp add: handle_element_def at_stack)
  ultimately show ?thesis by (simp add: hands_def)
qed

subsection \<open>Values\<close>

text \<open>
  A value is read by \<open>handleValue\<close> in one step, or \<open>handleValue\<close> pushes a frame and the value is
  read from the next state on; either way the machine comes to the return state with the stack as
  it was and the value's encoding written.
\<close>

definition value_runs ::
  "'b buffer_ops \<Rightarrow> ('p, 'b, 'h) thrift_protocol \<Rightarrow> ('b \<Rightarrow> u8 list) \<Rightarrow> ('p \<Rightarrow> bool) \<Rightarrow>
   thrift_code \<Rightarrow> 'h thrift_metadata \<Rightarrow> tvalue \<Rightarrow> bool" where
  "value_runs B P content ok W md v \<longleftrightarrow>
     (\<forall>ret. ret \<noteq> AtWaitForData \<longrightarrow>
       (\<exists>k push wrote left. wrote @ left = encode_value W v \<and> k \<noteq> AtWaitForData \<and>
          (\<forall>n st out inp s. at_config content ok md (n, st, out, encode_value W v @ inp) s \<longrightarrow>
             hands content ok md (k, st @ push, out @ wrote, left @ inp)
               (handleValue P (value_type v) ret s)) \<and>
          (\<forall>st out inp. goes B P content ok md (k, st @ push, out @ wrote, left @ inp)
             (ret, st, out @ encode_value W v, inp))))"

lemma value_runsE:
  assumes "value_runs B P content ok W md v" and "ret \<noteq> AtWaitForData"
  obtains k push wrote left where "wrote @ left = encode_value W v" and "k \<noteq> AtWaitForData"
    and "\<And>n st out inp s. at_config content ok md (n, st, out, encode_value W v @ inp) s \<Longrightarrow>
      hands content ok md (k, st @ push, out @ wrote, left @ inp) (handleValue P (value_type v) ret s)"
    and "\<And>st out inp. goes B P content ok md (k, st @ push, out @ wrote, left @ inp)
      (ret, st, out @ encode_value W v, inp)"
proof -
  obtain k push wrote left where v: "wrote @ left = encode_value W v" "k \<noteq> AtWaitForData"
    "\<forall>n st out inp s. at_config content ok md (n, st, out, encode_value W v @ inp) s \<longrightarrow>
      hands content ok md (k, st @ push, out @ wrote, left @ inp) (handleValue P (value_type v) ret s)"
    "\<forall>st out inp. goes B P content ok md (k, st @ push, out @ wrote, left @ inp)
      (ret, st, out @ encode_value W v, inp)"
    using assms(1) [unfolded value_runs_def, THEN spec, THEN mp, OF assms(2)]
    by (elim exE conjE) (rule that)
  show thesis by (rule that [OF v(1,2) v(3,4) [rule_format]])
qed

lemma value_runs_primitive:
  assumes "\<And>ret. handleValue P (value_type v) ret = primitive rd wr ret"
    and "reads_code content ok rd x (encode_value W v)"
    and "writes_code content ok (wr x) (encode_value W v)"
  shows "value_runs B P content ok W md v"
  unfolding value_runs_def
proof (intro allI impI)
  fix ret assume "ret \<noteq> AtWaitForData"
  have "hands content ok md (ret, st, out @ encode_value W v, inp)
      (handleValue P (value_type v) ret s)"
    if at: "at_config content ok md (n, st, out, encode_value W v @ inp) s" for n st out inp s
    unfolding assms(1) primitive_def
    by (rule hands_reading [OF assms(2) at]) (rule hands_writing [OF assms(3)], assumption, rule hands_goto)
  then show "\<exists>k push wrote left. wrote @ left = encode_value W v \<and> k \<noteq> AtWaitForData \<and>
      (\<forall>n st out inp s. at_config content ok md (n, st, out, encode_value W v @ inp) s \<longrightarrow>
         hands content ok md (k, st @ push, out @ wrote, left @ inp)
           (handleValue P (value_type v) ret s)) \<and>
      (\<forall>st out inp. goes B P content ok md (k, st @ push, out @ wrote, left @ inp)
         (ret, st, out @ encode_value W v, inp))"
    using \<open>ret \<noteq> AtWaitForData\<close>
    by (intro exI [of _ ret] exI [of _ "[]"] exI [of _ "encode_value W v"]) simp
qed

lemma value_runs_nested:
  assumes "\<And>ret s. handleValue P (value_type v) ret s = (Inr k, push_frame (Frame_return ret) s)"
    and "k \<noteq> AtWaitForData"
    and "\<And>ret st out inp. ret \<noteq> AtWaitForData \<Longrightarrow>
      goes B P content ok md (k, st @ [Frame_return ret], out, encode_value W v @ inp)
        (ret, st, out @ encode_value W v, inp)"
  shows "value_runs B P content ok W md v"
  unfolding value_runs_def
proof (intro allI impI)
  fix ret assume "ret \<noteq> AtWaitForData"
  moreover have "hands content ok md (k, st @ [Frame_return ret], out, encode_value W v @ inp)
      (handleValue P (value_type v) ret s)"
    if at: "at_config content ok md (n, st, out, encode_value W v @ inp) s" for n st out inp s
    using at by (simp add: assms(1) hands_def push_frame_def at_config_def set_machine_state_def)
  ultimately show "\<exists>k push wrote left. wrote @ left = encode_value W v \<and> k \<noteq> AtWaitForData \<and>
      (\<forall>n st out inp s. at_config content ok md (n, st, out, encode_value W v @ inp) s \<longrightarrow>
         hands content ok md (k, st @ push, out @ wrote, left @ inp)
           (handleValue P (value_type v) ret s)) \<and>
      (\<forall>st out inp. goes B P content ok md (k, st @ push, out @ wrote, left @ inp)
         (ret, st, out @ encode_value W v, inp))"
    using assms(2,3)
    by (intro exI [of _ k] exI [of _ "[Frame_return ret]"] exI [of _ "[]"]
        exI [of _ "encode_value W v"]) simp
qed

lemma pop_at:
  assumes "at_config content ok md (n, st @ [f], out, inp) s"
  obtains s' where "popReturnState s = (Inr (fr_return_state f), s')"
    and "at_config content ok md (n, st, out, inp) s'"
  using assms by (simp add: popReturnState_def at_config_def)

lemma value_type_simps [simp]:
  "value_type v \<noteq> TStop" "value_type v \<in> set field_types"
  by (cases v; simp add: field_types_def)+

context thrift_wire
begin

lemma field_goes:
  assumes "value_runs B P content ok W md v"
  shows "goes B P content ok md
    (AtFieldBegin, st, out, code_field W (value_type v) i @ encode_value W v @ inp)
    (AtFieldBegin, st, out @ code_field W (value_type v) i @ encode_value W v, inp)"
proof -
  let ?t = "value_type v" and ?out = "out @ code_field W (value_type v) i"
  let ?st = "st @ [Frame_field AtFieldEnd (value_type v)]"
  obtain k push wrote left where v: "wrote @ left = encode_value W v" "k \<noteq> AtWaitForData"
    "\<And>n st out inp s. at_config content ok md (n, st, out, encode_value W v @ inp) s \<Longrightarrow>
      hands content ok md (k, st @ push, out @ wrote, left @ inp) (handleValue P ?t AtFieldEnd s)"
    "\<And>st out inp. goes B P content ok md (k, st @ push, out @ wrote, left @ inp)
      (AtFieldEnd, st, out @ encode_value W v, inp)"
    by (rule value_runsE [OF assms, of AtFieldEnd]) (simp, rule that)
  have "goes B P content ok md (AtFieldBegin, st, out, code_field W ?t i @ encode_value W v @ inp)
      (AtFieldValue, ?st, ?out, encode_value W v @ inp)"
  proof (rule hands_run)
    fix s assume at: "at_config content ok md
      (AtFieldBegin, st, out, code_field W ?t i @ encode_value W v @ inp) s"
    show "hands content ok md (AtFieldValue, ?st, ?out, encode_value W v @ inp) (thrift_handleState B P s)"
      unfolding thrift_handleState_def at_state [OF at] ThriftState.case fieldBegin_def
      by (rule hands_reading [OF field_code(1) at])
        (auto intro!: hands_writing [OF field_code(2)] at_push hands_goto)
  qed simp_all
  also have "goes B P content ok md (AtFieldValue, ?st, ?out, encode_value W v @ inp)
      (k, ?st @ push, ?out @ wrote, left @ inp)"
  proof (rule hands_run)
    fix s assume at: "at_config content ok md (AtFieldValue, ?st, ?out, encode_value W v @ inp) s"
    show "hands content ok md (k, ?st @ push, ?out @ wrote, left @ inp) (thrift_handleState B P s)"
      using v(3) [OF at]
      by (simp add: thrift_handleState_def at_state [OF at] at_stack [OF at] fieldValue_def)
  qed (use v(2) in simp_all)
  also have "goes B P content ok md (k, ?st @ push, ?out @ wrote, left @ inp)
      (AtFieldEnd, ?st, ?out @ encode_value W v, inp)" by (rule v(4))
  also have "goes B P content ok md (AtFieldEnd, ?st, ?out @ encode_value W v, inp)
      (AtFieldBegin, st, ?out @ encode_value W v, inp)"
  proof (rule hands_run)
    fix s assume at: "at_config content ok md (AtFieldEnd, ?st, ?out @ encode_value W v, inp) s"
    show "hands content ok md (AtFieldBegin, st, ?out @ encode_value W v, inp) (thrift_handleState B P s)"
      unfolding thrift_handleState_def at_state [OF at] ThriftState.case fieldEnd_def
      by (rule hands_reading [OF mark_code(4)])
        (use at in \<open>auto elim!: pop_at intro!: hands_writing [OF mark_code(11), simplified] hands_goto\<close>)
  qed simp_all
  finally show ?thesis by simp
qed

lemma fields_go:
  assumes "\<forall>f\<in>set fs. value_runs B P content ok W md (snd f)"
  shows "goes B P content ok md
    (AtFieldBegin, st, out,
     concat (map (\<lambda>f. code_field W (value_type (snd f)) (fst f) @ encode_value W (snd f)) fs) @ inp)
    (AtFieldBegin, st,
     out @ concat (map (\<lambda>f. code_field W (value_type (snd f)) (fst f) @ encode_value W (snd f)) fs),
     inp)"
  using assms
proof (induction fs arbitrary: out)
  case (Cons f fs)
  let ?code = "\<lambda>f. code_field W (value_type (snd f)) (fst f) @ encode_value W (snd f)"
  let ?rest = "concat (map ?code fs)"
  have "goes B P content ok md (AtFieldBegin, st, out, ?code f @ ?rest @ inp)
      (AtFieldBegin, st, out @ ?code f, ?rest @ inp)"
    using field_goes [of md "snd f" st out "fst f" "?rest @ inp"] Cons.prems by simp
  also have "goes B P content ok md (AtFieldBegin, st, out @ ?code f, ?rest @ inp)
      (AtFieldBegin, st, (out @ ?code f) @ ?rest, inp)"
    using Cons.IH [of "out @ ?code f"] Cons.prems by simp
  finally show ?case by simp
qed simp

text \<open>A struct: the fields, then the stop field, and back to the state below.\<close>

lemma struct_goes:
  assumes "\<forall>f\<in>set fs. value_runs B P content ok W md (snd f)" and "ret \<noteq> AtWaitForData"
  shows "goes B P content ok md
    (AtStructBegin, st @ [Frame_return ret], out, encode_value W (VStruct fs) @ inp)
    (ret, st, out @ encode_value W (VStruct fs), inp)"
proof -
  let ?st = "st @ [Frame_return ret]"
  let ?fs = "concat (map (\<lambda>f. code_field W (value_type (snd f)) (fst f) @ encode_value W (snd f)) fs)"
  have "goes B P content ok md (AtStructBegin, ?st, out, ?fs @ code_stop W @ inp)
      (AtFieldBegin, ?st, out, ?fs @ code_stop W @ inp)"
  proof (rule hands_run)
    fix s assume at: "at_config content ok md (AtStructBegin, ?st, out, ?fs @ code_stop W @ inp) s"
    show "hands content ok md (AtFieldBegin, ?st, out, ?fs @ code_stop W @ inp) (thrift_handleState B P s)"
      unfolding thrift_handleState_def at_state [OF at] ThriftState.case structBegin_def
      by (rule hands_reading [OF mark_code(1)])
        (use at in \<open>auto intro!: hands_writing [OF mark_code(8), simplified] hands_goto\<close>)
  qed simp_all
  also have "goes B P content ok md (AtFieldBegin, ?st, out, ?fs @ code_stop W @ inp)
      (AtFieldBegin, ?st, out @ ?fs, code_stop W @ inp)"
    by (rule fields_go [OF assms(1)])
  also have "goes B P content ok md (AtFieldBegin, ?st, out @ ?fs, code_stop W @ inp)
      (AtStructEnd, ?st, out @ ?fs, inp)"
  proof (rule hands_run)
    fix s assume at: "at_config content ok md (AtFieldBegin, ?st, out @ ?fs, code_stop W @ inp) s"
    show "hands content ok md (AtStructEnd, ?st, out @ ?fs, inp) (thrift_handleState B P s)"
      unfolding thrift_handleState_def at_state [OF at] ThriftState.case fieldBegin_def
      by (rule hands_reading [OF field_code(3) at])
        (use hands_goto [of content ok md _ ?st "out @ ?fs" inp _ AtStructEnd] in
          \<open>simp add: goto_state_def\<close>)
  qed simp_all
  also have "goes B P content ok md (AtStructEnd, ?st, out @ ?fs, inp)
      (ret, st, (out @ ?fs) @ code_stop W, inp)"
  proof (rule hands_run)
    fix s assume at: "at_config content ok md (AtStructEnd, ?st, out @ ?fs, inp) s"
    show "hands content ok md (ret, st, (out @ ?fs) @ code_stop W, inp) (thrift_handleState B P s)"
      unfolding thrift_handleState_def at_state [OF at] ThriftState.case structEnd_def
      by (rule hands_reading [OF mark_code(2)])
        (use at in \<open>auto intro!: hands_writing [OF field_code(4)]
          hands_writing [OF mark_code(9), simplified] hands_pop\<close>)
  qed (use assms(2) in simp_all)
  finally show ?thesis by simp
qed

text \<open>An element of a container; the frame on top counts it down.\<close>

lemma element_goes:
  assumes "value_runs B P content ok W md v" and "ret \<noteq> AtWaitForData" and "n \<noteq> AtDone"
    and "\<And>s. at_config content ok md (n, st @ [f], out, encode_value W v @ inp) s \<Longrightarrow>
      thrift_handleState B P s = handle_element P (value_type v) ret s"
  shows "goes B P content ok md (n, st @ [f], out, encode_value W v @ inp)
    (ret, st @ [f\<lparr>fr_remaining := fr_remaining f - 1\<rparr>], out @ encode_value W v, inp)"
proof -
  let ?f = "f\<lparr>fr_remaining := fr_remaining f - 1\<rparr>"
  obtain k push wrote left where v: "wrote @ left = encode_value W v" "k \<noteq> AtWaitForData"
    "\<And>n st out inp s. at_config content ok md (n, st, out, encode_value W v @ inp) s \<Longrightarrow>
      hands content ok md (k, st @ push, out @ wrote, left @ inp) (handleValue P (value_type v) ret s)"
    "\<And>st out inp. goes B P content ok md (k, st @ push, out @ wrote, left @ inp)
      (ret, st, out @ encode_value W v, inp)"
    by (rule value_runsE [OF assms(1,2)]) (rule that)
  have "goes B P content ok md (n, st @ [f], out, encode_value W v @ inp)
      (k, (st @ [?f]) @ push, out @ wrote, left @ inp)"
  proof (rule hands_run)
    fix s assume at: "at_config content ok md (n, st @ [f], out, encode_value W v @ inp) s"
    show "hands content ok md (k, (st @ [?f]) @ push, out @ wrote, left @ inp) (thrift_handleState B P s)"
      unfolding assms(4) [OF at] by (rule hands_element [OF at v(3) [OF at] v(2)])
  qed (use assms(3) v(2) in simp_all)
  also have "goes B P content ok md (k, (st @ [?f]) @ push, out @ wrote, left @ inp)
      (ret, st @ [?f], out @ encode_value W v, inp)" by (rule v(4))
  finally show ?thesis .
qed

lemma count_down:
  assumes "Suc m < 2 ^ 31"
  shows "(of_nat (Suc m) :: u32) \<noteq> 0" and "of_nat (Suc m) - 1 = (of_nat m :: u32)"
proof -
  have "unat (of_nat (Suc m) :: u32) = Suc m"
    using assms by (simp add: unat_of_nat take_bit_nat_eq_self_iff del: of_nat_Suc)
  then show "(of_nat (Suc m) :: u32) \<noteq> 0" by auto
qed simp

lemma elements_go:
  assumes "n = AtListValue \<or> n = AtSetValue" and "length vs < 2 ^ 31"
    and "\<forall>v\<in>set vs. value_type v = t \<and> value_runs B P content ok W md v"
  shows "goes B P content ok md
    (n, st @ [Frame_elems e t (of_nat (length vs))], out, concat (map (encode_value W) vs) @ inp)
    (n, st @ [Frame_elems e t 0], out @ concat (map (encode_value W) vs), inp)"
  using assms(2,3)
proof (induction vs arbitrary: out)
  case (Cons v vs)
  let ?f = "\<lambda>k. Frame_elems e t (of_nat k)" and ?rest = "concat (map (encode_value W) vs)"
  note count = count_down [of "length vs"]
  have "goes B P content ok md (n, st @ [?f (Suc (length vs))], out, encode_value W v @ ?rest @ inp)
      (n, st @ [(?f (Suc (length vs)))\<lparr>fr_remaining := fr_remaining (?f (Suc (length vs))) - 1\<rparr>],
       out @ encode_value W v, ?rest @ inp)"
  proof (rule element_goes)
    fix s assume at: "at_config content ok md
      (n, st @ [?f (Suc (length vs))], out, encode_value W v @ ?rest @ inp) s"
    show "thrift_handleState B P s = handle_element P (value_type v) n s"
      using assms(1) Cons.prems count
      by (auto simp: thrift_handleState_def at_state [OF at] at_stack [OF at] listValue_def
          setValue_def Let_def simp del: of_nat_Suc)
  qed (use Cons.prems assms(1) in auto)
  also have "(?f (Suc (length vs)))\<lparr>fr_remaining := fr_remaining (?f (Suc (length vs))) - 1\<rparr> =
      ?f (length vs)"
    by (simp add: Frame_elems_def)
  also have "goes B P content ok md (n, st @ [?f (length vs)], out @ encode_value W v, ?rest @ inp)
      (n, st @ [Frame_elems e t 0], (out @ encode_value W v) @ ?rest, inp)"
    using Cons.IH [of "out @ encode_value W v"] Cons.prems by simp
  finally show ?case by simp
qed simp

text \<open>Leaving a container: the counting frame goes, then the end mark leads back.\<close>

lemma container_end_goes:
  assumes "\<And>s out inp. at_config content ok md (n, st @ [Frame_return ret, f], out, inp) s \<Longrightarrow>
      thrift_handleState B P s = popReturnState s"
    and "\<And>s. tm_state (snd s) = fr_return_state f \<Longrightarrow>
      thrift_handleState B P s = reading rd (\<lambda>_. writing wr popReturnState) s"
    and "reads_code content ok rd () []" and "writes_code content ok wr []"
    and "ret \<noteq> AtWaitForData" and "n \<noteq> AtDone" and "fr_return_state f \<notin> {AtWaitForData, AtDone}"
  shows "goes B P content ok md (n, st @ [Frame_return ret, f], out, inp) (ret, st, out, inp)"
proof -
  have "goes B P content ok md (n, st @ [Frame_return ret, f], out, inp)
      (fr_return_state f, st @ [Frame_return ret], out, inp)"
  proof (rule hands_run)
    fix s assume at: "at_config content ok md (n, st @ [Frame_return ret, f], out, inp) s"
    show "hands content ok md (fr_return_state f, st @ [Frame_return ret], out, inp)
        (thrift_handleState B P s)"
      unfolding assms(1) [OF at] by (rule hands_pop [OF _ refl]) (use at in simp)
  qed (use assms in simp_all)
  also have "goes B P content ok md (fr_return_state f, st @ [Frame_return ret], out, inp)
      (ret, st, out, inp)"
  proof (rule hands_run)
    fix s assume at: "at_config content ok md (fr_return_state f, st @ [Frame_return ret], out, inp) s"
    show "hands content ok md (ret, st, out, inp) (thrift_handleState B P s)"
      unfolding assms(2) [OF at_state [OF at]]
      by (rule hands_reading [OF assms(3)])
        (use at in \<open>auto intro!: hands_writing [OF assms(4), simplified] hands_pop\<close>)
  qed (use assms in simp_all)
  finally show ?thesis .
qed

lemma container_begin_goes:
  assumes "reads_code content ok rd v code" and "writes_code content ok (wr v) code"
    and "\<And>s. tm_state (snd s) = n \<Longrightarrow> thrift_handleState B P s =
      reading rd (\<lambda>v s. writing (wr v) (goto_state n') (push_frame (frame v) s)) s"
    and "n \<noteq> AtDone" and "n' \<noteq> AtWaitForData"
  shows "goes B P content ok md (n, st, out, code @ inp) (n', st @ [frame v], out @ code, inp)"
proof (rule hands_run)
  fix s assume at: "at_config content ok md (n, st, out, code @ inp) s"
  show "hands content ok md (n', st @ [frame v], out @ code, inp) (thrift_handleState B P s)"
    unfolding assms(3) [OF at_state [OF at]]
    by (rule hands_reading [OF assms(1) at])
      (auto intro!: hands_writing [OF assms(2)] at_push hands_goto)
qed (use assms in simp_all)

lemma unat_of_nat_length: "n < 2 ^ 31 \<Longrightarrow> unat (of_nat n :: u32) < 2 ^ 31"
  by (simp add: unat_of_nat take_bit_nat_eq_self_iff)

lemma list_goes:
  assumes "value_ok (VList t vs)" and "\<forall>v\<in>set vs. value_runs B P content ok W md v"
    and "ret \<noteq> AtWaitForData"
  shows "goes B P content ok md
    (AtListBegin, st @ [Frame_return ret], out, encode_value W (VList t vs) @ inp)
    (ret, st, out @ encode_value W (VList t vs), inp)"
proof -
  let ?n = "of_nat (length vs) :: u32" and ?vs = "concat (map (encode_value W) vs)"
  let ?st = "st @ [Frame_return ret]"
  have ok: "t \<in> set field_types" "unat ?n < 2 ^ 31" "length vs < 2 ^ 31" "\<forall>v\<in>set vs. value_type v = t"
    using assms(1) unat_of_nat_length by auto
  have "goes B P content ok md (AtListBegin, ?st, out, code_list W t ?n @ ?vs @ inp)
      (AtListValue, ?st @ [Frame_elems AtListEnd t ?n], out @ code_list W t ?n, ?vs @ inp)"
    using container_begin_goes [where frame = "\<lambda>(t, k). Frame_elems AtListEnd t k"
        and wr = "\<lambda>(t, k). pr_writeListBegin P t k"
        and n = AtListBegin and n' = AtListValue and st = ?st, OF container_code(3) [OF ok(1,2)]]
      container_code(4) [OF ok(1,2)]
    by (simp add: thrift_handleState_def listBegin_def case_prod_unfold)
  also have "goes B P content ok md
      (AtListValue, ?st @ [Frame_elems AtListEnd t ?n], out @ code_list W t ?n, ?vs @ inp)
      (AtListValue, ?st @ [Frame_elems AtListEnd t 0], (out @ code_list W t ?n) @ ?vs, inp)"
    by (rule elements_go) (use ok assms(2) in simp_all)
  also have "goes B P content ok md
      (AtListValue, ?st @ [Frame_elems AtListEnd t 0], (out @ code_list W t ?n) @ ?vs, inp)
      (ret, st, (out @ code_list W t ?n) @ ?vs, inp)"
    unfolding append_assoc append_Cons append_Nil
    by (rule container_end_goes [OF _ _ mark_code(6) mark_code(13) assms(3)])
      (auto simp: thrift_handleState_def at_state at_stack listValue_def listEnd_def)
  finally show ?thesis by simp
qed

lemma set_goes:
  assumes "value_ok (VSet t vs)" and "\<forall>v\<in>set vs. value_runs B P content ok W md v"
    and "ret \<noteq> AtWaitForData"
  shows "goes B P content ok md
    (AtSetBegin, st @ [Frame_return ret], out, encode_value W (VSet t vs) @ inp)
    (ret, st, out @ encode_value W (VSet t vs), inp)"
proof -
  let ?n = "of_nat (length vs) :: u32" and ?vs = "concat (map (encode_value W) vs)"
  let ?st = "st @ [Frame_return ret]"
  have ok: "t \<in> set field_types" "unat ?n < 2 ^ 31" "length vs < 2 ^ 31" "\<forall>v\<in>set vs. value_type v = t"
    using assms(1) unat_of_nat_length by auto
  have "goes B P content ok md (AtSetBegin, ?st, out, code_set W t ?n @ ?vs @ inp)
      (AtSetValue, ?st @ [Frame_elems AtSetEnd t ?n], out @ code_set W t ?n, ?vs @ inp)"
    using container_begin_goes [where frame = "\<lambda>(t, k). Frame_elems AtSetEnd t k"
        and wr = "\<lambda>(t, k). pr_writeSetBegin P t k"
        and n = AtSetBegin and n' = AtSetValue and st = ?st, OF container_code(5) [OF ok(1,2)]]
      container_code(6) [OF ok(1,2)]
    by (simp add: thrift_handleState_def setBegin_def case_prod_unfold)
  also have "goes B P content ok md
      (AtSetValue, ?st @ [Frame_elems AtSetEnd t ?n], out @ code_set W t ?n, ?vs @ inp)
      (AtSetValue, ?st @ [Frame_elems AtSetEnd t 0], (out @ code_set W t ?n) @ ?vs, inp)"
    by (rule elements_go) (use ok assms(2) in simp_all)
  also have "goes B P content ok md
      (AtSetValue, ?st @ [Frame_elems AtSetEnd t 0], (out @ code_set W t ?n) @ ?vs, inp)
      (ret, st, (out @ code_set W t ?n) @ ?vs, inp)"
    unfolding append_assoc append_Cons append_Nil
    by (rule container_end_goes [OF _ _ mark_code(7) mark_code(14) assms(3)])
      (auto simp: thrift_handleState_def at_state at_stack setValue_def setEnd_def)
  finally show ?thesis by simp
qed

text \<open>A pair: the key leaves the count alone, the value takes one off.\<close>

lemma key_goes:
  assumes "value_runs B P content ok W md v" and "fr_elem_type f = value_type v"
    and "fr_remaining f \<noteq> 0"
  shows "goes B P content ok md (AtMapKey, st @ [f], out, encode_value W v @ inp)
    (AtMapValue, st @ [f], out @ encode_value W v, inp)"
proof -
  obtain k push wrote left where v: "wrote @ left = encode_value W v" "k \<noteq> AtWaitForData"
    "\<And>n st out inp s. at_config content ok md (n, st, out, encode_value W v @ inp) s \<Longrightarrow>
      hands content ok md (k, st @ push, out @ wrote, left @ inp)
        (handleValue P (value_type v) AtMapValue s)"
    "\<And>st out inp. goes B P content ok md (k, st @ push, out @ wrote, left @ inp)
      (AtMapValue, st, out @ encode_value W v, inp)"
    by (rule value_runsE [OF assms(1), of AtMapValue]) (simp, rule that)
  have "goes B P content ok md (AtMapKey, st @ [f], out, encode_value W v @ inp)
      (k, (st @ [f]) @ push, out @ wrote, left @ inp)"
  proof (rule hands_run)
    fix s assume at: "at_config content ok md (AtMapKey, st @ [f], out, encode_value W v @ inp) s"
    show "hands content ok md (k, (st @ [f]) @ push, out @ wrote, left @ inp) (thrift_handleState B P s)"
      using v(3) [OF at] assms(2,3)
      by (simp add: thrift_handleState_def at_state [OF at] at_stack [OF at] mapKey_def)
  qed (use v(2) in simp_all)
  also have "goes B P content ok md (k, (st @ [f]) @ push, out @ wrote, left @ inp)
      (AtMapValue, st @ [f], out @ encode_value W v, inp)" by (rule v(4))
  finally show ?thesis .
qed

lemma pairs_go:
  assumes "length kvs < 2 ^ 31"
    and "\<forall>kv\<in>set kvs. value_type (fst kv) = k \<and> value_type (snd kv) = t \<and>
      value_runs B P content ok W md (fst kv) \<and> value_runs B P content ok W md (snd kv)"
  shows "goes B P content ok md
    (AtMapKey, st @ [Frame_map e k t (of_nat (length kvs))], out,
     concat (map (\<lambda>kv. encode_value W (fst kv) @ encode_value W (snd kv)) kvs) @ inp)
    (AtMapKey, st @ [Frame_map e k t 0],
     out @ concat (map (\<lambda>kv. encode_value W (fst kv) @ encode_value W (snd kv)) kvs), inp)"
  using assms
proof (induction kvs arbitrary: out)
  case (Cons kv kvs)
  let ?f = "\<lambda>n. Frame_map e k t (of_nat n)"
  let ?rest = "concat (map (\<lambda>kv. encode_value W (fst kv) @ encode_value W (snd kv)) kvs)"
  let ?k = "encode_value W (fst kv)" and ?v = "encode_value W (snd kv)"
  let ?m = "Suc (length kvs)"
  note count = count_down [of "length kvs"]
  have kv: "value_runs B P content ok W md (fst kv)" "value_runs B P content ok W md (snd kv)"
    "value_type (fst kv) = k" "value_type (snd kv) = t" using Cons.prems by auto
  have "goes B P content ok md (AtMapKey, st @ [?f ?m], out, ?k @ ?v @ ?rest @ inp)
      (AtMapValue, st @ [?f ?m], out @ ?k, ?v @ ?rest @ inp)"
    by (rule key_goes) (use kv count Cons.prems in \<open>simp_all del: of_nat_Suc\<close>)
  also have "goes B P content ok md (AtMapValue, st @ [?f ?m], out @ ?k, ?v @ ?rest @ inp)
      (AtMapKey, st @ [(?f ?m)\<lparr>fr_remaining := fr_remaining (?f ?m) - 1\<rparr>],
       (out @ ?k) @ ?v, ?rest @ inp)"
  proof (rule element_goes)
    fix s assume at: "at_config content ok md
      (AtMapValue, st @ [?f ?m], out @ ?k, ?v @ ?rest @ inp) s"
    show "thrift_handleState B P s = handle_element P (value_type (snd kv)) AtMapKey s"
      using kv Cons.prems count
      by (auto simp: thrift_handleState_def at_state [OF at] at_stack [OF at] mapValue_def
          Let_def simp del: of_nat_Suc)
  qed (use kv in auto)
  also have "(?f ?m)\<lparr>fr_remaining := fr_remaining (?f ?m) - 1\<rparr> = ?f (length kvs)"
    by (simp add: Frame_map_def)
  also have "goes B P content ok md (AtMapKey, st @ [?f (length kvs)], (out @ ?k) @ ?v, ?rest @ inp)
      (AtMapKey, st @ [Frame_map e k t 0], ((out @ ?k) @ ?v) @ ?rest, inp)"
    using Cons.IH [of "(out @ ?k) @ ?v"] Cons.prems by simp
  finally show ?case by simp
qed simp

lemma map_goes:
  assumes "value_ok (VMap k t kvs)"
    and "\<forall>kv\<in>set kvs. value_runs B P content ok W md (fst kv) \<and> value_runs B P content ok W md (snd kv)"
    and "ret \<noteq> AtWaitForData"
  shows "goes B P content ok md
    (AtMapBegin, st @ [Frame_return ret], out, encode_value W (VMap k t kvs) @ inp)
    (ret, st, out @ encode_value W (VMap k t kvs), inp)"
proof -
  let ?n = "of_nat (length kvs) :: u32"
  let ?kvs = "concat (map (\<lambda>kv. encode_value W (fst kv) @ encode_value W (snd kv)) kvs)"
  let ?st = "st @ [Frame_return ret]" and ?code = "code_map W k t (of_nat (length kvs))"
  have ok: "k \<in> set field_types" "t \<in> set field_types" "unat ?n < 2 ^ 31" "length kvs < 2 ^ 31"
    "\<forall>kv\<in>set kvs. value_type (fst kv) = k \<and> value_type (snd kv) = t"
    using assms(1) unat_of_nat_length by auto
  have "goes B P content ok md (AtMapBegin, ?st, out, ?code @ ?kvs @ inp)
      (AtMapKey, ?st @ [Frame_map AtMapEnd k t ?n], out @ ?code, ?kvs @ inp)"
    using container_begin_goes [where frame = "\<lambda>(k, t, n). Frame_map AtMapEnd k t n"
        and wr = "\<lambda>(k, t, n). pr_writeMapBegin P k t n"
        and n = AtMapBegin and n' = AtMapKey and st = ?st, OF container_code(1) [OF ok(1,2,3)]]
      container_code(2) [OF ok(1,2,3)]
    by (simp add: thrift_handleState_def mapBegin_def case_prod_unfold)
  also have "goes B P content ok md (AtMapKey, ?st @ [Frame_map AtMapEnd k t ?n], out @ ?code, ?kvs @ inp)
      (AtMapKey, ?st @ [Frame_map AtMapEnd k t 0], (out @ ?code) @ ?kvs, inp)"
    by (rule pairs_go) (use ok assms(2) in auto)
  also have "goes B P content ok md (AtMapKey, ?st @ [Frame_map AtMapEnd k t 0], (out @ ?code) @ ?kvs, inp)
      (ret, st, (out @ ?code) @ ?kvs, inp)"
    unfolding append_assoc append_Cons append_Nil
    by (rule container_end_goes [OF _ _ mark_code(5) mark_code(12) assms(3)])
      (auto simp: thrift_handleState_def at_state at_stack mapKey_def mapEnd_def)
  finally show ?thesis by simp
qed

lemma value_runs_all: "value_ok v \<Longrightarrow> value_runs B P content ok W md v"
proof (induction v)
  case (VStruct fs)
  then have "\<forall>f\<in>set fs. value_runs B P content ok W md (snd f)"
    by (auto simp: snds.simps)
  then show ?case
    by (intro value_runs_nested [where k = AtStructBegin])
      (auto simp: handleValue_def intro: struct_goes simp del: encode_value.simps)
next
  case (VMap k t kvs)
  then have "\<forall>kv\<in>set kvs. value_runs B P content ok W md (fst kv) \<and> value_runs B P content ok W md (snd kv)"
    by (fastforce simp: fsts.simps snds.simps)
  with VMap.prems show ?case
    by (intro value_runs_nested [where k = AtMapBegin])
      (auto simp: handleValue_def intro: map_goes simp del: encode_value.simps value_ok.simps)
next
  case (VList t vs)
  then have "\<forall>v\<in>set vs. value_runs B P content ok W md v" by auto
  with VList.prems show ?case
    by (intro value_runs_nested [where k = AtListBegin])
      (auto simp: handleValue_def intro: list_goes simp del: encode_value.simps value_ok.simps)
next
  case (VSet t vs)
  then have "\<forall>v\<in>set vs. value_runs B P content ok W md v" by auto
  with VSet.prems show ?case
    by (intro value_runs_nested [where k = AtSetBegin])
      (auto simp: handleValue_def intro: set_goes simp del: encode_value.simps value_ok.simps)
next
  case (VBool x)
  show ?case
    by (intro value_runs_primitive [where x = x and rd = "pr_readBool P" and wr = "pr_writeBool P"])
      (simp_all add: handleValue_def fun_eq_iff read_value_code write_value_code)
next
  case (VByte x)
  show ?case
    by (intro value_runs_primitive [where x = x and rd = "pr_readByte P" and wr = "pr_writeByte P"])
      (simp_all add: handleValue_def fun_eq_iff read_value_code write_value_code)
next
  case (VI16 x)
  show ?case
    by (intro value_runs_primitive [where x = x and rd = "pr_readInt16 P" and wr = "pr_writeInt16 P"])
      (simp_all add: handleValue_def fun_eq_iff read_value_code write_value_code)
next
  case (VI32 x)
  show ?case
    by (intro value_runs_primitive [where x = x and rd = "pr_readInt32 P" and wr = "pr_writeInt32 P"])
      (simp_all add: handleValue_def fun_eq_iff read_value_code write_value_code)
next
  case (VI64 x)
  show ?case
    by (intro value_runs_primitive [where x = x and rd = "pr_readInt64 P" and wr = "pr_writeInt64 P"])
      (simp_all add: handleValue_def fun_eq_iff read_value_code write_value_code)
next
  case (VDouble x)
  show ?case
    by (intro value_runs_primitive [where x = x and rd = "pr_readDouble P" and wr = "pr_writeDouble P"])
      (simp_all add: handleValue_def fun_eq_iff read_value_code write_value_code)
next
  case (VString x)
  then show ?case
    by (intro value_runs_primitive [where x = x and rd = "pr_readString P" and wr = "pr_writeString P"])
      (simp_all add: handleValue_def fun_eq_iff read_value_code write_value_code)
qed

text \<open>The message: its header sets the metadata, then a struct, then the end mark.\<close>

lemma message_begin_hands:
  assumes "length name < 2 ^ 31" and "t \<in> {TCall, TReply, TException, TOneway}"
    and "ok (tm_proto sm)" and "tm_state sm = AtMessageBegin" and "\<not> tm_passthrough_enabled sm"
    and "content (tm_origin_message sm) = []" and "content b = code_message W name t i @ inp"
  shows "hands content ok (message_metadata name t i (tm_metadata sm))
    (AtStructBegin, [Frame_return AtMessageEnd], code_message W name t i, inp)
    (thrift_handleState B P (b, sm))"
proof -
  let ?md = "message_metadata name t i (tm_metadata sm)"
  obtain p b1 where rd: "pr_readMessageBegin P (tm_proto sm, b) (tm_metadata sm) =
      (Inr True, ((p, b1), ?md))" "ok p" "content b1 = inp"
    using message_code(1) assms(1-3,7) unfolding reads_message_def by blast
  define sm1 where "sm1 = sm\<lparr>tm_proto := p, tm_metadata := ?md,
    tm_stack := [Frame_return AtMessageEnd]\<rparr>"
  have at1: "at_config content ok ?md (AtMessageBegin, [Frame_return AtMessageEnd], [], inp) (b1, sm1)"
    using assms rd by (simp add: at_config_def sm1_def)
  have "writes_code content ok (pr_writeMessageBegin P ?md) (code_message W name t i)"
    by (rule message_code(2)) (use assms in \<open>simp_all add: message_metadata_def\<close>)
  then have "hands content ok ?md
      (AtStructBegin, [Frame_return AtMessageEnd], [] @ code_message W name t i, inp)
      (writing (pr_writeMessageBegin P ?md) (goto_state AtStructBegin) (b1, sm1))"
    by (rule hands_writing [OF _ at1]) (rule hands_goto)
  moreover have "thrift_handleState B P (b, sm) =
      writing (pr_writeMessageBegin P ?md) (goto_state AtStructBegin) (b1, sm1)"
    using assms(4,5) rd(1) by (simp add: thrift_handleState_def messageBegin_def sm1_def Let_def)
  ultimately show ?thesis by simp
qed

lemma message_end_goes:
  "goes B P content ok md (AtMessageEnd, [], out, inp) (AtDone, [], out, inp)"
proof (rule hands_run)
  fix s assume at: "at_config content ok md (AtMessageEnd, [], out, inp) s"
  show "hands content ok md (AtDone, [], out, inp) (thrift_handleState B P s)"
    unfolding thrift_handleState_def at_state [OF at] ThriftState.case messageEnd_def
    by (rule hands_reading [OF mark_code(3)])
      (use at in \<open>auto intro!: hands_writing [OF mark_code(10), simplified] hands_goto
        simp del: goto_state_simp\<close>)
qed simp_all

lemma message_forwarded:
  assumes "length name < 2 ^ 31" and "t \<in> {TCall, TReply, TException, TOneway}"
    and "value_ok (VStruct fs)"
    and "ok (tm_proto sm)" and "tm_state sm = AtMessageBegin" and "\<not> tm_passthrough_enabled sm"
    and "content (tm_origin_message sm) = []"
    and "content b = encode_message W name t i fs @ inp"
  obtains b' sm' where "thrift_run B P (b, sm) = Some (Inr AtDone, (b', sm'))"
    and "content b' = inp" and "content (tm_origin_message sm') = encode_message W name t i fs"
    and "tm_metadata sm' = message_metadata name t i (tm_metadata sm)" and "ok (tm_proto sm')"
proof -
  let ?md = "message_metadata name t i (tm_metadata sm)" and ?v = "VStruct fs"
  let ?code = "code_message W name t i"
  obtain s1 where s1: "thrift_handleState B P (b, sm) = (Inr AtStructBegin, s1)"
    "at_config content ok ?md
      (AtStructBegin, [] @ [Frame_return AtMessageEnd], ?code, encode_value W ?v @ inp)
      (set_machine_state AtStructBegin s1)"
    using message_begin_hands [OF assms(1,2,4-7), of b i "encode_value W ?v @ inp"] assms(8)
    by (auto simp: hands_def encode_message_def)
  have "goes B P content ok ?md
      (AtStructBegin, [] @ [Frame_return AtMessageEnd], ?code, encode_value W ?v @ inp)
      (AtMessageEnd, [], ?code @ encode_value W ?v, inp)"
    by (rule struct_goes) (use assms(3) value_runs_all in auto)
  also note message_end_goes
  finally obtain s2 where s2: "thrift_run B P (set_machine_state AtStructBegin s1) = thrift_run B P s2"
    "at_config content ok ?md (AtDone, [], ?code @ encode_value W ?v, inp) s2"
    using s1(2) unfolding goes_def by blast
  have "thrift_run B P (b, sm) = thrift_run B P s2"
    using assms(5) s1(1) s2(1) by (simp add: thrift_run_step)
  also have "\<dots> = Some (Inr AtDone, (fst s2, snd s2))"
    using thrift_run_done [of "snd s2" B P "fst s2"] at_state [OF s2(2)] by simp
  finally show thesis
    using s2(2)
    by (intro that [of "fst s2" "snd s2"]) (simp_all add: at_config_def encode_message_def)
qed

end

end
