(* ===== verification/Thrift_Frames.thy ===== *)
theory Thrift_Frames
  imports Thrift_Forward
begin

text \<open>
  The Thrift codec on framed messages, and its replies to errors. The locale \<open>thrift_frames\<close> adds
  to a protocol given by codes a transport whose frame is a header, determined by the length of the
  message, and the message: Thrift's framed transport has the length as four bytes.
\<close>

definition starts_frame ::
  "('b \<Rightarrow> u8 list) \<Rightarrow> ('t \<Rightarrow> bool) \<Rightarrow> ('t, 'b, 'h) thrift_transport \<Rightarrow> (nat \<Rightarrow> u8 list) \<Rightarrow> bool" where
  "starts_frame content tok T head \<longleftrightarrow>
     (\<forall>t b m body rest. tok t \<longrightarrow> length body < 2 ^ 31 \<longrightarrow>
       content b = head (length body) @ body @ rest \<longrightarrow>
       (\<exists>t' b'. tr_decodeFrameStart T t b m =
          (Inr True, (t', b', m\<lparr>mm_frame_size := Some (of_nat (length body))\<rparr>)) \<and>
          tok t' \<and> content b' = body @ rest))"

definition ends_frame :: "('b \<Rightarrow> u8 list) \<Rightarrow> ('t \<Rightarrow> bool) \<Rightarrow> ('t, 'b, 'h) thrift_transport \<Rightarrow> bool" where
  "ends_frame content tok T \<longleftrightarrow>
     (\<forall>t b. tok t \<longrightarrow>
       (\<exists>t' b'. tr_decodeFrameEnd T t b = (Inr True, (t', b')) \<and> tok t' \<and> content b' = content b))"

definition encodes_frame ::
  "('b \<Rightarrow> u8 list) \<Rightarrow> ('t \<Rightarrow> bool) \<Rightarrow> ('t, 'b, 'h) thrift_transport \<Rightarrow> (nat \<Rightarrow> u8 list) \<Rightarrow> bool" where
  "encodes_frame content tok T head \<longleftrightarrow>
     (\<forall>t out m message. tok t \<longrightarrow> length (content message) < 2 ^ 31 \<longrightarrow>
       (\<exists>t' out' message'. tr_encodeFrame T t out m message = (Inr (), (t', out', message')) \<and>
          tok t' \<and>
          content out' = content out @ head (length (content message)) @ content message))"

locale thrift_frames = thrift_wire B content P ok W + thrift_framing B content P ok T tok H
  for B :: "'b buffer_ops" and content :: "'b \<Rightarrow> u8 list"
    and P :: "('p, 'b, 'h) thrift_protocol" and ok :: "'p \<Rightarrow> bool" and W :: thrift_code
    and T :: "('t, 'b, 'h) thrift_transport" and tok :: "'t \<Rightarrow> bool" and H :: "'h header_ops" +
  fixes head :: "nat \<Rightarrow> u8 list"
  assumes frame_head: "starts_frame content tok T head" "ends_frame content tok T"
      "encodes_frame content tok T head"

definition frame_bytes :: "(nat \<Rightarrow> u8 list) \<Rightarrow> u8 list \<Rightarrow> u8 list" where
  "frame_bytes head body = head (length body) @ body"

subsection \<open>Decoding a framed message\<close>

fun thrift_to_message_type :: "ThriftMessageType \<Rightarrow> MessageType" where
  "thrift_to_message_type TCall = Request"
| "thrift_to_message_type TReply = Response"
| "thrift_to_message_type TOneway = Oneway"
| "thrift_to_message_type _ = MsgError"

text \<open>What \<open>toMetadata\<close> makes of a message: the proxy's metadata but for the origin message.\<close>

definition thrift_fill ::
  "'h header_ops \<Rightarrow> string \<Rightarrow> ThriftMessageType \<Rightarrow> i32 \<Rightarrow> ('x, 'b, 'h) metadata \<Rightarrow> ('x, 'b, 'h) metadata" where
  "thrift_fill H name t i m =
     (Metadata_putString H m ''method'' name)
       \<lparr>md_request_id := scast i, md_message_type := thrift_to_message_type t\<rparr>"

context thrift_frames
begin

lemma toMetadata_frame:
  assumes "tok t" and "mt \<in> {TCall, TReply, TException, TOneway}"
    and "mm_method_name md = Some name" and "mm_msg_type md = Some mt" and "mm_seq_id md = Some i"
    and "length (content message) < 2 ^ 31"
  obtains t' out message' where
    "thrift_toMetadata H T md (t, m, message) =
      (Inr (), (t', (thrift_fill H name mt i m)\<lparr>md_origin_message := out\<rparr>, message'))"
    and "tok t'"
    and "content out = content (md_origin_message m) @ frame_bytes head (content message)"
proof -
  obtain t' out message' where
    enc: "tr_encodeFrame T t (md_origin_message m) md message = (Inr (), (t', out, message'))"
    and t': "tok t'"
    and out: "content out = content (md_origin_message m) @ frame_bytes head (content message)"
    using frame_head(3) assms(1,6) unfolding encodes_frame_def frame_bytes_def by blast
  have "thrift_toMetadata H T md (t, m, message) =
      (Inr (), (t', (thrift_fill H name mt i m)\<lparr>md_origin_message := out\<rparr>, message'))"
    using assms(2-5) enc
    by (auto simp: thrift_toMetadata_def thrift_fill_def Let_def putString_fields)
  then show thesis using that t' out by blast
qed

lemma decode_frame:
  assumes "thrift_codec_ok ok tok c" and "\<not> tc_frame_started c" and "tc_metadata c = None"
    and "length name < 2 ^ 31" and "t \<in> {TCall, TReply, TException, TOneway}"
    and "value_ok (VStruct fs)" and "length (encode_message W name t i fs) < 2 ^ 31"
    and "content b = frame_bytes head (encode_message W name t i fs) @ inp"
  obtains c' b' out where
    "ThriftCodec_decode B H T P c b m =
      Some (Inr DecodeDone, (c', b', (thrift_fill H name t i m)\<lparr>md_origin_message := out\<rparr>))"
    and "content b' = inp"
    and "content out = content (md_origin_message m) @
      frame_bytes head (encode_message W name t i fs)"
proof -
  let ?enc = "encode_message W name t i fs"
  define md where "md = (Thrift_MessageMetadata H)\<lparr>mm_frame_size := Some (of_nat (length ?enc))\<rparr>"
  have c: "tok (tc_transport c)" "ok (tc_protocol c)" "\<not> tc_frame_ended c"
    using assms(1) by (simp_all add: thrift_codec_ok_def)
  obtain t1 b1 where fs: "tr_decodeFrameStart T (tc_transport c) b (Thrift_MessageMetadata H) =
      (Inr True, (t1, b1, md))" "tok t1" "content b1 = ?enc @ inp"
    using frame_head(1) c(1) assms(7,8)
    unfolding starts_frame_def frame_bytes_def append_assoc md_def by blast
  have md: "mm_proto md = None" "mm_app_ex_type md = None"
    by (simp_all add: md_def Thrift_MessageMetadata_def)
  let ?sm = "Thrift_DecoderStateMachine B (tc_protocol c) md"
  have sm: "ok (tm_proto ?sm)" "tm_state ?sm = AtMessageBegin" "\<not> tm_passthrough_enabled ?sm"
    "content (tm_origin_message ?sm) = []" "tm_metadata ?sm = md"
    using c(2) by (simp_all add: Thrift_DecoderStateMachine_def new_content)
  obtain b2 sm where run: "thrift_run B P (b1, ?sm) = Some (Inr AtDone, (b2, sm))"
    and b2: "content b2 = inp" and om: "content (tm_origin_message sm) = ?enc"
    and md': "tm_metadata sm = message_metadata name t i md"
    using message_forwarded [OF assms(4-6) sm(1-4) fs(3), unfolded sm(5)] .
  obtain t2 b3 where fe: "tr_decodeFrameEnd T t1 b2 = (Inr True, (t2, b3))" "tok t2"
    "content b3 = inp"
    using frame_head(2) fs(2) b2 unfolding ends_frame_def by blast
  have mds: "mm_method_name (tm_metadata sm) = Some name" "mm_msg_type (tm_metadata sm) = Some t"
    "mm_seq_id (tm_metadata sm) = Some i" by (simp_all add: md' message_metadata_def)
  obtain t3 out message where tm: "thrift_toMetadata H T (tm_metadata sm) (t2, m, tm_origin_message sm) =
      (Inr (), (t3, (thrift_fill H name t i m)\<lparr>md_origin_message := out\<rparr>, message))"
    and out: "content out = content (md_origin_message m) @ frame_bytes head ?enc"
    using toMetadata_frame [OF fe(2) assms(5) mds, where message = "tm_origin_message sm" and m = m,
        unfolded om, OF assms(7)] .
  have "?sm\<lparr>tm_proto := tc_protocol c, tm_metadata := md\<rparr> = ?sm"
    by (simp add: Thrift_DecoderStateMachine_def)
  then have "\<exists>c'. ThriftCodec_decode B H T P c b m =
      Some (Inr DecodeDone, (c', b3, (thrift_fill H name t i m)\<lparr>md_origin_message := out\<rparr>))"
    using assms(2,3) c(3) fs(1) md run fe(1) tm
    by (simp add: ThriftCodec_decode_def ThriftCodec_frameStart_def ThriftCodec_frameEnd_def
        check_protocol_def Let_def)
  then show thesis using that fe(3) out by blast
qed

end

subsection \<open>Errors\<close>

definition TApplicationException :: "string \<Rightarrow> (i16 \<times> tvalue) list" where
  "TApplicationException message = [(1, VString message), (2, VI32 6)]"

lemma writes_code_all:
  "list_all2 (writes_code content ok) ws codes \<Longrightarrow> writes_code content ok (write_all ws) (concat codes)"
proof (induction rule: list_all2_induct)
  case (Cons w ws code codes)
  show ?case
    unfolding writes_code_def
  proof (intro allI impI)
    fix p b assume "ok p"
    with Cons(1) obtain p1 b1 where "w (p, b) = (Inr (), (p1, b1))" "ok p1"
      "content b1 = content b @ code" unfolding writes_code_def by blast
    moreover from this(2) Cons(3) obtain p2 b2 where "write_all ws (p1, b1) = (Inr (), (p2, b2))"
      "ok p2" "content b2 = content b1 @ concat codes" unfolding writes_code_def by blast
    ultimately show "\<exists>p' b'. write_all (w # ws) (p, b) = (Inr (), (p', b')) \<and> ok p' \<and>
        content b' = content b @ concat (code # codes)" by simp
  qed
qed (simp add: writes_code_def)

context thrift_wire
begin

lemma exception_code:
  assumes "mm_method_name m = Some name" and "mm_msg_type m = Some TException"
    and "mm_seq_id m = Some i" and "length name < 2 ^ 31" and "length message < 2 ^ 31"
  shows "writes_code content ok (thrift_exception P m message)
    (encode_message W name TException i (TApplicationException message))"
proof -
  have "writes_code content ok (thrift_exception P m message)
      (concat [code_message W name TException i, [], code_field W TString 1, code_string W message,
        [], code_field W TI32 2, code_i32 W 6, [], code_stop W, [], []])"
    unfolding thrift_exception_def
    by (rule writes_code_all)
      (simp add: message_code(2) [OF assms(1-3) assms(4)] write_value_code(7) [OF assms(5)]
        write_value_code mark_code field_code field_types_def)
  then show ?thesis by (simp add: encode_message_def TApplicationException_def)
qed

lemma onError_code:
  assumes "ok (tc_protocol c)" and "content b = []"
    and "Metadata_getString m ''method'' = Inr name" and "length name < 2 ^ 31"
    and "length (err_message err) < 2 ^ 31"
  obtains c' b' where "ThriftCodec_onError B H P c m err b = (Inr (), (c', b'))"
    and "content b' = encode_message W name TException 0 (TApplicationException (err_message err))"
proof -
  define m3 where "m3 = (Thrift_MessageMetadata H)
    \<lparr>mm_method_name := Some name, mm_seq_id := Some 0, mm_msg_type := Some TException\<rparr>"
  have "writes_code content ok (thrift_exception P m3 (err_message err))
      (encode_message W name TException 0 (TApplicationException (err_message err)))"
    by (rule exception_code) (use assms in \<open>simp_all add: m3_def\<close>)
  then obtain p b' where wr: "thrift_exception P m3 (err_message err) (tc_protocol c, b) = (Inr (), (p, b'))"
    and b': "content b' = encode_message W name TException 0 (TApplicationException (err_message err))"
    using assms(1,2) unfolding writes_code_def by (metis append_Nil)
  have "ThriftCodec_onError B H P c m err b = (Inr (), (c\<lparr>tc_protocol := p\<rparr>, b'))"
    using assms(2,3) wr
    by (cases "name = []")
      (simp_all add: ThriftCodec_onError_def thrift_toMsgMetadata_def length_content m3_def
        Thrift_MessageMetadata_def Let_def)
  then show thesis using that b' by blast
qed

end

end
