(* ===== verification/Thrift_Binary.thy ===== *)
theory Thrift_Binary
  imports Thrift_Frames
begin

text \<open>
  A reference instance of the Thrift interfaces: the strict binary protocol and the framed transport
  of the Apache Thrift specification, over a list of bytes. It shows that the laws the codec relies
  on hold together, and runs the model on concrete messages; Envoy's own implementations are not in
  the repository.
\<close>

subsection \<open>Codes\<close>

definition field_byte :: "FieldType \<Rightarrow> u8" where
  "field_byte t = word_of_int (field_type_code t)"

definition byte_field :: "u8 \<Rightarrow> FieldType" where
  "byte_field b = field_type_of_code (sint b)"

definition message_byte :: "ThriftMessageType \<Rightarrow> u8" where
  "message_byte t = word_of_int (thrift_message_code t)"

definition byte_message :: "u8 \<Rightarrow> ThriftMessageType option" where
  "byte_message b = find (\<lambda>t. message_byte t = b) [TCall, TReply, TException, TOneway]"

definition length_bytes :: "nat \<Rightarrow> u8 list" where
  "length_bytes n = be_bytes 4 (of_nat n :: u32)"

definition string_bytes :: "string \<Rightarrow> u8 list" where
  "string_bytes s = length_bytes (length s) @ map byte_of_char s"

definition binary_code :: thrift_code where
  "binary_code = \<lparr>
     code_message = (\<lambda>name t i. [0x80, 1, 0, message_byte t] @ string_bytes name @ be_bytes 4 i),
     code_field = (\<lambda>t i. field_byte t # be_bytes 2 i),
     code_stop = [0],
     code_map = (\<lambda>k t n. [field_byte k, field_byte t] @ be_bytes 4 n),
     code_list = (\<lambda>t n. field_byte t # be_bytes 4 n),
     code_set = (\<lambda>t n. field_byte t # be_bytes 4 n),
     code_bool = (\<lambda>x. [if x then 1 else 0]),
     code_byte = (\<lambda>x. [x]),
     code_i16 = be_bytes 2,
     code_i32 = be_bytes 4,
     code_i64 = be_bytes 8,
     code_double = be_bytes 8,
     code_string = string_bytes\<rparr>"

subsection \<open>Reading and writing\<close>

definition bin_read :: "nat \<Rightarrow> (u8 list \<Rightarrow> 'v) \<Rightarrow> ('v, unit, u8 list) reader" where
  "bin_read k f s =
     (if length (snd s) < k then (Inr None, s)
      else (Inr (Some (f (take k (snd s)))), (fst s, drop k (snd s))))"

definition bin_mark :: "'v \<Rightarrow> ('v, unit, u8 list) reader" where
  "bin_mark v s = (Inr (Some v), s)"

definition bin_string :: "(string, unit, u8 list) reader" where
  "bin_string s =
     (let b = snd s; n = unat (be_word (take 4 b) :: u32)
      in if length b < 4 then (Inr None, s)
         else if n \<ge> 2 ^ 31 then (Inl (EnvoyException ''negative string length''), s)
         else if length b < 4 + n then (Inr None, s)
         else (Inr (Some (map char_of_byte (take n (drop 4 b)))), (fst s, drop (4 + n) b)))"

definition bin_field :: "(string \<times> FieldType \<times> i16, unit, u8 list) reader" where
  "bin_field s =
     (let b = snd s
      in if b = [] then (Inr None, s)
         else if hd b = 0 then (Inr (Some ([], TStop, 0)), (fst s, drop 1 b))
         else if length b < 3 then (Inr None, s)
         else (Inr (Some ([], byte_field (hd b), be_word (take 2 (tl b)))), (fst s, drop 3 b)))"

definition bin_map :: "(FieldType \<times> FieldType \<times> u32, unit, u8 list) reader" where
  "bin_map s =
     (let b = snd s; n = (be_word (take 4 (drop 2 b)) :: u32)
      in if length b < 6 then (Inr None, s)
         else if unat n \<ge> 2 ^ 31 then (Inl (EnvoyException ''negative map size''), s)
         else (Inr (Some (byte_field (b ! 0), byte_field (b ! 1), n)), (fst s, drop 6 b)))"

definition bin_list :: "(FieldType \<times> u32, unit, u8 list) reader" where
  "bin_list s =
     (let b = snd s; n = (be_word (take 4 (drop 1 b)) :: u32)
      in if length b < 5 then (Inr None, s)
         else if unat n \<ge> 2 ^ 31 then (Inl (EnvoyException ''negative list size''), s)
         else (Inr (Some (byte_field (b ! 0), n)), (fst s, drop 5 b)))"

definition bin_message ::
  "unit \<times> u8 list \<Rightarrow> 'h thrift_metadata \<Rightarrow> (bool, (unit \<times> u8 list) \<times> 'h thrift_metadata) outcome" where
  "bin_message s m =
     (let b = snd s
      in if length b < 4 then (Inr False, (s, m))
         else if take 2 b \<noteq> [0x80, 1] then
           (Inl (EnvoyException ''invalid binary protocol version''), (s, m))
         else
           (case byte_message (b ! 3) of
              None \<Rightarrow> (Inl (EnvoyException ''invalid binary protocol message type''), (s, m))
            | Some t \<Rightarrow>
                (case bin_string (fst s, drop 4 b) of
                   (Inl e, _) \<Rightarrow> (Inl e, (s, m))
                 | (Inr None, _) \<Rightarrow> (Inr False, (s, m))
                 | (Inr (Some name), (p, b')) \<Rightarrow>
                     if length b' < 4 then (Inr False, (s, m))
                     else (Inr True,
                           ((p, drop 4 b'), message_metadata name t (be_word (take 4 b')) m)))))"

definition bin_write :: "u8 list \<Rightarrow> (unit, u8 list) writer" where
  "bin_write code s = (Inr (), (fst s, snd s @ code))"

definition bin_write_message :: "'h thrift_metadata \<Rightarrow> (unit, u8 list) writer" where
  "bin_write_message m s =
     (case (mm_method_name m, mm_msg_type m, mm_seq_id m) of
        (Some name, Some t, Some i) \<Rightarrow> bin_write (code_message binary_code name t i) s
      | _ \<Rightarrow> (Inl (EnvoyException ''incomplete message header''), s))"

definition binary_protocol :: "(unit, u8 list, 'h) thrift_protocol" where
  "binary_protocol = \<lparr>
     pr_type = (\<lambda>_. ProtocolBinary),
     pr_setType = (\<lambda>_ p. (Inl (Panic ''NOT_IMPLEMENTED''), p)),
     pr_readMessageBegin = bin_message,
     pr_readMessageEnd = bin_mark (),
     pr_readStructBegin = bin_mark [],
     pr_readStructEnd = bin_mark (),
     pr_readFieldBegin = bin_field,
     pr_readFieldEnd = bin_mark (),
     pr_readMapBegin = bin_map,
     pr_readMapEnd = bin_mark (),
     pr_readListBegin = bin_list,
     pr_readListEnd = bin_mark (),
     pr_readSetBegin = bin_list,
     pr_readSetEnd = bin_mark (),
     pr_readBool = bin_read 1 (\<lambda>bs. hd bs \<noteq> 0),
     pr_readByte = bin_read 1 hd,
     pr_readInt16 = bin_read 2 be_word,
     pr_readInt32 = bin_read 4 be_word,
     pr_readInt64 = bin_read 8 be_word,
     pr_readDouble = bin_read 8 be_word,
     pr_readString = bin_string,
     pr_writeMessageBegin = bin_write_message,
     pr_writeMessageEnd = bin_write [],
     pr_writeStructBegin = (\<lambda>_. bin_write []),
     pr_writeStructEnd = bin_write [],
     pr_writeFieldBegin = (\<lambda>_ t i. bin_write (if t = TStop then [0] else code_field binary_code t i)),
     pr_writeFieldEnd = bin_write [],
     pr_writeMapBegin = (\<lambda>k t n. bin_write (code_map binary_code k t n)),
     pr_writeMapEnd = bin_write [],
     pr_writeListBegin = (\<lambda>t n. bin_write (code_list binary_code t n)),
     pr_writeListEnd = bin_write [],
     pr_writeSetBegin = (\<lambda>t n. bin_write (code_set binary_code t n)),
     pr_writeSetEnd = bin_write [],
     pr_writeBool = (\<lambda>x. bin_write (code_bool binary_code x)),
     pr_writeByte = (\<lambda>x. bin_write [x]),
     pr_writeInt16 = (\<lambda>x. bin_write (be_bytes 2 x)),
     pr_writeInt32 = (\<lambda>x. bin_write (be_bytes 4 x)),
     pr_writeInt64 = (\<lambda>x. bin_write (be_bytes 8 x)),
     pr_writeDouble = (\<lambda>x. bin_write (be_bytes 8 x)),
     pr_writeString = (\<lambda>s. bin_write (string_bytes s))\<rparr>"

text \<open>The framed transport.\<close>

definition framed_transport :: "(unit, u8 list, 'h) thrift_transport" where
  "framed_transport = \<lparr>
     tr_decodeFrameStart = (\<lambda>t b m.
       (let n = (be_word (take 4 b) :: u32)
        in if length b < 4 then (Inr False, (t, b, m))
           else if unat n \<ge> 2 ^ 31 then
             (Inl (EnvoyException ''invalid thrift framed transport frame size''), (t, b, m))
           else (Inr True, (t, drop 4 b, m\<lparr>mm_frame_size := Some n\<rparr>)))),
     tr_decodeFrameEnd = (\<lambda>t b. (Inr True, (t, b))),
     tr_encodeFrame = (\<lambda>t out m message.
       (if length message \<ge> 2 ^ 31 then
          (Inl (EnvoyException ''thrift message too large''), (t, out, message))
        else (Inr (), (t, out @ length_bytes (length message) @ message, []))))\<rparr>"

subsection \<open>The laws\<close>

lemma binary_protocol_simps:
  "pr_type binary_protocol = (\<lambda>_. ProtocolBinary)"
  "pr_setType binary_protocol = (\<lambda>_ p. (Inl (Panic ''NOT_IMPLEMENTED''), p))"
  "pr_readMessageBegin binary_protocol = bin_message"
  "pr_readMessageEnd binary_protocol = bin_mark ()"
  "pr_readStructBegin binary_protocol = bin_mark []"
  "pr_readStructEnd binary_protocol = bin_mark ()"
  "pr_readFieldBegin binary_protocol = bin_field"
  "pr_readFieldEnd binary_protocol = bin_mark ()"
  "pr_readMapBegin binary_protocol = bin_map"
  "pr_readMapEnd binary_protocol = bin_mark ()"
  "pr_readListBegin binary_protocol = bin_list"
  "pr_readListEnd binary_protocol = bin_mark ()"
  "pr_readSetBegin binary_protocol = bin_list"
  "pr_readSetEnd binary_protocol = bin_mark ()"
  "pr_readBool binary_protocol = bin_read 1 (\<lambda>bs. hd bs \<noteq> 0)"
  "pr_readByte binary_protocol = bin_read 1 hd"
  "pr_readInt16 binary_protocol = bin_read 2 be_word"
  "pr_readInt32 binary_protocol = bin_read 4 be_word"
  "pr_readInt64 binary_protocol = bin_read 8 be_word"
  "pr_readDouble binary_protocol = bin_read 8 be_word"
  "pr_readString binary_protocol = bin_string"
  "pr_writeMessageBegin binary_protocol = bin_write_message"
  "pr_writeMessageEnd binary_protocol = bin_write []"
  "pr_writeStructBegin binary_protocol = (\<lambda>_. bin_write [])"
  "pr_writeStructEnd binary_protocol = bin_write []"
  "pr_writeFieldBegin binary_protocol = (\<lambda>_ t i. bin_write (if t = TStop then [0] else code_field binary_code t i))"
  "pr_writeFieldEnd binary_protocol = bin_write []"
  "pr_writeMapBegin binary_protocol = (\<lambda>k t n. bin_write (code_map binary_code k t n))"
  "pr_writeMapEnd binary_protocol = bin_write []"
  "pr_writeListBegin binary_protocol = (\<lambda>t n. bin_write (code_list binary_code t n))"
  "pr_writeListEnd binary_protocol = bin_write []"
  "pr_writeSetBegin binary_protocol = (\<lambda>t n. bin_write (code_set binary_code t n))"
  "pr_writeSetEnd binary_protocol = bin_write []"
  "pr_writeBool binary_protocol = (\<lambda>x. bin_write (code_bool binary_code x))"
  "pr_writeByte binary_protocol = (\<lambda>x. bin_write [x])"
  "pr_writeInt16 binary_protocol = (\<lambda>x. bin_write (be_bytes 2 x))"
  "pr_writeInt32 binary_protocol = (\<lambda>x. bin_write (be_bytes 4 x))"
  "pr_writeInt64 binary_protocol = (\<lambda>x. bin_write (be_bytes 8 x))"
  "pr_writeDouble binary_protocol = (\<lambda>x. bin_write (be_bytes 8 x))"
  "pr_writeString binary_protocol = (\<lambda>s. bin_write (string_bytes s))"
  by (simp_all add: binary_protocol_def)

lemma binary_code_simps:
  "code_message binary_code = (\<lambda>name t i. [0x80, 1, 0, message_byte t] @ string_bytes name @ be_bytes 4 i)"
  "code_field binary_code = (\<lambda>t i. field_byte t # be_bytes 2 i)"
  "code_stop binary_code = [0]"
  "code_map binary_code = (\<lambda>k t n. [field_byte k, field_byte t] @ be_bytes 4 n)"
  "code_list binary_code = (\<lambda>t n. field_byte t # be_bytes 4 n)"
  "code_set binary_code = (\<lambda>t n. field_byte t # be_bytes 4 n)"
  "code_bool binary_code = (\<lambda>x. [if x then 1 else 0])"
  "code_byte binary_code = (\<lambda>x. [x])"
  "code_i16 binary_code = be_bytes 2"
  "code_i32 binary_code = be_bytes 4"
  "code_i64 binary_code = be_bytes 8"
  "code_double binary_code = be_bytes 8"
  "code_string binary_code = string_bytes"
  by (simp_all add: binary_code_def)

lemma byte_field_byte [simp]: "t \<in> set field_types \<Longrightarrow> byte_field (field_byte t) = t"
  by (auto simp: byte_field_def field_byte_def field_types_def field_type_of_code_def)

lemma field_byte_nonzero [simp]: "t \<in> set field_types \<Longrightarrow> field_byte t = 0 \<longleftrightarrow> t = TStop"
  by (auto simp: field_byte_def field_types_def)

lemma byte_message_byte:
  "t \<in> {TCall, TReply, TException, TOneway} \<Longrightarrow> byte_message (message_byte t) = Some t"
  by (auto simp: byte_message_def message_byte_def)

lemma byte_message_valid: "byte_message b = Some t \<Longrightarrow> t \<in> {TCall, TReply, TException, TOneway}"
  by (auto simp: byte_message_def split: if_splits)

lemma length_length_bytes [simp]: "length (length_bytes n) = 4"
  by (simp add: length_bytes_def)

lemma unat_length_bytes:
  "n < 2 ^ 31 \<Longrightarrow> unat (be_word (length_bytes n) :: u32) = n"
  by (simp add: length_bytes_def unat_of_nat take_bit_nat_eq_self_iff)

lemma dropped: "k \<le> n \<Longrightarrow> n \<le> length b \<Longrightarrow> \<exists>pre. b = pre @ drop n b \<and> k \<le> length pre"
  by (rule exI [of _ "take n b"]) simp

lemma dropped_some: "0 < n \<Longrightarrow> n \<le> length b \<Longrightarrow> \<exists>pre. b = pre @ drop n b \<and> pre \<noteq> []"
  by (rule exI [of _ "take n b"]) auto

lemma bin_read_well: "j \<le> k \<Longrightarrow> reads_well (\<lambda>b. b) ok j (bin_read k f)"
  by (auto simp: reads_well_def bin_read_def intro!: dropped)

lemma bin_mark_well: "reads_well (\<lambda>b. b) ok 0 (bin_mark v)"
  by (simp add: reads_well_def bin_mark_def)

lemma bin_string_well: "reads_well (\<lambda>b. b) ok 0 bin_string"
  by (auto simp: reads_well_def bin_string_def Let_def intro!: dropped [of 0, simplified])

lemma bin_field_well: "reads_well (\<lambda>b. b) ok 1 bin_field"
  by (auto simp: reads_well_def bin_field_def Let_def Suc_le_eq intro!: dropped_some)

lemma bin_map_well: "reads_well (\<lambda>b. b) ok 1 bin_map"
  by (auto simp: reads_well_def bin_map_def Let_def intro!: dropped)

lemma bin_list_well: "reads_well (\<lambda>b. b) ok 1 bin_list"
  by (auto simp: reads_well_def bin_list_def Let_def intro!: dropped)

lemma bin_write_well: "writes_well (\<lambda>b. b) (\<lambda>_. True) (bin_write code)"
  by (simp add: writes_well_def bin_write_def)

lemma bin_read_code: "length code = k \<Longrightarrow> f code = v \<Longrightarrow> reads_code (\<lambda>b. b) (\<lambda>_. True) (bin_read k f) v code"
  by (auto simp: reads_code_def bin_read_def)

lemma bin_mark_code: "reads_code (\<lambda>b. b) (\<lambda>_. True) (bin_mark v) v []"
  by (simp add: reads_code_def bin_mark_def)

lemma bin_string_code:
  "length s < 2 ^ 31 \<Longrightarrow> reads_code (\<lambda>b. b) (\<lambda>_. True) bin_string s (string_bytes s)"
  by (auto simp: reads_code_def bin_string_def string_bytes_def unat_length_bytes Let_def comp_def)

lemma bin_write_code: "writes_code (\<lambda>b. b) (\<lambda>_. True) (bin_write code) code"
  by (simp add: writes_code_def bin_write_def)

lemma bin_field_code:
  "t \<in> set field_types \<Longrightarrow> t \<noteq> TStop \<Longrightarrow>
   reads_code (\<lambda>b. b) (\<lambda>_. True) bin_field ([], t, i) (code_field binary_code t i)"
  by (auto simp: reads_code_def bin_field_def binary_code_def Let_def)

lemma bin_stop_code: "reads_code (\<lambda>b. b) (\<lambda>_. True) bin_field ([], TStop, 0) (code_stop binary_code)"
  by (auto simp: reads_code_def bin_field_def binary_code_def Let_def)

lemma bin_map_code:
  "t \<in> set field_types \<Longrightarrow> t' \<in> set field_types \<Longrightarrow> unat n < 2 ^ 31 \<Longrightarrow>
   reads_code (\<lambda>b. b) (\<lambda>_. True) bin_map (t, t', n) (code_map binary_code t t' n)"
  by (auto simp: reads_code_def bin_map_def binary_code_def Let_def)

lemma bin_list_code:
  "t \<in> set field_types \<Longrightarrow> unat n < 2 ^ 31 \<Longrightarrow>
   reads_code (\<lambda>b. b) (\<lambda>_. True) bin_list (t, n) (field_byte t # be_bytes 4 n)"
  by (auto simp: reads_code_def bin_list_def binary_code_def Let_def)

lemma bin_message_well: "begins_well (\<lambda>b. b) (\<lambda>_. True) binary_protocol"
  unfolding begins_well_def
proof (intro allI impI)
  fix p b and m :: "'h thrift_metadata"
  have "\<exists>pre. b = pre @ b' \<and> pre \<noteq> []"
    if long: "4 \<le> length b" and str: "bin_string (u, drop 4 b) = (Inr (Some name), (u', b1))"
      and b1: "b' = drop 4 b1" for u u' name b1 b'
  proof -
    obtain n where "b1 = drop n b" "4 \<le> n"
      using str by (auto simp: bin_string_def Let_def split: if_splits)
    then have b': "b' = drop (4 + n) b" using b1 by simp
    have "b = take (4 + n) b @ b'" using b' by simp
    moreover have "take (4 + n) b \<noteq> []" using long by auto
    ultimately show ?thesis by blast
  qed
  note suffix = this
  have "valid_message_type (message_metadata name t i m)" if "byte_message x = Some t" for name t i x
    using byte_message_valid [OF that] by (auto simp: valid_message_type_def message_metadata_def)
  moreover have "is_envoy_exception e" if "bin_string s = (Inl e, s')" for e s s'
    using that by (auto simp: bin_string_def Let_def split: if_splits)
  ultimately show "case pr_readMessageBegin binary_protocol (p, b) m of
      (Inl e, _) \<Rightarrow> is_envoy_exception e
    | (Inr False, ((p', b'), m')) \<Rightarrow> True \<and> b' = b
    | (Inr True, ((p', b'), m')) \<Rightarrow>
        True \<and> (\<exists>pre. b = pre @ b' \<and> pre \<noteq> []) \<and> valid_message_type m'"
    by (auto simp: binary_protocol_def bin_message_def Let_def
        split: option.splits prod.splits sum.splits bool.splits intro: suffix)
qed

lemma bin_message_code: "reads_message (\<lambda>b. b) (\<lambda>_. True) binary_protocol binary_code"
  unfolding reads_message_def
proof (intro allI impI)
  fix p b name t i rest and m :: "'h thrift_metadata"
  assume name: "length name < 2 ^ 31" and t: "t \<in> {TCall, TReply, TException, TOneway}"
    and b: "b = code_message binary_code name t i @ rest"
  have "bin_string (p, string_bytes name @ x) = (Inr (Some name), (p, x))" for x
    using bin_string_code [OF name] by (auto simp: reads_code_def)
  then show "\<exists>p' b'. pr_readMessageBegin binary_protocol (p, b) m =
      (Inr True, ((p', b'), message_metadata name t i m)) \<and> True \<and> b' = rest"
    using byte_message_byte [OF t]
    by (simp add: b binary_protocol_def binary_code_def bin_message_def Let_def)
qed

lemma bin_write_message_well: "writes_well (\<lambda>b. b) (\<lambda>_. True) (bin_write_message m)"
  by (auto simp: writes_well_def bin_write_message_def bin_write_def split: option.splits)

lemma bin_write_message_code:
  "mm_method_name m = Some name \<Longrightarrow> mm_msg_type m = Some t \<Longrightarrow> mm_seq_id m = Some i \<Longrightarrow>
   writes_code (\<lambda>b. b) (\<lambda>_. True) (bin_write_message m) (code_message binary_code name t i)"
  by (simp add: writes_code_def bin_write_message_def bin_write_def)

lemma bin_word_code:
  "reads_code (\<lambda>b. b) (\<lambda>_. True) (bin_read 2 be_word) (x2 :: i16) (be_bytes 2 x2)"
  "reads_code (\<lambda>b. b) (\<lambda>_. True) (bin_read 4 be_word) (x4 :: i32) (be_bytes 4 x4)"
  "reads_code (\<lambda>b. b) (\<lambda>_. True) (bin_read 8 be_word) (x8 :: i64) (be_bytes 8 x8)"
  by (simp_all add: bin_read_code)

lemmas bin_wells = bin_read_well bin_mark_well bin_string_well bin_field_well
  bin_map_well bin_list_well bin_write_well bin_write_message_well

lemmas bin_codes = bin_message_code bin_write_message_code bin_mark_code bin_write_code
  bin_field_code bin_stop_code bin_map_code bin_list_code bin_word_code bin_string_code

lemma binary_reading: "thrift_reading list_buffer (\<lambda>b. b) binary_protocol (\<lambda>_. True)"
  by (unfold_locales; (rule bin_message_well)?)
    (simp_all add: binary_protocol_simps bin_mark_def bin_wells bin_wells [simplified])

interpretation binary: thrift_wire list_buffer "\<lambda>b. b" binary_protocol "\<lambda>_. True" binary_code
  by (intro thrift_wire.intro binary_reading thrift_wire_axioms.intro)
    (simp_all add: binary_protocol_simps bin_codes bin_read_code binary_code_simps
      bin_codes [unfolded binary_code_simps append_Cons append_Nil])

lemma framed_transport_simps:
  "tr_decodeFrameEnd framed_transport t b = (Inr True, (t, b))"
  "length message < 2 ^ 31 \<Longrightarrow> tr_encodeFrame framed_transport t out m message =
     (Inr (), (t, out @ length_bytes (length message) @ message, []))"
  "length body < 2 ^ 31 \<Longrightarrow>
     tr_decodeFrameStart framed_transport t (length_bytes (length body) @ body @ rest) m =
       (Inr True, (t, body @ rest, m\<lparr>mm_frame_size := Some (of_nat (length body))\<rparr>))"
  by (simp_all add: framed_transport_def Let_def unat_length_bytes)
    (simp add: length_bytes_def)

lemma binary_framing:
  "thrift_framing list_buffer (\<lambda>b. b) binary_protocol (\<lambda>_. True) framed_transport (\<lambda>_. True)"
proof (intro thrift_framing.intro binary_reading thrift_framing_axioms.intro)
  show "frame_start_well (\<lambda>b. b) (\<lambda>_. True) framed_transport"
    by (auto simp: frame_start_well_def framed_transport_def Let_def app_exception_ok_def
        intro!: dropped [of 0, simplified])
qed (auto simp: frame_end_well_def encode_frame_well_def set_type_well_def framed_transport_def
    binary_protocol_simps)

interpretation binary: thrift_frames list_buffer "\<lambda>b. b" binary_protocol "\<lambda>_. True" binary_code
    framed_transport "\<lambda>_. True" alist_headers length_bytes
  by (intro thrift_frames.intro binary.thrift_wire_axioms binary_framing thrift_frames_axioms.intro)
    (auto simp: starts_frame_def ends_frame_def encodes_frame_def framed_transport_simps)

end
