(* ===== verification/Thrift_Fragments.thy ===== *)
theory Thrift_Fragments
  imports Thrift_Binary
begin

text \<open>
  The Thrift codec does not depend on how the stream is cut: decoding a fragment, waiting, and
  decoding again with more bytes is decoding the longer buffer. The locale \<open>thrift_extending\<close> adds
  what this needs: what a read returns does not change when bytes are appended to the buffer, and
  an operation that asks for more data has changed nothing.
\<close>

subsection \<open>Appending bytes\<close>

definition extends ::
  "('b \<Rightarrow> u8 list) \<Rightarrow> ('p \<Rightarrow> bool) \<Rightarrow> ('v, 'p, 'b) reader \<Rightarrow> bool" where
  "extends content ok rd \<longleftrightarrow>
     (\<forall>p b c x. ok p \<longrightarrow> content c = content b @ x \<longrightarrow>
       (case rd (p, b) of
          (Inl e, (p', b')) \<Rightarrow> \<exists>c'. rd (p, c) = (Inl e, (p', c'))
        | (Inr None, (p', b')) \<Rightarrow> p' = p \<and> content b' = content b
        | (Inr (Some v), (p', b')) \<Rightarrow>
            \<exists>c'. rd (p, c) = (Inr (Some v), (p', c')) \<and> content c' = content b' @ x))"

definition message_extends ::
  "('b \<Rightarrow> u8 list) \<Rightarrow> ('p \<Rightarrow> bool) \<Rightarrow> ('p, 'b, 'h) thrift_protocol \<Rightarrow> bool" where
  "message_extends content ok P \<longleftrightarrow>
     (\<forall>p b c m x. ok p \<longrightarrow> content c = content b @ x \<longrightarrow>
       (case pr_readMessageBegin P (p, b) m of
          (Inl e, ((p', b'), m')) \<Rightarrow> \<exists>c'. pr_readMessageBegin P (p, c) m = (Inl e, ((p', c'), m'))
        | (Inr False, ((p', b'), m')) \<Rightarrow> p' = p \<and> m' = m \<and> content b' = content b
        | (Inr True, ((p', b'), m')) \<Rightarrow>
            \<exists>c'. pr_readMessageBegin P (p, c) m = (Inr True, ((p', c'), m')) \<and>
              content c' = content b' @ x))"

definition frame_extends ::
  "('b \<Rightarrow> u8 list) \<Rightarrow> ('t \<Rightarrow> bool) \<Rightarrow> ('t, 'b, 'h) thrift_transport \<Rightarrow> bool" where
  "frame_extends content tok T \<longleftrightarrow>
     (\<forall>t b c m x. tok t \<longrightarrow> content c = content b @ x \<longrightarrow>
       (case tr_decodeFrameStart T t b m of
          (Inl e, (t', b', m')) \<Rightarrow> \<exists>c'. tr_decodeFrameStart T t c m = (Inl e, (t', c', m'))
        | (Inr False, (t', b', m')) \<Rightarrow> t' = t \<and> m' = m \<and> content b' = content b
        | (Inr True, (t', b', m')) \<Rightarrow>
            \<exists>c'. tr_decodeFrameStart T t c m = (Inr True, (t', c', m')) \<and>
              content c' = content b' @ x))"

definition frame_end_extends ::
  "('b \<Rightarrow> u8 list) \<Rightarrow> ('t \<Rightarrow> bool) \<Rightarrow> ('t, 'b, 'h) thrift_transport \<Rightarrow> bool" where
  "frame_end_extends content tok T \<longleftrightarrow>
     (\<forall>t b c x. tok t \<longrightarrow> content c = content b @ x \<longrightarrow>
       (case tr_decodeFrameEnd T t b of
          (Inl e, (t', b')) \<Rightarrow> \<exists>c'. tr_decodeFrameEnd T t c = (Inl e, (t', c'))
        | (Inr d, (t', b')) \<Rightarrow>
            \<exists>c'. tr_decodeFrameEnd T t c = (Inr d, (t', c')) \<and> content c' = content b' @ x))"

locale thrift_extending = thrift_framing B content P ok T tok H
  for B :: "'b buffer_ops" and content :: "'b \<Rightarrow> u8 list"
    and P :: "('p, 'b, 'h) thrift_protocol" and ok :: "'p \<Rightarrow> bool"
    and T :: "('t, 'b, 'h) thrift_transport" and tok :: "'t \<Rightarrow> bool" and H :: "'h header_ops" +
  assumes message_ext: "message_extends content ok P"
    and headers_ext:
      "extends content ok (pr_readFieldBegin P)" "extends content ok (pr_readMapBegin P)"
      "extends content ok (pr_readListBegin P)" "extends content ok (pr_readSetBegin P)"
    and marks_ext:
      "extends content ok (pr_readStructBegin P)" "extends content ok (pr_readStructEnd P)"
      "extends content ok (pr_readMessageEnd P)" "extends content ok (pr_readFieldEnd P)"
      "extends content ok (pr_readMapEnd P)" "extends content ok (pr_readListEnd P)"
      "extends content ok (pr_readSetEnd P)"
    and values_ext:
      "extends content ok (pr_readBool P)" "extends content ok (pr_readByte P)"
      "extends content ok (pr_readInt16 P)" "extends content ok (pr_readInt32 P)"
      "extends content ok (pr_readInt64 P)" "extends content ok (pr_readDouble P)"
      "extends content ok (pr_readString P)"
    and frame_ext: "frame_extends content tok T" "frame_end_extends content tok T"

subsection \<open>Handlers\<close>

text \<open>
  \<open>r\<close> is the outcome of a handler on a run state \<open>s\<close>, \<open>r'\<close> its outcome with \<open>x\<close> appended to the
  buffer.
\<close>

definition ext_outcome ::
  "('b \<Rightarrow> u8 list) \<Rightarrow> u8 list \<Rightarrow> ('p, 'b, 'h) run_state \<Rightarrow>
   (ThriftState, ('p, 'b, 'h) run_state) outcome \<Rightarrow>
   (ThriftState, ('p, 'b, 'h) run_state) outcome \<Rightarrow> bool" where
  "ext_outcome content x s r r' \<longleftrightarrow>
     (case r of
        (Inl e, (b', sm')) \<Rightarrow> \<exists>c'. r' = (Inl e, (c', sm'))
      | (Inr n, (b', sm')) \<Rightarrow>
          if n = AtWaitForData then sm' = snd s \<and> content b' = content (fst s)
          else \<exists>c'. r' = (Inr n, (c', sm')) \<and> content c' = content b' @ x)"

lemma ext_reading:
  assumes "extends content ok rd" and "ok (tm_proto sm)" and "content c = content b @ x"
    and "\<And>v p b' c'. content c' = content b' @ x \<Longrightarrow>
      ext_outcome content x (b, sm) (k v (b', sm\<lparr>tm_proto := p\<rparr>)) (k v (c', sm\<lparr>tm_proto := p\<rparr>))"
  shows "ext_outcome content x (b, sm) (reading rd k (b, sm)) (reading rd k (c, sm))"
proof -
  obtain r p b' where rd: "rd (tm_proto sm, b) = (r, (p, b'))" by (metis surj_pair)
  note law = assms(1) [unfolded extends_def, rule_format, OF assms(2,3), unfolded rd]
  consider e where "r = Inl e" | "r = Inr None" | v where "r = Inr (Some v)"
    by (metis old.sum.exhaust option.exhaust)
  then show ?thesis
  proof cases
    case (1 e)
    with law rd show ?thesis by (auto simp: reading_def proto_read_def ext_outcome_def)
  next
    case 2
    with law rd show ?thesis by (simp add: reading_def proto_read_def ext_outcome_def)
  next
    case (3 v)
    with law obtain c' where c': "rd (tm_proto sm, c) = (Inr (Some v), (p, c'))"
      "content c' = content b' @ x" by auto
    show ?thesis
      using assms(4) [OF c'(2), of v p] c'(1) rd 3 by (simp add: reading_def proto_read_def)
  qed
qed

lemma ext_writing:
  assumes "\<And>p out. ext_outcome content x s
      (k (b, sm\<lparr>tm_proto := p, tm_origin_message := out\<rparr>))
      (k (c, sm\<lparr>tm_proto := p, tm_origin_message := out\<rparr>))"
  shows "ext_outcome content x s (writing wr k (b, sm)) (writing wr k (c, sm))"
proof -
  obtain r p out where wr: "wr (tm_proto sm, tm_origin_message sm) = (r, (p, out))"
    by (metis surj_pair)
  then show ?thesis
    using assms [where p = p and out = out]
    by (cases r) (simp_all add: writing_def proto_write_def ext_outcome_def)
qed

lemma ext_goto:
  "content c = content b @ x \<Longrightarrow> n \<noteq> AtWaitForData \<Longrightarrow>
   ext_outcome content x s (goto_state n (b, sm)) (goto_state n (c, sm))"
  by (simp add: ext_outcome_def)

lemma ext_pop:
  assumes "content c = content b @ x" and "tm_stack sm \<noteq> []"
    and "fr_return_state (last (tm_stack sm)) \<noteq> AtWaitForData"
  shows "ext_outcome content x s (popReturnState (b, sm)) (popReturnState (c, sm))"
  using assms by (simp add: ext_outcome_def popReturnState_def)

lemma ext_push:
  "ext_outcome content x s (k (b, sm\<lparr>tm_stack := tm_stack sm @ [f]\<rparr>)) (k (c, sm\<lparr>tm_stack := tm_stack sm @ [f]\<rparr>)) \<Longrightarrow>
   ext_outcome content x s (k (push_frame f (b, sm))) (k (push_frame f (c, sm)))"
  by (simp add: push_frame_def)

lemma ext_throw: "ext_outcome content x s (Inl e, (b, sm)) (Inl e, (c, sm))"
  by (simp add: ext_outcome_def)

context thrift_extending
begin

lemma ext_primitive:
  assumes "extends content ok rd" and "ok (tm_proto sm)" and "content c = content b @ x"
    and "ret \<noteq> AtWaitForData"
  shows "ext_outcome content x (b, sm) (primitive rd wr ret (b, sm)) (primitive rd wr ret (c, sm))"
  unfolding primitive_def
  by (rule ext_reading [OF assms(1-3)]) (use assms(4) in \<open>auto intro!: ext_writing ext_goto\<close>)

lemma ext_handleValue:
  assumes "ok (tm_proto sm)" and "content c = content b @ x" and "ret \<noteq> AtWaitForData"
  shows "ext_outcome content x (b, sm) (handleValue P t ret (b, sm)) (handleValue P t ret (c, sm))"
proof -
  have "ext_outcome content x (b, sm) (Inr n, push_frame f (b, sm)) (Inr n, push_frame f (c, sm))"
    if "n \<noteq> AtWaitForData" for n f
    using that assms(2) by (simp add: ext_outcome_def push_frame_def)
  then show ?thesis
    by (cases t) (simp_all add: handleValue_def ext_throw ext_primitive values_ext assms)
qed

lemma ext_handle_element:
  assumes "ok (tm_proto sm)" and "content c = content b @ x" and "ret \<noteq> AtWaitForData"
  shows "ext_outcome content x (b, sm) (handle_element P t ret (b, sm)) (handle_element P t ret (c, sm))"
proof -
  obtain r b' sm' where r: "handleValue P t ret (b, sm) = (r, (b', sm'))" by (metis surj_pair)
  then show ?thesis
    using ext_handleValue [OF assms, of t]
    by (cases r) (auto simp: ext_outcome_def handle_element_def decrement_remaining_def Let_def
        split: if_splits)
qed

lemma ext_header:
  assumes "extends content ok rd" and "ok (tm_proto sm)" and "content c = content b @ x"
    and "n \<noteq> AtWaitForData"
  shows "ext_outcome content x (b, sm)
    (reading rd (\<lambda>v s. writing (wr v) (goto_state n) (push_frame (frame v) s)) (b, sm))
    (reading rd (\<lambda>v s. writing (wr v) (goto_state n) (push_frame (frame v) s)) (c, sm))"
  by (rule ext_reading [OF assms(1-3)])
    (use assms(4) in \<open>auto simp: push_frame_def intro!: ext_writing ext_goto\<close>)

lemma ext_mark:
  assumes "extends content ok rd" and "ok (tm_proto sm)" and "content c = content b @ x"
    and "n \<noteq> AtWaitForData"
  shows "ext_outcome content x (b, sm)
    (reading rd (\<lambda>v. writing (wr v) (goto_state n)) (b, sm))
    (reading rd (\<lambda>v. writing (wr v) (goto_state n)) (c, sm))"
  by (rule ext_reading [OF assms(1-3)]) (use assms(4) in \<open>auto intro!: ext_writing ext_goto\<close>)

lemma ext_end:
  assumes "extends content ok rd" and "ok (tm_proto sm)" and "content c = content b @ x"
    and "nested (rev (tm_stack sm))"
  shows "ext_outcome content x (b, sm)
    (reading rd (\<lambda>_. writing wr popReturnState) (b, sm))
    (reading rd (\<lambda>_. writing wr popReturnState) (c, sm))"
proof -
  obtain xs g where st: "tm_stack sm = xs @ [g]" and r: "returns (fr_return_state g) (rev xs)"
    using assms(4) by (rule nestedE)
  show ?thesis
    by (rule ext_reading [OF assms(1-3)])
      (use shape_returned(1) [OF r] in \<open>auto simp: st intro!: ext_writing ext_pop\<close>)
qed

lemma ext_structEnd:
  assumes "ok (tm_proto sm)" and "content c = content b @ x" and "nested (rev (tm_stack sm))"
  shows "ext_outcome content x (b, sm) (structEnd P (b, sm)) (structEnd P (c, sm))"
proof -
  obtain xs g where st: "tm_stack sm = xs @ [g]" and r: "returns (fr_return_state g) (rev xs)"
    using assms(3) by (rule nestedE)
  show ?thesis
    unfolding structEnd_def
    by (rule ext_reading [OF marks_ext(2) assms(1,2)])
      (use shape_returned(1) [OF r] in \<open>auto simp: st intro!: ext_writing ext_pop\<close>)
qed

lemma ext_fieldBegin:
  assumes "ok (tm_proto sm)" and "content c = content b @ x"
  shows "ext_outcome content x (b, sm) (fieldBegin P (b, sm)) (fieldBegin P (c, sm))"
  unfolding fieldBegin_def
  by (rule ext_reading [OF headers_ext(1) assms])
    (auto simp: push_frame_def ext_outcome_def [of _ _ _ "(Inr AtStructEnd, _)"]
      intro!: ext_writing ext_goto)

lemma ext_fieldEnd:
  assumes "ok (tm_proto sm)" and "content c = content b @ x"
  shows "ext_outcome content x (b, sm) (fieldEnd P (b, sm)) (fieldEnd P (c, sm))"
  unfolding fieldEnd_def
proof (rule ext_reading [OF marks_ext(4) assms])
  fix v p b' c' assume c': "content c' = content b' @ x"
  let ?k = "\<lambda>_. writing (pr_writeFieldEnd P) (goto_state AtFieldBegin)"
  let ?sm = "sm\<lparr>tm_proto := p\<rparr>"
  show "ext_outcome content x (b, sm) (and_then (popReturnState (b', ?sm)) ?k)
      (and_then (popReturnState (c', ?sm)) ?k)"
    using c' by (cases "tm_stack sm = []")
      (auto simp: popReturnState_def intro!: ext_throw ext_writing ext_goto)
qed

lemma ext_messageBegin:
  assumes "ok (tm_proto sm)" and "\<not> tm_passthrough_enabled sm" and "content c = content b @ x"
  shows "ext_outcome content x (b, sm) (messageBegin B P (b, sm)) (messageBegin B P (c, sm))"
proof -
  obtain r p b' m where rd: "pr_readMessageBegin P (tm_proto sm, b) (tm_metadata sm) = (r, ((p, b'), m))"
    by (metis surj_pair)
  note law = message_ext [unfolded message_extends_def, rule_format, OF assms(1,3),
      of "tm_metadata sm", unfolded rd]
  consider e where "r = Inl e" | "r = Inr False" | "r = Inr True" by (cases r) auto
  then show ?thesis
  proof cases
    case 3
    with law obtain c' where c': "pr_readMessageBegin P (tm_proto sm, c) (tm_metadata sm) =
        (Inr True, ((p, c'), m))" "content c' = content b' @ x" by auto
    then show ?thesis
      using rd 3 assms(2) by (auto simp: messageBegin_def Let_def intro!: ext_writing ext_goto)
  qed (use law rd in \<open>auto simp: messageBegin_def Let_def ext_outcome_def\<close>)
qed

lemma ext_values:
  assumes "run_ok ok sm" and "content c = content b @ x"
  shows "tm_state sm = AtFieldValue \<Longrightarrow>
      ext_outcome content x (b, sm) (fieldValue P (b, sm)) (fieldValue P (c, sm))"
    and "tm_state sm = AtListValue \<Longrightarrow>
      ext_outcome content x (b, sm) (listValue P (b, sm)) (listValue P (c, sm))"
    and "tm_state sm = AtSetValue \<Longrightarrow>
      ext_outcome content x (b, sm) (setValue P (b, sm)) (setValue P (c, sm))"
    and "tm_state sm = AtMapKey \<Longrightarrow>
      ext_outcome content x (b, sm) (mapKey P (b, sm)) (mapKey P (c, sm))"
    and "tm_state sm = AtMapValue \<Longrightarrow>
      ext_outcome content x (b, sm) (mapValue P (b, sm)) (mapValue P (c, sm))"
  using run_okD(1,4) [OF assms(1)] assms(2)
  by (auto simp: fieldValue_def listValue_def setValue_def mapKey_def mapValue_def Let_def
      returns_simps rev_eq_Cons_iff
      intro!: ext_handleValue ext_handle_element ext_throw ext_pop)

lemma ext_handleState:
  assumes "run_ok ok sm" and "tm_state sm \<noteq> AtDone" and "content c = content b @ x"
  shows "ext_outcome content x (b, sm) (thrift_handleState B P (b, sm)) (thrift_handleState B P (c, sm))"
proof -
  note ok = run_okD [OF assms(1)]
  show ?thesis
    using assms(2) ok
    by (cases "tm_state sm")
      (simp_all add: thrift_handleState_def ext_values [OF assms(1,3)] ext_messageBegin assms(3)
        ext_fieldBegin ext_fieldEnd ext_structEnd structBegin_def messageEnd_def ext_mark marks_ext
        listEnd_def mapEnd_def setEnd_def ext_end nested_value_def
        listBegin_def mapBegin_def setBegin_def case_prod_unfold ext_header headers_ext)
qed

subsection \<open>Runs\<close>

text \<open>
  A run on a longer buffer: the same result with the new bytes left, or, where the shorter one
  waits, the run that goes on from there.
\<close>

lemma run_extends:
  assumes "run_ok ok sm" and "content c = content b @ x"
    and "thrift_run B P (b, sm) = Some (r, (b', sm'))"
  shows "\<exists>c'. (r = Inr AtWaitForData \<and> thrift_run B P (c, sm) = thrift_run B P (c', sm') \<or>
      r \<noteq> Inr AtWaitForData \<and> thrift_run B P (c, sm) = Some (r, (c', sm'))) \<and>
    (\<forall>n. r = Inr n \<longrightarrow> content c' = content b' @ x)"
  using assms
proof (induction "(b, sm)" arbitrary: b sm c rule: wf_induct_rule [OF run_order_wf [of content]])
  case 1
  show ?case
  proof (cases "tm_state sm = AtDone")
    case True
    then show ?thesis using "1.prems" by (auto simp: thrift_run_done)
  next
    case nd: False
    obtain n b1 sm1 where h: "thrift_handleState B P (b, sm) = (n, (b1, sm1))" by (metis surj_pair)
    have ext: "ext_outcome content x (b, sm) (n, (b1, sm1)) (thrift_handleState B P (c, sm))"
      using ext_handleState [OF "1.prems"(1) nd "1.prems"(2)] h by simp
    have sf: "safe (step_ok content ok (b, sm)) (n, (b1, sm1))"
      using thrift_handleState_safe [OF "1.prems"(1) nd, of b] h by simp
    consider e where "n = Inl e" | "n = Inr AtWaitForData" | k where "n = Inr k" "k \<noteq> AtWaitForData"
      by (cases n) auto
    then show ?thesis
    proof cases
      case (1 e)
      then show ?thesis using ext h nd "1.prems"(3) by (auto simp: ext_outcome_def thrift_run_step)
    next
      case 2
      then show ?thesis
        using ext h nd "1.prems"(2,3) by (intro exI [of _ c]) (auto simp: ext_outcome_def thrift_run_step)
    next
      case (3 k)
      obtain c1 where c1: "thrift_handleState B P (c, sm) = (Inr k, (c1, sm1))"
        "content c1 = content b1 @ x"
        using ext 3 by (auto simp: ext_outcome_def)
      let ?sm = "sm1\<lparr>tm_state := k\<rparr>"
      have "run_ok ok ?sm" and "((b1, ?sm), (b, sm)) \<in> run_order content"
        using sf 3 run_orderI [of content "(b, sm)" k "(b1, sm1)"]
        by (auto simp: step_ok_def set_machine_state_def)
      moreover have "thrift_run B P (b1, ?sm) = Some (r, (b', sm'))"
        using "1.prems"(3) h nd 3 by (simp add: thrift_run_step set_machine_state_def)
      ultimately show ?thesis
        using "1.hyps" [OF _ _ c1(2)] c1(1) nd 3 by (simp add: thrift_run_step set_machine_state_def)
    qed
  qed
qed

text \<open>Buffers with the same content are alike.\<close>

lemma handleState_cong:
  assumes "run_ok ok sm" and "tm_state sm \<noteq> AtDone" and "content c = content b"
    and "thrift_handleState B P (b, sm) = (n, (b1, sm1))"
  shows "\<exists>c1. thrift_handleState B P (c, sm) = (n, (c1, sm1)) \<and> (\<forall>k. n = Inr k \<longrightarrow> content c1 = content b1)"
proof -
  obtain n' c1 sm1' where h: "thrift_handleState B P (c, sm) = (n', (c1, sm1'))" by (metis surj_pair)
  have "ext_outcome content [] (b, sm) (n, (b1, sm1)) (n', (c1, sm1'))"
    using ext_handleState [OF assms(1,2), of c b "[]"] assms(3,4) h by simp
  moreover have "ext_outcome content [] (c, sm) (n', (c1, sm1')) (n, (b1, sm1))"
    using ext_handleState [OF assms(1,2), of b c "[]"] assms(3,4) h by simp
  ultimately show ?thesis
    using assms(3) h by (auto simp: ext_outcome_def split: sum.splits if_splits)
qed

lemma run_cong:
  assumes "run_ok ok sm" and "content c = content b"
    and "thrift_run B P (b, sm) = Some (r, (b', sm'))"
  shows "\<exists>c'. thrift_run B P (c, sm) = Some (r, (c', sm')) \<and> (\<forall>n. r = Inr n \<longrightarrow> content c' = content b')"
  using assms
proof (induction "(b, sm)" arbitrary: b sm c rule: wf_induct_rule [OF run_order_wf [of content]])
  case 1
  show ?case
  proof (cases "tm_state sm = AtDone")
    case True
    then show ?thesis using "1.prems" by (auto simp: thrift_run_done)
  next
    case nd: False
    obtain n b1 sm1 where h: "thrift_handleState B P (b, sm) = (n, (b1, sm1))" by (metis surj_pair)
    obtain c1 where c1: "thrift_handleState B P (c, sm) = (n, (c1, sm1))"
      "\<forall>k. n = Inr k \<longrightarrow> content c1 = content b1"
      using handleState_cong [OF "1.prems"(1) nd "1.prems"(2) h] by blast
    show ?thesis
    proof (cases "\<exists>k. n = Inr k \<and> k \<noteq> AtWaitForData")
      case False
      then show ?thesis
        using c1 h nd "1.prems"(3) by (cases n) (auto simp: thrift_run_step)
    next
      case True
      then obtain k where k: "n = Inr k" "k \<noteq> AtWaitForData" by blast
      let ?sm = "sm1\<lparr>tm_state := k\<rparr>"
      have "safe (step_ok content ok (b, sm)) (n, (b1, sm1))"
        using thrift_handleState_safe [OF "1.prems"(1) nd, of b] h by simp
      then have "run_ok ok ?sm" and "((b1, ?sm), (b, sm)) \<in> run_order content"
        using k run_orderI [of content "(b, sm)" k "(b1, sm1)"]
        by (auto simp: step_ok_def set_machine_state_def)
      moreover have "thrift_run B P (b1, ?sm) = Some (r, (b', sm'))"
        using "1.prems"(3) h nd k by (simp add: thrift_run_step set_machine_state_def)
      ultimately show ?thesis
        using "1.hyps" [OF _ _ _, of b1 ?sm c1] c1 nd k
        by (simp add: thrift_run_step set_machine_state_def)
    qed
  qed
qed

end

subsection \<open>Decoding\<close>

text \<open>Two outcomes of \<open>decode\<close> that differ at most in how the rest of the stream is stored.\<close>

definition same_thrift_decode ::
  "('b \<Rightarrow> u8 list) \<Rightarrow> (DecodeStatus, 'c \<times> 'b \<times> 'm) outcome option \<Rightarrow>
   (DecodeStatus, 'c \<times> 'b \<times> 'm) outcome option \<Rightarrow> bool" where
  "same_thrift_decode content r r' \<longleftrightarrow>
     (\<exists>st c b b' m. r = Some (st, (c, b, m)) \<and> r' = Some (st, (c, b', m)) \<and>
        (\<forall>s. st = Inr s \<longrightarrow> content b = content b'))"

definition after_run ::
  "'h header_ops \<Rightarrow> ('t, 'b, 'h) thrift_transport \<Rightarrow> ('t, 'p, 'b, 'h) thrift_codec \<Rightarrow>
   ('x, 'b, 'h) metadata \<Rightarrow> (ThriftState, ('p, 'b, 'h) run_state) outcome \<Rightarrow>
   (DecodeStatus, ('t, 'p, 'b, 'h) thrift_codec \<times> 'b \<times> ('x, 'b, 'h) metadata) outcome" where
  "after_run H T c m res =
     (let (rv, (b, sm)) = res;
          c = c\<lparr>tc_protocol := tm_proto sm, tc_metadata := Some (tm_metadata sm),
                tc_state_machine := Some sm\<rparr>
      in case rv of
           Inl e \<Rightarrow> (Inl e, (c, b, m))
         | Inr state \<Rightarrow>
             if state = AtWaitForData then (Inr DecodeWaitForData, (c, b, m))
             else if state \<noteq> AtDone then
               (Inl (Panic ''ASSERT(rv == ProtocolState::Done)''), (c, b, m))
             else ThriftCodec_frameEnd H T sm (c, b, m))"

lemma after_run_overwrites:
  "after_run H T (c\<lparr>tc_protocol := p, tc_metadata := md, tc_state_machine := sm\<rparr>) m = after_run H T c m"
  by (simp add: after_run_def fun_eq_iff)

lemma frameStart_keeps:
  "ThriftCodec_frameStart B H T P (c\<lparr>tc_metadata := Some (case tc_metadata c of Some m \<Rightarrow> m
     | None \<Rightarrow> Thrift_MessageMetadata H)\<rparr>, b) = ThriftCodec_frameStart B H T P (c, b)"
proof -
  define m where "m = (case tc_metadata c of Some m \<Rightarrow> m | None \<Rightarrow> Thrift_MessageMetadata H)"
  obtain r t b' m' where fs: "tr_decodeFrameStart T (tc_transport c) b m = (r, (t, b', m'))"
    by (metis surj_pair)
  show ?thesis
    unfolding m_def [symmetric]
    by (cases r) (auto simp: ThriftCodec_frameStart_def Let_def m_def [symmetric] fs split: bool.splits)
qed

lemma decode_after_run:
  assumes "\<not> tc_frame_ended c" and "tc_frame_started c"
    and "tc_state_machine c = Some sm" and "tc_metadata c = Some md"
  shows "ThriftCodec_decode B H T P c b m =
    map_option (after_run H T c m) (thrift_run B P (b, attach (tc_protocol c) md sm))"
  using assms
  by (auto simp: ThriftCodec_decode_def after_run_def attach_def Let_def
      split: option.splits prod.splits sum.splits)

context thrift_extending
begin

lemma frameEnd_ext:
  assumes "tok (tc_transport c)" and "content b' = content b @ x"
    and "ThriftCodec_frameEnd H T sm (c, b, m) = (st, (c1, b1, m1))"
  shows "\<exists>b1'. ThriftCodec_frameEnd H T sm (c, b', m) = (st, (c1, b1', m1)) \<and>
    (\<forall>s. st = Inr s \<longrightarrow> content b1' = content b1 @ x)"
proof -
  obtain r t b2 where fe: "tr_decodeFrameEnd T (tc_transport c) b = (r, (t, b2))"
    by (metis surj_pair)
  note law = frame_ext(2) [unfolded frame_end_extends_def, rule_format, OF assms(1,2), unfolded fe]
  obtain rt t' m' msg where
    tm: "thrift_toMetadata H T (tm_metadata sm) (t, m, tm_origin_message sm) = (rt, (t', m', msg))"
    by (metis surj_pair)
  show ?thesis
    using law fe tm assms(3)
    by (cases r; cases rt) (auto simp: ThriftCodec_frameEnd_def Let_def split: bool.splits)
qed

lemma after_run_ext:
  assumes "tok (tc_transport c)" and "\<forall>n. r = Inr n \<longrightarrow> content b' = content b @ x"
    and "after_run H T c m (r, (b, sm)) = (st, (c1, b1, m1))"
  shows "\<exists>b1'. after_run H T c m (r, (b', sm)) = (st, (c1, b1', m1)) \<and>
    (\<forall>s. st = Inr s \<longrightarrow> content b1' = content b1 @ x)"
proof (cases r)
  case (Inl e)
  then show ?thesis using assms(3) by (auto simp: after_run_def)
next
  case (Inr n)
  let ?c = "c\<lparr>tc_protocol := tm_proto sm, tc_metadata := Some (tm_metadata sm), tc_state_machine := Some sm\<rparr>"
  have "tok (tc_transport ?c)" using assms(1) by simp
  note fe = frameEnd_ext [OF this, of b' b x sm m st c1 b1 m1]
  show ?thesis using Inr assms(2,3) fe by (auto simp: after_run_def Let_def split: if_splits)
qed

lemma frameStart_ext:
  assumes "thrift_codec_ok ok tok c" and "\<not> tc_frame_started c" and "content b' = content b @ x"
    and "ThriftCodec_frameStart B H T P (c, b) = (r, (c1, b1))"
  shows "(r = Inr False \<longrightarrow> content b1 = content b \<and>
      c1 = c\<lparr>tc_metadata := Some (case tc_metadata c of Some m \<Rightarrow> m | None \<Rightarrow> Thrift_MessageMetadata H)\<rparr>) \<and>
    (r \<noteq> Inr False \<longrightarrow>
      (\<exists>b1'. ThriftCodec_frameStart B H T P (c, b') = (r, (c1, b1')) \<and>
         (r = Inr True \<longrightarrow> content b1' = content b1 @ x)))"
proof -
  define m where "m = (case tc_metadata c of Some m \<Rightarrow> m | None \<Rightarrow> Thrift_MessageMetadata H)"
  have c: "tok (tc_transport c)" using assms(1) by (simp add: thrift_codec_ok_def)
  obtain rs t b2 m' where fs: "tr_decodeFrameStart T (tc_transport c) b m = (rs, (t, b2, m'))"
    by (metis surj_pair)
  note law = frame_ext(1) [unfolded frame_extends_def, rule_format, OF c assms(3), of m, unfolded fs]
  obtain rp p where cp: "check_protocol P m' (tc_protocol c) = (rp, p)" by (metis surj_pair)
  consider e where "rs = Inl e" | "rs = Inr False" | "rs = Inr True" by (cases rs) auto
  then show ?thesis
  proof cases
    case (1 e)
    then show ?thesis
      using law fs assms(4) by (auto simp: ThriftCodec_frameStart_def Let_def m_def [symmetric])
  next
    case 2
    then show ?thesis
      using law fs assms(4) by (auto simp: ThriftCodec_frameStart_def Let_def m_def [symmetric])
  next
    case 3
    then obtain b3 where "tr_decodeFrameStart T (tc_transport c) b' m = (Inr True, (t, b3, m'))"
      "content b3 = content b2 @ x" using law by auto
    then show ?thesis
      using fs 3 cp assms(4)
      by (cases rp; cases "mm_app_ex_type m'"; cases "mm_app_ex_msg m'")
        (auto simp: ThriftCodec_frameStart_def Let_def m_def [symmetric])
  qed
qed

text \<open>A started codec.\<close>

lemma startedE:
  assumes "thrift_codec_ok ok tok c" and "tc_frame_started c"
  obtains sm md where "tc_state_machine c = Some sm" and "tc_metadata c = Some md"
    and "run_ok ok (attach (tc_protocol c) md sm)" and "\<not> tc_frame_ended c"
    and "tok (tc_transport c)"
  using assms by (auto simp: thrift_codec_ok_def split: option.splits)

lemma decode_started_run:
  assumes "thrift_codec_ok ok tok c" and "tc_frame_started c"
  obtains sm where "run_ok ok sm"
    and "\<And>b. ThriftCodec_decode B H T P c b m =
      map_option (after_run H T c m) (thrift_run B P (b, sm))"
  using startedE [OF assms] decode_after_run [OF _ assms(2)] by metis

lemma decode_started_cong:
  assumes "thrift_codec_ok ok tok c" and "tc_frame_started c" and "content b' = content b"
  shows "same_thrift_decode content (ThriftCodec_decode B H T P c b m) (ThriftCodec_decode B H T P c b' m)"
proof -
  obtain sm where sm: "run_ok ok sm" and dec: "\<And>b. ThriftCodec_decode B H T P c b m =
      map_option (after_run H T c m) (thrift_run B P (b, sm))"
    by (rule decode_started_run [OF assms(1,2), where m = m]) (rule that)
  have tok: "tok (tc_transport c)" using assms(1) by (simp add: thrift_codec_ok_def)
  obtain r b1 sm1 where run: "thrift_run B P (b, sm) = Some (r, (b1, sm1))"
    using thrift_run_safe [OF sm, of b] by (metis surj_pair)
  obtain b2 where run': "thrift_run B P (b', sm) = Some (r, (b2, sm1))"
    and eq: "\<forall>n. r = Inr n \<longrightarrow> content b2 = content b1 @ []"
    using run_cong [OF sm assms(3) run] by auto
  obtain st c1 b3 m1 where a: "after_run H T c m (r, (b1, sm1)) = (st, (c1, b3, m1))"
    by (metis surj_pair)
  show ?thesis
    using after_run_ext [OF tok eq a] a run run'
    by (auto simp: dec same_thrift_decode_def)
qed

text \<open>Only the run of the machine waits: a frame has no trailer.\<close>

lemma after_run_waits:
  assumes "tok (tc_transport c)" and "safe (thrift_run_result_ok content ok s) (r, (b, sm))"
    and "after_run H T c m (r, (b, sm)) = (Inr DecodeWaitForData, (c1, b1, m1))"
  shows "r = Inr AtWaitForData" and "b1 = b" and "m1 = m"
    and "c1 = c\<lparr>tc_protocol := tm_proto sm, tc_metadata := Some (tm_metadata sm),
      tc_state_machine := Some sm\<rparr>"
proof -
  let ?c = "c\<lparr>tc_protocol := tm_proto sm, tc_metadata := Some (tm_metadata sm), tc_state_machine := Some sm\<rparr>"
  obtain d t b9 where fe: "tr_decodeFrameEnd T (tc_transport c) b = (d, (t, b9))" by (metis surj_pair)
  have "ThriftCodec_frameEnd H T sm (?c, b, m) \<noteq> (Inr DecodeWaitForData, (c1, b1, m1))"
    using frame_end [unfolded frame_end_well_def, rule_format, OF assms(1), of b] fe
    by (auto simp: ThriftCodec_frameEnd_def Let_def split: sum.splits prod.splits)
  then show "r = Inr AtWaitForData" and "b1 = b" and "m1 = m" and "c1 = ?c"
    using assms(2,3) by (auto simp: after_run_def Let_def thrift_run_result_ok_def split: sum.splits if_splits)
qed

lemma decode_started_resumed:
  assumes "thrift_codec_ok ok tok c" and "tc_frame_started c"
    and "ThriftCodec_decode B H T P c b m = Some (Inr DecodeWaitForData, (c1, b1, m1))"
    and "content b2 = content b1 @ x" and "content b3 = content b @ x"
  shows "same_thrift_decode content (ThriftCodec_decode B H T P c1 b2 m1)
    (ThriftCodec_decode B H T P c b3 m)"
proof -
  obtain sm where sm: "run_ok ok sm" and dec: "\<And>b. ThriftCodec_decode B H T P c b m =
      map_option (after_run H T c m) (thrift_run B P (b, sm))"
    by (rule decode_started_run [OF assms(1,2), where m = m]) (rule that)
  have tok: "tok (tc_transport c)" and ne: "\<not> tc_frame_ended c"
    using assms(1) by (simp_all add: thrift_codec_ok_def)
  obtain r b0 sm1 where run: "thrift_run B P (b, sm) = Some (r, (b0, sm1))"
    and sf: "safe (thrift_run_result_ok content ok (b, sm)) (r, (b0, sm1))"
    using thrift_run_safe [OF sm, of b] by (metis surj_pair)
  note r = after_run_waits [OF tok sf, of m c1 b1 m1]
  have w: "after_run H T c m (r, (b0, sm1)) = (Inr DecodeWaitForData, (c1, b1, m1))"
    using assms(3) run dec by simp
  have sm1: "run_ok ok sm1" using sf r(1) [OF w] by (auto simp: thrift_run_result_ok_def)
  have dec1: "ThriftCodec_decode B H T P c1 y m1 =
      map_option (after_run H T c m) (thrift_run B P (y, sm1))" for y
    using decode_after_run [of c1 sm1 "tm_metadata sm1" B H T P y m] assms(2) r(3,4) [OF w] ne
    by (simp add: attach_def after_run_overwrites)
  obtain c' where c': "thrift_run B P (b3, sm) = thrift_run B P (c', sm1)" "content c' = content b1 @ x"
    using run_extends [OF sm assms(5) run] r(1,2) [OF w] by auto
  obtain r2 b4 sm2 where run2: "thrift_run B P (b2, sm1) = Some (r2, (b4, sm2))"
    using thrift_run_safe [OF sm1, of b2] by (metis surj_pair)
  obtain b5 where run3: "thrift_run B P (c', sm1) = Some (r2, (b5, sm2))"
    and eq: "\<forall>n. r2 = Inr n \<longrightarrow> content b5 = content b4 @ []"
    using run_cong [OF sm1, of c' b2 r2 b4 sm2] run2 c'(2) assms(4) by auto
  obtain st c4 b6 m4 where a: "after_run H T c m (r2, (b4, sm2)) = (st, (c4, b6, m4))"
    by (metis surj_pair)
  show ?thesis
    using after_run_ext [OF tok eq a] a run2 run3 c'(1)
    by (auto simp: dec dec1 same_thrift_decode_def)
qed

text \<open>A codec before a frame.\<close>

lemma decode_unstarted:
  assumes "thrift_codec_ok ok tok c" and "\<not> tc_frame_started c"
    and "ThriftCodec_frameStart B H T P (c, b) = (r, (c1, b1))"
  shows "ThriftCodec_decode B H T P c b m =
    (case r of
       Inl e \<Rightarrow> Some (Inl e, (c1, b1, m))
     | Inr False \<Rightarrow> Some (Inr DecodeWaitForData, (c1, b1, m))
     | Inr True \<Rightarrow> ThriftCodec_decode B H T P c1 b1 m)"
    and "r = Inr True \<Longrightarrow> thrift_codec_ok ok tok c1 \<and> tc_frame_started c1"
proof -
  have "safe (\<lambda>started (c', b'). thrift_codec_ok ok tok c' \<and> tc_frame_started c' = started \<and>
      (\<exists>pre. content b = pre @ content b')) (r, (c1, b1))"
    using frameStart_safe [OF assms(1,2), of b] assms(3) by simp
  then show ok: "r = Inr True \<Longrightarrow> thrift_codec_ok ok tok c1 \<and> tc_frame_started c1" by simp
  show "ThriftCodec_decode B H T P c b m =
    (case r of
       Inl e \<Rightarrow> Some (Inl e, (c1, b1, m))
     | Inr False \<Rightarrow> Some (Inr DecodeWaitForData, (c1, b1, m))
     | Inr True \<Rightarrow> ThriftCodec_decode B H T P c1 b1 m)"
  proof (cases "r = Inr True")
    case True
    then show ?thesis
      using frameStart_then_decode [of c b c1 b1 m] assms ok by (simp add: thrift_codec_ok_def)
  next
    case False
    then show ?thesis
      using assms by (cases r) (auto simp: ThriftCodec_decode_def thrift_codec_ok_def)
  qed
qed

lemma decode_cong:
  assumes "thrift_codec_ok ok tok c" and "content b' = content b"
  shows "same_thrift_decode content (ThriftCodec_decode B H T P c b m) (ThriftCodec_decode B H T P c b' m)"
proof (cases "tc_frame_started c")
  case True
  then show ?thesis by (rule decode_started_cong [OF assms(1) _ assms(2)])
next
  case ns: False
  obtain r c1 b1 where fs: "ThriftCodec_frameStart B H T P (c, b) = (r, (c1, b1))" by (metis surj_pair)
  obtain r' c1' b1' where fs': "ThriftCodec_frameStart B H T P (c, b') = (r', (c1', b1'))"
    by (metis surj_pair)
  note ext = frameStart_ext [OF assms(1) ns, of b' b "[]" r c1 b1]
    frameStart_ext [OF assms(1) ns, of b b' "[]" r' c1' b1']
  have eq: "r' = r" "c1' = c1" "r = Inr True \<Longrightarrow> content b1' = content b1"
    "r = Inr False \<Longrightarrow> content b1' = content b1"
    using ext fs fs' assms(2) by auto
  note dec = decode_unstarted(1) [OF assms(1) ns fs, of m] decode_unstarted(2) [OF assms(1) ns fs]
    decode_unstarted(1) [OF assms(1) ns fs', of m, unfolded eq(1,2)]
  consider e where "r = Inl e" | "r = Inr False" | "r = Inr True" by (cases r) auto
  then show ?thesis
  proof cases
    case 3
    then have "thrift_codec_ok ok tok c1" "tc_frame_started c1" using dec(2) by auto
    then show ?thesis using decode_started_cong eq(3) dec(1,3) 3 by simp
  qed (use dec(1,3) eq(4) in \<open>auto simp: same_thrift_decode_def\<close>)
qed

lemma decode_resumed:
  assumes "thrift_codec_ok ok tok c"
    and "ThriftCodec_decode B H T P c b m = Some (Inr DecodeWaitForData, (c1, b1, m1))"
    and "content b2 = content b1 @ x" and "content b3 = content b @ x"
  shows "same_thrift_decode content (ThriftCodec_decode B H T P c1 b2 m1)
    (ThriftCodec_decode B H T P c b3 m)"
proof (cases "tc_frame_started c")
  case True
  then show ?thesis by (rule decode_started_resumed [OF assms(1) _ assms(2-4)])
next
  case ns: False
  obtain r c0 b0 where fs: "ThriftCodec_frameStart B H T P (c, b) = (r, (c0, b0))" by (metis surj_pair)
  note dec = decode_unstarted(1) [OF assms(1) ns fs, of m] decode_unstarted(2) [OF assms(1) ns fs]
  note ext = frameStart_ext [OF assms(1) ns assms(4) fs]
  consider e where "r = Inl e" | "r = Inr False" | "r = Inr True" by (cases r) auto
  then show ?thesis
  proof cases
    case (1 e)
    then show ?thesis using dec(1) assms(2) by simp
  next
    case 2
    then have eq: "c1 = c\<lparr>tc_metadata := Some (case tc_metadata c of Some m \<Rightarrow> m
        | None \<Rightarrow> Thrift_MessageMetadata H)\<rparr>" "m1 = m" "content b1 = content b"
      using dec(1) ext assms(2) by auto
    have "ThriftCodec_frameStart B H T P (c1, b2) = ThriftCodec_frameStart B H T P (c, b2)"
      unfolding eq(1) by (rule frameStart_keeps)
    moreover have "\<not> tc_frame_ended c" using assms(1) by (simp add: thrift_codec_ok_def)
    ultimately have "ThriftCodec_decode B H T P c1 b2 m1 = ThriftCodec_decode B H T P c b2 m"
      using ns eq(1,2) by (simp add: ThriftCodec_decode_def)
    then show ?thesis using decode_cong [OF assms(1), of b3 b2 m] eq(3) assms(3,4) by simp
  next
    case 3
    then obtain b0' where fs': "ThriftCodec_frameStart B H T P (c, b3) = (Inr True, (c0, b0'))"
      "content b0' = content b0 @ x" using ext by auto
    have c0: "thrift_codec_ok ok tok c0" "tc_frame_started c0" using dec(2) 3 by auto
    have "ThriftCodec_decode B H T P c0 b0 m = Some (Inr DecodeWaitForData, (c1, b1, m1))"
      using dec(1) 3 assms(2) by simp
    from decode_started_resumed [OF c0 this assms(3) fs'(2)]
    show ?thesis using decode_unstarted(1) [OF assms(1) ns fs'(1), of m] by simp
  qed
qed

end

text \<open>What \<open>decode\<close> finds on a buffer it finds on a longer one.\<close>

context thrift_extending
begin

lemma decode_started_extends:
  assumes "thrift_codec_ok ok tok c" and "tc_frame_started c" and "content b' = content b @ x"
    and "ThriftCodec_decode B H T P c b m = Some (st, (c1, b1, m1))" and "st \<noteq> Inr DecodeWaitForData"
  shows "\<exists>b1'. ThriftCodec_decode B H T P c b' m = Some (st, (c1, b1', m1)) \<and>
    (\<forall>s. st = Inr s \<longrightarrow> content b1' = content b1 @ x)"
proof -
  obtain sm where sm: "run_ok ok sm" and dec: "\<And>b. ThriftCodec_decode B H T P c b m =
      map_option (after_run H T c m) (thrift_run B P (b, sm))"
    by (rule decode_started_run [OF assms(1,2), where m = m]) (rule that)
  have tok: "tok (tc_transport c)" using assms(1) by (simp add: thrift_codec_ok_def)
  obtain r b0 sm1 where run: "thrift_run B P (b, sm) = Some (r, (b0, sm1))"
    using thrift_run_safe [OF sm, of b] by (metis surj_pair)
  then have a: "after_run H T c m (r, (b0, sm1)) = (st, (c1, b1, m1))" using assms(4) dec by simp
  then have "r \<noteq> Inr AtWaitForData" using assms(5) by (auto simp: after_run_def Let_def)
  then obtain b2 where run': "thrift_run B P (b', sm) = Some (r, (b2, sm1))"
    and eq: "\<forall>n. r = Inr n \<longrightarrow> content b2 = content b0 @ x"
    using run_extends [OF sm assms(3) run] by auto
  show ?thesis using after_run_ext [OF tok eq a] run' by (auto simp: dec)
qed

lemma decode_extends:
  assumes "thrift_codec_ok ok tok c" and "content b' = content b @ x"
    and "ThriftCodec_decode B H T P c b m = Some (st, (c1, b1, m1))" and "st \<noteq> Inr DecodeWaitForData"
  shows "\<exists>b1'. ThriftCodec_decode B H T P c b' m = Some (st, (c1, b1', m1)) \<and>
    (\<forall>s. st = Inr s \<longrightarrow> content b1' = content b1 @ x)"
proof (cases "tc_frame_started c")
  case True
  then show ?thesis by (rule decode_started_extends [OF assms(1) _ assms(2-4)])
next
  case ns: False
  obtain r c0 b0 where fs: "ThriftCodec_frameStart B H T P (c, b) = (r, (c0, b0))" by (metis surj_pair)
  note dec = decode_unstarted(1) [OF assms(1) ns fs, of m] decode_unstarted(2) [OF assms(1) ns fs]
  have "r \<noteq> Inr False" using dec(1) assms(3,4) by auto
  then obtain b0' where fs': "ThriftCodec_frameStart B H T P (c, b') = (r, (c0, b0'))"
    and eq: "r = Inr True \<longrightarrow> content b0' = content b0 @ x"
    using frameStart_ext [OF assms(1) ns assms(2) fs] by auto
  note dec' = decode_unstarted(1) [OF assms(1) ns fs', of m]
  show ?thesis
  proof (cases r)
    case (Inl e)
    then show ?thesis using dec(1) dec' assms(3) by auto
  next
    case (Inr d)
    then have "r = Inr True" using \<open>r \<noteq> Inr False\<close> by (cases d) auto
    then show ?thesis
      using decode_started_extends [of c0 b0' b0 x m st c1 b1 m1] dec dec' eq assms(3,4) by simp
  qed
qed

end

subsection \<open>Framed messages, cut anywhere\<close>

locale thrift_stream = thrift_frames B content P ok W T tok H head
    + thrift_extending B content P ok T tok H
  for B :: "'b buffer_ops" and content :: "'b \<Rightarrow> u8 list"
    and P :: "('p, 'b, 'h) thrift_protocol" and ok :: "'p \<Rightarrow> bool" and W :: thrift_code
    and T :: "('t, 'b, 'h) thrift_transport" and tok :: "'t \<Rightarrow> bool" and H :: "'h header_ops"
    and head :: "nat \<Rightarrow> u8 list"
begin

lemma decode_cut_frame:
  assumes "thrift_codec_ok ok tok c" and "\<not> tc_frame_started c" and "tc_metadata c = None"
    and "length name < 2 ^ 31" and "t \<in> {TCall, TReply, TException, TOneway}"
    and "value_ok (VStruct fs)" and "length (encode_message W name t i fs) < 2 ^ 31"
    and "content b @ content x = frame_bytes head (encode_message W name t i fs)"
    and "content x \<noteq> []"
  obtains c1 b1 where
    "ThriftCodec_decode B H T P c b m = Some (Inr DecodeWaitForData, (c1, b1, m))"
    and "\<And>b2. content b2 = content b1 @ content x \<Longrightarrow>
      \<exists>c2 b3 out. ThriftCodec_decode B H T P c1 b2 m =
        Some (Inr DecodeDone, (c2, b3, (thrift_fill H name t i m)\<lparr>md_origin_message := out\<rparr>)) \<and>
        content b3 = [] \<and>
        content out = content (md_origin_message m) @
          frame_bytes head (encode_message W name t i fs)"
proof -
  define whole where "whole = fst (buf_move_all B b x)"
  have w: "content whole = content b @ content x" by (simp add: whole_def content_simps)
  obtain c2 b3 out where all: "ThriftCodec_decode B H T P c whole m =
      Some (Inr DecodeDone, (c2, b3, (thrift_fill H name t i m)\<lparr>md_origin_message := out\<rparr>))"
    and b3: "content b3 = []"
    and out: "content out = content (md_origin_message m) @ frame_bytes head (encode_message W name t i fs)"
    by (rule decode_frame [OF assms(1-7), of whole "[]" m]) (use w assms(8) in simp_all)
  obtain r where r: "ThriftCodec_decode B H T P c b m = Some r" "safe (decode_ok content ok tok b m) r"
    using decode_safe [OF assms(1)] .
  obtain st c1 b1 m1 where r': "r = (st, (c1, b1, m1))" by (metis surj_pair)
  have wait: "st = Inr DecodeWaitForData"
  proof (rule ccontr)
    assume "st \<noteq> Inr DecodeWaitForData"
    from decode_extends [OF assms(1) w r(1) [unfolded r'] this] all
    have "content b3 = content b1 @ content x" by auto
    then show False using b3 assms(9) by simp
  qed
  then have m1: "m1 = m" using r(2) r' by (simp add: decode_ok_def)
  show thesis
  proof (rule that)
    show dec: "ThriftCodec_decode B H T P c b m = Some (Inr DecodeWaitForData, (c1, b1, m))"
      using r(1) r' wait m1 by simp
    fix b2 assume "content b2 = content b1 @ content x"
    from decode_resumed [OF assms(1) dec this w] all b3 out
    show "\<exists>c2 b3 out. ThriftCodec_decode B H T P c1 b2 m =
        Some (Inr DecodeDone, (c2, b3, (thrift_fill H name t i m)\<lparr>md_origin_message := out\<rparr>)) \<and>
        content b3 = [] \<and>
        content out = content (md_origin_message m) @
          frame_bytes head (encode_message W name t i fs)"
      by (auto simp: same_thrift_decode_def)
  qed
qed

end

subsection \<open>The reference instance\<close>

lemma bin_read_ext: "extends (\<lambda>b. b) ok (bin_read k f)"
  by (auto simp: extends_def bin_read_def)

lemma bin_mark_ext: "extends (\<lambda>b. b) ok (bin_mark v)"
  by (simp add: extends_def bin_mark_def)

lemma bin_string_ext: "extends (\<lambda>b. b) ok bin_string"
  by (auto simp: extends_def bin_string_def Let_def)

lemma bin_field_ext: "extends (\<lambda>b. b) ok bin_field"
  by (auto simp: extends_def bin_field_def Let_def neq_Nil_conv)

lemma bin_map_ext: "extends (\<lambda>b. b) ok bin_map"
  by (auto simp: extends_def bin_map_def Let_def nth_append)

lemma bin_list_ext: "extends (\<lambda>b. b) ok bin_list"
  by (auto simp: extends_def bin_list_def Let_def nth_append)

lemma bin_string_longer:
  assumes "bin_string (p, b) = (r, (p', b'))" and "r \<noteq> Inr None"
  shows "\<exists>c'. bin_string (p, b @ x) = (r, (p', c')) \<and> (\<forall>v. r = Inr v \<longrightarrow> c' = b' @ x)"
  using bin_string_ext [of "\<lambda>_. True", unfolded extends_def, rule_format, of "b @ x" b x p] assms
  by (cases r) auto

lemma bin_message_ext: "message_extends (\<lambda>b. b) (\<lambda>_. True) binary_protocol"
  unfolding message_extends_def binary_protocol_simps
proof (intro allI impI)
  fix p b c x and m :: "'h thrift_metadata" assume c: "(c :: u8 list) = b @ x"
  obtain r p' b' where str: "bin_string (p, drop 4 b) = (r, (p', b'))" by (metis surj_pair)
  show "case bin_message (p, b) m of
      (Inl e, ((p', b'), m')) \<Rightarrow> \<exists>c'. bin_message (p, c) m = (Inl e, ((p', c'), m'))
    | (Inr False, ((p', b'), m')) \<Rightarrow> p' = p \<and> m' = m \<and> b' = b
    | (Inr True, ((p', b'), m')) \<Rightarrow>
        \<exists>c'. bin_message (p, c) m = (Inr True, ((p', c'), m')) \<and> c' = b' @ x"
    using bin_string_longer [OF str, of x] str c
    by (auto simp: bin_message_def Let_def nth_append split: option.splits sum.splits prod.splits)
qed

interpretation binary: thrift_extending list_buffer "\<lambda>b. b" binary_protocol "\<lambda>_. True"
    framed_transport "\<lambda>_. True" alist_headers
proof (intro thrift_extending.intro binary_framing thrift_extending_axioms.intro bin_message_ext)
  show "frame_extends (\<lambda>b. b) (\<lambda>_. True) framed_transport"
    by (auto simp: frame_extends_def framed_transport_def Let_def)
  show "frame_end_extends (\<lambda>b. b) (\<lambda>_. True) framed_transport"
    by (simp add: frame_end_extends_def framed_transport_def)
qed (simp_all add: binary_protocol_simps bin_read_ext bin_mark_ext bin_string_ext bin_field_ext
    bin_map_ext bin_list_ext)

interpretation binary: thrift_stream list_buffer "\<lambda>b. b" binary_protocol "\<lambda>_. True" binary_code
    framed_transport "\<lambda>_. True" alist_headers length_bytes
  by (rule thrift_stream.intro [OF binary.thrift_frames_axioms binary.thrift_extending_axioms])

end
