(* ===== verification/Thrift_Properties.thy ===== *)
theory Thrift_Properties
  imports Thrift_Fragments
begin

text \<open>
  The properties of the Thrift codec. They hold for every buffer, protocol and transport that meet
  the named interfaces (Envoy's classes, which are not in the repository); the witnesses are runs
  with the binary protocol and the framed transport of \<open>Thrift_Binary\<close>.
\<close>

subsection \<open>A concrete codec and concrete messages\<close>

type_synonym list_thrift_codec = "(unit, unit, u8 list, (string \<times> string) list) thrift_codec"

abbreviation thrift_start :: list_thrift_codec where
  "thrift_start \<equiv> ThriftCodec_init () ()"

abbreviation new_thrift_metadata :: "(unit, u8 list, (string \<times> string) list) metadata" where
  "new_thrift_metadata \<equiv> MetadataImpl list_buffer alist_headers"

abbreviation list_thrift_decode ::
  "list_thrift_codec \<Rightarrow> u8 list \<Rightarrow> (DecodeStatus, list_thrift_codec \<times> u8 list \<times>
     (unit, u8 list, (string \<times> string) list) metadata) outcome option" where
  "list_thrift_decode c b \<equiv>
     ThriftCodec_decode list_buffer alist_headers framed_transport binary_protocol c b new_thrift_metadata"

text \<open>The message sum (1: [3, 4]) of type \<open>t\<close> with the sequence id 5.\<close>

definition thrift_sample_fields :: "(i16 \<times> tvalue) list" where
  "thrift_sample_fields = [(1, VList TI32 [VI32 3, VI32 4])]"

definition thrift_sample_message :: "ThriftMessageType \<Rightarrow> u8 list" where
  "thrift_sample_message t = encode_message binary_code ''sum'' t 5 thrift_sample_fields"

definition thrift_sample_frame :: "ThriftMessageType \<Rightarrow> u8 list" where
  "thrift_sample_frame t = frame_bytes length_bytes (thrift_sample_message t)"

lemma thrift_sample_fields_ok: "value_ok (VStruct thrift_sample_fields)"
  by (simp add: thrift_sample_fields_def field_types_def)

lemma length_thrift_sample_message: "length (thrift_sample_message t) = 32"
  by (simp add: thrift_sample_message_def thrift_sample_fields_def encode_message_def
      binary_code_simps string_bytes_def)

lemma length_thrift_sample_frame: "length (thrift_sample_frame t) = 36"
  by (simp add: thrift_sample_frame_def frame_bytes_def length_thrift_sample_message)

lemma thrift_start_ok: "thrift_codec_ok (\<lambda>_. True) (\<lambda>_. True) thrift_start"
  by (rule thrift_codec_ok_init) simp_all

lemma thrift_start_idle: "\<not> tc_frame_started thrift_start" "tc_metadata thrift_start = None"
  by (simp_all add: ThriftCodec_init_def)

lemma thrift_metadata_origin: "md_origin_message new_thrift_metadata = []"
  by (simp add: MetadataImpl_def list_buffer_def)

lemmas thrift_sample_ok = thrift_start_ok thrift_start_idle

lemma thrift_sample_waits:
  obtains c1 b1 where
    "list_thrift_decode thrift_start (take 20 (thrift_sample_frame TCall)) =
       Some (Inr DecodeWaitForData, (c1, b1, new_thrift_metadata))"
proof -
  have cut: "take 20 (thrift_sample_frame TCall) @ drop 20 (thrift_sample_frame TCall) =
      frame_bytes length_bytes (encode_message binary_code ''sum'' TCall 5 thrift_sample_fields)"
    by (simp add: thrift_sample_frame_def thrift_sample_message_def)
  show thesis
    by (rule binary.decode_cut_frame [OF thrift_sample_ok _ _ thrift_sample_fields_ok _ cut,
          where m = new_thrift_metadata])
      (use length_thrift_sample_message [of TCall] that in
        \<open>simp_all add: thrift_sample_message_def length_thrift_sample_frame\<close>)
qed

subsection \<open>Reading the stream\<close>

text \<open>C10: cutting the stream into reads does not change what the Thrift codec decodes. When
  \<open>decode\<close> waits on the bytes it got and is called again after more arrived, it ends as one call on
  all the bytes does, with the same status, codec state and metadata and, unless it throws, the same
  bytes left.\<close>

theorem thrift_decode_fragmentation:
  assumes "thrift_extending B content P ok T tok" and "thrift_codec_ok ok tok c"
    and "ThriftCodec_decode B H T P c b m = Some (Inr DecodeWaitForData, (c1, b1, m1))"
    and "content b2 = content b1 @ xs" and "content b3 = content b @ xs"
  shows "same_thrift_decode content (ThriftCodec_decode B H T P c1 b2 m1)
    (ThriftCodec_decode B H T P c b3 m)"
  by (rule thrift_extending.decode_resumed [OF assms])

theorem thrift_decode_fragmentation_witness:
  "\<exists>c1 b1. list_thrift_decode thrift_start (take 20 (thrift_sample_frame TCall)) =
       Some (Inr DecodeWaitForData, (c1, b1, new_thrift_metadata)) \<and>
     same_thrift_decode (\<lambda>bs. bs)
       (list_thrift_decode c1 (b1 @ drop 20 (thrift_sample_frame TCall)))
       (list_thrift_decode thrift_start (thrift_sample_frame TCall))"
proof -
  obtain c1 b1 where w: "list_thrift_decode thrift_start (take 20 (thrift_sample_frame TCall)) =
      Some (Inr DecodeWaitForData, (c1, b1, new_thrift_metadata))"
    by (rule thrift_sample_waits)
  then show ?thesis
    using thrift_decode_fragmentation [OF binary.thrift_extending_axioms thrift_start_ok w,
        where xs = "drop 20 (thrift_sample_frame TCall)"
          and ?b2.0 = "b1 @ drop 20 (thrift_sample_frame TCall)"
          and ?b3.0 = "thrift_sample_frame TCall"]
    by auto
qed

text \<open>C7: a framed message is decoded and forwarded byte for byte. With the bytes of a whole frame at
  the front of the buffer \<open>decode\<close> takes off exactly that frame, reports the method, the type and the
  sequence id of the message, and writes the frame back as the origin message, whatever values the
  fields hold.\<close>

theorem thrift_frame_forwarded:
  assumes "thrift_frames B content P ok W T tok head" and "thrift_codec_ok ok tok c"
    and "\<not> tc_frame_started c" and "tc_metadata c = None"
    and "length name < 2 ^ 31" and "t \<in> {TCall, TReply, TException, TOneway}"
    and "value_ok (VStruct fs)" and "length (encode_message W name t i fs) < 2 ^ 31"
    and "content b = frame_bytes head (encode_message W name t i fs) @ rest"
    and "Metadata_get m ''method'' = None" and "content (md_origin_message m) = []"
  shows "\<exists>c' b' m'. ThriftCodec_decode B H T P c b m = Some (Inr DecodeDone, (c', b', m')) \<and>
    content b' = rest \<and>
    content (md_origin_message m') = frame_bytes head (encode_message W name t i fs) \<and>
    md_message_type m' = thrift_to_message_type t \<and> md_request_id m' = scast i \<and>
    Metadata_getString m' ''method'' = Inr name"
  by (rule thrift_frames.decode_frame [OF assms(1-9), where H = H and m = m])
    (use assms(10,11) in \<open>auto simp: thrift_fill_def getput putString_fields\<close>)

theorem thrift_frame_forwarded_witness:
  "\<exists>c' b' m'. list_thrift_decode thrift_start (thrift_sample_frame TOneway @ [1, 2]) =
      Some (Inr DecodeDone, (c', b', m')) \<and> b' = [1, 2] \<and>
    md_origin_message m' = thrift_sample_frame TOneway \<and>
    md_message_type m' = Oneway \<and> md_request_id m' = 5 \<and> Metadata_getString m' ''method'' = Inr ''sum''"
  using thrift_frame_forwarded [OF binary.thrift_frames_axioms thrift_sample_ok _ _ thrift_sample_fields_ok,
      where name = "''sum''" and t = TOneway and i = 5 and b = "thrift_sample_frame TOneway @ [1, 2]"
        and rest = "[1, 2]" and m = new_thrift_metadata and H = alist_headers]
    length_thrift_sample_message [of TOneway]
  by (simp add: thrift_sample_message_def thrift_sample_frame_def thrift_sample_fields_ok
      MetadataImpl_def list_buffer_def Metadata_get_def getput)

subsection \<open>Termination and the stack\<close>

text \<open>C15: \<open>decode\<close> returns on every buffer, however the bytes of a frame nest structs, lists and maps
  and whatever sizes they announce; it fails with nothing but an \<open>EnvoyException\<close>, and otherwise has
  taken a prefix off the buffer and leaves a codec that is ready for the next call. A complete message
  takes at least one byte.\<close>

theorem thrift_decode_returns:
  assumes "thrift_framing B content P ok T tok" and "thrift_codec_ok ok tok c"
  shows "\<exists>r s. ThriftCodec_decode B H T P c b m = Some (r, s) \<and>
    (case r of
       Inl e \<Rightarrow> is_envoy_exception e
     | Inr st \<Rightarrow> (let (c', b', m') = s in
         thrift_codec_ok ok tok c' \<and> (\<exists>pre. content b = pre @ content b') \<and>
         (case st of
            DecodeWaitForData \<Rightarrow> m' = m
          | DecodeDone \<Rightarrow> length (content b') < length (content b) \<and> \<not> tc_frame_started c')))"
proof -
  obtain r where "ThriftCodec_decode B H T P c b m = Some r" "safe (decode_ok content ok tok b m) r"
    using thrift_framing.decode_safe [OF assms] .
  then show ?thesis
    by (cases r; cases "fst r") (auto simp: decode_ok_def split: DecodeStatus.splits)
qed

theorem thrift_decode_returns_witness:
  "\<exists>r s. list_thrift_decode thrift_start [0, 0, 0, 9, 0x80, 1, 0, 7, 255, 255, 255, 255] = Some (r, s) \<and>
    (case r of
       Inl e \<Rightarrow> is_envoy_exception e
     | Inr st \<Rightarrow> (let (c', b', m') = s in
         thrift_codec_ok (\<lambda>_. True) (\<lambda>_. True) c' \<and>
         (\<exists>pre. [0, 0, 0, 9, 0x80, 1, 0, 7, 255, 255, 255, 255] = pre @ b') \<and>
         (case st of
            DecodeWaitForData \<Rightarrow> m' = new_thrift_metadata
          | DecodeDone \<Rightarrow> length b' < 12 \<and> \<not> tc_frame_started c')))"
  using thrift_decode_returns [OF binary_framing thrift_start_ok, where H = alist_headers
      and b = "[0, 0, 0, 9, 0x80, 1, 0, 7, 255, 255, 255, 255]" and m = new_thrift_metadata]
  by (simp only: list.size One_nat_def) (simp only: numeral_eq_Suc pred_numeral_simps add_0 add_Suc plus_nat.simps arith_simps)

text \<open>C9: the stack of frames is typed by the state: from a state that fits the stack, a handler goes
  to a state that fits the stack it leaves, so no handler reads a frame that is not there, returns
  into the wrong container or counts an element of an empty one, or it throws an
  \<open>EnvoyException\<close>; where it waits, it has taken nothing off the buffer.\<close>

theorem thrift_handler_types:
  assumes "thrift_reading B content P ok" and "run_ok ok sm" and "tm_state sm \<noteq> AtDone"
    and "thrift_handleState B P (b, sm) = (r, (b', sm'))"
  shows "case r of
      Inl e \<Rightarrow> is_envoy_exception e
    | Inr n \<Rightarrow>
        if n = AtWaitForData then run_ok ok sm' \<and> tm_state sm' = tm_state sm \<and> content b' = content b
        else run_ok ok (sm'\<lparr>tm_state := n\<rparr>)"
  using thrift_reading.thrift_handleState_safe [OF assms(1-3), of b] assms(4)
  by (auto simp: step_ok_def set_machine_state_def split: sum.splits)

text \<open>The machine after the last field of a call.\<close>

definition thrift_sample_machine :: "(unit, u8 list, (string \<times> string) list) thrift_machine" where
  "thrift_sample_machine =
     (Thrift_DecoderStateMachine list_buffer () (message_metadata ''sum'' TCall 5
        (Thrift_MessageMetadata alist_headers)))
       \<lparr>tm_state := AtFieldBegin, tm_stack := [Frame_return AtMessageEnd]\<rparr>"

lemma thrift_sample_machine_ok:
  "run_ok (\<lambda>_. True) thrift_sample_machine" "tm_state thrift_sample_machine = AtFieldBegin"
  by (simp_all add: run_ok_def thrift_sample_machine_def Thrift_DecoderStateMachine_def
      valid_message_type_def message_metadata_def returns.message)

theorem thrift_handler_types_witness:
  "\<exists>sm'. thrift_handleState list_buffer binary_protocol ([0], thrift_sample_machine) =
      (Inr AtStructEnd, ([], sm')) \<and> run_ok (\<lambda>_. True) (sm'\<lparr>tm_state := AtStructEnd\<rparr>)"
proof -
  obtain sm' where sm': "thrift_handleState list_buffer binary_protocol ([0], thrift_sample_machine) =
      (Inr AtStructEnd, ([], sm'))"
    by (simp add: thrift_handleState_def thrift_sample_machine_ok fieldBegin_def reading_def
        proto_read_def writing_def proto_write_def binary_protocol_simps bin_field_def bin_write_def)
  then show ?thesis
    using thrift_handler_types [OF binary_reading thrift_sample_machine_ok(1) _ sm']
    by (simp add: thrift_sample_machine_ok)
qed

subsection \<open>Replies to errors\<close>

text \<open>The reply to an error is an exception message for the method of the request with the error's
  text, the type \<open>InternalError\<close> and the sequence id 0: \<open>toMsgMetadata\<close> does not copy the id of the
  request, so that the client cannot match the reply with its call; and the message is written
  without the frame of the transport.\<close>

theorem thrift_error_reply:
  assumes "thrift_wire B content P ok W" and "ok (tc_protocol c)" and "content b = []"
    and "Metadata_getString m ''method'' = Inr name" and "length name < 2 ^ 31"
    and "length (err_message err) < 2 ^ 31"
  shows "\<exists>c' b'. ThriftCodec_onError B H P c m err b = (Inr (), (c', b')) \<and>
    content b' = encode_message W name TException 0 [(1, VString (err_message err)), (2, VI32 6)]"
  by (rule thrift_wire.onError_code [OF assms, where H = H]) (auto simp: TApplicationException_def)

theorem thrift_error_reply_witness:
  "\<exists>c' b'. ThriftCodec_onError list_buffer alist_headers binary_protocol thrift_start
      (thrift_fill alist_headers ''sum'' TCall 5 new_thrift_metadata)
      \<lparr>err_type = RouteNotFound, err_message = ''no route''\<rparr> [] = (Inr (), (c', b')) \<and>
    b' = encode_message binary_code ''sum'' TException 0 [(1, VString ''no route''), (2, VI32 6)]"
  using thrift_error_reply [OF binary.thrift_wire_axioms, where c = thrift_start and b = "[]"
      and H = alist_headers and name = "''sum''" and m = "thrift_fill alist_headers ''sum'' TCall 5 new_thrift_metadata"
      and err = "\<lparr>err_type = RouteNotFound, err_message = ''no route''\<rparr>"]
  by (simp add: thrift_fill_def getput)

subsection \<open>Sequence ids\<close>

lemma sint_nonneg_below:
  assumes "unat (i :: i32) < 2 ^ 31"
  shows "0 \<le> sint i"
proof -
  have "uint i < 2 ^ 31" using assms by (metis of_nat_less_iff of_nat_numeral of_nat_power uint_nat)
  then have "signed_take_bit 31 (uint i) = uint i"
    by (intro signed_take_bit_int_eq_self order_trans [OF _ uint_ge_0]) auto
  then show ?thesis by (simp add: sint_uint)
qed

text \<open>C16: the ids a connection hands out count up from the initial one and wrap to 0 after the
  largest \<open>int32_t\<close>: they are never negative, and \<open>2 ^ 31\<close> calls in a row get different ids.\<close>

theorem thrift_sequence_ids:
  assumes "unat (cs_next_sequence_id c) < 2 ^ 31"
  shows "map unat (sequence_ids n c) =
      map (\<lambda>k. (unat (cs_next_sequence_id c) + k) mod 2 ^ 31) [0..<n] \<and>
    list_all (\<lambda>i. 0 \<le> sint i) (sequence_ids n c) \<and>
    (n \<le> 2 ^ 31 \<longrightarrow> distinct (sequence_ids n c))"
proof -
  let ?i = "unat (cs_next_sequence_id c)"
  note ids = sequence_ids_spec [OF assms, of n]
  have "0 \<le> sint i" if "i \<in> set (sequence_ids n c)" for i
  proof -
    have "unat i \<in> set (map unat (sequence_ids n c))" using that by simp
    then have "unat i < 2 ^ 31" unfolding ids by auto
    then show ?thesis by (simp add: sint_nonneg_below)
  qed
  moreover have "distinct (sequence_ids n c)" if n: "n \<le> 2 ^ 31"
  proof -
    have "inj_on (\<lambda>k. (?i + k) mod 2 ^ 31) {0..<n}"
    proof (rule inj_onI)
      fix j k assume jk: "j \<in> {0..<n}" "k \<in> {0..<n}" "(?i + j) mod 2 ^ 31 = (?i + k) mod 2 ^ 31"
      from jk(3) have "j mod 2 ^ 31 = k mod 2 ^ 31" unfolding nat_mod_eq_iff by auto
      then show "j = k" using jk(1,2) n by simp
    qed
    then have "distinct (map unat (sequence_ids n c))" unfolding ids by (simp add: distinct_map)
    then show ?thesis by (simp add: distinct_map)
  qed
  ultimately show ?thesis using ids by (simp add: list_all_iff)
qed

theorem thrift_sequence_ids_witness:
  "map unat (sequence_ids 3 (ThriftConnectionState 0x7FFFFFFE)) =
      map (\<lambda>k. (0x7FFFFFFE + k) mod 2 ^ 31) [0..<3] \<and>
    list_all (\<lambda>i. 0 \<le> sint i) (sequence_ids 3 (ThriftConnectionState 0x7FFFFFFE)) \<and>
    distinct (sequence_ids 3 (ThriftConnectionState 0x7FFFFFFE))"
  using thrift_sequence_ids [of "ThriftConnectionState 0x7FFFFFFE" 3]
  by (simp only: ThriftConnectionState_def) simp

end
