(* ===== verification/Thrift_Proxy.thy ===== *)
theory Thrift_Proxy
  imports Thrift_Properties Dubbo_Proxy Proxy_Transfer
begin

text \<open>
  The proxy with the Thrift codec: the contract of the connection manager and the router holds of
  it, so that every property of the proxy does, and what the clients and the upstreams send are
  framed Thrift messages. A concrete proxy over the reference protocol ends the theory.
\<close>

subsection \<open>The codec contract\<close>

locale thrift_proxy = thrift_frames "en_buffer E" content P ok W T tok "en_headers E" head
  for E :: "(('t, 'p, 'b, 'h) thrift_codec, unit, 'b, 'h, 'f) env" and content :: "'b \<Rightarrow> u8 list"
    and P :: "('p, 'b, 'h) thrift_protocol" and ok :: "'p \<Rightarrow> bool" and W :: thrift_code
    and T :: "('t, 'b, 'h) thrift_transport" and tok :: "'t \<Rightarrow> bool" and head :: "nat \<Rightarrow> u8 list" +
  fixes t0 :: 't and p0 :: 'p
  assumes runs_codec: "en_codec E = ThriftCodec (en_buffer E) (en_headers E) T P"
    and runs_new: "en_createCodec E = ThriftCodec_init t0 p0" "tok t0" "ok p0"
    and failing_write: "ok p \<Longrightarrow> ok (fst (snd (thrift_exception P md msg (p, b))))"

lemma thrift_codec_ok_protocol:
  "thrift_codec_ok ok tok c \<Longrightarrow> ok p \<Longrightarrow> thrift_codec_ok ok tok (c\<lparr>tc_protocol := p\<rparr>)"
  by (auto simp: thrift_codec_ok_def run_ok_def attach_def split: option.splits)

context thrift_proxy
begin

lemma onError_keeps:
  assumes "thrift_codec_ok ok tok c"
  shows "thrift_codec_ok ok tok (fst (snd (ThriftCodec_onError (en_buffer E) (en_headers E) P c m err b)))"
proof -
  have "ok (tc_protocol c)" using assms by (simp add: thrift_codec_ok_def)
  note w = failing_write [OF this]
  have "thrift_codec_ok ok tok (c\<lparr>tc_protocol := fst (snd (thrift_exception P md msg (tc_protocol c, b)))\<rparr>)"
    for md msg
    by (rule thrift_codec_ok_protocol [OF assms w])
  then show ?thesis
    using assms
    by (auto simp: ThriftCodec_onError_def Let_def case_prod_unfold split: sum.splits)
qed

end

sublocale thrift_proxy \<subseteq> proxy_env E content "thrift_codec_ok ok tok"
proof (unfold_locales, goal_cases)
  case (1 c b m st c' b' m')
  then show ?case using thrift.decode_inv by (simp add: runs_codec)
next
  case (2 c b m c' b' m')
  then show ?case using thrift.decode_progress by (simp add: runs_codec)
next
  case (3 c b m e c' b' m')
  then show ?case using thrift.decode_throws by (simp add: runs_codec)
next
  case 4
  then show ?case by (simp add: runs_new thrift_codec_ok_init)
next
  case 5
  show ?case
    unfolding codec_keeps_def
  proof (intro allI impI conjI, goal_cases)
    case (1 c m mu b)
    then show ?case
      by (simp add: runs_codec ThriftCodec_def ThriftCodec_encode_def split: MessageType.splits)
  next
    case (2 c m err b)
    then show ?case using onError_keeps by (simp add: runs_codec ThriftCodec_def)
  qed
qed

context thrift_proxy
begin

lemma keeps_contract: "proxy_env E content (thrift_codec_ok ok tok)"
  by (rule proxy_env_axioms)

end

subsection \<open>Messages on a connection\<close>

text \<open>
  \<open>thrift_message\<close>: the bytes are one frame with a well-typed message. \<open>thrift_idle\<close>: the
  connection is between two frames. \<open>thrift_request\<close> is the metadata the router sees of a message.
\<close>

definition thrift_message ::
  "thrift_code \<Rightarrow> (nat \<Rightarrow> u8 list) \<Rightarrow> string \<Rightarrow> ThriftMessageType \<Rightarrow> i32 \<Rightarrow> (i16 \<times> tvalue) list \<Rightarrow>
   u8 list \<Rightarrow> bool" where
  "thrift_message W head name t i fs bytes \<longleftrightarrow>
     bytes = frame_bytes head (encode_message W name t i fs) \<and> length name < 2 ^ 31 \<and>
     t \<in> {TCall, TReply, TException, TOneway} \<and> value_ok (VStruct fs) \<and>
     length (encode_message W name t i fs) < 2 ^ 31"

definition thrift_idle ::
  "('b \<Rightarrow> u8 list) \<Rightarrow> (('t, 'p, 'b, 'h) thrift_codec, unit, 'b, 'h, 'f) proxy \<Rightarrow> bool" where
  "thrift_idle content px \<longleftrightarrow>
     \<not> tc_frame_started (cm_codec px) \<and> tc_metadata (cm_codec px) = None \<and>
     content (cm_request_buffer px) = []"

definition thrift_request ::
  "('c, unit, 'b, 'h, 'f) env \<Rightarrow> string \<Rightarrow> ThriftMessageType \<Rightarrow> i32 \<Rightarrow> 'b \<Rightarrow> (unit, 'b, 'h) metadata" where
  "thrift_request E name t i out =
     (thrift_fill (en_headers E) name t i (MetadataImpl (en_buffer E) (en_headers E)))
       \<lparr>md_origin_message := out\<rparr>"

lemma thrift_request_fields [simp]:
  "md_message_type (thrift_request E name t i out) = thrift_to_message_type t"
  "md_request_id (thrift_request E name t i out) = scast i"
  "md_origin_message (thrift_request E name t i out) = out"
  "Metadata_getString (thrift_request E name t i out) ''method'' = Inr name"
  by (simp_all add: thrift_request_def thrift_fill_def getput)

context thrift_proxy
begin

lemma decode_message:
  assumes "thrift_codec_ok ok tok c" and "\<not> tc_frame_started c" and "tc_metadata c = None"
    and "thrift_message W head name t i fs (content b)"
  obtains c' b' out where
    "codec_decode (en_codec E) c b (MetadataImpl (en_buffer E) (en_headers E)) =
       (Inr DecodeDone, (c', b', thrift_request E name t i out))"
    and "content b' = []" and "content out = content b" and "thrift_codec_ok ok tok c'"
    and "content b \<noteq> []"
proof -
  let ?m = "MetadataImpl (en_buffer E) (en_headers E) :: (unit, 'b, 'h) metadata"
  have msg: "length name < 2 ^ 31" "t \<in> {TCall, TReply, TException, TOneway}"
    "value_ok (VStruct fs)" "length (encode_message W name t i fs) < 2 ^ 31"
    "content b = frame_bytes head (encode_message W name t i fs) @ []"
    using assms(4) by (simp_all only: thrift_message_def append_Nil2)
  obtain c' b' out where
    d: "ThriftCodec_decode (en_buffer E) (en_headers E) T P c b ?m =
      Some (Inr DecodeDone, (c', b', (thrift_fill (en_headers E) name t i ?m)\<lparr>md_origin_message := out\<rparr>))"
    and b': "content b' = []"
    and out: "content out = content (md_origin_message ?m) @
      frame_bytes head (encode_message W name t i fs)"
    by (rule decode_frame [OF assms(1-3) msg, where m = ?m]) (rule that)
  have "content (md_origin_message ?m) = []" by (simp add: new_content getput)
  then show thesis
    using that [of c' b' out] d b' out assms(4) codec_decode_safe [OF assms(1), of b ?m]
    by (simp add: runs_codec ThriftCodec_def thrift_request_def thrift_message_def decode_ok_def)
qed

lemma reachable_codec:
  assumes "reachable E px" and "cx_state px = ConnOpen"
  shows "thrift_codec_ok ok tok (cm_codec px)"
  using reachable_open_awaits [OF assms(1)] assms(2) by (simp add: open_awaits_def awaits_def)

lemma thrift_completes:
  assumes "reachable E px" and "cx_state px = ConnOpen" and "thrift_idle content px"
    and "thrift_message W head name t i fs (content data)"
  obtains c out where "completes E px data c (thrift_request E name t i out)"
    and "content out = content data" and "thrift_codec_ok ok tok c"
proof -
  let ?b = "fst (buf_move_all (en_buffer E) (cm_request_buffer px) data)"
  have idle: "\<not> tc_frame_started (cm_codec px)" "tc_metadata (cm_codec px) = None"
    and b: "content ?b = content data"
    using assms(3) by (simp_all add: thrift_idle_def content_simps)
  obtain c' b' out where d: "codec_decode (en_codec E) (cm_codec px) ?b
        (MetadataImpl (en_buffer E) (en_headers E)) =
      (Inr DecodeDone, (c', b', thrift_request E name t i out))"
    and "content b' = []" "content out = content ?b" "thrift_codec_ok ok tok c'" "content ?b \<noteq> []"
    by (rule decode_message [OF reachable_codec [OF assms(1,2)] idle, of name t i fs ?b])
      (use assms(4) b that in auto)
  then show thesis
    using that [of c' out] b by (auto simp: completes_def decodes_def Let_def length_content)
qed

lemma thrift_response:
  assumes "thrift_message W head name t i fs (content answer)" and "t \<in> {TReply, TException}"
  obtains c' rest out where
    "response_codec_done E (en_createCodec E) answer c' rest (thrift_request E name t i out)"
    and "content out = content answer"
proof -
  have new: "\<not> tc_frame_started (en_createCodec E)" "tc_metadata (en_createCodec E) = None"
    by (simp_all add: runs_new(1) ThriftCodec_init_def)
  show thesis
    by (rule decode_message [OF create_inv new assms(1)])
      (use that assms(2) in \<open>auto simp: response_codec_done_def\<close>)
qed

lemma thrift_replies:
  assumes "ok (tc_protocol c)" and "cx_state px = ConnOpen" and "cm_codec px = c"
    and "length name < 2 ^ 31" and "length (err_message err) < 2 ^ 31"
  shows "replies E (thrift_request E name t i out) err px"
    and "reply_to E content c (thrift_request E name t i out) err =
      encode_message W name TException 0 (TApplicationException (err_message err))"
proof -
  obtain c' b' where e: "ThriftCodec_onError (en_buffer E) (en_headers E) P c (thrift_request E name t i out)
        err (buf_new (en_buffer E)) = (Inr (), (c', b'))"
    "content b' = encode_message W name TException 0 (TApplicationException (err_message err))"
    by (rule onError_code [OF assms(1) _ _ assms(4,5), where b = "buf_new (en_buffer E)"
          and H = "en_headers E" and m = "thrift_request E name t i out"])
      (simp_all add: new_content)
  then show "replies E (thrift_request E name t i out) err px"
    "reply_to E content c (thrift_request E name t i out) err =
      encode_message W name TException 0 (TApplicationException (err_message err))"
    using assms(2,3) new_content
    by (simp_all add: replies_def reply_to_def runs_codec ThriftCodec_def length_content)
qed

end

subsection \<open>A concrete proxy\<close>

text \<open>A route table with one rule for the method sum, over the reference protocol and transport.\<close>

definition thrift_config :: "(string \<times> string, unit) proxy_proto" where
  "thrift_config =
     \<lparr>pp_application_protocol = ''thrift'', pp_stat_prefix = ''sample'',
      pp_routes = [\<lparr>rc_metadata = [(''method'', ''sum'')],
                    rc_cluster_specifier = ClusterSpecifierCluster ''c''\<rparr>],
      pp_meta_protocol_filters = []\<rparr>"

definition thrift_config_impl :: "(string \<times> string, unit) config_impl" where
  "thrift_config_impl =
     \<lparr>ci_stats_prefix = ''meta_protocol.thrift.sample.'', ci_application_protocol = ''thrift'',
      ci_route_matcher = [\<lparr>re_cluster_name = ''c'', re_config_headers = [(''method'', ''sum'')],
        re_weighted_clusters = [], re_total_cluster_weight = 0\<rparr>],
      ci_filter_factories = [AddRouter]\<rparr>"

lemma thrift_config_impl:
  "ConfigImpl exact_matchers sample_registry () thrift_config = Inr thrift_config_impl"
  by (simp add: ConfigImpl_def thrift_config_def thrift_config_impl_def sample_registry_def
      registerFilter_def RouteEntryImpl_def exact_matchers_def Let_def)

type_synonym thrift_sample_proxy =
  "(list_thrift_codec, unit, u8 list, (string \<times> string) list, unit) proxy"

definition thrift_env ::
  "pool_answer \<Rightarrow> (list_thrift_codec, unit, u8 list, (string \<times> string) list, unit) env" where
  "thrift_env answer = configure exact_matchers thrift_config_impl
     \<lparr>en_buffer = list_buffer, en_headers = alist_headers,
      en_codec = ThriftCodec list_buffer alist_headers framed_transport binary_protocol,
      en_createCodec = thrift_start, en_applicationProtocol = [], en_filter_factories = [],
      en_route = (\<lambda>_ _. None),
      en_getThreadLocalCluster = (\<lambda>name. if name = ''c''
        then Some \<lparr>cl_maintenanceMode = False, cl_tcpConnPool = True\<rparr> else None),
      en_newConnection = (\<lambda>_ _. answer), en_write_pending = (\<lambda>_. False), en_random = (\<lambda>_. 0),
      en_onMessageDecoded = (\<lambda>f m mu. (f, m, mu, None, Continue)),
      en_onMessageEncoded = (\<lambda>f m mu. (f, m, mu, Continue))\<rparr>"

lemma thrift_env_fields [simp]:
  "en_buffer (thrift_env answer) = list_buffer"
  "en_headers (thrift_env answer) = alist_headers"
  "en_codec (thrift_env answer) = ThriftCodec list_buffer alist_headers framed_transport binary_protocol"
  "en_createCodec (thrift_env answer) = thrift_start"
  "en_filter_factories (thrift_env answer) = [AddRouter]"
  "en_newConnection (thrift_env answer) name es = answer"
  "en_random (thrift_env answer) n = 0"
  by (simp_all add: thrift_env_def configure_def thrift_config_impl_def)

interpretation thrift_sample: thrift_proxy "thrift_env answer" "\<lambda>bs. bs" binary_protocol "\<lambda>_. True"
    binary_code framed_transport "\<lambda>_. True" length_bytes "()" "()" for answer
proof (rule thrift_proxy.intro, goal_cases)
  case 1
  show ?case using binary.thrift_frames_axioms by simp
next
  case 2
  show ?case by (rule thrift_proxy_axioms.intro) simp_all
qed

abbreviation thrift_proxy_start :: "pool_answer \<Rightarrow> thrift_sample_proxy" where
  "thrift_proxy_start answer \<equiv> ConnectionManager (thrift_env answer)"

lemma thrift_proxy_start_fields [simp]:
  "cm_codec (thrift_proxy_start answer) = thrift_start" "cm_request_buffer (thrift_proxy_start answer) = []"
  "cx_state (thrift_proxy_start answer) = ConnOpen" "cx_effects (thrift_proxy_start answer) = []"
  "cm_active_message_list (thrift_proxy_start answer) = []" "ev_deferred (thrift_proxy_start answer) = []"
  "st_next (thrift_proxy_start answer) = 0" "st_messages (thrift_proxy_start answer) = Map.empty"
  by (simp_all add: ConnectionManager_def list_buffer_def)

lemma thrift_proxy_start_idle: "thrift_idle (\<lambda>bs. bs) (thrift_proxy_start answer)"
  by (simp add: thrift_idle_def ThriftCodec_init_def)

lemma thrift_default_chain: "default_chain (thrift_env answer)"
  by (simp add: default_chain_def)

lemma thrift_sample_is_message:
  "t \<in> {TCall, TReply, TException, TOneway} \<Longrightarrow>
   thrift_message binary_code length_bytes ''sum'' t 5 thrift_sample_fields (thrift_sample_frame t)"
  using length_thrift_sample_message [of t] thrift_sample_fields_ok
  by (simp add: thrift_message_def thrift_sample_frame_def thrift_sample_message_def)

text \<open>The same message for the method \<open>cut\<close>, which has no route.\<close>

definition thrift_unrouted_frame :: "u8 list" where
  "thrift_unrouted_frame =
     frame_bytes length_bytes (encode_message binary_code ''cut'' TCall 5 thrift_sample_fields)"

lemma thrift_unrouted_is_message:
  "thrift_message binary_code length_bytes ''cut'' TCall 5 thrift_sample_fields thrift_unrouted_frame"
  using thrift_sample_fields_ok
  by (simp add: thrift_message_def thrift_unrouted_frame_def)
    (simp add: encode_message_def thrift_sample_fields_def binary_code_simps string_bytes_def)

lemma thrift_sample_routing:
  "routing (thrift_env answer) (thrift_request (thrift_env a) name TCall 5 out) sid =
     (if name = ''sum'' then Inr ''c'' else Inl (no_route_error 5))"
proof -
  have low: "hdr_lower alist_headers ''method'' = ''method''"
    by (simp add: alist_headers_def lower_char_def)
  have "alist_get (md_headers (thrift_request (thrift_env a) name TCall 5 out)) ''method'' = [name]"
    using header_map.putString_routes [OF ah.header_map_axioms, of new_thrift_metadata "''method''" name]
    by (simp add: thrift_request_def thrift_fill_def low)
  then have r: "en_route (thrift_env answer) (thrift_request (thrift_env a) name TCall 5 out) sid =
      (if name = ''sum'' then Some ''c'' else None)"
    by (simp add: thrift_env_def configure_def thrift_config_impl_def ConfigImpl_route_def
        RouteEntryImpl_matches_def headersMatch_def clusterEntry_def exact_matchers_def)
  show ?thesis
    by (simp add: routing_def r) (simp add: thrift_env_def configure_def)
qed

subsection \<open>Exchanges\<close>

text \<open>C8: a framed Thrift call that is routed to a cluster whose pool has a connection reaches the
  upstream byte for byte, and its reply, or the exception the upstream answers with, reaches the
  client byte for byte; the connection is released and nothing of the message is left.\<close>

theorem thrift_exchange:
  assumes "thrift_proxy E content P ok W T tok head t0 p0" and "reachable E px"
    and "cx_state px = ConnOpen" and "ev_deferred px = []" and "default_chain E"
    and "thrift_idle content px"
    and "thrift_message W head name TCall i fs (content data)"
    and "\<And>out. routing E (thrift_request E name TCall i out) (en_random E (st_next px)) = Inr cluster"
    and "en_newConnection E cluster (cx_effects px) = ConnectionReady host"
    and "thrift_message W head name' t i fs' (content answer)" and "t \<in> {TReply, TException}"
  shows "\<exists>px' sent got.
    run_events E [DownstreamData data False, UpstreamData (st_next px) 0 answer es, DeferredDelete] px = Some px' \<and>
    cx_effects px' = cx_effects px @
      [PutResult host LocalOriginConnectSuccess, UpstreamWrite (st_next px) sent,
       PutResult host (if t = TReply then ExtOriginRequestSuccess else ExtOriginRequestFailed),
       DownstreamWrite got False, UpstreamRelease (st_next px)] \<and>
    content sent = content data \<and> content got = content answer \<and>
    cm_active_message_list px' = cm_active_message_list px \<and> ev_deferred px' = [] \<and>
    st_messages px' = st_messages px \<and> cx_state px' = ConnOpen"
proof -
  obtain c out where c: "completes E px data c (thrift_request E name TCall i out)"
    and out: "content out = content data"
    by (rule thrift_proxy.thrift_completes [OF assms(1-3,6,7)]) (rule that)
  obtain c' rest out' where r: "response_codec_done E (en_createCodec E) answer c' rest
      (thrift_request E name' t i out')" and out': "content out' = content answer"
    by (rule thrift_proxy.thrift_response [OF assms(1,10,11)]) (rule that)
  have res: "response_result (thrift_request E name' t i out') =
      (if t = TReply then ExtOriginRequestSuccess else ExtOriginRequestFailed)"
    using assms(11)
    by (auto simp: response_result_def) (simp_all add: thrift_request_def thrift_fill_def putString_fields getput)
  show ?thesis
    by (rule exchange_runs [OF thrift_proxy.keeps_contract [OF assms(1)] assms(2-5) c _ assms(8,9) r, where es = es])
      (use out out' res in auto)
qed

theorem thrift_exchange_witness:
  "\<exists>px' sent got.
    run_events (thrift_env (ConnectionReady ''h''))
      [DownstreamData (thrift_sample_frame TCall) False, UpstreamData 0 0 (thrift_sample_frame TReply) False,
       DeferredDelete] (thrift_proxy_start (ConnectionReady ''h'')) = Some px' \<and>
    cx_effects px' =
      [PutResult ''h'' LocalOriginConnectSuccess, UpstreamWrite 0 sent,
       PutResult ''h'' ExtOriginRequestSuccess, DownstreamWrite got False, UpstreamRelease 0] \<and>
    sent = thrift_sample_frame TCall \<and> got = thrift_sample_frame TReply \<and>
    cm_active_message_list px' = [] \<and> ev_deferred px' = [] \<and>
    st_messages px' = Map.empty \<and> cx_state px' = ConnOpen"
  using thrift_exchange [OF thrift_sample.thrift_proxy_axioms reachable_init _ _ thrift_default_chain
      thrift_proxy_start_idle thrift_sample_is_message _ _ thrift_sample_is_message,
      where cluster = "''c''" and host = "''h''" and es = False and t = TReply]
  by (simp add: thrift_sample_routing del: run_events.simps)

text \<open>C20: a Thrift call without a route is answered once, with an exception message for its method that
  carries the error; but whatever the sequence id of the call, that of the answer is 0, and the answer
  has no frame, which a client of the framed transport waits for.\<close>

theorem thrift_rejected:
  assumes "thrift_proxy E content P ok W T tok head t0 p0" and "reachable E px"
    and "cx_state px = ConnOpen" and "default_chain E" and "thrift_idle content px"
    and "thrift_message W head name TCall i fs (content data)"
    and "\<And>out. routing E (thrift_request E name TCall i out) (en_random E (st_next px)) = Inl err"
    and "length (err_message err) < 2 ^ 31"
  shows "\<exists>px' reply. handle E (DownstreamData data False) px = Some (Inr (), px') \<and>
    cx_effects px' = cx_effects px @ [DownstreamWrite reply False] \<and>
    content reply = encode_message W name TException 0 [(1, VString (err_message err)), (2, VI32 6)] \<and>
    cm_active_message_list px' = cm_active_message_list px \<and>
    ev_deferred px' = ev_deferred px @ [st_next px] \<and> cx_state px' = ConnOpen"
proof -
  note env = thrift_proxy.keeps_contract [OF assms(1)]
  have B: "envoy_buffer (en_buffer E) content"
    using env by (simp add: proxy_env_def codec_contract_def)
  obtain c out where c: "completes E px data c (thrift_request E name TCall i out)"
    and "thrift_codec_ok ok tok c"
    by (rule thrift_proxy.thrift_completes [OF assms(1-3,5,6)]) (rule that)
  then have p: "ok (tc_protocol c)" by (simp add: thrift_codec_ok_def)
  have name: "length name < 2 ^ 31" using assms(6) by (simp add: thrift_message_def)
  have rep: "replies E (thrift_request E name TCall i out) err (px\<lparr>cm_codec := c\<rparr>)"
    by (rule thrift_proxy.thrift_replies(1) [OF assms(1) p _ _ name assms(8)]) (simp_all add: assms(3))
  obtain am px1 reply where
    "handle E (DownstreamData data False) px = Some (Inr (), put_message (st_next px) am px1)"
    "cx_effects px1 = cx_effects px @ [DownstreamWrite reply False]"
    "content reply = reply_to E content c (thrift_request E name TCall i out) err"
    "cm_active_message_list px1 = cm_active_message_list px"
    "ev_deferred px1 = ev_deferred px @ [st_next px]" "cx_state px1 = cx_state px"
    by (rule data_rejected [OF reachable_listens [OF env assms(2,3)] c _ assms(4,7) rep B]) (simp, rule that)
  moreover have "reply_to E content c (thrift_request E name TCall i out) err =
      encode_message W name TException 0 [(1, VString (err_message err)), (2, VI32 6)]"
    using thrift_proxy.thrift_replies(2) [OF assms(1) p _ _ name assms(8), of "px\<lparr>cm_codec := c\<rparr>"] assms(3)
    by (simp add: TApplicationException_def)
  ultimately show ?thesis using assms(3) by (metis put_message_fields(2-5))
qed

theorem thrift_rejected_witness:
  "\<exists>px' reply. handle (thrift_env ConnectionPending) (DownstreamData thrift_unrouted_frame False)
      (thrift_proxy_start ConnectionPending) = Some (Inr (), px') \<and>
    cx_effects px' = [DownstreamWrite reply False] \<and>
    reply = encode_message binary_code ''cut'' TException 0
      [(1, VString (err_message (no_route_error 5))), (2, VI32 6)] \<and>
    cm_active_message_list px' = [] \<and> ev_deferred px' = [0] \<and> cx_state px' = ConnOpen"
proof -
  have "dec_nat 5 = ''5''" by code_simp
  then have len: "length (err_message (no_route_error 5)) < 2 ^ 31"
    by (simp add: no_route_error_def mk_error_def quoted_def)
  show ?thesis
    using thrift_rejected [OF thrift_sample.thrift_proxy_axioms reachable_init _ thrift_default_chain
        thrift_proxy_start_idle thrift_unrouted_is_message _ len]
    by (simp add: thrift_sample_routing del: handle.simps)
qed

end
