(* ===== verification/Thrift_Segments.thy ===== *)
theory Thrift_Segments
  imports Thrift_Proxy Proxy_Segments
begin

text \<open>
  A client of the Thrift proxy sends framed messages on one connection, cut into reads anywhere: what
  the proxy writes for each of them, in bytes.
\<close>

subsection \<open>The Thrift codec resumes\<close>

definition thrift_between ::
  "('p \<Rightarrow> bool) \<Rightarrow> ('t \<Rightarrow> bool) \<Rightarrow> ('t, 'p, 'b, 'h) thrift_codec \<Rightarrow> bool" where
  "thrift_between ok tok c \<longleftrightarrow>
     thrift_codec_ok ok tok c \<and> \<not> tc_frame_started c \<and> tc_metadata c = None"

locale thrift_stream_proxy = thrift_proxy E content P ok W T tok head t0 p0
    + thrift_stream "en_buffer E" content P ok W T tok "en_headers E" head
  for E :: "(('t, 'p, 'b, 'h) thrift_codec, unit, 'b, 'h, 'f) env" and content :: "'b \<Rightarrow> u8 list"
    and P :: "('p, 'b, 'h) thrift_protocol" and ok :: "'p \<Rightarrow> bool" and W :: thrift_code
    and T :: "('t, 'b, 'h) thrift_transport" and tok :: "'t \<Rightarrow> bool" and head :: "nat \<Rightarrow> u8 list"
    and t0 :: 't and p0 :: 'p

lemma same_thrift_decoding:
  assumes "same_thrift_decode content (ThriftCodec_decode B H T P c b m) (ThriftCodec_decode B H T P c' b' m)"
  shows "same_decoding content (codec_decode (ThriftCodec B H T P) c b m) (codec_decode (ThriftCodec B H T P) c' b' m)"
proof -
  obtain st c1 b1 b2 m1 where d: "ThriftCodec_decode B H T P c b m = Some (st, (c1, b1, m1))"
    "ThriftCodec_decode B H T P c' b' m = Some (st, (c1, b2, m1))" "\<forall>s. st = Inr s \<longrightarrow> content b1 = content b2"
    using assms by (auto simp: same_thrift_decode_def)
  then show ?thesis by (cases st) (auto simp: ThriftCodec_def)
qed

sublocale thrift_stream_proxy \<subseteq>
  segmented_env E content "thrift_codec_ok ok tok" "thrift_between ok tok"
proof (unfold_locales, goal_cases)
  case (1 c)
  then show ?case by (simp add: thrift_between_def)
next
  case (2 c b m c1 b1 m1 b2 xs b3)
  obtain r where r: "ThriftCodec_decode (en_buffer E) (en_headers E) T P c b m = Some r"
      "safe (decode_ok content ok tok b m) r"
    using decode_safe [OF 2(1)] .
  then have "r = (Inr DecodeWaitForData, (c1, b1, m1))" using 2(2) by (simp add: runs_codec ThriftCodec_def)
  then have "m1 = m" "ThriftCodec_decode (en_buffer E) (en_headers E) T P c b m =
      Some (Inr DecodeWaitForData, (c1, b1, m1))"
    using r by (simp_all add: decode_ok_def)
  then show ?case
    using same_thrift_decoding [OF decode_resumed [OF 2(1) _ 2(3,4)]] by (simp add: runs_codec)
qed

subsection \<open>Framed messages\<close>

text \<open>A frame with a well-typed message; its fate is the one the routing decides.\<close>

definition thrift_client_frame ::
  "(('t, 'p, 'b, 'h) thrift_codec, unit, 'b, 'h, 'f) env \<Rightarrow> thrift_code \<Rightarrow> (nat \<Rightarrow> u8 list) \<Rightarrow>
   u8 list \<times> fate \<Rightarrow> bool" where
  "thrift_client_frame E W head = (\<lambda>(f, v). \<exists>name t i fs.
     thrift_message W head name t i fs f \<and>
     (v = Forward \<and> (\<forall>out. served E (thrift_request E name t i out)) \<or>
      (\<exists>err. v = Refuse (encode_message W name TException 0 (TApplicationException (err_message err))) \<and>
         length (err_message err) < 2 ^ 31 \<and>
         (\<forall>sid out. routing E (thrift_request E name t i out) sid = Inl err))))"

lemma metadata_view_thrift_request:
  assumes "metadata_view content m = metadata_view content (thrift_request E name t i out)"
  shows "m = thrift_request E name t i (md_origin_message m)"
  using assms by (cases m) (simp add: metadata_view_def thrift_request_def)

lemma onError_between:
  assumes "\<not> tc_frame_started c \<and> tc_metadata c = None"
  shows "\<not> tc_frame_started (fst (snd (ThriftCodec_onError B H P c m err b))) \<and>
    tc_metadata (fst (snd (ThriftCodec_onError B H P c m err b))) = None"
  using assms by (auto simp: ThriftCodec_onError_def Let_def case_prod_unfold split: sum.splits)

context thrift_stream_proxy
begin

lemma refused_message:
  assumes "thrift_between ok tok c" and "length name < 2 ^ 31" and "length (err_message err) < 2 ^ 31"
  shows "\<exists>c' b. codec_onError (en_codec E) c (thrift_request E name t i out) err (buf_new (en_buffer E)) =
      (Inr (), (c', b)) \<and> thrift_between ok tok c' \<and>
      content b = encode_message W name TException 0 (TApplicationException (err_message err))"
proof -
  let ?m = "thrift_request E name t i out" and ?b = "buf_new (en_buffer E)"
  have ok: "ok (tc_protocol c)" using assms(1) by (simp add: thrift_between_def thrift_codec_ok_def)
  obtain c' b where e: "ThriftCodec_onError (en_buffer E) (en_headers E) P c ?m err ?b = (Inr (), (c', b))"
    "content b = encode_message W name TException 0 (TApplicationException (err_message err))"
    by (rule onError_code [OF ok _ _ assms(2,3), where b = ?b and H = "en_headers E" and m = ?m])
      (simp_all add: new_content)
  have "thrift_between ok tok c'"
    using onError_keeps [of c ?m err ?b] onError_between [of c "en_buffer E" "en_headers E" P ?m err ?b] assms(1) e(1)
    by (simp add: thrift_between_def)
  then show ?thesis using e by (simp add: runs_codec ThriftCodec_def)
qed

lemma message_taken:
  assumes "thrift_message W head name t i fs f"
    and "\<And>c out. thrift_between ok tok c \<Longrightarrow> Q c (thrift_request E name t i out)"
  shows "takes_frame content (en_codec E) fresh (thrift_between ok tok) Q f"
proof -
  have msg: "f = frame_bytes head (encode_message W name t i fs)" "length name < 2 ^ 31"
    "t \<in> {TCall, TReply, TException, TOneway}" "value_ok (VStruct fs)"
    "length (encode_message W name t i fs) < 2 ^ 31"
    using assms(1) by (simp_all only: thrift_message_def)
  have none: "content (md_origin_message fresh) = []" by (simp add: new_content getput)
  have decoded: "\<exists>c' b' out. codec_decode (en_codec E) c b fresh =
      (Inr DecodeDone, (c', b', thrift_request E name t i out)) \<and> thrift_between ok tok c' \<and>
      content b' = xs \<and> content out = f \<and> f \<noteq> []"
    if c: "thrift_between ok tok c" and b: "content b = f @ xs" for c b xs
  proof -
    obtain c' b' out where d: "ThriftCodec_decode (en_buffer E) (en_headers E) T P c b fresh =
        Some (Inr DecodeDone, (c', b', thrift_request E name t i out))"
      "content b' = xs" "content out = f"
      by (rule decode_frame [where c = c and b = b and inp = xs and m = fresh and name = name and t = t
            and i = i and fs = fs])
        (use c b msg none that in \<open>simp_all add: thrift_between_def thrift_request_def\<close>)
    obtain r where "ThriftCodec_decode (en_buffer E) (en_headers E) T P c b fresh = Some r"
      "safe (decode_ok content ok tok b fresh) r"
      using decode_safe [OF conjunct1 [OF c [unfolded thrift_between_def]]] .
    then show ?thesis
      using d b by (auto simp: decode_ok_def thrift_between_def runs_codec ThriftCodec_def)
  qed
  have seen: "Q c m" if "thrift_between ok tok c"
    "metadata_view content m = metadata_view content (thrift_request E name t i out)" for c m out
    using assms(2) [OF that(1), of "md_origin_message m"] metadata_view_thrift_request [OF that(2)] by simp
  show ?thesis
    unfolding takes_frame_def
  proof (intro conjI allI impI, goal_cases)
    case 1
    obtain b where b: "content b = f @ []" using buffer_with by blast
    have "thrift_between ok tok (en_createCodec E)"
      using create_inv by (simp add: thrift_between_def runs_new(1) ThriftCodec_init_def)
    then show ?case using decoded [OF _ b] by blast
  next
    case (2 c b xs)
    obtain c' b' out where "codec_decode (en_codec E) c b fresh =
        (Inr DecodeDone, (c', b', thrift_request E name t i out))" "thrift_between ok tok c'"
      "content b' = xs" "content out = f"
      using decoded [OF 2] by blast
    then show ?case
      using seen by (intro exI [of _ c'] exI [of _ b'] exI [of _ "thrift_request E name t i out"]) simp
  next
    case (3 c b)
    obtain zs where zs: "f = content b @ zs" "zs \<noteq> []"
      using 3(3) by (auto simp: strict_prefix_def prefix_def)
    obtain x where x: "content x = zs" using buffer_with by blast
    obtain c1 b1 where "ThriftCodec_decode (en_buffer E) (en_headers E) T P c b fresh =
        Some (Inr DecodeWaitForData, (c1, b1, fresh))"
      by (rule decode_cut_frame [where c = c and b = b and x = x and m = fresh and name = name and t = t
            and i = i and fs = fs])
        (use 3(1) msg zs x that in \<open>simp_all add: thrift_between_def\<close>)
    then show ?case by (simp add: runs_codec ThriftCodec_def)
  qed
qed

lemma client_frame_message:
  assumes "thrift_client_frame E W head fv"
  shows "client_frame E content (thrift_between ok tok) fv"
proof -
  obtain f v name t i fs where fv: "fv = (f, v)" and msg: "thrift_message W head name t i fs f"
    and fate: "v = Forward \<and> (\<forall>out. served E (thrift_request E name t i out)) \<or>
      (\<exists>err. v = Refuse (encode_message W name TException 0 (TApplicationException (err_message err))) \<and>
         length (err_message err) < 2 ^ 31 \<and>
         (\<forall>sid out. routing E (thrift_request E name t i out) sid = Inl err))"
    using assms by (auto simp: thrift_client_frame_def)
  have "meets_fate E content (thrift_between ok tok) v c (thrift_request E name t i out)"
    if c: "thrift_between ok tok c" for c out
    using fate
  proof (elim disjE exE conjE)
    fix err assume v: "v = Refuse (encode_message W name TException 0 (TApplicationException (err_message err)))"
      and len: "length (err_message err) < 2 ^ 31"
      and route: "\<forall>sid out. routing E (thrift_request E name t i out) sid = Inl err"
    have name: "length name < 2 ^ 31" using msg by (simp add: thrift_message_def)
    have "md_message_type (thrift_request E name t i out) \<noteq> Heartbeat" by (cases t) simp_all
    then show ?thesis
      using v route refused_message [OF c name len] by (auto simp: meets_fate_def)
  qed (simp add: meets_fate_def)
  then show ?thesis
    unfolding client_frame_def fv prod.case by (rule message_taken [OF msg])
qed

lemma serves_stream:
  assumes "default_chain E" and "reachable E px" and "cx_state px = ConnOpen" and "thrift_idle content px"
    and "list_all (thrift_client_frame E W head) fs"
    and "concat (map content reads) = concat (map fst fs)"
  shows "\<exists>px1. run_events E (map (\<lambda>data. DownstreamData data False) reads) px = Some px1 \<and>
    traffic content (cx_effects px1) = traffic content (cx_effects px) @ expected (st_next px) fs \<and>
    cx_state px1 = ConnOpen \<and> content (cm_request_buffer px1) = [] \<and> thrift_between ok tok (cm_codec px1)"
proof -
  have idle: "thrift_between ok tok (cm_codec px)" "content (cm_request_buffer px) = []"
    using assms(4) reachable_codec [OF assms(2,3)] by (simp_all add: thrift_between_def thrift_idle_def)
  show ?thesis
    by (rule stream_traffic [OF assms(1) _ assms(2,3) idle assms(6)])
      (use assms(5) client_frame_message in \<open>simp add: list_all_iff\<close>)
qed

end

subsection \<open>A client's stream is served\<close>

text \<open>C5: whatever framed Thrift messages a client sends on a connection, and wherever the stream is cut
  into reads, the proxy writes, in their order and byte for byte, each message with a route and a
  ready connection in its cluster's pool upstream under an identity of its own and an exception message to the client for each other one; afterwards the
  connection is open and between two frames.\<close>

theorem thrift_client_stream:
  assumes "thrift_stream_proxy E content P ok W T tok head t0 p0" and "default_chain E" and "reachable E px"
    and "cx_state px = ConnOpen" and "thrift_idle content px"
    and "list_all (thrift_client_frame E W head) fs"
    and "concat (map content reads) = concat (map fst fs)"
  shows "\<exists>px1. run_events E (map (\<lambda>data. DownstreamData data False) reads) px = Some px1 \<and>
    traffic content (cx_effects px1) = traffic content (cx_effects px) @ expected (st_next px) fs \<and>
    cx_state px1 = ConnOpen \<and> thrift_idle content px1"
  using thrift_stream_proxy.serves_stream [OF assms]
  by (simp add: thrift_idle_def thrift_between_def) blast

interpretation thrift_sample_stream: thrift_stream_proxy "thrift_env answer" "\<lambda>bs. bs" binary_protocol
    "\<lambda>_. True" binary_code framed_transport "\<lambda>_. True" length_bytes "()" "()" for answer
  by (rule thrift_stream_proxy.intro [OF thrift_sample.thrift_proxy_axioms])
    (use binary.thrift_stream_axioms in simp)

text \<open>Two calls with a route and one without, cut inside the frames.\<close>

lemma thrift_sample_forward:
  "thrift_client_frame (thrift_env (ConnectionReady host)) binary_code length_bytes (thrift_sample_frame TCall, Forward)"
proof -
  have "thrift_message binary_code length_bytes ''sum'' TCall 5 thrift_sample_fields (thrift_sample_frame TCall)"
    by (rule thrift_sample_is_message) simp
  then show ?thesis
    unfolding thrift_client_frame_def prod.case
    by (intro exI conjI disjI1) (assumption, simp_all add: served_def thrift_sample_routing)
qed

lemma thrift_sample_refuse:
  "thrift_client_frame (thrift_env answer) binary_code length_bytes
     (thrift_unrouted_frame, Refuse (encode_message binary_code ''cut'' TException 0
        (TApplicationException (err_message (no_route_error 5)))))"
proof -
  have "dec_nat 5 = ''5''" by code_simp
  then have len: "length (err_message (no_route_error 5)) < 2 ^ 31"
    by (simp add: no_route_error_def mk_error_def quoted_def)
  show ?thesis
    unfolding thrift_client_frame_def prod.case
    by (intro exI conjI disjI2, rule thrift_unrouted_is_message)
      (use len in \<open>simp_all add: thrift_sample_routing\<close>)
qed

theorem thrift_client_stream_witness:
  "\<exists>px1. run_events (thrift_env (ConnectionReady ''h''))
      [DownstreamData (take 3 (thrift_sample_frame TCall)) False,
       DownstreamData (drop 3 (thrift_sample_frame TCall) @ take 9 thrift_unrouted_frame) False,
       DownstreamData (drop 9 thrift_unrouted_frame @ thrift_sample_frame TCall) False]
      (thrift_proxy_start (ConnectionReady ''h'')) = Some px1 \<and>
    traffic (\<lambda>bs. bs) (cx_effects px1) =
      [Up 0 (thrift_sample_frame TCall),
       Down (encode_message binary_code ''cut'' TException 0
         (TApplicationException (err_message (no_route_error 5)))),
       Up 2 (thrift_sample_frame TCall)] \<and>
    cx_state px1 = ConnOpen \<and> thrift_idle (\<lambda>bs. bs) px1"
proof -
  have "concat (map (\<lambda>bs. bs) [take 3 (thrift_sample_frame TCall),
       drop 3 (thrift_sample_frame TCall) @ take 9 thrift_unrouted_frame,
       drop 9 thrift_unrouted_frame @ thrift_sample_frame TCall]) =
    concat (map fst [(thrift_sample_frame TCall, Forward),
       (thrift_unrouted_frame, Refuse (encode_message binary_code ''cut'' TException 0
          (TApplicationException (err_message (no_route_error 5))))),
       (thrift_sample_frame TCall, Forward)])"
    by (simp add: cut_anywhere)
  from thrift_client_stream [OF thrift_sample_stream.thrift_stream_proxy_axioms [of "ConnectionReady ''h''"]
      thrift_default_chain reachable_init _ thrift_proxy_start_idle _ this]
  show ?thesis
    by (simp add: thrift_sample_forward thrift_sample_refuse numeral_2_eq_2 del: run_events.simps)
qed

end
