(* ===== verification/Proxy_Factories.thy ===== *)
theory Proxy_Factories
  imports Dubbo_Segments Thrift_Segments
begin

text \<open>
  How a configuration becomes the proxy of a connection: the factories of serializers, protocols,
  transports, codecs and filters, and the factory of the network filter
  (src/src/meta_protocol_proxy/config.cc, codec/factory.h, filters/factory_base.h; dubbo/config.cc,
  protocol.h, serializer.h; thrift/config.cc, protocol.h, transport.h).

  The registries are Envoy's: a registry is a function from names to factories that throws for a name
  it does not know, and \<open>translate\<close> (\<open>translateOpaqueConfig\<close>) fills an empty configuration message or
  throws. The locales say that the factories of the repository are registered under their own names.
\<close>

type_synonym 'f registry = "string \<Rightarrow> exn + 'f"

fun bind_result :: "exn + 'a \<Rightarrow> ('a \<Rightarrow> exn + 'c) \<Rightarrow> exn + 'c" where
  "bind_result (Inl e) f = Inl e"
| "bind_result (Inr x) f = f x"

lemma bind_result_Inr:
  "bind_result r f = Inr y \<longleftrightarrow> (\<exists>x. r = Inr x \<and> f x = Inr y)"
  by (cases r) auto

subsection \<open>Dubbo\<close>

record 'b serializer_factory =
  sf_name :: string
  sf_createSerializer :: "'b serializer"

definition SerializerFactoryBase ::
  "DubboProtocolType \<Rightarrow> SerializationType \<Rightarrow> 'b serializer \<Rightarrow> exn + 'b serializer_factory" where
  "SerializerFactoryBase protocol_type type impl =
     bind_result (ProtocolSerializerNames_fromType protocol_type type)
       (\<lambda>name. Inr \<lparr>sf_name = name, sf_createSerializer = impl\<rparr>)"

definition NamedSerializerConfigFactory_getFactory ::
  "'b serializer_factory registry \<Rightarrow> DubboProtocolType \<Rightarrow> SerializationType \<Rightarrow> exn + 'b serializer_factory" where
  "NamedSerializerConfigFactory_getFactory serializers protocol_type type =
     bind_result (ProtocolSerializerNames_fromType protocol_type type) serializers"

definition DubboHessian2SerializerConfigFactory ::
  "'b buffer_ops \<Rightarrow> 'b hessian_ops \<Rightarrow> exn + 'b serializer_factory" where
  "DubboHessian2SerializerConfigFactory B Hs =
     SerializerFactoryBase ProtocolDubbo Hessian2 (DubboHessian2SerializerImpl B Hs)"

text \<open>A protocol object is its type and its serializer, null until \<open>initSerializer\<close>.\<close>

record 'b dubbo_protocol =
  dp_type :: DubboProtocolType
  dp_serializer :: "'b serializer option"

definition DubboProtocolImpl :: "'b dubbo_protocol" where
  "DubboProtocolImpl = \<lparr>dp_type = ProtocolDubbo, dp_serializer = None\<rparr>"

definition Protocol_initSerializer ::
  "'b serializer_factory registry \<Rightarrow> SerializationType \<Rightarrow> 'b dubbo_protocol \<Rightarrow> exn + 'b dubbo_protocol" where
  "Protocol_initSerializer serializers type protocol =
     bind_result (NamedSerializerConfigFactory_getFactory serializers (dp_type protocol) type)
       (\<lambda>factory. Inr (protocol\<lparr>dp_serializer := Some (sf_createSerializer factory)\<rparr>))"

record 'b protocol_factory =
  pf_name :: string
  pf_createProtocol :: "SerializationType \<Rightarrow> exn + 'b dubbo_protocol"

definition ProtocolFactoryBase ::
  "'b serializer_factory registry \<Rightarrow> DubboProtocolType \<Rightarrow> 'b dubbo_protocol \<Rightarrow> 'b protocol_factory" where
  "ProtocolFactoryBase serializers type impl =
     \<lparr>pf_name = ProtocolNames_fromType type,
      pf_createProtocol = (\<lambda>serialization_type. Protocol_initSerializer serializers serialization_type impl)\<rparr>"

definition NamedProtocolConfigFactory_getFactory ::
  "'b protocol_factory registry \<Rightarrow> DubboProtocolType \<Rightarrow> exn + 'b protocol_factory" where
  "NamedProtocolConfigFactory_getFactory protocols type = protocols (ProtocolNames_fromType type)"

definition DubboProtocolConfigFactory :: "'b serializer_factory registry \<Rightarrow> 'b protocol_factory" where
  "DubboProtocolConfigFactory serializers = ProtocolFactoryBase serializers ProtocolDubbo DubboProtocolImpl"

text \<open>The constructor of the codec: the codec works with the serializer of its protocol.\<close>

definition DubboCodec_new ::
  "'b buffer_ops \<Rightarrow> 'h header_ops \<Rightarrow> 'b protocol_factory registry \<Rightarrow>
   exn + (('b dubbo_codec, dubbo_any, 'b, 'h) codec \<times> 'b dubbo_codec)" where
  "DubboCodec_new B H protocols =
     bind_result (NamedProtocolConfigFactory_getFactory protocols ProtocolDubbo) (\<lambda>factory.
     bind_result (pf_createProtocol factory Hessian2) (\<lambda>protocol.
       case dp_serializer protocol of
         None \<Rightarrow> Inl (Panic ''null serializer_'')
       | Some serializer \<Rightarrow> Inr (DubboCodec B H serializer, DubboCodec_init)))"

locale dubbo_registered =
  fixes B :: "'b buffer_ops" and Hs :: "'b hessian_ops"
    and serializers :: "'b serializer_factory registry" and protocols :: "'b protocol_factory registry"
  assumes serializer_registered: "DubboHessian2SerializerConfigFactory B Hs = Inr F \<Longrightarrow> serializers (sf_name F) = Inr F"
    and protocol_registered: "protocols (pf_name (DubboProtocolConfigFactory serializers)) =
      Inr (DubboProtocolConfigFactory serializers)"
begin

lemma serializer_found:
  "NamedSerializerConfigFactory_getFactory serializers ProtocolDubbo Hessian2 =
     Inr \<lparr>sf_name = ''dubbo.hessian2'', sf_createSerializer = DubboHessian2SerializerImpl B Hs\<rparr>"
proof -
  have name: "ProtocolSerializerNames_fromType ProtocolDubbo Hessian2 = Inr ''dubbo.hessian2''"
    by (simp add: ProtocolSerializerNames_fromType_def protocolSerializerTypeNameMap_def generateValue_def)
  then have "DubboHessian2SerializerConfigFactory B Hs =
      Inr \<lparr>sf_name = ''dubbo.hessian2'', sf_createSerializer = DubboHessian2SerializerImpl B Hs\<rparr>"
    by (simp add: DubboHessian2SerializerConfigFactory_def SerializerFactoryBase_def)
  then show ?thesis
    using serializer_registered name by (fastforce simp: NamedSerializerConfigFactory_getFactory_def)
qed

lemma DubboCodec_created:
  "DubboCodec_new B H protocols = Inr (DubboCodec B H (DubboHessian2SerializerImpl B Hs), DubboCodec_init)"
  using protocol_registered serializer_found
  by (simp add: DubboCodec_new_def NamedProtocolConfigFactory_getFactory_def DubboProtocolConfigFactory_def
      ProtocolFactoryBase_def Protocol_initSerializer_def DubboProtocolImpl_def)

end

subsection \<open>Thrift\<close>

text \<open>A factory of Envoy gives the operations of a transport or a protocol and their first state.\<close>

record ('t, 'b, 'h) transport_factory =
  trf_name :: string
  trf_createTransport :: "('t, 'b, 'h) thrift_transport \<times> 't"

record ('p, 'b, 'h) thrift_protocol_factory =
  tpf_name :: string
  tpf_createProtocol :: "('p, 'b, 'h) thrift_protocol \<times> 'p"

definition TransportFactoryBase ::
  "string \<Rightarrow> ('t, 'b, 'h) thrift_transport \<times> 't \<Rightarrow> ('t, 'b, 'h) transport_factory" where
  "TransportFactoryBase name impl = \<lparr>trf_name = name, trf_createTransport = impl\<rparr>"

definition Thrift_ProtocolFactoryBase ::
  "string \<Rightarrow> ('p, 'b, 'h) thrift_protocol \<times> 'p \<Rightarrow> ('p, 'b, 'h) thrift_protocol_factory" where
  "Thrift_ProtocolFactoryBase name impl = \<lparr>tpf_name = name, tpf_createProtocol = impl\<rparr>"

definition NamedTransportConfigFactory_getFactory ::
  "('t, 'b, 'h) transport_factory registry \<Rightarrow> TransportType \<Rightarrow> exn + ('t, 'b, 'h) transport_factory" where
  "NamedTransportConfigFactory_getFactory transports type = transports (TransportNames_fromType type)"

definition Thrift_NamedProtocolConfigFactory_getFactory ::
  "('p, 'b, 'h) thrift_protocol_factory registry \<Rightarrow> ProtocolType \<Rightarrow> exn + ('p, 'b, 'h) thrift_protocol_factory" where
  "Thrift_NamedProtocolConfigFactory_getFactory protocols type = protocols (ThriftProtocolNames_fromType type)"

definition ThriftCodec_new ::
  "'b buffer_ops \<Rightarrow> 'h header_ops \<Rightarrow> ('t, 'b, 'h) transport_factory registry \<Rightarrow>
   ('p, 'b, 'h) thrift_protocol_factory registry \<Rightarrow>
   exn + ((('t, 'p, 'b, 'h) thrift_codec, unit, 'b, 'h) codec \<times> ('t, 'p, 'b, 'h) thrift_codec)" where
  "ThriftCodec_new B H transports protocols =
     bind_result (NamedTransportConfigFactory_getFactory transports TransportAuto) (\<lambda>transport.
     bind_result (Thrift_NamedProtocolConfigFactory_getFactory protocols ProtocolAuto) (\<lambda>protocol.
       let (T, t0) = trf_createTransport transport; (P, p0) = tpf_createProtocol protocol
       in Inr (ThriftCodec B H T P, ThriftCodec_init t0 p0)))"

locale thrift_registered =
  fixes transports :: "('t, 'b, 'h) transport_factory registry"
    and protocols :: "('p, 'b, 'h) thrift_protocol_factory registry"
    and T :: "('t, 'b, 'h) thrift_transport" and t0 :: 't
    and P :: "('p, 'b, 'h) thrift_protocol" and p0 :: 'p
  assumes transport_registered: "transports ''auto'' = Inr (TransportFactoryBase ''auto'' (T, t0))"
    and protocol_registered: "protocols ''auto'' = Inr (Thrift_ProtocolFactoryBase ''auto'' (P, p0))"
begin

lemma ThriftCodec_created:
  "ThriftCodec_new B H transports protocols = Inr (ThriftCodec B H T P, ThriftCodec_init t0 p0)"
  using transport_registered protocol_registered
  by (simp add: ThriftCodec_new_def NamedTransportConfigFactory_getFactory_def
      Thrift_NamedProtocolConfigFactory_getFactory_def TransportFactoryBase_def Thrift_ProtocolFactoryBase_def)

end

subsection \<open>Codecs\<close>

record ('c, 'x, 'b, 'h, 'g) codec_factory =
  cf_name :: string
  cf_createEmptyConfigProto :: 'g
  cf_createCodec :: "'g \<Rightarrow> exn + (('c, 'x, 'b, 'h) codec \<times> 'c)"

definition CodecFactoryBase ::
  "string \<Rightarrow> 'g \<Rightarrow> ('g \<Rightarrow> exn + (('c, 'x, 'b, 'h) codec \<times> 'c)) \<Rightarrow> ('c, 'x, 'b, 'h, 'g) codec_factory" where
  "CodecFactoryBase name proto0 create =
     \<lparr>cf_name = name, cf_createEmptyConfigProto = proto0, cf_createCodec = create\<rparr>"

definition DubboCodecConfig ::
  "'b buffer_ops \<Rightarrow> 'h header_ops \<Rightarrow> 'b protocol_factory registry \<Rightarrow> 'g \<Rightarrow>
   ('b dubbo_codec, dubbo_any, 'b, 'h, 'g) codec_factory" where
  "DubboCodecConfig B H protocols proto0 =
     CodecFactoryBase ''aeraki.meta_protocol.codec.dubbo'' proto0 (\<lambda>_. DubboCodec_new B H protocols)"

definition ThriftCodecConfig ::
  "'b buffer_ops \<Rightarrow> 'h header_ops \<Rightarrow> ('t, 'b, 'h) transport_factory registry \<Rightarrow>
   ('p, 'b, 'h) thrift_protocol_factory registry \<Rightarrow> 'g \<Rightarrow>
   (('t, 'p, 'b, 'h) thrift_codec, unit, 'b, 'h, 'g) codec_factory" where
  "ThriftCodecConfig B H transports protocols proto0 =
     CodecFactoryBase ''aeraki.meta_protocol.codec.thrift'' proto0 (\<lambda>_. ThriftCodec_new B H transports protocols)"

subsection \<open>Filters\<close>

record ('g, 'f) filter_factory =
  ff_name :: string
  ff_createEmptyConfigProto :: 'g
  ff_createFilterFactoryFromProto :: "'g \<Rightarrow> exn + 'f FilterFactoryCb"

text \<open>\<open>validate\<close> is \<open>downcastAndValidate\<close> of Envoy.\<close>

definition FactoryBase ::
  "string \<Rightarrow> 'g \<Rightarrow> ('g \<Rightarrow> exn + 'g) \<Rightarrow> ('g \<Rightarrow> exn + 'f FilterFactoryCb) \<Rightarrow> ('g, 'f) filter_factory" where
  "FactoryBase name proto0 validate typed =
     \<lparr>ff_name = name, ff_createEmptyConfigProto = proto0,
      ff_createFilterFactoryFromProto = (\<lambda>proto_config. bind_result (validate proto_config) typed)\<rparr>"

definition RouterFilterConfig :: "'g \<Rightarrow> ('g \<Rightarrow> exn + 'g) \<Rightarrow> ('g, 'f) filter_factory" where
  "RouterFilterConfig proto0 validate = FactoryBase router_filter_name proto0 validate (\<lambda>_. Inr AddRouter)"

text \<open>What \<open>registerFilter\<close> does with the name and the opaque configuration of a filter.\<close>

definition create_filter ::
  "('m, 'f) filter_factory registry \<Rightarrow> ('o \<Rightarrow> 'm \<Rightarrow> exn + 'm) \<Rightarrow> ('o, 'f) filter_registry" where
  "create_filter filters translate name opaque =
     bind_result (filters name) (\<lambda>factory.
     bind_result (translate opaque (ff_createEmptyConfigProto factory)) (ff_createFilterFactoryFromProto factory))"

lemma router_created:
  assumes "filters router_filter_name = Inr (RouterFilterConfig proto0 validate)"
    and "translate opaque proto0 = Inr message" and "validate message = Inr valid"
  shows "create_filter filters translate router_filter_name opaque = Inr AddRouter"
  using assms by (simp add: create_filter_def RouterFilterConfig_def FactoryBase_def)

subsection \<open>The network filter\<close>

text \<open>The configuration of the proxy with its codec: the name and the opaque configuration.\<close>

record ('p, 'g, 'o) codec_proto = "('p, 'g) proxy_proto" +
  pp_codec :: "string \<times> 'o"

definition ConfigImpl_createCodec ::
  "('c, 'x, 'b, 'h, 'm) codec_factory registry \<Rightarrow> ('o \<Rightarrow> 'm \<Rightarrow> exn + 'm) \<Rightarrow> string \<times> 'o \<Rightarrow>
   exn + (('c, 'x, 'b, 'h) codec \<times> 'c)" where
  "ConfigImpl_createCodec codecs translate codecConfig =
     bind_result (codecs (fst codecConfig)) (\<lambda>factory.
     bind_result (translate (snd codecConfig) (cf_createEmptyConfigProto factory)) (cf_createCodec factory))"

text \<open>
  The factory reads the configuration when it is loaded and returns the callback that makes the filter
  of a connection, whose constructor makes the codec; \<open>E\<close> is what the server provides.
\<close>

definition new_connection ::
  "('p, 'q, 'h) matcher_ops \<Rightarrow> ('q, 'f) config_impl \<Rightarrow> (('c, 'x, 'b, 'h) codec \<times> 'c) \<Rightarrow>
   ('c, 'x, 'b, 'h, 'f) env \<Rightarrow> ('c, 'x, 'b, 'h, 'f) env \<times> ('c, 'x, 'b, 'h, 'f) proxy" where
  "new_connection U ci codec E =
     (let E' = (configure U ci E)\<lparr>en_codec := fst codec, en_createCodec := snd codec\<rparr>
      in (E', ConnectionManager E'))"

definition createFilterFactoryFromProtoTyped ::
  "('p, 'q, 'h) matcher_ops \<Rightarrow> ('g, 'f) filter_registry \<Rightarrow> 'g \<Rightarrow>
   ('c, 'x, 'b, 'h, 'm) codec_factory registry \<Rightarrow> ('o \<Rightarrow> 'm \<Rightarrow> exn + 'm) \<Rightarrow> ('p, 'g, 'o) codec_proto \<Rightarrow>
   exn + (('c, 'x, 'b, 'h, 'f) env \<Rightarrow> exn + (('c, 'x, 'b, 'h, 'f) env \<times> ('c, 'x, 'b, 'h, 'f) proxy))" where
  "createFilterFactoryFromProtoTyped U filters empty_config codecs translate proto_config =
     bind_result (ConfigImpl U filters empty_config (proxy_proto.truncate proto_config)) (\<lambda>filter_config.
       Inr (\<lambda>E. bind_result (ConfigImpl_createCodec codecs translate (pp_codec proto_config))
         (\<lambda>codec. Inr (new_connection U filter_config codec E))))"

lemma new_connection_fields [simp]:
  "en_buffer (fst (new_connection U ci codec E)) = en_buffer E"
  "en_headers (fst (new_connection U ci codec E)) = en_headers E"
  "en_codec (fst (new_connection U ci codec E)) = fst codec"
  "en_createCodec (fst (new_connection U ci codec E)) = snd codec"
  "en_applicationProtocol (fst (new_connection U ci codec E)) = ci_application_protocol ci"
  "en_filter_factories (fst (new_connection U ci codec E)) = ci_filter_factories ci"
  "en_route (fst (new_connection U ci codec E)) = ConfigImpl_route U (ci_route_matcher ci)"
  "snd (new_connection U ci codec E) = ConnectionManager (fst (new_connection U ci codec E))"
  by (simp_all add: new_connection_def configure_def Let_def)

lemma filter_factory_result:
  "createFilterFactoryFromProtoTyped U filters g codecs translate config = Inr callback \<longleftrightarrow>
     (\<exists>ci. ConfigImpl U filters g (proxy_proto.truncate config) = Inr ci \<and>
        callback = (\<lambda>E. bind_result (ConfigImpl_createCodec codecs translate (pp_codec config))
          (\<lambda>codec. Inr (new_connection U ci codec E))))"
  by (auto simp: createFilterFactoryFromProtoTyped_def bind_result_Inr)

text \<open>
  The codec is looked up when a connection is accepted, not when the configuration is loaded: a name
  that is not registered, or a configuration that does not translate, is an exception of the callback.
\<close>

lemma unknown_codec_accepted:
  assumes "ConfigImpl U filters g (proxy_proto.truncate config) = Inr ci"
    and "codecs (fst (pp_codec config)) = Inl err"
  shows "\<exists>callback. createFilterFactoryFromProtoTyped U filters g codecs translate config = Inr callback \<and>
    (\<forall>E. callback E = Inl err)"
  using assms by (simp add: createFilterFactoryFromProtoTyped_def ConfigImpl_createCodec_def)

subsection \<open>A configured proxy\<close>

context hessian2
begin

lemma is_rpc_serializer:
  "rpc_serializer B content (DubboHessian2SerializerImpl B Hs) (\<lambda>t s. int_code (u8_of_rpc_type t) @ string_code s)"
  by (rule rpc_serializer_axioms)

end

lemma configured_connection:
  assumes "createFilterFactoryFromProtoTyped U filters g codecs translate config = Inr callback"
    and "ConfigImpl_createCodec codecs translate (pp_codec config) = Inr codec"
    and "filters router_filter_name g = Inr AddRouter" and "pp_meta_protocol_filters config = []"
  obtains E' routes where "callback E = Inr (E', ConnectionManager E')"
    "en_buffer E' = en_buffer E" "en_headers E' = en_headers E" "en_codec E' = fst codec"
    "en_createCodec E' = snd codec" "default_chain E'"
    "en_applicationProtocol E' = pp_application_protocol config"
    "RouteMatcherImpl U (pp_routes config) = Inr routes" "en_route E' = ConfigImpl_route U routes"
proof -
  obtain ci where ci: "ConfigImpl U filters g (proxy_proto.truncate config) = Inr ci"
    "callback E = Inr (new_connection U ci codec E)"
    using assms(1,2) by (auto simp: filter_factory_result)
  have truncate: "pp_routes (proxy_proto.truncate config) = pp_routes config"
    "pp_application_protocol (proxy_proto.truncate config) = pp_application_protocol config"
    "pp_meta_protocol_filters (proxy_proto.truncate config) = pp_meta_protocol_filters config"
    by (simp_all add: proxy_proto.truncate_def)
  have "ci_filter_factories ci = [AddRouter]"
    by (rule default_filter_factories [OF ci(1) _ assms(3)]) (simp add: truncate assms(4))
  then show thesis
    using ci ConfigImpl_fields(1,2) [OF ci(1)]
    by (intro that [of "fst (new_connection U ci codec E)" "ci_route_matcher ci"])
      (simp_all add: default_chain_def truncate new_connection_def configure_def Let_def)
qed

text \<open>The Thrift codec with the transport and the protocol the registries hold under \<open>auto\<close>.\<close>

lemma configured_thrift_proxy:
  assumes "thrift_registered transports protocols T t0 P p0" and "thrift_frames B content P ok W T tok head"
    and "tok t0" and "ok p0" and "\<And>p md msg b. ok p \<Longrightarrow> ok (fst (snd (thrift_exception P md msg (p, b))))"
    and "codecs ''aeraki.meta_protocol.codec.thrift'' = Inr (ThriftCodecConfig B H transports protocols proto0)"
    and "filters router_filter_name g = Inr AddRouter"
    and "createFilterFactoryFromProtoTyped U filters g codecs translate config = Inr callback"
    and "pp_codec config = (''aeraki.meta_protocol.codec.thrift'', opaque)" and "translate opaque proto0 = Inr message"
    and "pp_meta_protocol_filters config = []" and "en_buffer E = B" and "en_headers E = H"
  shows "\<exists>E' routes. callback E = Inr (E', ConnectionManager E') \<and>
    thrift_proxy E' content P ok W T tok head t0 p0 \<and> default_chain E' \<and>
    RouteMatcherImpl U (pp_routes config) = Inr routes \<and> en_route E' = ConfigImpl_route U routes"
proof -
  have codec: "ConfigImpl_createCodec codecs translate (pp_codec config) =
      Inr (ThriftCodec B H T P, ThriftCodec_init t0 p0)"
    using assms(6,9,10) thrift_registered.ThriftCodec_created [OF assms(1)]
    by (simp add: ConfigImpl_createCodec_def ThriftCodecConfig_def CodecFactoryBase_def)
  obtain E' routes where E': "callback E = Inr (E', ConnectionManager E')" "en_buffer E' = B" "en_headers E' = H"
    "en_codec E' = ThriftCodec B H T P" "en_createCodec E' = ThriftCodec_init t0 p0" "default_chain E'"
    "RouteMatcherImpl U (pp_routes config) = Inr routes" "en_route E' = ConfigImpl_route U routes"
    by (rule configured_connection [OF assms(8) codec assms(7,11), where E = E]) (use assms(12,13) that in simp)
  have "thrift_proxy E' content P ok W T tok head t0 p0"
    using E' assms(2-5) by (simp add: thrift_proxy_def thrift_proxy_axioms_def)
  then show ?thesis using E' by blast
qed

text \<open>C29: a configuration that names the Dubbo codec and no filters, once it is loaded, gives every
  connection a connection manager with the Dubbo codec over the Hessian serializer the registries
  hold, the router as the only filter and the configured routes; that proxy meets the contract under
  which the properties of the proxy with the Dubbo codec are proved.\<close>

theorem configured_dubbo_proxy:
  assumes "dubbo_registered B Hs serializers protocols" and "hessian2 B content Hs int_code string_code"
    and "codecs ''aeraki.meta_protocol.codec.dubbo'' = Inr (DubboCodecConfig B H protocols proto0)"
    and "filters router_filter_name g = Inr AddRouter"
    and "createFilterFactoryFromProtoTyped U filters g codecs translate config = Inr callback"
    and "pp_codec config = (''aeraki.meta_protocol.codec.dubbo'', opaque)" and "translate opaque proto0 = Inr message"
    and "pp_meta_protocol_filters config = []" and "en_buffer E = B" and "en_headers E = H"
  shows "\<exists>E' routes. callback E = Inr (E', ConnectionManager E') \<and>
    dubbo_proxy E' content (DubboHessian2SerializerImpl B Hs) (\<lambda>t s. int_code (u8_of_rpc_type t) @ string_code s) \<and>
    default_chain E' \<and> en_applicationProtocol E' = pp_application_protocol config \<and>
    RouteMatcherImpl U (pp_routes config) = Inr routes \<and> en_route E' = ConfigImpl_route U routes"
proof -
  have codec: "ConfigImpl_createCodec codecs translate (pp_codec config) =
      Inr (DubboCodec B H (DubboHessian2SerializerImpl B Hs), DubboCodec_init)"
    using assms(3,6,7) dubbo_registered.DubboCodec_created [OF assms(1)]
    by (simp add: ConfigImpl_createCodec_def DubboCodecConfig_def CodecFactoryBase_def)
  obtain E' routes where E': "callback E = Inr (E', ConnectionManager E')" "en_buffer E' = B" "en_headers E' = H"
    "en_codec E' = DubboCodec B H (DubboHessian2SerializerImpl B Hs)" "en_createCodec E' = DubboCodec_init"
    "default_chain E'" "en_applicationProtocol E' = pp_application_protocol config"
    "RouteMatcherImpl U (pp_routes config) = Inr routes" "en_route E' = ConfigImpl_route U routes"
    by (rule configured_connection [OF assms(5) codec assms(4,8), where E = E]) (use assms(9,10) that in simp)
  have "rpc_serializer B content (DubboHessian2SerializerImpl B Hs)
      (\<lambda>t s. int_code (u8_of_rpc_type t) @ string_code s)"
    by (rule hessian2.is_rpc_serializer [OF assms(2)])
  then have "dubbo_proxy E' content (DubboHessian2SerializerImpl B Hs)
      (\<lambda>t s. int_code (u8_of_rpc_type t) @ string_code s)"
    using E' by (simp add: dubbo_proxy_def dubbo_proxy_axioms_def)
  then show ?thesis using E' by blast
qed

text \<open>The same for the codec of Thrift, over the transport and the protocol that detect themselves.\<close>

lemma configured_thrift_codec:
  assumes "thrift_registered transports protocols T t0 P p0"
    and "codecs ''aeraki.meta_protocol.codec.thrift'' = Inr (ThriftCodecConfig B H transports protocols proto0)"
    and "pp_codec config = (''aeraki.meta_protocol.codec.thrift'', opaque)" and "translate opaque proto0 = Inr message"
  shows "ConfigImpl_createCodec codecs translate (pp_codec config) = Inr (ThriftCodec B H T P, ThriftCodec_init t0 p0)"
  using assms(2-4) thrift_registered.ThriftCodec_created [OF assms(1)]
  by (simp add: ConfigImpl_createCodec_def ThriftCodecConfig_def CodecFactoryBase_def)

subsection \<open>Concrete registries\<close>

text \<open>A registry that holds what was registered, and throws for every other name.\<close>

definition named :: "(string \<times> 'f) list \<Rightarrow> 'f registry" where
  "named factories name =
     (case map_of factories name of
        Some factory \<Rightarrow> Inr factory
      | None \<Rightarrow> Inl (EnvoyException (''no registered implementation for '' @ quoted name)))"

definition list_serializers :: "u8 list serializer_factory registry" where
  "list_serializers = named [(''dubbo.hessian2'',
     \<lparr>sf_name = ''dubbo.hessian2'', sf_createSerializer = DubboHessian2SerializerImpl list_buffer list_hessian\<rparr>)]"

definition list_protocols :: "u8 list protocol_factory registry" where
  "list_protocols = named [(''dubbo'', DubboProtocolConfigFactory list_serializers)]"

interpretation list_dubbo: dubbo_registered list_buffer list_hessian list_serializers list_protocols
  by unfold_locales
    (auto simp: list_serializers_def list_protocols_def named_def DubboHessian2SerializerConfigFactory_def
      SerializerFactoryBase_def ProtocolSerializerNames_fromType_def protocolSerializerTypeNameMap_def
      generateValue_def DubboProtocolConfigFactory_def ProtocolFactoryBase_def)

interpretation list_thrift: thrift_registered
    "named [(''auto'', TransportFactoryBase ''auto'' (framed_transport, ()))]"
    "named [(''auto'', Thrift_ProtocolFactoryBase ''auto'' (binary_protocol, ()))]"
    framed_transport "()" binary_protocol "()"
  by unfold_locales (simp_all add: named_def)

definition sample_proto :: "(string \<times> string, unit, unit) codec_proto" where
  "sample_proto = proxy_proto.extend sample_config \<lparr>pp_codec = (''aeraki.meta_protocol.codec.dubbo'', ())\<rparr>"

definition sample_codecs :: "(u8 list dubbo_codec, dubbo_any, u8 list, (string \<times> string) list, unit) codec_factory registry" where
  "sample_codecs = named [(''aeraki.meta_protocol.codec.dubbo'', DubboCodecConfig list_buffer alist_headers list_protocols ())]"

theorem configured_dubbo_proxy_witness:
  "\<exists>callback E' routes.
    createFilterFactoryFromProtoTyped exact_matchers sample_registry () sample_codecs (\<lambda>_ m. Inr m) sample_proto =
      Inr callback \<and>
    callback (sample_env (ConnectionReady ''h'')) = Inr (E', ConnectionManager E') \<and>
    dubbo_proxy E' (\<lambda>bs. bs) list_serializer list_result_code \<and> default_chain E' \<and>
    en_applicationProtocol E' = ''dubbo'' \<and>
    RouteMatcherImpl exact_matchers (pp_routes sample_config) = Inr routes \<and>
    en_route E' = ConfigImpl_route exact_matchers routes"
proof -
  have proto: "proxy_proto.truncate sample_proto = sample_config" "pp_routes sample_proto = pp_routes sample_config"
    "pp_codec sample_proto = (''aeraki.meta_protocol.codec.dubbo'', ())"
    "pp_meta_protocol_filters sample_proto = []" "pp_application_protocol sample_proto = ''dubbo''"
    by (simp_all add: sample_proto_def sample_config_def proxy_proto.defs)
  obtain callback where c: "createFilterFactoryFromProtoTyped exact_matchers sample_registry () sample_codecs
      (\<lambda>_ m. Inr m) sample_proto = Inr callback"
    using sample_config_impl by (simp add: createFilterFactoryFromProtoTyped_def proto)
  have codec: "sample_codecs ''aeraki.meta_protocol.codec.dubbo'' =
      Inr (DubboCodecConfig list_buffer alist_headers list_protocols ())"
    by (simp add: sample_codecs_def named_def)
  have router: "sample_registry router_filter_name () = Inr AddRouter" by (simp add: sample_registry_def)
  show ?thesis
    using configured_dubbo_proxy [OF list_dubbo.dubbo_registered_axioms lh.hessian2_axioms codec router c proto(3) refl proto(4),
        where E = "sample_env (ConnectionReady ''h'')"] c
    by (simp add: proto)
qed

end
