(* ===== verification/Thrift_Object.thy ===== *)
theory Thrift_Object
  imports Thrift_Wire
begin

text \<open>
  The typed access to Thrift values (src/src/application_protocols/thrift/thrift_object.h): a value has
  a field type and an untyped pointer to the object it holds, and \<open>getValueTyped<T>\<close> casts the pointer
  when the field type of \<open>T\<close> is that of the value. The classes of values are Envoy's; a \<open>static_cast\<close> of
  the pointer to another type than that of the object is undefined in C++ and a \<open>Panic\<close> here.
\<close>

subsection \<open>The C++ types of values and their field types\<close>

datatype cpp_type =
    CppBool | CppUint8 | CppInt16 | CppInt32 | CppInt64 | CppDouble | CppString
  | ThriftListValue | ThriftSetValue | ThriftMapValue | ThriftStructValue

fun Traits_getFieldType :: "cpp_type \<Rightarrow> FieldType" where
  "Traits_getFieldType CppBool = TBool"
| "Traits_getFieldType CppUint8 = TByte"
| "Traits_getFieldType CppInt16 = TI16"
| "Traits_getFieldType CppInt32 = TI32"
| "Traits_getFieldType CppInt64 = TI64"
| "Traits_getFieldType CppDouble = TDouble"
| "Traits_getFieldType CppString = TString"
| "Traits_getFieldType ThriftListValue = TList"
| "Traits_getFieldType ThriftSetValue = TSet"
| "Traits_getFieldType ThriftMapValue = TMap"
| "Traits_getFieldType ThriftStructValue = TStruct"

lemma getFieldType_inj: "Traits_getFieldType t = Traits_getFieldType t' \<longleftrightarrow> t = t'"
  by (cases t; cases t') simp_all

lemma getFieldType_enumerator: "Traits_getFieldType t \<in> set field_types"
  by (cases t) (simp_all add: field_types_def)

subsection \<open>Values\<close>

record 'o thrift_value =
  tv_type :: FieldType
  tv_getValue :: 'o

definition value_cast :: "('o \<Rightarrow> cpp_type) \<Rightarrow> cpp_type \<Rightarrow> 'o \<Rightarrow> exn + 'o" where
  "value_cast object_type T object =
     (if object_type object = T then Inr object else Inl (Panic ''static_cast to another type''))"

definition getValueTyped :: "('o \<Rightarrow> cpp_type) \<Rightarrow> cpp_type \<Rightarrow> 'o thrift_value \<Rightarrow> exn + 'o" where
  "getValueTyped object_type T value =
     (let expected_field_type = Traits_getFieldType T
      in if expected_field_type \<noteq> tv_type value
         then Inl (EnvoyException (''expected field type '' @ dec_int (field_type_code expected_field_type) @
                '', got '' @ dec_int (field_type_code (tv_type value))))
         else value_cast object_type T (tv_getValue value))"

text \<open>What an implementation owes: the field type of a value is that of the object it holds.\<close>

locale thrift_values =
  fixes object_type :: "'o \<Rightarrow> cpp_type" and valid :: "'o thrift_value \<Rightarrow> bool"
  assumes type_of_object: "valid v \<Longrightarrow> tv_type v = Traits_getFieldType (object_type (tv_getValue v))"
begin

lemma getValueTyped_returns:
  "valid v \<Longrightarrow> getValueTyped object_type T v = Inr x \<longleftrightarrow> T = object_type (tv_getValue v) \<and> x = tv_getValue v"
  by (auto simp: getValueTyped_def value_cast_def type_of_object getFieldType_inj Let_def)

lemma getValueTyped_safe:
  "valid v \<Longrightarrow> getValueTyped object_type T v = Inl e \<Longrightarrow> \<exists>what. e = EnvoyException what"
  by (auto simp: getValueTyped_def value_cast_def type_of_object getFieldType_inj Let_def split: if_splits)

lemma one_type: "valid v \<Longrightarrow> \<exists>!T. \<exists>x. getValueTyped object_type T v = Inr x"
  by (simp add: getValueTyped_returns)

end

subsection \<open>The values of a message\<close>

fun tvalue_type :: "tvalue \<Rightarrow> cpp_type" where
  "tvalue_type (VBool _) = CppBool"
| "tvalue_type (VByte _) = CppUint8"
| "tvalue_type (VI16 _) = CppInt16"
| "tvalue_type (VI32 _) = CppInt32"
| "tvalue_type (VI64 _) = CppInt64"
| "tvalue_type (VDouble _) = CppDouble"
| "tvalue_type (VString _) = CppString"
| "tvalue_type (VStruct _) = ThriftStructValue"
| "tvalue_type (VMap _ _ _) = ThriftMapValue"
| "tvalue_type (VList _ _) = ThriftListValue"
| "tvalue_type (VSet _ _) = ThriftSetValue"

definition thrift_value_of :: "tvalue \<Rightarrow> tvalue thrift_value" where
  "thrift_value_of v = \<lparr>tv_type = value_type v, tv_getValue = v\<rparr>"

lemma value_type_traits: "value_type v = Traits_getFieldType (tvalue_type v)"
  by (cases v) simp_all

interpretation message_values: thrift_values tvalue_type "\<lambda>v. v \<in> range thrift_value_of"
  by unfold_locales (auto simp: thrift_value_of_def value_type_traits)

lemma message_value_typed:
  "getValueTyped tvalue_type T (thrift_value_of v) = Inr x \<longleftrightarrow> T = tvalue_type v \<and> x = v"
  using message_values.getValueTyped_returns [of "thrift_value_of v" T x] by (simp add: thrift_value_of_def)

lemma message_value_refused:
  assumes "T \<noteq> tvalue_type v"
  shows "\<exists>what. getValueTyped tvalue_type T (thrift_value_of v) = Inl (EnvoyException what)"
proof (cases "getValueTyped tvalue_type T (thrift_value_of v)")
  case (Inl e)
  then show ?thesis using message_values.getValueTyped_safe [of "thrift_value_of v"] by blast
next
  case (Inr x)
  then show ?thesis using assms by (simp add: message_value_typed)
qed

end
