(* ===== verification/Spec2Isabelle.thy ===== *)
theory Spec2Isabelle
  imports Dubbo_Invocation Proxy_Properties Proxy_Pieces Proxy_Factories Thrift_Object
begin

text \<open>
  A verification development of the meta protocol proxy, an Envoy network filter that proxies
  request/response protocols: the protocol-independent part in src/src/meta_protocol_proxy and the
  Dubbo and Thrift codecs in src/src/application_protocols.

  \<^bold>\<open>The program.\<close> One \<open>ConnectionManager\<close> serves one downstream connection. Data is appended to a
  buffer; a \<open>RequestDecoder\<close> drives the codec of the application protocol over it, message by
  message. Each message becomes an \<open>ActiveMessage\<close>, which runs a chain of filters; the last one is
  the router, which matches the metadata of the message against the route table, asks the pool of a
  cluster for a connection and writes the request to it. What the upstream answers goes through a
  second decoder (\<open>ActiveResponseDecoder\<close>) and the encoder filters, and is written downstream. Errors
  are answered by the codec (\<open>onError\<close>) with a reply made by the proxy; finished messages are handed
  to the dispatcher's deferred deletion.

  \<^bold>\<open>Theories and sources.\<close>

  \<^item> \<open>Prelude\<close>: words, exceptions, \<open>outcome\<close> (an exception or a value, and the state that was reached),
    formatting of numbers, big-endian integers, and the collections of rewrite rules.
  \<^item> \<open>Envoy_Buffer\<close>: \<open>Buffer::Instance\<close> and \<open>Http::HeaderMap\<close> of Envoy as records of operations; the
    locales \<open>envoy_buffer\<close> and \<open>header_map\<close> state their documented behaviour; lists of bytes, lists of
    slices and association lists are instances.
  \<^item> \<open>Meta_Codec\<close> (codec/codec.h, codec_impl.h, codec_impl.cc): metadata, mutation, the codec as a
    record of operations with its contract (\<open>codec_contract\<close>, \<open>transparent_codec\<close>).
  \<^item> \<open>Meta_Decoder\<close> (decoder.h, decoder.cc): the decoder, once, for requests and for responses, over a
    record of the operations of its owner (\<open>decoder_ops\<close>, contract \<open>decoder_owner\<close>).
  \<^item> \<open>Proxy_World\<close> (conn_manager.h, active_message.h, stats.h, filters/router/router_impl.h): the state of
    one connection. Objects live in a store, and access to an object that is not there is a \<open>Panic\<close>, as
    is a failed \<open>ASSERT\<close>, so the absence of panics includes the absence of dangling pointers.
  \<^item> \<open>Downstream\<close>, \<open>Conn_Manager\<close> (conn_manager.cc), \<open>Active_Message\<close> and the first half of
    \<open>Upstream_Events\<close> (active_message.cc, app_exception.cc, heartbeat_response.cc), \<open>Router_Filter\<close> and
    the second half of \<open>Upstream_Events\<close> (filters/router/router_impl.cc): one definition per method,
    with the name of the method.
  \<^item> \<open>Proxy_System\<close>: the event loop. \<open>handle\<close> runs one event (data or end of the downstream, the pool's
    callbacks, data and close of the upstream, deferred deletion, watermarks) to completion; \<open>enabled\<close>
    says when Envoy may deliver it, and \<open>reachable\<close> is the closure of the initial state.
  \<^item> \<open>Route_Matcher\<close> (filters/router/route_matcher.cc), \<open>Proxy_Config\<close> (config.cc).
  \<^item> \<open>Proxy_Factories\<close> (config.cc, codec/factory.h, filters/factory_base.h, filters/filter_config.h,
    dubbo/config.cc, dubbo/serializer.h, dubbo/protocol.h, thrift/config.cc, and the factories of
    thrift/protocol.h and thrift/transport.h): how a configuration becomes the codec, the filters and the
    routes of a connection. Envoy's registries are functions from names to factories.
  \<^item> \<open>Dubbo_Types\<close>, \<open>Dubbo_Serializer\<close>, \<open>Dubbo_Protocol\<close>, \<open>Dubbo_Codec\<close>, \<open>Dubbo_Invocation\<close> (message.h,
    metadata.h, message_impl.h and .cc, protocol_constants.h, dubbo_hessian2_serializer_impl.cc,
    hessian_utils.cc, dubbo_protocol_impl.cc, dubbo_codec.h and .cc). The hessian2 package is a
    parameter, with its laws in \<open>hessian2\<close> and \<open>hessian_strings\<close>.
  \<^item> \<open>Thrift_Types\<close>, \<open>Thrift_Protocol\<close>, \<open>Thrift_Decoder\<close>, \<open>Thrift_Codec\<close> (thrift.h, metadata.h, tracing.h,
    conn_state.h, protocol.h, transport.h, thrift_codec.h and .cc): the state machine with one definition
    per handler and the codec. Envoy's protocols and transports are records of operations.
    \<open>Thrift_Object\<close> (thrift_object.h): the typed access to values.

  \<^bold>\<open>What is proved.\<close>

  \<^item> \<open>Dubbo_Run\<close>, \<open>Dubbo_Stream\<close>, \<open>Dubbo_Fragments\<close>, \<open>Dubbo_Roundtrip\<close> and \<open>Dubbo_Properties\<close>: the Dubbo
    codec is a reader of a byte stream. It loses and reorders nothing, does not depend on how the
    stream is cut, throws nothing but \<open>EnvoyException\<close>; the header is decoded as its layout says; the
    replies it encodes are decoded by it again, except those that carry the status ServerError; every
    message it decodes can be answered.
    \<open>Dubbo_Invocation\<close>: what of an invocation is decoded on demand is decoded once, and the headers of
    an attachment follow its map.
  \<^item> \<open>Thrift_Machine\<close>, \<open>Thrift_Stream\<close>, \<open>Thrift_Wire\<close>, \<open>Thrift_Forward\<close>, \<open>Thrift_Frames\<close>,
    \<open>Thrift_Fragments\<close> and \<open>Thrift_Properties\<close>: the Thrift state machine is a stack machine whose handlers
    are typed by the frames on its stack; it reads a value of any nesting and writes the same value; a
    framed message comes out byte for byte; decoding ends on every buffer and does not depend on the cuts.
    \<open>Thrift_Binary\<close> instantiates the interfaces with the strict binary protocol and the framed transport.
  \<^item> \<open>Proxy_Frame\<close>, \<open>Proxy_Invariant\<close>, \<open>Proxy_Lifecycle\<close>, \<open>Proxy_Dispatch\<close>: what every operation of the
    proxy keeps. A property of states that meets the locale \<open>proxy_invariant\<close> holds after every event;
    consistency of the objects and silence after closing are instances; \<open>proxy_kept\<close>, which leaves out the
    destruction, is also instantiated with the conservation of messages (\<open>conserved\<close>): an event creates
    messages at the front of the active list, moves them to the end of the deferred ones, and destroys only
    the first of these. \<open>Proxy_Dispatch\<close> shows that every event ends.
  \<^item> \<open>Proxy_Requests\<close>, \<open>Proxy_Responses\<close>, \<open>Proxy_Streams\<close>, \<open>Proxy_Exchange\<close>, \<open>Proxy_Transfer\<close>,
    \<open>Proxy_Pipeline\<close> and \<open>Proxy_Properties\<close>: what becomes of requests, for the default filter chain (the
    router alone) and any codec that keeps the contract \<open>proxy_env\<close>: forwarded and answered, sent in their
    order where one read holds several, rejected, kept waiting, failed by the pool or the upstream; and the
    behaviours in which the code departs from its purpose.
  \<^item> \<open>Dubbo_Proxy\<close>, \<open>Thrift_Proxy\<close>: the two codecs meet that contract, so all of the above holds of the
    proxy with either; each theory ends in a concrete proxy on which the witnesses run.
  \<^item> \<open>Codec_Streams\<close>, \<open>Proxy_Segments\<close>, \<open>Dubbo_Segments\<close>, \<open>Thrift_Segments\<close>, \<open>Proxy_Pieces\<close>: the proxy over a
    whole stream. A codec that reads a list of messages however their bytes are cut gives a proxy that
    does; whatever a client sends and wherever its stream is cut, each message is forwarded or answered
    once and in order, and a response that arrives in pieces goes back whole.
  \<^item> \<open>Proxy_Factories\<close>: a configuration that names the Dubbo or the Thrift codec gives every connection a
    proxy to which all of this applies.

  \<^bold>\<open>Loops and bounds.\<close> The loop of \<open>dispatch\<close> and the loop of the Thrift state machine are
  \<open>partial_function (option)\<close>: a loop that does not return is None. That both return is a property of its
  own: every event is handled, because a completed message takes at least one byte off the buffer; every
  Thrift decoding ends, by a measure of the bytes left and the stack. The Dubbo state machine and
  \<open>resetAllMessages\<close> are total functions. The only fuel is in \<open>list_decode_object\<close> of \<open>Dubbo_Invocation\<close>, a
  reference instance: the length of the data is enough, an encoding of n bytes needs at most n levels.
  Integers have the width of the code, with wrap-around; sizes are converted where the code converts
  them. A Thrift frame has less than 2^31 bytes, which is what its length field can say.

  \<^bold>\<open>Assumptions on Thrift's transport and protocol.\<close> The constructor of the codec asks Envoy's factories
  for the transport and the protocol \<open>Auto\<close>, which settle on a concrete one when they have seen the first
  bytes. The locales state the laws of a settled pair from the first state on: the stream is framed, each
  value has one code, a frame, a struct and a message have no trailer, so that their ends never wait for
  data. For a stream in that format \<open>Auto\<close> reads as the pair it settles on does, and the codec writes only
  after it has read; a stream in another format, and the branches of the codec in which an end waits, are
  modelled in the definitions but not covered by the theorems on whole frames.

  \<^bold>\<open>Concurrency.\<close> Envoy runs a connection on one thread, so an event runs to completion; callbacks the
  code makes while it runs (the pool that answers \<open>newConnection\<close> at once, filters that continue the
  chain) are calls in the model too, and the interleaving of events is arbitrary in \<open>reachable\<close>.

  \<^bold>\<open>Not modelled.\<close> Classes of Envoy and other packages (buffers, header maps, header matchers,
  the cluster manager and pools, hessian2, Envoy's Thrift protocols and transports) are parameters with
  their documented laws. Time (the histogram request_time_ms), logging, the accessors that only serve it,
  the names of states for the log and the static initialisers that register the factories have no
  counterpart; a registry is what was registered. The headers filters/filter.h, router.h and
  decoder_events.h are abstract classes without code of their own. The test, example and API files are not
  part of the program.
\<close>

end
